(* ===== verification/Prelude.thy ===== *)
theory Prelude
  imports Main
begin

text \<open>
  Shared vocabulary of the development: the identifiers that the pages attach to list
  entries (children, previous addresses), the shape of a page step's result, and the
  generic lemmas on keyed lists that every page with an add/remove/update-by-id list uses.
  A keyed list is a list whose entries carry an identifier; the pages keep it
  duplicate-free and only ever draw identifiers from a counter, so that an identifier is
  never reused after removal.
\<close>

named_theorems handler_simps "unfolding equations of the page event handlers"
named_theorems keyed_simps "facts about keyed lists used by the page invariants"

text \<open>
  An identifier produced by \<open>uuidv4()\<close>: the \<open>n\<close>-th identifier drawn in the session.
  The generator itself is modelled in \<open>JsBuiltins\<close>.
\<close>

datatype uuid = Uuid nat

primrec uuid_index :: "uuid \<Rightarrow> nat" where
  "uuid_index (Uuid n) = n"

text \<open>
  A page step returns the page state after the event and the route pushed with
  \<open>router.push\<close>, if any.
\<close>

type_synonym 's outcome = "'s \<times> string option"

text \<open>
  \<open>keyed_ok key n xs\<close>: the identifiers of \<open>xs\<close> are pairwise distinct and were all
  drawn before the counter reached \<open>n\<close>.
\<close>

definition keyed_ok :: "('a \<Rightarrow> uuid) \<Rightarrow> nat \<Rightarrow> 'a list \<Rightarrow> bool" where
  "keyed_ok key n xs \<longleftrightarrow> distinct (map key xs) \<and> list_all (\<lambda>x. uuid_index (key x) < n) xs"

text \<open>An optional field of a partial update: \<open>None\<close> leaves the old value.\<close>

definition upd_opt :: "'a option \<Rightarrow> 'a \<Rightarrow> 'a" where
  "upd_opt p v = (case p of None \<Rightarrow> v | Some w \<Rightarrow> w)"

text \<open>The key of the later object wins: \<open>first_opt q p\<close> is \<open>q\<close>'s value when present.\<close>

definition first_opt :: "'a option \<Rightarrow> 'a option \<Rightarrow> 'a option" where
  "first_opt q p = (case q of None \<Rightarrow> p | Some w \<Rightarrow> Some w)"

lemma keyed_ok_Nil [simp, keyed_simps]: "keyed_ok key n []"
  by (simp add: keyed_ok_def)

lemma keyed_ok_fresh [keyed_simps]: "keyed_ok key n xs \<Longrightarrow> Uuid n \<notin> set (map key xs)"
proof
  assume ok: "keyed_ok key n xs" and "Uuid n \<in> set (map key xs)"
  then obtain y where "y \<in> set xs" and "key y = Uuid n" by auto
  with ok show False by (fastforce simp: keyed_ok_def list_all_iff)
qed

lemma keyed_ok_snoc [keyed_simps]:
  assumes "keyed_ok key n xs" and "key x = Uuid n"
  shows "keyed_ok key (Suc n) (xs @ [x])"
proof -
  from assms(1) have "Uuid n \<notin> set (map key xs)" by (rule keyed_ok_fresh)
  with assms show ?thesis
    by (auto simp: keyed_ok_def list_all_iff less_Suc_eq)
qed

lemma keyed_ok_filter [keyed_simps]: "keyed_ok key n xs \<Longrightarrow> keyed_ok key n (filter P xs)"
  by (auto simp: keyed_ok_def list_all_iff distinct_map_filter)

lemma map_key_update_by_key [simp, keyed_simps]:
  assumes "\<And>y. key (g y) = key y"
  shows "map key (map (\<lambda>y. if key y = k then g y else y) xs) = map key xs"
  using assms by (induction xs) auto

lemma keyed_ok_update_by_key [keyed_simps]:
  assumes "\<And>y. key (g y) = key y" and "keyed_ok key n xs"
  shows "keyed_ok key n (map (\<lambda>y. if key y = k then g y else y) xs)"
proof -
  have "map key (map (\<lambda>y. if key y = k then g y else y) xs) = map key xs"
    using assms(1) by (rule map_key_update_by_key)
  with assms show ?thesis
    by (simp only: keyed_ok_def list_all_iff) auto
qed

lemma keyed_ok_mono [keyed_simps]: "keyed_ok key n xs \<Longrightarrow> n \<le> m \<Longrightarrow> keyed_ok key m xs"
  by (auto simp: keyed_ok_def list_all_iff)

text \<open>
  Removing an entry by identifier from a duplicate-free keyed list removes that entry
  only: the others keep their order and their identifiers.
\<close>

lemma filter_key_other [keyed_simps]:
  "key x \<noteq> k \<Longrightarrow> filter (\<lambda>y. key y \<noteq> k) [x] = [x]"
  by simp

lemma filter_key_absent [keyed_simps]:
  "k \<notin> set (map key xs) \<Longrightarrow> filter (\<lambda>y. key y \<noteq> k) xs = xs"
  by (induction xs) auto

lemma filter_key_remove_one [keyed_simps]:
  assumes "distinct (map key (xs @ x # ys))"
  shows "filter (\<lambda>y. key y \<noteq> key x) (xs @ x # ys) = xs @ ys"
proof -
  from assms have "key x \<notin> set (map key xs)" and "key x \<notin> set (map key ys)"
    by auto
  then show ?thesis by (simp add: filter_key_absent)
qed

lemma upd_opt_simps [simp]: "upd_opt None v = v" "upd_opt (Some w) v = w"
  by (simp_all add: upd_opt_def)

lemma first_opt_simps [simp]: "first_opt None p = p" "first_opt (Some w) p = Some w"
  by (simp_all add: first_opt_def)

lemma upd_opt_first_opt [simp]: "upd_opt (first_opt q p) v = upd_opt q (upd_opt p v)"
  by (cases q) simp_all


text \<open>Reading a list after an update at any index, in range or not.\<close>

lemma nth_list_update_any: "xs[i := x] ! j = (if i = j \<and> i < length xs then x else xs ! j)"
  by (cases "i = j") (auto simp: nth_list_update_neq list_update_beyond)

end
