(* ===== verification/FormData.thy ===== *)
theory FormData
  imports Prelude
begin

text \<open>
  The application record of \<open>src/app/providers/FormDataProvider.tsx\<close>: the type
  \<open>FormData\<close> as a record with one sub-record per nested object type, the string-literal
  unions as datatypes, \<open>initialFormData\<close>, and the provider's merge update
  \<open>updateFormData\<close>, which takes a \<open>Partial<FormData>\<close>. A partial record is a record of
  options (\<open>None\<close>: the key is absent); for the optional keys (\<open>spouse?\<close> and the other
  sub-forms) the value itself is an option, since \<open>{spouse: undefined}\<close> writes
  \<open>undefined\<close>. Field names carry a short prefix of their record where two records of
  the source share a field name.
\<close>

subsection \<open>Enumerations\<close>

datatype gender = Male | Female | Other

text \<open>\<open>maritalStatus\<close>: the four radio values and the unset value \<open>''\<close>.\<close>

datatype marital_status = MS_Single | MS_Married | MS_Divorced | MS_Widowed | MS_Unset

datatype employment_status =
  ES_Employed | ES_SelfEmployed | ES_Student | ES_Retired | ES_Unemployed | ES_Unset

datatype trip_sponsor = TS_Self | TS_Employer | TS_Family | TS_Other | TS_Unset

subsection \<open>Nested objects\<close>

text \<open>\<open>passport\<close> and \<open>nationalId\<close> have the same shape.\<close>

record id_document =
  doc_number :: string
  doc_issuingAuthority :: string
  doc_dateOfIssue :: string
  doc_dateOfExpiry :: string

record personal_info =
  pi_email :: string
  pi_phone :: string
  pi_firstName :: string
  pi_lastName :: string
  pi_gender :: gender
  pi_placeOfBirth :: string
  pi_hasNameChanged :: bool

record spouse_info =
  sp_firstName :: string
  sp_lastName :: string
  sp_dateOfBirth :: string
  sp_nationality :: string
  sp_travelingWithYou :: bool

record child =
  ch_id :: uuid
  ch_firstName :: string
  ch_lastName :: string
  ch_dateOfBirth :: string
  ch_relationship :: string
  ch_travelingWithYou :: bool

record current_address =
  ca_street :: string
  ca_city :: string
  ca_state :: string
  ca_postalCode :: string
  ca_country :: string
  yearsAtAddress :: int
  monthsAtAddress :: int

record previous_address =
  pa_id :: uuid
  pa_street :: string
  pa_city :: string
  pa_state :: string
  pa_postalCode :: string
  pa_country :: string
  pa_fromDate :: string
  pa_toDate :: string
  pa_reasonForLeaving :: string

record employment_info =
  em_companyName :: string
  em_jobTitle :: string
  em_startDate :: string
  em_salary :: string
  em_employerAddress :: string
  em_employerPhone :: string

record self_employment_info =
  se_businessName :: string
  se_businessType :: string
  se_annualIncome :: string
  se_startDate :: string

record education_info =
  ed_institutionName :: string
  ed_course :: string
  ed_startDate :: string
  ed_endDate :: string
  ed_isFullTime :: bool

record sponsor_details_info =
  sd_name :: string
  sd_relationship :: string
  sd_contactInfo :: string

subsection \<open>The application record\<close>

record form_data =
  passport :: id_document
  nationalId :: id_document
  personalInfo :: personal_info
  maritalStatus :: marital_status
  spouse :: "spouse_info option"
  children :: "child list"
  currentAddress :: current_address
  previousAddresses :: "previous_address list"
  employmentStatus :: employment_status
  employment :: "employment_info option"
  selfEmployment :: "self_employment_info option"
  education :: "education_info option"
  tripSponsor :: trip_sponsor
  sponsorDetails :: "sponsor_details_info option"

definition blank_document :: id_document where
  "blank_document =
     \<lparr>doc_number = [], doc_issuingAuthority = [], doc_dateOfIssue = [], doc_dateOfExpiry = []\<rparr>"

definition initialFormData :: form_data where
  "initialFormData =
     \<lparr>passport = blank_document,
      nationalId = blank_document,
      personalInfo = \<lparr>pi_email = [], pi_phone = [], pi_firstName = [], pi_lastName = [],
                      pi_gender = Male, pi_placeOfBirth = [], pi_hasNameChanged = False\<rparr>,
      maritalStatus = MS_Unset,
      spouse = None,
      children = [],
      currentAddress = \<lparr>ca_street = [], ca_city = [], ca_state = [], ca_postalCode = [],
                        ca_country = [], yearsAtAddress = 0, monthsAtAddress = 0\<rparr>,
      previousAddresses = [],
      employmentStatus = ES_Unset,
      employment = None,
      selfEmployment = None,
      education = None,
      tripSponsor = TS_Unset,
      sponsorDetails = None\<rparr>"

subsection \<open>Partial updates and the merge\<close>

record form_patch =
  p_passport :: "id_document option"
  p_nationalId :: "id_document option"
  p_personalInfo :: "personal_info option"
  p_maritalStatus :: "marital_status option"
  p_spouse :: "spouse_info option option"
  p_children :: "child list option"
  p_currentAddress :: "current_address option"
  p_previousAddresses :: "previous_address list option"
  p_employmentStatus :: "employment_status option"
  p_employment :: "employment_info option option"
  p_selfEmployment :: "self_employment_info option option"
  p_education :: "education_info option option"
  p_tripSponsor :: "trip_sponsor option"
  p_sponsorDetails :: "sponsor_details_info option option"

text \<open>The object literal \<open>{}\<close>: no key present.\<close>

definition no_patch :: form_patch where
  "no_patch =
     \<lparr>p_passport = None, p_nationalId = None, p_personalInfo = None, p_maritalStatus = None,
      p_spouse = None, p_children = None, p_currentAddress = None, p_previousAddresses = None,
      p_employmentStatus = None, p_employment = None, p_selfEmployment = None,
      p_education = None, p_tripSponsor = None, p_sponsorDetails = None\<rparr>"

text \<open>
  \<open>updateFormData(newData)\<close> is \<open>setFormData(prev => ({...prev, ...newData}))\<close>:
  every key present in \<open>newData\<close> replaces the one of \<open>prev\<close>.
\<close>

definition updateFormData :: "form_patch \<Rightarrow> form_data \<Rightarrow> form_data" where
  "updateFormData p prev =
     \<lparr>passport = upd_opt (p_passport p) (passport prev),
      nationalId = upd_opt (p_nationalId p) (nationalId prev),
      personalInfo = upd_opt (p_personalInfo p) (personalInfo prev),
      maritalStatus = upd_opt (p_maritalStatus p) (maritalStatus prev),
      spouse = upd_opt (p_spouse p) (spouse prev),
      children = upd_opt (p_children p) (children prev),
      currentAddress = upd_opt (p_currentAddress p) (currentAddress prev),
      previousAddresses = upd_opt (p_previousAddresses p) (previousAddresses prev),
      employmentStatus = upd_opt (p_employmentStatus p) (employmentStatus prev),
      employment = upd_opt (p_employment p) (employment prev),
      selfEmployment = upd_opt (p_selfEmployment p) (selfEmployment prev),
      education = upd_opt (p_education p) (education prev),
      tripSponsor = upd_opt (p_tripSponsor p) (tripSponsor prev),
      sponsorDetails = upd_opt (p_sponsorDetails p) (sponsorDetails prev)\<rparr>"

text \<open>
  Two spreads in a row, \<open>{...{...prev, ...p}, ...q}\<close>, are one spread of the object
  \<open>{...p, ...q}\<close>: a key of \<open>q\<close> wins over the same key of \<open>p\<close>.
\<close>

definition merge_patch :: "form_patch \<Rightarrow> form_patch \<Rightarrow> form_patch" where
  "merge_patch p q =
     \<lparr>p_passport = first_opt (p_passport q) (p_passport p),
      p_nationalId = first_opt (p_nationalId q) (p_nationalId p),
      p_personalInfo = first_opt (p_personalInfo q) (p_personalInfo p),
      p_maritalStatus = first_opt (p_maritalStatus q) (p_maritalStatus p),
      p_spouse = first_opt (p_spouse q) (p_spouse p),
      p_children = first_opt (p_children q) (p_children p),
      p_currentAddress = first_opt (p_currentAddress q) (p_currentAddress p),
      p_previousAddresses = first_opt (p_previousAddresses q) (p_previousAddresses p),
      p_employmentStatus = first_opt (p_employmentStatus q) (p_employmentStatus p),
      p_employment = first_opt (p_employment q) (p_employment p),
      p_selfEmployment = first_opt (p_selfEmployment q) (p_selfEmployment p),
      p_education = first_opt (p_education q) (p_education p),
      p_tripSponsor = first_opt (p_tripSponsor q) (p_tripSponsor p),
      p_sponsorDetails = first_opt (p_sponsorDetails q) (p_sponsorDetails p)\<rparr>"


subsection \<open>The context hook\<close>

text \<open>
  \<open>useFormData()\<close> reads the nearest provider's context and throws when a component is
  rendered outside every \<open>FormDataProvider\<close>. The context value is the record and the
  two update functions; only the record varies, so the context is modelled by it.
\<close>

datatype hook_error = OutsideProvider

definition useFormData :: "form_data option \<Rightarrow> hook_error + form_data" where
  "useFormData ctx = (case ctx of None \<Rightarrow> Inl OutsideProvider | Some fd \<Rightarrow> Inr fd)"

subsection \<open>Selectors of a merge\<close>

text \<open>Each key of the merged record comes from the patch when present, else from \<open>prev\<close>.\<close>

lemma updateFormData_sel [simp]:
  "passport (updateFormData p prev) = upd_opt (p_passport p) (passport prev)"
  "nationalId (updateFormData p prev) = upd_opt (p_nationalId p) (nationalId prev)"
  "personalInfo (updateFormData p prev) = upd_opt (p_personalInfo p) (personalInfo prev)"
  "maritalStatus (updateFormData p prev) = upd_opt (p_maritalStatus p) (maritalStatus prev)"
  "spouse (updateFormData p prev) = upd_opt (p_spouse p) (spouse prev)"
  "children (updateFormData p prev) = upd_opt (p_children p) (children prev)"
  "currentAddress (updateFormData p prev) = upd_opt (p_currentAddress p) (currentAddress prev)"
  "previousAddresses (updateFormData p prev) = upd_opt (p_previousAddresses p) (previousAddresses prev)"
  "employmentStatus (updateFormData p prev) = upd_opt (p_employmentStatus p) (employmentStatus prev)"
  "employment (updateFormData p prev) = upd_opt (p_employment p) (employment prev)"
  "selfEmployment (updateFormData p prev) = upd_opt (p_selfEmployment p) (selfEmployment prev)"
  "education (updateFormData p prev) = upd_opt (p_education p) (education prev)"
  "tripSponsor (updateFormData p prev) = upd_opt (p_tripSponsor p) (tripSponsor prev)"
  "sponsorDetails (updateFormData p prev) = upd_opt (p_sponsorDetails p) (sponsorDetails prev)"
  by (simp_all add: updateFormData_def)

lemma no_patch_sel [simp]:
  "p_passport no_patch = None"
  "p_nationalId no_patch = None"
  "p_personalInfo no_patch = None"
  "p_maritalStatus no_patch = None"
  "p_spouse no_patch = None"
  "p_children no_patch = None"
  "p_currentAddress no_patch = None"
  "p_previousAddresses no_patch = None"
  "p_employmentStatus no_patch = None"
  "p_employment no_patch = None"
  "p_selfEmployment no_patch = None"
  "p_education no_patch = None"
  "p_tripSponsor no_patch = None"
  "p_sponsorDetails no_patch = None"
  by (simp_all add: no_patch_def)

lemma updateFormData_no_patch [simp]: "updateFormData no_patch fd = fd"
  by (simp add: updateFormData_def)

end
