(* ===== verification/JsBuiltins.thy ===== *)
theory JsBuiltins
  imports Prelude
begin

text \<open>
  The JavaScript built-ins and library calls the pages rely on, modelled from the
  ECMAScript specification and the libraries' documentation (their code is not part of
  the repository): \<open>parseInt\<close> with no radix (used by the address-history page for the
  years and months fields), \<open>String.prototype.split\<close> with the separator \<open>'.'\<close> (used
  by \<open>updateNestedFormData\<close>), and \<open>uuidv4\<close> (used to key children and previous
  addresses). Characters are bytes; only the ASCII white space of the ECMAScript
  \<open>StrWhiteSpaceChar\<close> set is modelled, and numbers are unbounded integers (the source's
  doubles agree with them below \<open>2^53\<close>).
\<close>

subsection \<open>parseInt\<close>

definition js_space :: "char \<Rightarrow> bool" where
  "js_space c \<longleftrightarrow> of_char c = (32::nat) \<or> (9 \<le> (of_char c::nat) \<and> (of_char c::nat) \<le> 13)"

text \<open>The value of a digit in radix up to 36: \<open>0-9\<close>, then \<open>a-z\<close> or \<open>A-Z\<close>.\<close>

definition digit_value :: "char \<Rightarrow> nat option" where
  "digit_value c =
     (let n = (of_char c::nat) in
      if 48 \<le> n \<and> n \<le> 57 then Some (n - 48)
      else if 97 \<le> n \<and> n \<le> 122 then Some (n - 87)
      else if 65 \<le> n \<and> n \<le> 90 then Some (n - 55)
      else None)"

text \<open>The longest prefix of radix-\<open>r\<close> digits (step 11 of the algorithm).\<close>

fun take_digits :: "nat \<Rightarrow> string \<Rightarrow> nat list" where
  "take_digits r [] = []"
| "take_digits r (c # cs) =
     (case digit_value c of
        Some d \<Rightarrow> if d < r then d # take_digits r cs else []
      | None \<Rightarrow> [])"

definition digits_num :: "nat \<Rightarrow> nat list \<Rightarrow> nat" where
  "digits_num r ds = foldl (\<lambda>acc d. acc * r + d) 0 ds"

text \<open>
  \<open>parseInt(string)\<close>: strip leading white space, read an optional sign, strip a
  \<open>0x\<close>/\<open>0X\<close> prefix (radix 16), then read the longest digit prefix. No digit gives
  \<open>NaN\<close>, modelled as \<open>None\<close>.
\<close>

definition js_parseInt :: "string \<Rightarrow> int option" where
  "js_parseInt str =
     (let s = dropWhile js_space str;
          (sign, s) = (case s of
                         c # r \<Rightarrow> if c = CHR ''-'' then (-1::int, r)
                                  else if c = CHR ''+'' then (1, r) else (1, s)
                       | [] \<Rightarrow> (1, s));
          (r, s) = (if take 2 s = ''0x'' \<or> take 2 s = ''0X'' then (16::nat, drop 2 s) else (10, s));
          ds = take_digits r s
      in if ds = [] then None else Some (sign * int (digits_num r ds)))"

subsection \<open>String.prototype.split with a one-character separator\<close>

text \<open>
  \<open>s.split(c)\<close> for a one-character separator \<open>c\<close>: the maximal pieces between
  separators, so never the empty list (\<open>''.split('.')\<close> is \<open>['']\<close>).
\<close>

fun js_split :: "char \<Rightarrow> string \<Rightarrow> string list" where
  "js_split c [] = [[]]"
| "js_split c (x # xs) =
     (let r = js_split c xs in if x = c then [] # r else (x # hd r) # tl r)"

fun js_join :: "char \<Rightarrow> string list \<Rightarrow> string" where
  "js_join c [] = []"
| "js_join c [w] = w"
| "js_join c (w # ws) = w @ c # js_join c ws"

subsection \<open>Number.prototype.toString for integers\<close>

text \<open>
  The decimal numeral of a natural number, and \<open>String(i)\<close> for an integer \<open>i\<close>
  (what React writes into the \<open>value\<close> of an input bound to a number), after
  \<open>Number::toString\<close> of the ECMAScript specification: a minus sign before the string of
  the magnitude, which is the plain numeral below \<open>10^21\<close> and the exponent form from
  \<open>10^21\<close> on (the significant digits without trailing zeros, a point after the first of
  them when there are several, then \<open>e+\<close> and the exponent: \<open>1e+21\<close>,
  \<open>1.5e+21\<close>). The significant digits are those of the exact integer; for a double the
  specification takes the shortest digits that read back to it, which differ only after
  the first digit and the point.
\<close>

fun nat_str :: "nat \<Rightarrow> string" where
  "nat_str n = (if n < 10 then [char_of (48 + n)] else nat_str (n div 10) @ [char_of (48 + n mod 10)])"

declare nat_str.simps [simp del]

definition js_exp_str :: "nat \<Rightarrow> string" where
  "js_exp_str n =
     (let ds = nat_str n; sig = rev (dropWhile (\<lambda>c. c = CHR ''0'') (rev ds))
      in hd sig # (if tl sig = [] then [] else CHR ''.'' # tl sig) @ ''e+'' @ nat_str (length ds - 1))"

definition js_num_str :: "nat \<Rightarrow> string" where
  "js_num_str n = (if n < 10 ^ 21 then nat_str n else js_exp_str n)"

definition js_int_str :: "int \<Rightarrow> string" where
  "js_int_str i = (if i < 0 then CHR ''-'' # js_num_str (nat (- i)) else js_num_str (nat i))"

subsection \<open>uuidv4\<close>

text \<open>
  \<open>uuidv4()\<close> returns a random identifier. The model draws identifiers from a counter,
  so two draws never coincide: the collision probability of version-4 identifiers is
  taken to be zero.
\<close>

definition uuidv4 :: "nat \<Rightarrow> uuid \<times> nat" where
  "uuidv4 n = (Uuid n, Suc n)"

lemma js_parseInt_examples:
  "js_parseInt ''12'' = Some 12"
  "js_parseInt ''abc'' = None"
  "js_parseInt '''' = None"
  "js_parseInt '' -3'' = Some (-3)"
  "js_parseInt ''1e3'' = Some 1"
  "js_parseInt ''1.9'' = Some 1"
  "js_parseInt ''0x1A'' = Some 26"
  by (simp_all add: js_parseInt_def js_space_def digit_value_def digits_num_def)


lemma js_split_not_Nil [simp]: "js_split c s \<noteq> []"
  by (induction s) (auto simp: Let_def)

lemma js_split_pieces: "w \<in> set (js_split c s) \<Longrightarrow> c \<notin> set w"
proof (induction s arbitrary: w)
  case Nil
  then show ?case by simp
next
  case (Cons x xs)
  obtain h t where r: "js_split c xs = h # t"
    using js_split_not_Nil by (cases "js_split c xs") auto
  with Cons show ?case by (auto simp: Let_def split: if_splits)
qed

lemma uuidv4_fresh [simp]: "fst (uuidv4 n) = Uuid n" "snd (uuidv4 n) = Suc n"
  by (simp_all add: uuidv4_def)


subsection \<open>Parsing the numeral of an integer\<close>

lemma digit_value_dec: "d < 10 \<Longrightarrow> digit_value (char_of (48 + d)) = Some d"
proof -
  assume d: "d < 10"
  then have "(of_char (char_of (48 + d) :: char) :: nat) = 48 + d"
    by (simp add: of_char_of take_bit_nat_eq_self)
  with d show ?thesis by (simp add: digit_value_def)
qed

lemma nat_str_digits: "c \<in> set (nat_str n) \<Longrightarrow> \<exists>d < (10::nat). c = char_of (48 + d)"
proof (induction n rule: nat_str.induct)
  case (1 n)
  consider "n < 10" "c = char_of (48 + n)" | "\<not> n < 10" "c \<in> set (nat_str (n div 10))"
    | "c = char_of (48 + n mod 10)"
    using 1(2) by (auto simp: nat_str.simps [of n] split: if_splits)
  then show ?case
  proof cases
    case 2
    then show ?thesis using 1(1) by blast
  qed (rule exI, rule conjI [rotated], assumption, simp)+
qed

lemma take_digits_append:
  "(\<forall>c \<in> set xs. \<exists>d < r. digit_value c = Some d) \<Longrightarrow> take_digits r (xs @ ys) = take_digits r xs @ take_digits r ys"
  by (induction xs) auto

lemma nat_str_not_Nil: "nat_str n \<noteq> []"
  by (subst nat_str.simps) simp

lemma take_digits_nat_str: "digits_num 10 (take_digits 10 (nat_str n)) = n \<and> take_digits 10 (nat_str n) \<noteq> []"
proof (induction n rule: nat_str.induct)
  case (1 n)
  show ?case
  proof (cases "n < 10")
    case True
    then show ?thesis by (simp add: nat_str.simps [of n] digit_value_dec digits_num_def)
  next
    case False
    have all: "\<forall>c \<in> set (nat_str (n div 10)). \<exists>d < 10. digit_value c = Some d"
      using nat_str_digits digit_value_dec by blast
    have "take_digits 10 (nat_str n) = take_digits 10 (nat_str (n div 10)) @ [n mod 10]"
      using False by (simp add: nat_str.simps [of n] take_digits_append [OF all] digit_value_dec)
    with 1 False show ?thesis by (simp add: digits_num_def)
  qed
qed

lemma nat_str_Cons: "\<exists>d r. d < (10::nat) \<and> nat_str n = char_of (48 + d) # r"
proof -
  obtain c r where cr: "nat_str n = c # r" using nat_str_not_Nil by (cases "nat_str n") auto
  then obtain d where "d < (10::nat)" "c = char_of (48 + d)" using nat_str_digits [of c n] by auto
  with cr show ?thesis by blast
qed

lemma of_char_dec: "d < (10::nat) \<Longrightarrow> (of_char (char_of (48 + d) :: char) :: nat) = 48 + d"
  by (simp add: of_char_of take_bit_nat_eq_self)

lemma nat_str_no_x: "take 2 (nat_str n) \<noteq> ''0x'' \<and> take 2 (nat_str n) \<noteq> ''0X''"
proof -
  have "CHR ''x'' \<notin> set (nat_str n) \<and> CHR ''X'' \<notin> set (nat_str n)"
  proof (intro conjI notI)
    assume "CHR ''x'' \<in> set (nat_str n)"
    then obtain d where "d < (10::nat)" "CHR ''x'' = char_of (48 + d)" using nat_str_digits by blast
    then have "(of_char (CHR ''x'') :: nat) = 48 + d" using of_char_dec by metis
    with \<open>d < 10\<close> show False by simp
  next
    assume "CHR ''X'' \<in> set (nat_str n)"
    then obtain d where "d < (10::nat)" "CHR ''X'' = char_of (48 + d)" using nat_str_digits by blast
    then have "(of_char (CHR ''X'') :: nat) = 48 + d" using of_char_dec by metis
    with \<open>d < 10\<close> show False by simp
  qed
  then show ?thesis by (metis in_set_takeD list.set_intros(1) list.set_intros(2))
qed

lemma digit_char_plain:
  assumes "d < (10::nat)"
  shows "\<not> js_space (char_of (48 + d))" "char_of (48 + d) \<noteq> CHR ''-''" "char_of (48 + d) \<noteq> CHR ''+''"
proof -
  have c: "(of_char (char_of (48 + d) :: char) :: nat) = 48 + d" using assms by (rule of_char_dec)
  have ne: "char_of (48 + d) \<noteq> x" if "(of_char x :: nat) < 48" for x :: char
  proof
    assume "char_of (48 + d) = x"
    then have "(of_char (char_of (48 + d) :: char) :: nat) = of_char x" by simp
    with c that show False by simp
  qed
  show "\<not> js_space (char_of (48 + d))" "char_of (48 + d) \<noteq> CHR ''-''" "char_of (48 + d) \<noteq> CHR ''+''"
    using c assms by (auto simp: js_space_def intro!: ne)
qed

lemma js_parseInt_digits_lead:
  assumes "d < (10::nat)" "take 2 (char_of (48 + d) # r) \<noteq> ''0x''" "take 2 (char_of (48 + d) # r) \<noteq> ''0X''"
  shows "js_parseInt (char_of (48 + d) # r) = Some (int (digits_num 10 (take_digits 10 (char_of (48 + d) # r))))
           \<and> js_parseInt (CHR ''-'' # char_of (48 + d) # r)
               = Some (- int (digits_num 10 (take_digits 10 (char_of (48 + d) # r))))"
proof -
  obtain s where s: "s = char_of (48 + d) # r" by blast
  note sp = digit_char_plain [OF assms(1)]
  have m: "\<not> js_space (CHR ''-'')" by (simp add: js_space_def)
  have dw: "dropWhile js_space s = s" using s sp by simp
  have sg: "(case s of c # r \<Rightarrow> if c = CHR ''-'' then (-1::int, r) else if c = CHR ''+'' then (1, r)
               else (1, s) | [] \<Rightarrow> (1, s)) = (1, s)"
    using s sp by simp
  have "take_digits 10 s \<noteq> []" using s assms(1) by (simp add: digit_value_dec)
  then show ?thesis using assms(2,3) unfolding s [symmetric] by (simp add: js_parseInt_def dw sg m)
qed

lemma js_parseInt_nat_str:
  "js_parseInt (nat_str n) = Some (int n) \<and> js_parseInt (CHR ''-'' # nat_str n) = Some (- int n)"
proof -
  obtain d r where d: "d < (10::nat)" and nr: "nat_str n = char_of (48 + d) # r" using nat_str_Cons by blast
  show ?thesis
    using js_parseInt_digits_lead [OF d] take_digits_nat_str [of n] nat_str_no_x [of n] by (simp add: nr)
qed

lemma nat_str_hd: "0 < n \<Longrightarrow> hd (nat_str n) \<noteq> CHR ''0''"
proof (induction n rule: nat_str.induct)
  case (1 n)
  show ?case
  proof (cases "n < 10")
    case True
    then have c: "(of_char (char_of (48 + n) :: char) :: nat) = 48 + n" by (rule of_char_dec)
    have "char_of (48 + n) \<noteq> (CHR ''0'' :: char)"
    proof
      assume "char_of (48 + n) = (CHR ''0'' :: char)"
      then have "(of_char (char_of (48 + n) :: char) :: nat) = of_char (CHR ''0'')" by simp
      with c 1(2) show False by simp
    qed
    with True show ?thesis by (simp add: nat_str.simps [of n])
  next
    case False
    then show ?thesis using 1 nat_str_not_Nil [of "n div 10"] by (simp add: nat_str.simps [of n])
  qed
qed

lemma rev_dropWhile_lead:
  assumes "\<not> P x"
  shows "\<exists>t. rev (dropWhile P (rev (x # r))) = x # t"
proof (cases "\<forall>y \<in> set (rev r). P y")
  case True
  then have "dropWhile P (rev r @ [x]) = dropWhile P [x]" by (intro dropWhile_append2) blast
  with assms have "dropWhile P (rev r @ [x]) = [x]" by simp
  then show ?thesis by simp
next
  case False
  then obtain y where "y \<in> set (rev r)" "\<not> P y" by blast
  then have "dropWhile P (rev r @ [x]) = dropWhile P (rev r) @ [x]" by (rule dropWhile_append1)
  then show ?thesis by simp
qed

text \<open>The exponent form starts with one digit followed by the point or the \<open>e\<close>.\<close>

lemma js_exp_str_lead:
  assumes "0 < n"
  shows "\<exists>d c r. d < (10::nat) \<and> (c = CHR ''.'' \<or> c = CHR ''e'') \<and> js_exp_str n = char_of (48 + d) # c # r"
proof -
  obtain d r where d: "d < (10::nat)" and nr: "nat_str n = char_of (48 + d) # r" using nat_str_Cons by blast
  have "char_of (48 + d) \<noteq> (CHR ''0'' :: char)" using nat_str_hd [OF assms] nr by simp
  from rev_dropWhile_lead [where P = "\<lambda>c. c = CHR ''0''", OF this]
  obtain t where sig: "rev (dropWhile (\<lambda>c. c = CHR ''0'') (rev (nat_str n))) = char_of (48 + d) # t"
    unfolding nr by blast
  show ?thesis
  proof (cases t)
    case Nil
    then have "js_exp_str n = char_of (48 + d) # CHR ''e'' # CHR ''+'' # nat_str (length (nat_str n) - 1)"
      using sig by (simp add: js_exp_str_def)
    with d show ?thesis by blast
  next
    case (Cons a u)
    then have "js_exp_str n = char_of (48 + d) # CHR ''.'' # t @ ''e+'' @ nat_str (length (nat_str n) - 1)"
      using sig by (simp add: js_exp_str_def)
    with d show ?thesis by blast
  qed
qed

lemma js_parseInt_exp_str:
  assumes "0 < n"
  shows "\<exists>d < (10::nat). js_parseInt (js_exp_str n) = Some (int d) \<and> js_parseInt (CHR ''-'' # js_exp_str n) = Some (- int d)"
proof -
  obtain d c r where d: "d < (10::nat)" and c: "c = CHR ''.'' \<or> c = CHR ''e''"
    and e: "js_exp_str n = char_of (48 + d) # c # r"
    using js_exp_str_lead [OF assms] by blast
  have "take_digits 10 (char_of (48 + d) # c # r) = [d]" using d c by (auto simp: digit_value_dec digit_value_def)
  then show ?thesis using js_parseInt_digits_lead [OF d, of "c # r"] c d e by (auto simp: digits_num_def)
qed

lemma js_parseInt_int_str:
  assumes "\<bar>i\<bar> < 10 ^ 21"
  shows "js_parseInt (js_int_str i) = Some i"
proof (cases "i < 0")
  case True
  with assms have "nat (- i) < 10 ^ 21" by (simp add: nat_less_iff)
  then show ?thesis using True js_parseInt_nat_str [of "nat (- i)"] by (simp add: js_int_str_def js_num_str_def)
next
  case False
  with assms have "nat i < 10 ^ 21" by (simp add: nat_less_iff)
  then show ?thesis using False js_parseInt_nat_str [of "nat i"] by (simp add: js_int_str_def js_num_str_def)
qed

text \<open>From \<open>10^21\<close> on, \<open>parseInt\<close> reads back only the first significant digit.\<close>

lemma js_parseInt_int_str_large:
  assumes "10 ^ 21 \<le> \<bar>i\<bar>"
  shows "\<exists>d. js_parseInt (js_int_str i) = Some d \<and> \<bar>d\<bar> < 10"
proof (cases "i < 0")
  case True
  with assms have "\<not> nat (- i) < 10 ^ 21" "0 < nat (- i)" by (simp_all add: nat_less_iff)
  then show ?thesis using True js_parseInt_exp_str [of "nat (- i)"] by (auto simp: js_int_str_def js_num_str_def)
next
  case False
  with assms have "\<not> nat i < 10 ^ 21" "0 < nat i" by (simp_all add: nat_less_iff)
  then show ?thesis using False js_parseInt_exp_str [of "nat i"] by (auto simp: js_int_str_def js_num_str_def)
qed


subsection \<open>The size of a parsed number\<close>

lemma take_digits_bound: "d \<in> set (take_digits r s) \<Longrightarrow> d < r"
  by (induction s) (auto split: option.splits if_splits)

lemma take_digits_length: "length (take_digits r s) \<le> length s"
  by (induction s) (auto split: option.splits)

lemma foldl_digits_bound:
  "(\<forall>d \<in> set ds. d < (r::nat)) \<Longrightarrow> foldl (\<lambda>acc d. acc * r + d) acc ds < (acc + 1) * r ^ length ds"
proof (induction ds arbitrary: acc)
  case Nil
  then show ?case by simp
next
  case (Cons d ds)
  then have d: "d < r" and IH: "foldl (\<lambda>acc d. acc * r + d) (acc * r + d) ds < (acc * r + d + 1) * r ^ length ds"
    by auto
  have "acc * r + d + 1 \<le> (acc + 1) * r" using d by (simp add: algebra_simps)
  then have "(acc * r + d + 1) * r ^ length ds \<le> (acc + 1) * r * r ^ length ds" by (rule mult_right_mono) simp
  with IH show ?case by (simp add: algebra_simps)
qed

lemma digits_num_bound: "digits_num r (take_digits r s) < r ^ length (take_digits r s)"
  using foldl_digits_bound [of "take_digits r s" r 0] take_digits_bound by (simp add: digits_num_def)

lemma js_parseInt_Some:
  assumes "js_parseInt str = Some n"
  obtains r s where "r = 10 \<and> length s \<le> length str \<or> r = 16 \<and> length s + 2 \<le> length str"
    and "\<bar>n\<bar> = int (digits_num r (take_digits r s))"
proof -
  define s0 where "s0 = dropWhile js_space str"
  define p where "p = (case s0 of c # r \<Rightarrow> if c = CHR ''-'' then (-1::int, r) else if c = CHR ''+'' then (1, r)
                                  else (1, s0) | [] \<Rightarrow> (1, s0))"
  define q where "q = (if take 2 (snd p) = ''0x'' \<or> take 2 (snd p) = ''0X'' then (16::nat, drop 2 (snd p)) else (10, snd p))"
  have p1: "\<bar>fst p\<bar> = 1" and p2: "length (snd p) \<le> length str"
    using length_dropWhile_le [of js_space str] by (auto simp: p_def s0_def split: list.splits)
  have q1: "fst q = 10 \<and> length (snd q) \<le> length str \<or> fst q = 16 \<and> length (snd q) + 2 \<le> length str"
    using p2 by (auto simp: q_def dest: arg_cong [where f = length])
  have "js_parseInt str = (let ds = take_digits (fst q) (snd q) in
                           if ds = [] then None else Some (fst p * int (digits_num (fst q) ds)))"
    unfolding js_parseInt_def s0_def [symmetric] by (simp add: split_def Let_def p_def q_def)
  with assms have "\<bar>n\<bar> = int (digits_num (fst q) (take_digits (fst q) (snd q)))"
    using p1 by (auto simp: Let_def abs_mult split: if_splits)
  with q1 that show ?thesis by blast
qed


text \<open>
  A numeral of at most 15 characters denotes a number below \<open>2^53\<close>: a double holds
  it exactly, so the unbounded integers of the model are the numbers of the program.
\<close>

lemma js_parseInt_abs_bound:
  assumes "js_parseInt str = Some n" and "length str \<le> 15"
  shows "\<bar>n\<bar> < 2 ^ 53"
proof -
  from assms(1) obtain r s where rs: "r = 10 \<and> length s \<le> length str \<or> r = 16 \<and> length s + 2 \<le> length str"
    and n: "\<bar>n\<bar> = int (digits_num r (take_digits r s))" by (rule js_parseInt_Some)
  have "r ^ length (take_digits r s) \<le> r ^ length s"
    using rs by (intro power_increasing take_digits_length) auto
  with digits_num_bound [of r s] have "digits_num r (take_digits r s) < r ^ length s" by linarith
  moreover have "r ^ length s \<le> (2::nat) ^ 53"
  proof (cases "r = 10")
    case True
    with rs assms(2) have "length s \<le> 15" by auto
    with True have "r ^ length s \<le> (10::nat) ^ 15" by (simp only: power_increasing)
    then show ?thesis by simp
  next
    case False
    with rs assms(2) have "r = 16" "length s \<le> 13" by auto
    then have "r ^ length s \<le> (16::nat) ^ 13" by (simp only: power_increasing)
    then show ?thesis by simp
  qed
  ultimately have "digits_num r (take_digits r s) < (2::nat) ^ 53" by linarith
  with n show ?thesis by (metis of_nat_less_iff of_nat_numeral of_nat_power)
qed

end
