(* ===== verification/Schemas.thy ===== *)
theory Schemas
  imports FormData JsBuiltins
begin

text \<open>
  The zod schemas of \<open>src/app/lib/schemas.ts\<close> as executable validators. A schema
  \<open>z.object({...})\<close> checks every key and reports one issue per failing check, in key
  order; each key of these schemas has at most one check that can fail, so the result is
  the list of (key, message) pairs of the failing keys, which is also what
  \<open>zodResolver\<close> turns into the form's \<open>errors\<close> object. \<open>z.string().min(n, msg)\<close>
  fails when the string has fewer than \<open>n\<close> characters (characters are bytes here);
  \<open>z.string().email(msg)\<close> fails when zod's email pattern does not match; keys typed
  \<open>boolean\<close> or a closed enumeration cannot fail on the typed record and are omitted.
  The email pattern is zod's (version 3.22 and later), a library the code only calls:
  \<^verbatim>\<open>^(?!\.)(?!.*\.\.)([A-Z0-9_'+\-\.]*)[A-Z0-9_+-]@([A-Z0-9][A-Z0-9\-]*\.)+[A-Z]{2,}$\<close>
  with the \<open>i\<close> flag.
\<close>

subsection \<open>zod's checks\<close>

definition is_alpha :: "char \<Rightarrow> bool" where
  "is_alpha c \<longleftrightarrow> (let n = (of_char c::nat) in (65 \<le> n \<and> n \<le> 90) \<or> (97 \<le> n \<and> n \<le> 122))"

definition is_alnum :: "char \<Rightarrow> bool" where
  "is_alnum c \<longleftrightarrow> is_alpha c \<or> (let n = (of_char c::nat) in 48 \<le> n \<and> n \<le> 57)"

fun no_double_dot :: "string \<Rightarrow> bool" where
  "no_double_dot (a # b # r) = (\<not> (a = CHR ''.'' \<and> b = CHR ''.'') \<and> no_double_dot (b # r))"
| "no_double_dot _ = True"

definition email_label :: "string \<Rightarrow> bool" where
  "email_label l \<longleftrightarrow> l \<noteq> [] \<and> is_alnum (hd l) \<and> list_all (\<lambda>c. is_alnum c \<or> c = CHR ''-'') l"

definition email_tld :: "string \<Rightarrow> bool" where
  "email_tld l \<longleftrightarrow> 2 \<le> length l \<and> list_all is_alpha l"

text \<open>
  The local part is everything before the \<open>@\<close> (neither part may contain one); the
  domain splits at dots into labels and a final top-level label of letters.
\<close>

definition zod_email :: "string \<Rightarrow> bool" where
  "zod_email s \<longleftrightarrow>
     (let local = takeWhile (\<lambda>c. c \<noteq> CHR ''@'') s;
          rest = dropWhile (\<lambda>c. c \<noteq> CHR ''@'') s
      in s \<noteq> [] \<and> hd s \<noteq> CHR ''.'' \<and> no_double_dot s
         \<and> local \<noteq> []
         \<and> list_all (\<lambda>c. is_alnum c \<or> c \<in> set ''_'+-.'') local
         \<and> (is_alnum (last local) \<or> last local \<in> set ''_+-'')
         \<and> rest \<noteq> []
         \<and> (let labels = js_split CHR ''.'' (tl rest)
            in 2 \<le> length labels \<and> list_all email_label (butlast labels)
               \<and> email_tld (last labels)))"

datatype str_check = MinLen nat string | Email string

primrec check_string :: "str_check \<Rightarrow> string \<Rightarrow> string option" where
  "check_string (MinLen n msg) s = (if length s < n then Some msg else None)"
| "check_string (Email msg) s = (if zod_email s then None else Some msg)"

definition check_field :: "string \<Rightarrow> str_check \<Rightarrow> string \<Rightarrow> (string \<times> string) list" where
  "check_field k c s = (case check_string c s of None \<Rightarrow> [] | Some m \<Rightarrow> [(k, m)])"

text \<open>
  \<open>z.number().min(lo)\<close> and \<open>.max(hi)\<close>: each check of the chain reports its own issue,
  with zod's default messages.
\<close>

definition check_min :: "string \<Rightarrow> int \<Rightarrow> string \<Rightarrow> int \<Rightarrow> (string \<times> string) list" where
  "check_min k lo msg v = (if v < lo then [(k, msg)] else [])"

definition check_max :: "string \<Rightarrow> int \<Rightarrow> string \<Rightarrow> int \<Rightarrow> (string \<times> string) list" where
  "check_max k hi msg v = (if hi < v then [(k, msg)] else [])"

subsection \<open>The schemas\<close>

definition personalInfoSchema :: "personal_info \<Rightarrow> (string \<times> string) list" where
  "personalInfoSchema p =
     check_field ''email'' (Email ''Valid email required'') (pi_email p)
     @ check_field ''phone'' (MinLen 5 ''Phone number is required'') (pi_phone p)
     @ check_field ''firstName'' (MinLen 1 ''First name is required'') (pi_firstName p)
     @ check_field ''lastName'' (MinLen 1 ''Last name is required'') (pi_lastName p)
     @ check_field ''placeOfBirth'' (MinLen 1 ''Place of birth is required'') (pi_placeOfBirth p)"

definition id_document_schema :: "string \<Rightarrow> id_document \<Rightarrow> (string \<times> string) list" where
  "id_document_schema number_msg d =
     check_field ''number'' (MinLen 1 number_msg) (doc_number d)
     @ check_field ''issuingAuthority'' (MinLen 1 ''Issuing authority is required'') (doc_issuingAuthority d)
     @ check_field ''dateOfIssue'' (MinLen 1 ''Date of issue is required'') (doc_dateOfIssue d)
     @ check_field ''dateOfExpiry'' (MinLen 1 ''Date of expiry is required'') (doc_dateOfExpiry d)"

definition passportSchema :: "id_document \<Rightarrow> (string \<times> string) list" where
  "passportSchema = id_document_schema ''Passport number is required''"

definition nationalIdSchema :: "id_document \<Rightarrow> (string \<times> string) list" where
  "nationalIdSchema = id_document_schema ''ID number is required''"

definition spouseSchema :: "spouse_info \<Rightarrow> (string \<times> string) list" where
  "spouseSchema sp =
     check_field ''firstName'' (MinLen 1 ''First name is required'') (sp_firstName sp)
     @ check_field ''lastName'' (MinLen 1 ''Last name is required'') (sp_lastName sp)
     @ check_field ''dateOfBirth'' (MinLen 1 ''Date of birth is required'') (sp_dateOfBirth sp)
     @ check_field ''nationality'' (MinLen 1 ''Nationality is required'') (sp_nationality sp)"

definition childSchema :: "child \<Rightarrow> (string \<times> string) list" where
  "childSchema c =
     check_field ''firstName'' (MinLen 1 ''First name is required'') (ch_firstName c)
     @ check_field ''lastName'' (MinLen 1 ''Last name is required'') (ch_lastName c)
     @ check_field ''dateOfBirth'' (MinLen 1 ''Date of birth is required'') (ch_dateOfBirth c)
     @ check_field ''relationship'' (MinLen 1 ''Relationship is required'') (ch_relationship c)"

definition currentAddressSchema :: "current_address \<Rightarrow> (string \<times> string) list" where
  "currentAddressSchema a =
     check_field ''street'' (MinLen 1 ''Street address is required'') (ca_street a)
     @ check_field ''city'' (MinLen 1 ''City is required'') (ca_city a)
     @ check_field ''state'' (MinLen 1 ''State/province is required'') (ca_state a)
     @ check_field ''postalCode'' (MinLen 1 ''Postal code is required'') (ca_postalCode a)
     @ check_field ''country'' (MinLen 1 ''Country is required'') (ca_country a)
     @ check_min ''yearsAtAddress'' 0 ''Number must be greater than or equal to 0'' (yearsAtAddress a)
     @ check_min ''monthsAtAddress'' 0 ''Number must be greater than or equal to 0'' (monthsAtAddress a)
     @ check_max ''monthsAtAddress'' 11 ''Number must be less than or equal to 11'' (monthsAtAddress a)"

definition previousAddressSchema :: "previous_address \<Rightarrow> (string \<times> string) list" where
  "previousAddressSchema a =
     check_field ''street'' (MinLen 1 ''Street address is required'') (pa_street a)
     @ check_field ''city'' (MinLen 1 ''City is required'') (pa_city a)
     @ check_field ''state'' (MinLen 1 ''State/province is required'') (pa_state a)
     @ check_field ''postalCode'' (MinLen 1 ''Postal code is required'') (pa_postalCode a)
     @ check_field ''country'' (MinLen 1 ''Country is required'') (pa_country a)
     @ check_field ''fromDate'' (MinLen 1 ''From date is required'') (pa_fromDate a)
     @ check_field ''toDate'' (MinLen 1 ''To date is required'') (pa_toDate a)
     @ check_field ''reasonForLeaving'' (MinLen 1 ''Reason for leaving is required'') (pa_reasonForLeaving a)"

definition employmentSchema :: "employment_info \<Rightarrow> (string \<times> string) list" where
  "employmentSchema e =
     check_field ''companyName'' (MinLen 1 ''Company name is required'') (em_companyName e)
     @ check_field ''jobTitle'' (MinLen 1 ''Job title is required'') (em_jobTitle e)
     @ check_field ''startDate'' (MinLen 1 ''Start date is required'') (em_startDate e)
     @ check_field ''salary'' (MinLen 1 ''Salary is required'') (em_salary e)
     @ check_field ''employerAddress'' (MinLen 1 ''Employer address is required'') (em_employerAddress e)
     @ check_field ''employerPhone'' (MinLen 1 ''Employer phone is required'') (em_employerPhone e)"

definition selfEmploymentSchema :: "self_employment_info \<Rightarrow> (string \<times> string) list" where
  "selfEmploymentSchema e =
     check_field ''businessName'' (MinLen 1 ''Business name is required'') (se_businessName e)
     @ check_field ''businessType'' (MinLen 1 ''Business type is required'') (se_businessType e)
     @ check_field ''annualIncome'' (MinLen 1 ''Annual income is required'') (se_annualIncome e)
     @ check_field ''startDate'' (MinLen 1 ''Start date is required'') (se_startDate e)"

definition educationSchema :: "education_info \<Rightarrow> (string \<times> string) list" where
  "educationSchema e =
     check_field ''institutionName'' (MinLen 1 ''Institution name is required'') (ed_institutionName e)
     @ check_field ''course'' (MinLen 1 ''Course name is required'') (ed_course e)
     @ check_field ''startDate'' (MinLen 1 ''Start date is required'') (ed_startDate e)
     @ check_field ''endDate'' (MinLen 1 ''End date is required'') (ed_endDate e)"

definition sponsorDetailsSchema :: "sponsor_details_info \<Rightarrow> (string \<times> string) list" where
  "sponsorDetailsSchema d =
     check_field ''name'' (MinLen 1 ''Sponsor name is required'') (sd_name d)
     @ check_field ''relationship'' (MinLen 1 ''Relationship is required'') (sd_relationship d)
     @ check_field ''contactInfo'' (MinLen 1 ''Contact information is required'') (sd_contactInfo d)"

subsection \<open>Behaviour of the checks\<close>

lemma check_field_Nil_iff [simp]: "check_field k c s = [] \<longleftrightarrow> check_string c s = None"
  by (simp add: check_field_def split: option.split)

lemma check_string_MinLen_None [simp]: "check_string (MinLen n msg) s = None \<longleftrightarrow> n \<le> length s"
  by auto

lemma check_string_Email_None [simp]: "check_string (Email msg) s = None \<longleftrightarrow> zod_email s"
  by auto

lemma personalInfoSchema_Nil_iff:
  "personalInfoSchema p = [] \<longleftrightarrow>
     zod_email (pi_email p) \<and> 5 \<le> length (pi_phone p) \<and> pi_firstName p \<noteq> []
     \<and> pi_lastName p \<noteq> [] \<and> pi_placeOfBirth p \<noteq> []"
  by (auto simp: personalInfoSchema_def Suc_le_eq)

lemma zod_email_nonempty: "zod_email s \<Longrightarrow> s \<noteq> []"
  by (simp add: zod_email_def Let_def)

lemma personalInfoSchema_email_only:
  assumes "5 \<le> length (pi_phone p)" and "pi_firstName p \<noteq> []"
    and "pi_lastName p \<noteq> []" and "pi_placeOfBirth p \<noteq> []"
  shows "personalInfoSchema p =
           (if zod_email (pi_email p) then [] else [(''email'', ''Valid email required'')])"
  using assms by (simp add: personalInfoSchema_def check_field_def Suc_le_eq)

lemma zod_email_examples:
  "zod_email ''a@b.com''"
  "\<not> zod_email ''not-an-email''"
  "\<not> zod_email []"
  "\<not> zod_email ''.a@b.com''"
  "\<not> zod_email ''a..b@c.com''"
  "\<not> zod_email ''a@b.c''"
  "zod_email ''first.last+tag@mail.example.org''"
  by (simp_all add: zod_email_def is_alnum_def is_alpha_def email_label_def email_tld_def)

end
