(* ===== verification/PersonalInfo.thy ===== *)
theory PersonalInfo
  imports Schemas
begin

text \<open>
  The form of \<open>src/app/components/PersonalInfo.tsx\<close>. The personal-information inputs
  are registered with react-hook-form, whose state (\<open>rhf_state\<close>: the field values, the
  error list produced by \<open>zodResolver(personalInfoSchema)\<close> and whether a submit was
  attempted) is local to the component; the passport and national-id inputs write the
  provider's record directly with \<open>updateFormData\<close>. react-hook-form is a library the
  code only calls; its behaviour is modelled from its documentation with the default
  options the code uses: validation on submit, and after the first submit, re-validation
  of a field when it changes.
\<close>

subsection \<open>State\<close>

record rhf_state =
  rhf_values :: personal_info
  rhf_errors :: "(string \<times> string) list"
  rhf_submitted :: bool

text \<open>The inputs spread with \<open>register(...)\<close> and the document inputs.\<close>

datatype pi_input = PI_email | PI_phone | PI_firstName | PI_lastName | PI_placeOfBirth

primrec pi_input_name :: "pi_input \<Rightarrow> string" where
  "pi_input_name PI_email = ''email''"
| "pi_input_name PI_phone = ''phone''"
| "pi_input_name PI_firstName = ''firstName''"
| "pi_input_name PI_lastName = ''lastName''"
| "pi_input_name PI_placeOfBirth = ''placeOfBirth''"

primrec set_pi_input :: "pi_input \<Rightarrow> string \<Rightarrow> personal_info \<Rightarrow> personal_info" where
  "set_pi_input PI_email v p = p\<lparr>pi_email := v\<rparr>"
| "set_pi_input PI_phone v p = p\<lparr>pi_phone := v\<rparr>"
| "set_pi_input PI_firstName v p = p\<lparr>pi_firstName := v\<rparr>"
| "set_pi_input PI_lastName v p = p\<lparr>pi_lastName := v\<rparr>"
| "set_pi_input PI_placeOfBirth v p = p\<lparr>pi_placeOfBirth := v\<rparr>"

datatype doc_field = DOC_number | DOC_issuingAuthority | DOC_dateOfIssue | DOC_dateOfExpiry

primrec set_doc_field :: "doc_field \<Rightarrow> string \<Rightarrow> id_document \<Rightarrow> id_document" where
  "set_doc_field DOC_number v d = d\<lparr>doc_number := v\<rparr>"
| "set_doc_field DOC_issuingAuthority v d = d\<lparr>doc_issuingAuthority := v\<rparr>"
| "set_doc_field DOC_dateOfIssue v d = d\<lparr>doc_dateOfIssue := v\<rparr>"
| "set_doc_field DOC_dateOfExpiry v d = d\<lparr>doc_dateOfExpiry := v\<rparr>"

subsection \<open>react-hook-form\<close>

text \<open>
  \<open>useForm({resolver, defaultValues: formData.personalInfo})\<close>, followed by the mount
  effect that copies \<open>formData.personalInfo\<close> into the values with \<open>setValue\<close>.
\<close>

definition rhf_mount :: "form_data \<Rightarrow> rhf_state" where
  "rhf_mount fd = \<lparr>rhf_values = personalInfo fd, rhf_errors = [], rhf_submitted = False\<rparr>"

text \<open>
  A keystroke in a registered input sets the value; once a submit has been attempted it
  also re-runs the resolver and replaces that field's error by the new one, if any.
\<close>

definition rhf_change :: "pi_input \<Rightarrow> string \<Rightarrow> rhf_state \<Rightarrow> rhf_state" where
  "rhf_change f v r =
     (let vals = set_pi_input f v (rhf_values r);
          k = pi_input_name f
      in if rhf_submitted r
         then r\<lparr>rhf_values := vals,
                rhf_errors := filter (\<lambda>e. fst e \<noteq> k) (rhf_errors r)
                              @ filter (\<lambda>e. fst e = k) (personalInfoSchema vals)\<rparr>
         else r\<lparr>rhf_values := vals\<rparr>)"

text \<open>\<open>setValue(name, value)\<close> without options: the value only, no validation.\<close>

definition rhf_set_gender :: "gender \<Rightarrow> rhf_state \<Rightarrow> rhf_state" where
  "rhf_set_gender g r = r\<lparr>rhf_values := (rhf_values r)\<lparr>pi_gender := g\<rparr>\<rparr>"

definition rhf_set_name_changed :: "string \<Rightarrow> rhf_state \<Rightarrow> rhf_state" where
  "rhf_set_name_changed v r = r\<lparr>rhf_values := (rhf_values r)\<lparr>pi_hasNameChanged := (v = ''yes'')\<rparr>\<rparr>"

subsection \<open>The component's handlers\<close>

definition passport_change :: "doc_field \<Rightarrow> string \<Rightarrow> form_data \<Rightarrow> form_data" where
  "passport_change f v fd =
     updateFormData (no_patch\<lparr>p_passport := Some (set_doc_field f v (passport fd))\<rparr>) fd"

definition national_id_change :: "doc_field \<Rightarrow> string \<Rightarrow> form_data \<Rightarrow> form_data" where
  "national_id_change f v fd =
     updateFormData (no_patch\<lparr>p_nationalId := Some (set_doc_field f v (nationalId fd))\<rparr>) fd"

text \<open>
  \<open>onSubmit(data)\<close>: store the values as \<open>personalInfo\<close> and push the next route.
\<close>

definition pi_onSubmit :: "personal_info \<Rightarrow> form_data \<Rightarrow> form_data \<times> string option" where
  "pi_onSubmit data fd =
     (updateFormData (no_patch\<lparr>p_personalInfo := Some data\<rparr>) fd, Some ''/personal-details'')"

text \<open>
  \<open>handleSubmit(onSubmit)\<close>: run the resolver on the values; with issues, record them
  and stop; without, clear the errors and call \<open>onSubmit\<close>. The effect on
  \<open>[formData.personalInfo]\<close> then copies the stored values back into the form, which
  leaves them as they are.
\<close>

definition pi_handleSubmit ::
  "rhf_state \<Rightarrow> form_data \<Rightarrow> rhf_state \<times> form_data \<times> string option" where
  "pi_handleSubmit r fd =
     (let errs = personalInfoSchema (rhf_values r)
      in if errs \<noteq> [] then (r\<lparr>rhf_errors := errs, rhf_submitted := True\<rparr>, fd, None)
         else (let (fd', route) = pi_onSubmit (rhf_values r) fd
               in (r\<lparr>rhf_errors := [], rhf_submitted := True, rhf_values := personalInfo fd'\<rparr>,
                   fd', route)))"

text \<open>The message shown under an input: \<open>errors.<name>.message\<close>.\<close>

definition pi_error_shown :: "rhf_state \<Rightarrow> pi_input \<Rightarrow> string option" where
  "pi_error_shown r f = map_of (rhf_errors r) (pi_input_name f)"

text \<open>The banner at the end of the form, rendered unconditionally.\<close>

definition pi_success_banner :: "rhf_state \<Rightarrow> string option" where
  "pi_success_banner r = Some ''Application data received successfully by server!''"

subsection \<open>Behaviour of the submit\<close>

lemma pi_handleSubmit_reject:
  "personalInfoSchema (rhf_values r) \<noteq> [] \<Longrightarrow>
   pi_handleSubmit r fd = (r\<lparr>rhf_errors := personalInfoSchema (rhf_values r), rhf_submitted := True\<rparr>, fd, None)"
  by (simp add: pi_handleSubmit_def)

lemma pi_handleSubmit_accept:
  "personalInfoSchema (rhf_values r) = [] \<Longrightarrow>
   pi_handleSubmit r fd =
     (r\<lparr>rhf_errors := [], rhf_submitted := True\<rparr>, fd\<lparr>personalInfo := rhf_values r\<rparr>, Some ''/personal-details'')"
  by (simp add: pi_handleSubmit_def pi_onSubmit_def updateFormData_def)

end
