(* ===== verification/NationalIdAnalysis.thy ===== *)
theory NationalIdAnalysis
  imports FormData
begin

text \<open>
  The analysis stub of \<open>src/app/components/NationalIDAnalysis.tsx\<close>. It takes
  \<open>updateNestedFormData\<close> from the context but never calls it; its local state is the
  selected file (modelled by its name, \<open>File | null\<close> as an option) and the error
  message, \<open>''\<close> when none is shown.
\<close>

record nid_state =
  selectedFile :: "string option"
  nid_error :: string

definition nid_mount :: nid_state where
  "nid_mount = \<lparr>selectedFile = None, nid_error = []\<rparr>"

definition nid_message :: string where
  "nid_message = ''Please select a National ID PDF file first.''"

text \<open>\<open>handleFileChange\<close>: a non-empty file list selects its first file and clears the error.\<close>

definition handleFileChange :: "string list \<Rightarrow> nid_state \<Rightarrow> nid_state" where
  "handleFileChange files s =
     (case files of [] \<Rightarrow> s | f # _ \<Rightarrow> s\<lparr>selectedFile := Some f, nid_error := []\<rparr>)"

text \<open>\<open>handleAnalyze\<close>: the early return without a file, and the demo branch with one.\<close>

definition handleAnalyze :: "nid_state \<Rightarrow> nid_state" where
  "handleAnalyze s =
     (case selectedFile s of
        None \<Rightarrow> s\<lparr>nid_error := nid_message\<rparr>
      | Some _ \<Rightarrow> s\<lparr>nid_error := nid_message\<rparr>)"

text \<open>The error paragraph is rendered when \<open>error\<close> is truthy, that is non-empty.\<close>

definition nid_error_shown :: "nid_state \<Rightarrow> string option" where
  "nid_error_shown s = (if nid_error s = [] then None else Some (nid_error s))"

end
