(* ===== verification/HomePage.thy ===== *)
theory HomePage
  imports PersonalInfo NationalIdAnalysis
begin

text \<open>
  The home route, \<open>src/app/page.tsx\<close>: one \<open>FormDataProvider\<close> around the
  national-id stub and the personal-information form (\<open>PassportAnalysis\<close> is imported
  but its source is not in the repository). The page state is the provider's record and
  the two components' local states; one step is one event on one of their controls.
\<close>

record home_state =
  home_formData :: form_data
  home_rhf :: rhf_state
  home_nid :: nid_state

datatype home_event =
    NidFileChange "string list"
  | NidAnalyze
  | PiType pi_input string
  | PiGender gender
  | PiNameChanged string
  | PassportChange doc_field string
  | NationalIdChange doc_field string
  | PiSubmit

definition home_mount :: "form_data \<Rightarrow> home_state" where
  "home_mount fd = \<lparr>home_formData = fd, home_rhf = rhf_mount fd, home_nid = nid_mount\<rparr>"

fun home_step :: "home_state \<Rightarrow> home_event \<Rightarrow> home_state outcome" where
  "home_step s (NidFileChange fs) = (s\<lparr>home_nid := handleFileChange fs (home_nid s)\<rparr>, None)"
| "home_step s NidAnalyze = (s\<lparr>home_nid := handleAnalyze (home_nid s)\<rparr>, None)"
| "home_step s (PiType f v) = (s\<lparr>home_rhf := rhf_change f v (home_rhf s)\<rparr>, None)"
| "home_step s (PiGender g) = (s\<lparr>home_rhf := rhf_set_gender g (home_rhf s)\<rparr>, None)"
| "home_step s (PiNameChanged v) = (s\<lparr>home_rhf := rhf_set_name_changed v (home_rhf s)\<rparr>, None)"
| "home_step s (PassportChange f v) = (s\<lparr>home_formData := passport_change f v (home_formData s)\<rparr>, None)"
| "home_step s (NationalIdChange f v) =
     (s\<lparr>home_formData := national_id_change f v (home_formData s)\<rparr>, None)"
| "home_step s PiSubmit =
     (let (r, fd, route) = pi_handleSubmit (home_rhf s) (home_formData s)
      in (s\<lparr>home_rhf := r, home_formData := fd\<rparr>, route))"

inductive home_reachable :: "home_state \<Rightarrow> bool" where
  mount: "home_reachable (home_mount initialFormData)"
| step: "home_reachable s \<Longrightarrow> home_reachable (fst (home_step s e))"

text \<open>A run of events, keeping the last state (the routes pushed are dropped).\<close>

fun home_run :: "home_state \<Rightarrow> home_event list \<Rightarrow> home_state" where
  "home_run s [] = s"
| "home_run s (e # es) = home_run (fst (home_step s e)) es"

primrec is_nid_event :: "home_event \<Rightarrow> bool" where
  "is_nid_event (NidFileChange fs) = True"
| "is_nid_event NidAnalyze = True"
| "is_nid_event (PiType f v) = False"
| "is_nid_event (PiGender g) = False"
| "is_nid_event (PiNameChanged v) = False"
| "is_nid_event (PassportChange f v) = False"
| "is_nid_event (NationalIdChange f v) = False"
| "is_nid_event PiSubmit = False"

subsection \<open>Helper lemmas\<close>

lemma home_submit_eq:
  "home_step s PiSubmit =
     (if personalInfoSchema (rhf_values (home_rhf s)) = []
      then (s\<lparr>home_rhf := (home_rhf s)\<lparr>rhf_errors := [], rhf_submitted := True\<rparr>,
              home_formData := (home_formData s)\<lparr>personalInfo := rhf_values (home_rhf s)\<rparr>\<rparr>,
            Some ''/personal-details'')
      else (s\<lparr>home_rhf := (home_rhf s)\<lparr>rhf_errors := personalInfoSchema (rhf_values (home_rhf s)),
                                          rhf_submitted := True\<rparr>\<rparr>, None))"
  by (simp add: pi_handleSubmit_accept pi_handleSubmit_reject)

lemma home_run_nid:
  "list_all is_nid_event es \<Longrightarrow>
   home_formData (home_run s es) = home_formData s
   \<and> home_rhf (home_run s es) = home_rhf s
   \<and> (es \<noteq> [] \<and> last es = NidAnalyze \<longrightarrow> nid_error (home_nid (home_run s es)) = nid_message)"
proof (induction es arbitrary: s)
  case Nil
  then show ?case by simp
next
  case (Cons e es)
  then have e: "is_nid_event e" and IH: "\<And>s. home_formData (home_run s es) = home_formData s
      \<and> home_rhf (home_run s es) = home_rhf s
      \<and> (es \<noteq> [] \<and> last es = NidAnalyze \<longrightarrow> nid_error (home_nid (home_run s es)) = nid_message)"
    by simp_all
  from e show ?case
    by (cases e) (auto simp: IH handleAnalyze_def split: option.split)
qed

subsection \<open>Properties of the home page\<close>

text \<open>
  C10. Submitting the personal-information form advances to \<open>/personal-details\<close>
  exactly when the values pass \<open>personalInfoSchema\<close>; then the values become the
  record's \<open>personalInfo\<close> and nothing else of the record changes; otherwise the record
  is untouched. In both cases the errors shown are the schema's issues.
\<close>

theorem submit_iff_schema_passes:
  "snd (home_step s PiSubmit) =
     (if personalInfoSchema (rhf_values (home_rhf s)) = [] then Some ''/personal-details'' else None)
   \<and> home_formData (fst (home_step s PiSubmit)) =
     (if personalInfoSchema (rhf_values (home_rhf s)) = []
      then (home_formData s)\<lparr>personalInfo := rhf_values (home_rhf s)\<rparr> else home_formData s)
   \<and> rhf_errors (home_rhf (fst (home_step s PiSubmit))) = personalInfoSchema (rhf_values (home_rhf s))"
  by (simp add: home_submit_eq del: home_step.simps)

text \<open>
  C11. With the other personal fields filled in, submitting the email
  \<open>not-an-email\<close> is refused with the message "Valid email required" under the email
  input and no navigation; typing \<open>a@b.com\<close> clears that message at once, and the next
  submit stores the corrected email and advances to \<open>/personal-details\<close>.
\<close>

theorem invalid_email_then_corrected:
  assumes "pi_email (rhf_values (home_rhf s)) = ''not-an-email''"
    and "5 \<le> length (pi_phone (rhf_values (home_rhf s)))"
    and "pi_firstName (rhf_values (home_rhf s)) \<noteq> []"
    and "pi_lastName (rhf_values (home_rhf s)) \<noteq> []"
    and "pi_placeOfBirth (rhf_values (home_rhf s)) \<noteq> []"
  shows "snd (home_step s PiSubmit) = None
         \<and> pi_error_shown (home_rhf (fst (home_step s PiSubmit))) PI_email = Some ''Valid email required''
         \<and> home_formData (fst (home_step s PiSubmit)) = home_formData s
         \<and> pi_error_shown (home_rhf (home_run s [PiSubmit, PiType PI_email ''a@b.com''])) PI_email = None
         \<and> snd (home_step (home_run s [PiSubmit, PiType PI_email ''a@b.com'']) PiSubmit)
             = Some ''/personal-details''
         \<and> pi_email (personalInfo (home_formData
             (home_run s [PiSubmit, PiType PI_email ''a@b.com'', PiSubmit]))) = ''a@b.com''"
proof -
  obtain p where p: "rhf_values (home_rhf s) = p" by simp
  have bad: "personalInfoSchema p = [(''email'', ''Valid email required'')]"
    using assms p zod_email_examples(2) by (simp add: personalInfoSchema_email_only)
  have good: "personalInfoSchema (p\<lparr>pi_email := ''a@b.com''\<rparr>) = []"
    using assms p zod_email_examples(1) by (simp add: personalInfoSchema_email_only)
  show ?thesis
    using p bad good
    by (simp del: home_step.simps
        add: home_step.simps(3) home_submit_eq rhf_change_def pi_error_shown_def)
qed

theorem invalid_email_then_corrected_witness:
  "let s = home_mount (initialFormData\<lparr>personalInfo := \<lparr>pi_email = ''not-an-email'', pi_phone = ''12345'',
             pi_firstName = ''Ann'', pi_lastName = ''Lee'', pi_gender = Female,
             pi_placeOfBirth = ''Oslo'', pi_hasNameChanged = False\<rparr>\<rparr>)
   in snd (home_step s PiSubmit) = None
      \<and> pi_error_shown (home_rhf (fst (home_step s PiSubmit))) PI_email = Some ''Valid email required''
      \<and> home_formData (fst (home_step s PiSubmit)) = home_formData s
      \<and> pi_error_shown (home_rhf (home_run s [PiSubmit, PiType PI_email ''a@b.com''])) PI_email = None
      \<and> snd (home_step (home_run s [PiSubmit, PiType PI_email ''a@b.com'']) PiSubmit)
          = Some ''/personal-details''
      \<and> pi_email (personalInfo (home_formData
          (home_run s [PiSubmit, PiType PI_email ''a@b.com'', PiSubmit]))) = ''a@b.com''"
  unfolding Let_def
  by (rule invalid_email_then_corrected) (simp_all add: home_mount_def rhf_mount_def)

text \<open>
  C12. The national-id analysis never succeeds: after any sequence of file selections and
  analysis clicks the application record and the personal-information form are
  unchanged, and when the last click was "Analyze" the fixed message
  "Please select a National ID PDF file first." is shown, whether a file was selected or
  not.
\<close>

theorem nid_analysis_always_fails:
  assumes "list_all is_nid_event es"
  shows "home_formData (home_run s es) = home_formData s
         \<and> home_rhf (home_run s es) = home_rhf s
         \<and> (es \<noteq> [] \<and> last es = NidAnalyze \<longrightarrow>
              nid_error_shown (home_nid (home_run s es)) = Some ''Please select a National ID PDF file first.'')"
  using home_run_nid [OF assms]
  by (auto simp: nid_error_shown_def nid_message_def)

theorem nid_analysis_always_fails_witness:
  "home_formData (home_run (home_mount initialFormData) [NidFileChange [''id.pdf''], NidAnalyze])
     = home_formData (home_mount initialFormData)
   \<and> home_rhf (home_run (home_mount initialFormData) [NidFileChange [''id.pdf''], NidAnalyze])
     = home_rhf (home_mount initialFormData)
   \<and> nid_error_shown (home_nid (home_run (home_mount initialFormData) [NidFileChange [''id.pdf''], NidAnalyze]))
     = Some ''Please select a National ID PDF file first.''"
  using nid_analysis_always_fails [of "[NidFileChange [''id.pdf''], NidAnalyze]" "home_mount initialFormData"]
  by simp

end
