(* ===== verification/PersonalDetails.thy ===== *)
theory PersonalDetails
  imports FormData JsBuiltins
begin

text \<open>
  The personal-details page, \<open>src/app/personal-details/page.tsx\<close>
  (\<open>PersonalDetailsContent\<close>): marital status, the spouse sub-form and the children list.
  Its local state is the flag \<open>showSpouseForm\<close> (initialised from the record and written
  by the marital-status handler, not by an effect) and a local copy of the children,
  which the three list handlers write together with the record. A field event carries
  the field and its value in one constructor (\<open>sp_update\<close>, \<open>ch_update\<close>), as the
  inputs call the handlers with a field name and \<open>e.target.value\<close> or the checkbox state.
  The invariant \<open>pd_inv\<close>: the flag agrees with the marital status, the local children
  equal the record's, and the children's identifiers are distinct and drawn from the
  uuid counter.
\<close>

subsection \<open>State and events\<close>

record pd_state =
  pd_formData :: form_data
  showSpouseForm :: bool
  pd_children :: "child list"
  pd_uuid :: nat

datatype sp_update =
    SP_firstName string | SP_lastName string | SP_dateOfBirth string
  | SP_nationality string | SP_travelingWithYou bool

datatype ch_update =
    CH_firstName string | CH_lastName string | CH_dateOfBirth string
  | CH_relationship string | CH_travelingWithYou bool

datatype pd_event =
    MaritalStatusChange marital_status
  | SpouseChange sp_update
  | AddChild
  | RemoveChild uuid
  | UpdateChild uuid ch_update
  | PdClickNext

subsection \<open>Handlers\<close>

definition handleMaritalStatusChange :: "marital_status \<Rightarrow> pd_state \<Rightarrow> pd_state" where
  "handleMaritalStatusChange v s =
     s\<lparr>pd_formData := updateFormData (no_patch\<lparr>p_maritalStatus := Some v\<rparr>) (pd_formData s),
       showSpouseForm := (v = MS_Married)\<rparr>"

definition blank_spouse :: spouse_info where
  "blank_spouse =
     \<lparr>sp_firstName = [], sp_lastName = [], sp_dateOfBirth = [], sp_nationality = [],
      sp_travelingWithYou = False\<rparr>"

text \<open>\<open>{...spouse, [field]: value}\<close> for the field and value of the event.\<close>

primrec set_spouse_field :: "sp_update \<Rightarrow> spouse_info \<Rightarrow> spouse_info" where
  "set_spouse_field (SP_firstName v) sp = sp\<lparr>sp_firstName := v\<rparr>"
| "set_spouse_field (SP_lastName v) sp = sp\<lparr>sp_lastName := v\<rparr>"
| "set_spouse_field (SP_dateOfBirth v) sp = sp\<lparr>sp_dateOfBirth := v\<rparr>"
| "set_spouse_field (SP_nationality v) sp = sp\<lparr>sp_nationality := v\<rparr>"
| "set_spouse_field (SP_travelingWithYou b) sp = sp\<lparr>sp_travelingWithYou := b\<rparr>"

text \<open>With no spouse yet, the handler writes a blank spouse carrying the one field.\<close>

definition handleSpouseChange :: "sp_update \<Rightarrow> pd_state \<Rightarrow> pd_state" where
  "handleSpouseChange u s =
     (case spouse (pd_formData s) of
        None \<Rightarrow> s\<lparr>pd_formData := updateFormData
                   (no_patch\<lparr>p_spouse := Some (Some (set_spouse_field u blank_spouse))\<rparr>) (pd_formData s)\<rparr>
      | Some sp \<Rightarrow> s\<lparr>pd_formData := updateFormData
                   (no_patch\<lparr>p_spouse := Some (Some (set_spouse_field u sp))\<rparr>) (pd_formData s)\<rparr>)"

definition blank_child :: "uuid \<Rightarrow> child" where
  "blank_child i =
     \<lparr>ch_id = i, ch_firstName = [], ch_lastName = [], ch_dateOfBirth = [], ch_relationship = [],
      ch_travelingWithYou = False\<rparr>"

definition set_children :: "child list \<Rightarrow> pd_state \<Rightarrow> pd_state" where
  "set_children xs s =
     s\<lparr>pd_children := xs,
       pd_formData := updateFormData (no_patch\<lparr>p_children := Some xs\<rparr>) (pd_formData s)\<rparr>"

definition addChild :: "pd_state \<Rightarrow> pd_state" where
  "addChild s =
     (let (i, n) = uuidv4 (pd_uuid s)
      in set_children (pd_children s @ [blank_child i]) (s\<lparr>pd_uuid := n\<rparr>))"

definition removeChild :: "uuid \<Rightarrow> pd_state \<Rightarrow> pd_state" where
  "removeChild i s = set_children (filter (\<lambda>c. ch_id c \<noteq> i) (pd_children s)) s"

primrec set_child_field :: "ch_update \<Rightarrow> child \<Rightarrow> child" where
  "set_child_field (CH_firstName v) c = c\<lparr>ch_firstName := v\<rparr>"
| "set_child_field (CH_lastName v) c = c\<lparr>ch_lastName := v\<rparr>"
| "set_child_field (CH_dateOfBirth v) c = c\<lparr>ch_dateOfBirth := v\<rparr>"
| "set_child_field (CH_relationship v) c = c\<lparr>ch_relationship := v\<rparr>"
| "set_child_field (CH_travelingWithYou b) c = c\<lparr>ch_travelingWithYou := b\<rparr>"

definition updateChild :: "uuid \<Rightarrow> ch_update \<Rightarrow> pd_state \<Rightarrow> pd_state" where
  "updateChild i u s =
     set_children (map (\<lambda>c. if ch_id c = i then set_child_field u c else c) (pd_children s)) s"

definition pd_handleNext :: "pd_state \<Rightarrow> pd_state outcome" where
  "pd_handleNext s = (s, Some ''/address-history'')"

subsection \<open>Mount and step\<close>

definition pd_mount :: "nat \<Rightarrow> form_data \<Rightarrow> pd_state" where
  "pd_mount n fd =
     \<lparr>pd_formData = fd, showSpouseForm = (maritalStatus fd = MS_Married),
      pd_children = children fd, pd_uuid = n\<rparr>"

text \<open>
  The spouse inputs exist only inside \<open>{showSpouseForm && ...}\<close>; the marital-status
  radio group, the Add Child button, the children's controls and Next are always
  rendered. The page has no effects.
\<close>

fun pd_step :: "pd_state \<Rightarrow> pd_event \<Rightarrow> pd_state outcome" where
  "pd_step s (MaritalStatusChange v) = (handleMaritalStatusChange v s, None)"
| "pd_step s (SpouseChange u) = (if showSpouseForm s then handleSpouseChange u s else s, None)"
| "pd_step s AddChild = (addChild s, None)"
| "pd_step s (RemoveChild i) = (removeChild i s, None)"
| "pd_step s (UpdateChild i u) = (updateChild i u s, None)"
| "pd_step s PdClickNext = pd_handleNext s"

inductive pd_reachable :: "pd_state \<Rightarrow> bool" where
  mount: "pd_reachable (pd_mount n initialFormData)"
| step: "pd_reachable s \<Longrightarrow> pd_reachable (fst (pd_step s e))"

definition pd_inv :: "pd_state \<Rightarrow> bool" where
  "pd_inv s \<longleftrightarrow>
     showSpouseForm s = (maritalStatus (pd_formData s) = MS_Married)
     \<and> pd_children s = children (pd_formData s)
     \<and> keyed_ok ch_id (pd_uuid s) (pd_children s)"

subsection \<open>Frame lemmas of the handlers\<close>

lemma handleMaritalStatusChange_sel [simp, handler_simps]:
  "showSpouseForm (handleMaritalStatusChange v s) = (v = MS_Married)"
  "maritalStatus (pd_formData (handleMaritalStatusChange v s)) = v"
  "spouse (pd_formData (handleMaritalStatusChange v s)) = spouse (pd_formData s)"
  "pd_children (handleMaritalStatusChange v s) = pd_children s"
  "children (pd_formData (handleMaritalStatusChange v s)) = children (pd_formData s)"
  "pd_uuid (handleMaritalStatusChange v s) = pd_uuid s"
  by (simp_all add: handleMaritalStatusChange_def)

lemma handleSpouseChange_sel [simp, handler_simps]:
  "showSpouseForm (handleSpouseChange u s) = showSpouseForm s"
  "maritalStatus (pd_formData (handleSpouseChange u s)) = maritalStatus (pd_formData s)"
  "spouse (pd_formData (handleSpouseChange u s))
     = Some (set_spouse_field u (case spouse (pd_formData s) of None \<Rightarrow> blank_spouse | Some sp \<Rightarrow> sp))"
  "pd_children (handleSpouseChange u s) = pd_children s"
  "children (pd_formData (handleSpouseChange u s)) = children (pd_formData s)"
  "pd_uuid (handleSpouseChange u s) = pd_uuid s"
  by (simp_all add: handleSpouseChange_def split: option.split)

lemma set_children_sel [simp, handler_simps]:
  "showSpouseForm (set_children xs s) = showSpouseForm s"
  "maritalStatus (pd_formData (set_children xs s)) = maritalStatus (pd_formData s)"
  "spouse (pd_formData (set_children xs s)) = spouse (pd_formData s)"
  "pd_children (set_children xs s) = xs"
  "children (pd_formData (set_children xs s)) = xs"
  "pd_uuid (set_children xs s) = pd_uuid s"
  by (simp_all add: set_children_def)

lemma addChild_sel [simp, handler_simps]:
  "pd_children (addChild s) = pd_children s @ [blank_child (Uuid (pd_uuid s))]"
  "pd_uuid (addChild s) = Suc (pd_uuid s)"
  "showSpouseForm (addChild s) = showSpouseForm s"
  "pd_formData (addChild s) =
     updateFormData (no_patch\<lparr>p_children := Some (pd_children s @ [blank_child (Uuid (pd_uuid s))])\<rparr>)
       (pd_formData s)"
  by (simp_all add: addChild_def uuidv4_def set_children_def)

lemma ch_id_blank_child [simp]: "ch_id (blank_child i) = i"
  by (simp add: blank_child_def)

lemma ch_id_set_child_field [simp]: "ch_id (set_child_field u c) = ch_id c"
  by (cases u) simp_all

subsection \<open>The invariant\<close>

lemma pd_inv_mount: "keyed_ok ch_id n (children fd) \<Longrightarrow> pd_inv (pd_mount n fd)"
  by (simp add: pd_inv_def pd_mount_def)

lemma pd_inv_set_children:
  "pd_inv s \<Longrightarrow> keyed_ok ch_id (pd_uuid s) xs \<Longrightarrow> pd_inv (set_children xs s)"
  by (simp add: pd_inv_def)

lemma pd_inv_add: "pd_inv s \<Longrightarrow> pd_inv (addChild s)"
  by (auto simp: pd_inv_def keyed_ok_snoc)

lemma pd_inv_remove: "pd_inv s \<Longrightarrow> pd_inv (removeChild i s)"
  unfolding removeChild_def
  by (intro pd_inv_set_children keyed_ok_filter) (auto simp: pd_inv_def)

lemma pd_inv_update: "pd_inv s \<Longrightarrow> pd_inv (updateChild i u s)"
  unfolding updateChild_def
  by (intro pd_inv_set_children keyed_ok_update_by_key) (auto simp: pd_inv_def)

lemma pd_inv_marital: "pd_inv s \<Longrightarrow> pd_inv (handleMaritalStatusChange v s)"
  by (auto simp: pd_inv_def)

lemma pd_inv_spouse: "pd_inv s \<Longrightarrow> pd_inv (handleSpouseChange u s)"
  by (auto simp: pd_inv_def)

lemma pd_inv_step: "pd_inv s \<Longrightarrow> pd_inv (fst (pd_step s e))"
  by (cases e) (simp_all add: pd_inv_add pd_inv_remove pd_inv_update pd_inv_marital
      pd_inv_spouse pd_handleNext_def)

lemma pd_reachable_inv: "pd_reachable s \<Longrightarrow> pd_inv s"
proof (induction rule: pd_reachable.induct)
  case (mount n)
  show ?case by (rule pd_inv_mount) (simp add: initialFormData_def)
next
  case (step s e)
  from step.IH show ?case by (rule pd_inv_step)
qed

lemma pd_children_ids_below:
  "pd_inv s \<Longrightarrow> Uuid (pd_uuid s) \<notin> set (map ch_id (children (pd_formData s)))"
  by (intro keyed_ok_fresh) (auto simp: pd_inv_def)

lemma removeChild_sel [simp, handler_simps]:
  "children (pd_formData (removeChild i s)) = filter (\<lambda>c. ch_id c \<noteq> i) (pd_children s)"
  by (simp add: removeChild_def)

lemma pd_two_adds:
  "children (pd_formData (fst (pd_step (fst (pd_step s AddChild)) AddChild)))
     = pd_children s @ [blank_child (Uuid (pd_uuid s)), blank_child (Uuid (Suc (pd_uuid s)))]"
  "pd_children (fst (pd_step (fst (pd_step s AddChild)) AddChild))
     = pd_children s @ [blank_child (Uuid (pd_uuid s)), blank_child (Uuid (Suc (pd_uuid s)))]"
  by simp_all

subsection \<open>Properties of the page\<close>

text \<open>
  C7. In every reachable state of the personal-details page the spouse sub-form is shown
  exactly when the marital status is Married.
\<close>

theorem spouse_form_visible_iff:
  assumes "pd_reachable s"
  shows "showSpouseForm s \<longleftrightarrow> maritalStatus (pd_formData s) = MS_Married"
  using pd_reachable_inv [OF assms] by (simp add: pd_inv_def)

theorem spouse_form_visible_iff_witness:
  "showSpouseForm (fst (pd_step (pd_mount 0 initialFormData) (MaritalStatusChange MS_Married)))
   \<longleftrightarrow> maritalStatus (pd_formData (fst (pd_step (pd_mount 0 initialFormData) (MaritalStatusChange MS_Married))))
         = MS_Married"
  by (rule spouse_form_visible_iff [OF pd_reachable.step [OF pd_reachable.mount [of 0]]])

text \<open>
  C8. Choosing Married, editing a spouse field and then choosing Single hides the spouse
  sub-form but leaves the spouse record that was entered untouched in the application
  record.
\<close>

theorem married_then_single_keeps_spouse:
  "let t1 = fst (pd_step s (MaritalStatusChange MS_Married));
       t2 = fst (pd_step t1 (SpouseChange u));
       t3 = fst (pd_step t2 (MaritalStatusChange MS_Single))
   in showSpouseForm t2 \<and> \<not> showSpouseForm t3
      \<and> spouse (pd_formData t2) \<noteq> None
      \<and> spouse (pd_formData t3) = spouse (pd_formData t2)"
  by (simp add: Let_def)

text \<open>
  C9. Adding two children appends two entries with distinct identifiers; removing the
  first of them leaves the earlier children and exactly the second entry, with its
  identifier unchanged.
\<close>

theorem add_two_children_remove_first:
  assumes "pd_reachable s"
  shows "\<exists>c1 c2.
           children (pd_formData (fst (pd_step (fst (pd_step s AddChild)) AddChild)))
             = children (pd_formData s) @ [c1, c2]
           \<and> ch_id c1 \<noteq> ch_id c2
           \<and> children (pd_formData (fst (pd_step (fst (pd_step (fst (pd_step s AddChild)) AddChild))
                                              (RemoveChild (ch_id c1)))))
               = children (pd_formData s) @ [c2]"
proof -
  let ?t = "fst (pd_step (fst (pd_step s AddChild)) AddChild)"
  let ?c1 = "blank_child (Uuid (pd_uuid s))" and ?c2 = "blank_child (Uuid (Suc (pd_uuid s)))"
  from assms have i: "pd_inv s" by (rule pd_reachable_inv)
  then have eq: "pd_children s = children (pd_formData s)" by (simp add: pd_inv_def)
  from i have "Uuid (pd_uuid s) \<notin> set (map ch_id (children (pd_formData s)))"
    by (rule pd_children_ids_below)
  then have keep: "filter (\<lambda>c. ch_id c \<noteq> Uuid (pd_uuid s)) (children (pd_formData s))
                     = children (pd_formData s)"
    by (rule filter_key_absent)
  have "children (pd_formData ?t) = children (pd_formData s) @ [?c1, ?c2]"
    using eq by (simp only: pd_two_adds)
  moreover have "children (pd_formData (fst (pd_step ?t (RemoveChild (ch_id ?c1)))))
                   = filter (\<lambda>c. ch_id c \<noteq> Uuid (pd_uuid s)) (pd_children s @ [?c1, ?c2])"
    by simp
  moreover have "\<dots> = children (pd_formData s) @ [?c2]"
    using keep eq by simp
  ultimately show ?thesis by fastforce
qed

theorem add_two_children_remove_first_witness:
  "\<exists>c1 c2.
     children (pd_formData (fst (pd_step (fst (pd_step (pd_mount 0 initialFormData) AddChild)) AddChild)))
       = children (pd_formData (pd_mount 0 initialFormData)) @ [c1, c2]
     \<and> ch_id c1 \<noteq> ch_id c2
     \<and> children (pd_formData (fst (pd_step (fst (pd_step (fst (pd_step (pd_mount 0 initialFormData) AddChild)) AddChild))
                                        (RemoveChild (ch_id c1)))))
         = children (pd_formData (pd_mount 0 initialFormData)) @ [c2]"
  by (rule add_two_children_remove_first [OF pd_reachable.mount])

end
