(* ===== verification/AddressHistory.thy ===== *)
theory AddressHistory
  imports FormData JsBuiltins
begin

text \<open>
  The address-history page, \<open>src/app/address-history/page.tsx\<close>
  (\<open>AddressHistoryContent\<close>). Its state is the provider's record plus two pieces of local
  React state: the flag \<open>showPreviousAddresses\<close>, written only by an effect that depends on
  the years and months at the current address, and a local copy of the previous
  addresses, which every list handler writes together with the record. The uuid counter
  stands for the \<open>uuidv4\<close> generator. One step is one user event on a rendered control,
  followed by the effects whose dependencies changed, as React runs them after the
  re-render. The invariant \<open>ah_inv\<close> says that the flag agrees with the record, that the
  local list agrees with the record, and that the list is duplicate-free with identifiers
  drawn from the counter.
\<close>

subsection \<open>State and events\<close>

record ah_state =
  ah_formData :: form_data
  showPreviousAddresses :: bool
  ah_previousAddresses :: "previous_address list"
  ah_uuid :: nat

text \<open>The fields that \<open>handleCurrentAddressChange\<close> and \<open>updatePreviousAddress\<close> are called with.\<close>

datatype ca_field =
  CA_street | CA_city | CA_state | CA_postalCode | CA_country
  | CA_yearsAtAddress | CA_monthsAtAddress

datatype pa_field =
  PA_street | PA_city | PA_state | PA_postalCode | PA_country
  | PA_fromDate | PA_toDate | PA_reasonForLeaving

datatype ah_event =
    CurrentAddressChange ca_field string
  | AddPreviousAddress
  | RemovePreviousAddress uuid
  | UpdatePreviousAddress uuid pa_field string
  | ClickNext

subsection \<open>Handlers\<close>

definition calculateTotalMonths :: "form_data \<Rightarrow> int" where
  "calculateTotalMonths fd =
     yearsAtAddress (currentAddress fd) * 12 + monthsAtAddress (currentAddress fd)"

text \<open>The body of the effect: \<open>setShowPreviousAddresses(totalMonths < 12)\<close>.\<close>

definition visibility_effect :: "ah_state \<Rightarrow> ah_state" where
  "visibility_effect s =
     s\<lparr>showPreviousAddresses := calculateTotalMonths (ah_formData s) < 12\<rparr>"

text \<open>
  After an event, React runs the effect when one of its dependencies
  \<open>[yearsAtAddress, monthsAtAddress]\<close> differs from the previous render.
\<close>

definition ah_run_effects :: "ah_state \<Rightarrow> ah_state \<Rightarrow> ah_state" where
  "ah_run_effects old new =
     (if yearsAtAddress (currentAddress (ah_formData new)) \<noteq> yearsAtAddress (currentAddress (ah_formData old))
         \<or> monthsAtAddress (currentAddress (ah_formData new)) \<noteq> monthsAtAddress (currentAddress (ah_formData old))
      then visibility_effect new else new)"

text \<open>\<open>parseInt(value) || 0\<close>: \<open>NaN\<close> and \<open>0\<close> are falsy, so both give 0.\<close>

definition int_or_zero :: "int option \<Rightarrow> int" where
  "int_or_zero r = (case r of None \<Rightarrow> 0 | Some n \<Rightarrow> n)"

definition set_current_field :: "ca_field \<Rightarrow> string \<Rightarrow> current_address \<Rightarrow> current_address" where
  "set_current_field f v ca =
     (case f of
        CA_street \<Rightarrow> ca\<lparr>ca_street := v\<rparr>
      | CA_city \<Rightarrow> ca\<lparr>ca_city := v\<rparr>
      | CA_state \<Rightarrow> ca\<lparr>ca_state := v\<rparr>
      | CA_postalCode \<Rightarrow> ca\<lparr>ca_postalCode := v\<rparr>
      | CA_country \<Rightarrow> ca\<lparr>ca_country := v\<rparr>
      | CA_yearsAtAddress \<Rightarrow> ca\<lparr>yearsAtAddress := int_or_zero (js_parseInt v)\<rparr>
      | CA_monthsAtAddress \<Rightarrow> ca\<lparr>monthsAtAddress := int_or_zero (js_parseInt v)\<rparr>)"

definition handleCurrentAddressChange :: "ca_field \<Rightarrow> string \<Rightarrow> ah_state \<Rightarrow> ah_state" where
  "handleCurrentAddressChange f v s =
     s\<lparr>ah_formData := updateFormData
        (no_patch\<lparr>p_currentAddress := Some (set_current_field f v (currentAddress (ah_formData s)))\<rparr>)
        (ah_formData s)\<rparr>"

definition blank_previous_address :: "uuid \<Rightarrow> previous_address" where
  "blank_previous_address i =
     \<lparr>pa_id = i, pa_street = [], pa_city = [], pa_state = [], pa_postalCode = [],
      pa_country = [], pa_fromDate = [], pa_toDate = [], pa_reasonForLeaving = []\<rparr>"

text \<open>The three list handlers write the local list and the record with the same value.\<close>

definition set_previous_addresses :: "previous_address list \<Rightarrow> ah_state \<Rightarrow> ah_state" where
  "set_previous_addresses xs s =
     s\<lparr>ah_previousAddresses := xs,
       ah_formData := updateFormData (no_patch\<lparr>p_previousAddresses := Some xs\<rparr>) (ah_formData s)\<rparr>"

definition addPreviousAddress :: "ah_state \<Rightarrow> ah_state" where
  "addPreviousAddress s =
     (let (i, n) = uuidv4 (ah_uuid s)
      in set_previous_addresses (ah_previousAddresses s @ [blank_previous_address i])
           (s\<lparr>ah_uuid := n\<rparr>))"

definition removePreviousAddress :: "uuid \<Rightarrow> ah_state \<Rightarrow> ah_state" where
  "removePreviousAddress i s =
     set_previous_addresses (filter (\<lambda>a. pa_id a \<noteq> i) (ah_previousAddresses s)) s"

definition set_previous_field :: "pa_field \<Rightarrow> string \<Rightarrow> previous_address \<Rightarrow> previous_address" where
  "set_previous_field f v a =
     (case f of
        PA_street \<Rightarrow> a\<lparr>pa_street := v\<rparr>
      | PA_city \<Rightarrow> a\<lparr>pa_city := v\<rparr>
      | PA_state \<Rightarrow> a\<lparr>pa_state := v\<rparr>
      | PA_postalCode \<Rightarrow> a\<lparr>pa_postalCode := v\<rparr>
      | PA_country \<Rightarrow> a\<lparr>pa_country := v\<rparr>
      | PA_fromDate \<Rightarrow> a\<lparr>pa_fromDate := v\<rparr>
      | PA_toDate \<Rightarrow> a\<lparr>pa_toDate := v\<rparr>
      | PA_reasonForLeaving \<Rightarrow> a\<lparr>pa_reasonForLeaving := v\<rparr>)"

definition updatePreviousAddress :: "uuid \<Rightarrow> pa_field \<Rightarrow> string \<Rightarrow> ah_state \<Rightarrow> ah_state" where
  "updatePreviousAddress i f v s =
     set_previous_addresses
       (map (\<lambda>a. if pa_id a = i then set_previous_field f v a else a) (ah_previousAddresses s)) s"

definition handleNext :: "ah_state \<Rightarrow> ah_state outcome" where
  "handleNext s = (s, Some ''/financial-details'')"

text \<open>The Next button's \<open>disabled\<close> attribute; a disabled button fires no click.\<close>

definition next_disabled :: "ah_state \<Rightarrow> bool" where
  "next_disabled s \<longleftrightarrow> showPreviousAddresses s \<and> ah_previousAddresses s = []"

subsection \<open>Mount and step\<close>

text \<open>
  On mount the flag is \<open>false\<close> and the local list is the record's; the effect runs once
  after the first render.
\<close>

definition ah_mount :: "nat \<Rightarrow> form_data \<Rightarrow> ah_state" where
  "ah_mount n fd =
     visibility_effect
       \<lparr>ah_formData = fd, showPreviousAddresses = False,
        ah_previousAddresses = previousAddresses fd, ah_uuid = n\<rparr>"

text \<open>
  The "Add Previous Address" button, the Remove buttons and the inputs of the entries are
  rendered only inside \<open>{showPreviousAddresses && ...}\<close>; an event on a control that is
  not rendered cannot happen and leaves the state alone.
\<close>

fun ah_step :: "ah_state \<Rightarrow> ah_event \<Rightarrow> ah_state outcome" where
  "ah_step s (CurrentAddressChange f v) =
     (ah_run_effects s (handleCurrentAddressChange f v s), None)"
| "ah_step s AddPreviousAddress =
     (if showPreviousAddresses s then (ah_run_effects s (addPreviousAddress s), None) else (s, None))"
| "ah_step s (RemovePreviousAddress i) =
     (if showPreviousAddresses s then (ah_run_effects s (removePreviousAddress i s), None) else (s, None))"
| "ah_step s (UpdatePreviousAddress i f v) =
     (if showPreviousAddresses s then (ah_run_effects s (updatePreviousAddress i f v s), None)
      else (s, None))"
| "ah_step s ClickNext = (if next_disabled s then (s, None) else handleNext s)"

inductive ah_reachable :: "ah_state \<Rightarrow> bool" where
  mount: "ah_reachable (ah_mount n initialFormData)"
| step: "ah_reachable s \<Longrightarrow> ah_reachable (fst (ah_step s e))"

definition ah_inv :: "ah_state \<Rightarrow> bool" where
  "ah_inv s \<longleftrightarrow>
     showPreviousAddresses s = (calculateTotalMonths (ah_formData s) < 12)
     \<and> ah_previousAddresses s = previousAddresses (ah_formData s)
     \<and> keyed_ok pa_id (ah_uuid s) (ah_previousAddresses s)"

text \<open>
  What each current-address input displays, its \<open>value\<close> attribute: a text field its
  string, the two \<open>type="number"\<close> fields \<open>String(n)\<close> of their number.
\<close>

definition ca_input_value :: "ca_field \<Rightarrow> current_address \<Rightarrow> string" where
  "ca_input_value f ca =
     (case f of
        CA_street \<Rightarrow> ca_street ca
      | CA_city \<Rightarrow> ca_city ca
      | CA_state \<Rightarrow> ca_state ca
      | CA_postalCode \<Rightarrow> ca_postalCode ca
      | CA_country \<Rightarrow> ca_country ca
      | CA_yearsAtAddress \<Rightarrow> js_int_str (yearsAtAddress ca)
      | CA_monthsAtAddress \<Rightarrow> js_int_str (monthsAtAddress ca))"

subsection \<open>Frame lemmas of the handlers\<close>

lemma ah_run_effects_sel [simp]:
  "ah_formData (ah_run_effects old new) = ah_formData new"
  "ah_previousAddresses (ah_run_effects old new) = ah_previousAddresses new"
  "ah_uuid (ah_run_effects old new) = ah_uuid new"
  by (simp_all add: ah_run_effects_def visibility_effect_def)

lemma handleCurrentAddressChange_sel [simp, handler_simps]:
  "showPreviousAddresses (handleCurrentAddressChange f v s) = showPreviousAddresses s"
  "ah_previousAddresses (handleCurrentAddressChange f v s) = ah_previousAddresses s"
  "ah_uuid (handleCurrentAddressChange f v s) = ah_uuid s"
  "previousAddresses (ah_formData (handleCurrentAddressChange f v s)) = previousAddresses (ah_formData s)"
  "currentAddress (ah_formData (handleCurrentAddressChange f v s))
     = set_current_field f v (currentAddress (ah_formData s))"
  by (simp_all add: handleCurrentAddressChange_def)

lemma set_previous_addresses_sel [simp, handler_simps]:
  "showPreviousAddresses (set_previous_addresses xs s) = showPreviousAddresses s"
  "ah_previousAddresses (set_previous_addresses xs s) = xs"
  "ah_uuid (set_previous_addresses xs s) = ah_uuid s"
  "previousAddresses (ah_formData (set_previous_addresses xs s)) = xs"
  "currentAddress (ah_formData (set_previous_addresses xs s)) = currentAddress (ah_formData s)"
  by (simp_all add: set_previous_addresses_def)

lemma calculateTotalMonths_set_previous_addresses [simp]:
  "calculateTotalMonths (ah_formData (set_previous_addresses xs s)) = calculateTotalMonths (ah_formData s)"
  by (simp add: calculateTotalMonths_def)

lemma addPreviousAddress_sel [simp, handler_simps]:
  "showPreviousAddresses (addPreviousAddress s) = showPreviousAddresses s"
  "ah_previousAddresses (addPreviousAddress s)
     = ah_previousAddresses s @ [blank_previous_address (Uuid (ah_uuid s))]"
  "ah_uuid (addPreviousAddress s) = Suc (ah_uuid s)"
  "ah_formData (addPreviousAddress s)
     = updateFormData (no_patch\<lparr>p_previousAddresses :=
         Some (ah_previousAddresses s @ [blank_previous_address (Uuid (ah_uuid s))])\<rparr>) (ah_formData s)"
  by (simp_all add: addPreviousAddress_def uuidv4_def set_previous_addresses_def)

lemma pa_id_set_previous_field [simp]: "pa_id (set_previous_field f v a) = pa_id a"
  by (cases f) (simp_all add: set_previous_field_def)

lemma pa_id_blank [simp]: "pa_id (blank_previous_address i) = i"
  by (simp add: blank_previous_address_def)

text \<open>
  The flag after the effects agrees with the new record whenever it agreed with the old
  one and the handler left it alone: either a dependency changed and the effect recomputes
  it, or neither changed and the total is the same.
\<close>

lemma ah_run_effects_show:
  assumes "showPreviousAddresses old = (calculateTotalMonths (ah_formData old) < 12)"
    and "showPreviousAddresses new = showPreviousAddresses old"
  shows "showPreviousAddresses (ah_run_effects old new) = (calculateTotalMonths (ah_formData new) < 12)"
  using assms by (auto simp: ah_run_effects_def visibility_effect_def calculateTotalMonths_def)

subsection \<open>The invariant\<close>

lemma ah_inv_mount: "keyed_ok pa_id n (previousAddresses fd) \<Longrightarrow> ah_inv (ah_mount n fd)"
  by (simp add: ah_inv_def ah_mount_def visibility_effect_def)

lemma ah_inv_list_step:
  assumes "ah_inv s"
    and "showPreviousAddresses t = showPreviousAddresses s"
    and "calculateTotalMonths (ah_formData t) = calculateTotalMonths (ah_formData s)"
    and "ah_previousAddresses t = previousAddresses (ah_formData t)"
    and "keyed_ok pa_id (ah_uuid t) (ah_previousAddresses t)"
  shows "ah_inv (ah_run_effects s t)"
proof -
  have "showPreviousAddresses (ah_run_effects s t) = (calculateTotalMonths (ah_formData t) < 12)"
    using assms(1,2) by (intro ah_run_effects_show) (simp_all add: ah_inv_def)
  with assms(4,5) show ?thesis by (simp add: ah_inv_def)
qed

lemma ah_inv_current_change: "ah_inv s \<Longrightarrow> ah_inv (ah_run_effects s (handleCurrentAddressChange f v s))"
  unfolding ah_inv_def
  using ah_run_effects_show [of s "handleCurrentAddressChange f v s"] by auto

lemma ah_inv_add: "ah_inv s \<Longrightarrow> ah_inv (ah_run_effects s (addPreviousAddress s))"
  by (rule ah_inv_list_step) (auto simp: ah_inv_def calculateTotalMonths_def keyed_ok_snoc)

lemma ah_inv_remove: "ah_inv s \<Longrightarrow> ah_inv (ah_run_effects s (removePreviousAddress i s))"
  by (rule ah_inv_list_step) (auto simp: ah_inv_def removePreviousAddress_def keyed_ok_filter)

lemma ah_inv_update: "ah_inv s \<Longrightarrow> ah_inv (ah_run_effects s (updatePreviousAddress i f v s))"
  by (rule ah_inv_list_step)
    (auto simp: ah_inv_def updatePreviousAddress_def intro: keyed_ok_update_by_key)

lemma ah_inv_step: "ah_inv s \<Longrightarrow> ah_inv (fst (ah_step s e))"
  by (cases e)
    (simp_all add: ah_inv_current_change ah_inv_add ah_inv_remove ah_inv_update handleNext_def)

lemma ah_reachable_inv: "ah_reachable s \<Longrightarrow> ah_inv s"
proof (induction rule: ah_reachable.induct)
  case (mount n)
  show ?case by (rule ah_inv_mount) (simp add: initialFormData_def)
next
  case (step s e)
  from step.IH show ?case by (rule ah_inv_step)
qed

lemma ah_click_next:
  "ah_inv s \<Longrightarrow> snd (ah_step s ClickNext) =
     (if calculateTotalMonths (ah_formData s) < 12 \<and> previousAddresses (ah_formData s) = []
      then None else Some ''/financial-details'')"
  by (auto simp: ah_inv_def next_disabled_def handleNext_def)

lemma ah_add_nonempty:
  "ah_inv s \<Longrightarrow> calculateTotalMonths (ah_formData s) < 12 \<Longrightarrow>
   previousAddresses (ah_formData (fst (ah_step s AddPreviousAddress))) \<noteq> []"
  by (simp add: ah_inv_def)

lemma ah_current_change_years:
  "ah_inv s \<Longrightarrow> t = fst (ah_step s (CurrentAddressChange CA_yearsAtAddress v)) \<Longrightarrow>
   yearsAtAddress (currentAddress (ah_formData t)) = int_or_zero (js_parseInt v)
   \<and> monthsAtAddress (currentAddress (ah_formData t)) = monthsAtAddress (currentAddress (ah_formData s))
   \<and> previousAddresses (ah_formData t) = previousAddresses (ah_formData s)
   \<and> ah_inv t"
  by (simp add: ah_inv_current_change set_current_field_def)

subsection \<open>Properties of the page\<close>

text \<open>
  C1. In every state the page can reach, the previous-addresses section is shown exactly
  when the time at the current address, \<open>years * 12 + months\<close>, is under twelve months.
\<close>

theorem previous_section_visible_iff:
  assumes "ah_reachable s"
  shows "showPreviousAddresses s \<longleftrightarrow>
           yearsAtAddress (currentAddress (ah_formData s)) * 12
             + monthsAtAddress (currentAddress (ah_formData s)) < 12"
proof -
  from assms have "ah_inv s" by (rule ah_reachable_inv)
  then show ?thesis by (simp add: ah_inv_def calculateTotalMonths_def)
qed

theorem previous_section_visible_iff_witness:
  "ah_reachable (ah_mount 0 initialFormData) \<and>
   (showPreviousAddresses (ah_mount 0 initialFormData) \<longleftrightarrow>
      yearsAtAddress (currentAddress (ah_formData (ah_mount 0 initialFormData))) * 12
        + monthsAtAddress (currentAddress (ah_formData (ah_mount 0 initialFormData))) < 12)"
  using previous_section_visible_iff [OF ah_reachable.mount [of 0]] ah_reachable.mount [of 0]
  by simp

text \<open>
  C2. In every reachable state, clicking Next pushes \<open>/financial-details\<close> unless the
  section is required (under twelve months) and no previous address has been entered; in
  that case the click does nothing.
\<close>

theorem next_click_iff:
  assumes "ah_reachable s"
  shows "snd (ah_step s ClickNext) =
           (if calculateTotalMonths (ah_formData s) < 12 \<and> previousAddresses (ah_formData s) = []
            then None else Some ''/financial-details'')"
  using assms by (intro ah_click_next ah_reachable_inv)

theorem next_click_iff_witness:
  "ah_reachable (ah_mount 0 initialFormData) \<and>
   snd (ah_step (ah_mount 0 initialFormData) ClickNext) = None"
proof -
  have r: "ah_reachable (ah_mount 0 initialFormData)" by (rule ah_reachable.mount)
  have "snd (ah_step (ah_mount 0 initialFormData) ClickNext) =
          (if calculateTotalMonths (ah_formData (ah_mount 0 initialFormData)) < 12
              \<and> previousAddresses (ah_formData (ah_mount 0 initialFormData)) = []
           then None else Some ''/financial-details'')"
    using r by (rule next_click_iff)
  with r show ?thesis
    by (simp add: ah_mount_def visibility_effect_def calculateTotalMonths_def initialFormData_def)
qed

text \<open>
  C3. Submitting the step while the section is required and empty is refused; adding
  exactly one (still blank) previous address makes the next click advance.
\<close>

theorem add_one_address_unblocks:
  assumes "ah_reachable s"
    and "calculateTotalMonths (ah_formData s) < 12"
    and "previousAddresses (ah_formData s) = []"
  shows "snd (ah_step s ClickNext) = None
         \<and> snd (ah_step (fst (ah_step s AddPreviousAddress)) ClickNext) = Some ''/financial-details''"
proof -
  from assms(1) have i: "ah_inv s" by (rule ah_reachable_inv)
  then have i': "ah_inv (fst (ah_step s AddPreviousAddress))" by (rule ah_inv_step)
  from i assms(2) have "previousAddresses (ah_formData (fst (ah_step s AddPreviousAddress))) \<noteq> []"
    by (rule ah_add_nonempty)
  with i i' assms(2,3) show ?thesis by (simp add: ah_click_next del: ah_step.simps)
qed

theorem add_one_address_unblocks_witness:
  "snd (ah_step (ah_mount 0 initialFormData) ClickNext) = None
   \<and> snd (ah_step (fst (ah_step (ah_mount 0 initialFormData) AddPreviousAddress)) ClickNext)
       = Some ''/financial-details''"
  by (rule add_one_address_unblocks [OF ah_reachable.mount])
    (simp_all add: ah_mount_def visibility_effect_def calculateTotalMonths_def initialFormData_def)

text \<open>
  C4. In every reachable state the previous addresses have pairwise distinct identifiers,
  all drawn before the current value of the identifier counter, so that an identifier
  drawn later never equals one in use or one that was removed.
\<close>

theorem previous_address_ids_unique:
  assumes "ah_reachable s"
  shows "distinct (map pa_id (previousAddresses (ah_formData s)))
         \<and> (\<forall>a\<in>set (previousAddresses (ah_formData s)). uuid_index (pa_id a) < ah_uuid s)"
proof -
  from assms have "ah_inv s" by (rule ah_reachable_inv)
  then show ?thesis by (auto simp: ah_inv_def keyed_ok_def list_all_iff)
qed

theorem previous_address_ids_unique_witness:
  "distinct (map pa_id (previousAddresses (ah_formData (fst (ah_step (ah_mount 0 initialFormData) AddPreviousAddress)))))
   \<and> list_all (\<lambda>a. uuid_index (pa_id a) < ah_uuid (fst (ah_step (ah_mount 0 initialFormData) AddPreviousAddress)))
       (previousAddresses (ah_formData (fst (ah_step (ah_mount 0 initialFormData) AddPreviousAddress))))"
  unfolding list_all_iff
  by (rule previous_address_ids_unique [OF ah_reachable.step [OF ah_reachable.mount [of 0], of AddPreviousAddress]])

text \<open>
  C5. Text in the years field that \<open>parseInt\<close> cannot read is stored as 0 years, and
  with fewer than twelve months the previous-addresses section then appears.
\<close>

theorem unparsable_years_show_section:
  assumes "ah_reachable s"
    and "js_parseInt v = None"
    and "0 \<le> monthsAtAddress (currentAddress (ah_formData s))"
    and "monthsAtAddress (currentAddress (ah_formData s)) < 12"
  shows "yearsAtAddress (currentAddress (ah_formData (fst (ah_step s (CurrentAddressChange CA_yearsAtAddress v))))) = 0
         \<and> showPreviousAddresses (fst (ah_step s (CurrentAddressChange CA_yearsAtAddress v)))"
proof -
  let ?t = "fst (ah_step s (CurrentAddressChange CA_yearsAtAddress v))"
  from assms(1) have "ah_inv s" by (rule ah_reachable_inv)
  then have "yearsAtAddress (currentAddress (ah_formData ?t)) = int_or_zero (js_parseInt v)"
    and "monthsAtAddress (currentAddress (ah_formData ?t)) = monthsAtAddress (currentAddress (ah_formData s))"
    and "ah_inv ?t"
    using ah_current_change_years by blast+
  with assms(2,4) show ?thesis
    by (simp add: ah_inv_def int_or_zero_def calculateTotalMonths_def)
qed

theorem unparsable_years_show_section_witness:
  "yearsAtAddress (currentAddress (ah_formData (fst (ah_step (ah_mount 0 initialFormData) (CurrentAddressChange CA_yearsAtAddress ''abc''))))) = 0
   \<and> showPreviousAddresses (fst (ah_step (ah_mount 0 initialFormData) (CurrentAddressChange CA_yearsAtAddress ''abc'')))"
  by (rule unparsable_years_show_section [OF ah_reachable.mount])
    (simp_all add: ah_mount_def visibility_effect_def initialFormData_def js_parseInt_def
      js_space_def digit_value_def)

text \<open>
  C6. When the applicant corrects the years to one or more (with a non-negative month
  count), the section is hidden and Next is enabled, but the previous addresses already
  entered stay in the record: the page never purges them.
\<close>

theorem longer_stay_keeps_entries:
  assumes "ah_reachable s"
    and "js_parseInt v = Some y" and "1 \<le> y"
    and "0 \<le> monthsAtAddress (currentAddress (ah_formData s))"
  shows "\<not> showPreviousAddresses (fst (ah_step s (CurrentAddressChange CA_yearsAtAddress v)))
         \<and> \<not> next_disabled (fst (ah_step s (CurrentAddressChange CA_yearsAtAddress v)))
         \<and> previousAddresses (ah_formData (fst (ah_step s (CurrentAddressChange CA_yearsAtAddress v))))
             = previousAddresses (ah_formData s)"
proof -
  let ?t = "fst (ah_step s (CurrentAddressChange CA_yearsAtAddress v))"
  from assms(1) have "ah_inv s" by (rule ah_reachable_inv)
  then have "yearsAtAddress (currentAddress (ah_formData ?t)) = int_or_zero (js_parseInt v)"
    and "monthsAtAddress (currentAddress (ah_formData ?t)) = monthsAtAddress (currentAddress (ah_formData s))"
    and "previousAddresses (ah_formData ?t) = previousAddresses (ah_formData s)"
    and "ah_inv ?t"
    using ah_current_change_years by blast+
  with assms(2-4) show ?thesis
    by (simp add: ah_inv_def int_or_zero_def calculateTotalMonths_def next_disabled_def)
qed

theorem longer_stay_keeps_entries_witness:
  "\<not> showPreviousAddresses (fst (ah_step (ah_mount 0 initialFormData) (CurrentAddressChange CA_yearsAtAddress ''2'')))
   \<and> \<not> next_disabled (fst (ah_step (ah_mount 0 initialFormData) (CurrentAddressChange CA_yearsAtAddress ''2'')))
   \<and> previousAddresses (ah_formData (fst (ah_step (ah_mount 0 initialFormData) (CurrentAddressChange CA_yearsAtAddress ''2''))))
       = previousAddresses (ah_formData (ah_mount 0 initialFormData))"
  by (rule longer_stay_keeps_entries [OF ah_reachable.mount, of "''2''" 2])
    (simp_all add: ah_mount_def visibility_effect_def initialFormData_def js_parseInt_def
      js_space_def digit_value_def digits_num_def)


subsection \<open>Displayed values read back\<close>

lemma set_current_field_input:
  assumes "f = CA_yearsAtAddress \<longrightarrow> \<bar>yearsAtAddress ca\<bar> < 10 ^ 21"
    and "f = CA_monthsAtAddress \<longrightarrow> \<bar>monthsAtAddress ca\<bar> < 10 ^ 21"
  shows "set_current_field f (ca_input_value f ca) ca = ca"
  using assms by (cases f) (simp_all add: set_current_field_def ca_input_value_def js_parseInt_int_str int_or_zero_def)

lemma set_current_field_input_large:
  assumes "f = CA_yearsAtAddress \<and> 10 ^ 21 \<le> \<bar>yearsAtAddress ca\<bar>
           \<or> f = CA_monthsAtAddress \<and> 10 ^ 21 \<le> \<bar>monthsAtAddress ca\<bar>"
  shows "set_current_field f (ca_input_value f ca) ca \<noteq> ca"
  using assms
proof
  assume a: "f = CA_yearsAtAddress \<and> 10 ^ 21 \<le> \<bar>yearsAtAddress ca\<bar>"
  then obtain d where "js_parseInt (js_int_str (yearsAtAddress ca)) = Some d" "\<bar>d\<bar> < 10"
    using js_parseInt_int_str_large by blast
  moreover from this(2) a have "d \<noteq> yearsAtAddress ca" by auto
  ultimately have "yearsAtAddress (set_current_field f (ca_input_value f ca) ca) \<noteq> yearsAtAddress ca"
    using a by (simp add: set_current_field_def ca_input_value_def int_or_zero_def)
  then show ?thesis by auto
next
  assume a: "f = CA_monthsAtAddress \<and> 10 ^ 21 \<le> \<bar>monthsAtAddress ca\<bar>"
  then obtain d where "js_parseInt (js_int_str (monthsAtAddress ca)) = Some d" "\<bar>d\<bar> < 10"
    using js_parseInt_int_str_large by blast
  moreover from this(2) a have "d \<noteq> monthsAtAddress ca" by auto
  ultimately have "monthsAtAddress (set_current_field f (ca_input_value f ca) ca) \<noteq> monthsAtAddress ca"
    using a by (simp add: set_current_field_def ca_input_value_def int_or_zero_def)
  then show ?thesis by auto
qed

text \<open>
  C19: the inputs and their handler are inverse exactly below \<open>10^21\<close>. An input event
  that enters what a current-address input displays (for the number fields \<open>String(n)\<close>,
  read back by \<open>parseInt(value) || 0\<close>) leaves the whole page state unchanged and runs no
  effect if and only if the number shown has magnitude below \<open>10^21\<close>; from there on
  \<open>String(n)\<close> is in exponent form and \<open>parseInt\<close> reads back only its first digit.
\<close>

theorem current_input_roundtrip:
  "ah_step s (CurrentAddressChange f (ca_input_value f (currentAddress (ah_formData s)))) = (s, None)
   \<longleftrightarrow> (f = CA_yearsAtAddress \<longrightarrow> \<bar>yearsAtAddress (currentAddress (ah_formData s))\<bar> < 10 ^ 21)
       \<and> (f = CA_monthsAtAddress \<longrightarrow> \<bar>monthsAtAddress (currentAddress (ah_formData s))\<bar> < 10 ^ 21)"
  (is "?step = (s, None) \<longleftrightarrow> ?fits")
proof
  assume "?step = (s, None)"
  then have "currentAddress (ah_formData (fst ?step)) = currentAddress (ah_formData s)" by simp
  then have "set_current_field f (ca_input_value f (currentAddress (ah_formData s))) (currentAddress (ah_formData s))
      = currentAddress (ah_formData s)" by simp
  note eq = this
  show ?fits
  proof (rule ccontr)
    assume "\<not> ?fits"
    then have "set_current_field f (ca_input_value f (currentAddress (ah_formData s))) (currentAddress (ah_formData s))
        \<noteq> currentAddress (ah_formData s)" by (intro set_current_field_input_large) auto
    with eq show False by simp
  qed
next
  assume ?fits
  then have "handleCurrentAddressChange f (ca_input_value f (currentAddress (ah_formData s))) s = s"
    by (simp add: handleCurrentAddressChange_def set_current_field_input updateFormData_def upd_opt_def)
  then show "?step = (s, None)" by (simp add: ah_run_effects_def)
qed

theorem current_input_roundtrip_witness:
  "ah_step (ah_mount 0 initialFormData)
     (CurrentAddressChange CA_yearsAtAddress (ca_input_value CA_yearsAtAddress (currentAddress (ah_formData (ah_mount 0 initialFormData)))))
   = (ah_mount 0 initialFormData, None)"
  by (rule current_input_roundtrip [THEN iffD2]) (simp add: ah_mount_def visibility_effect_def initialFormData_def)


subsection \<open>Size of the stored numbers\<close>

text \<open>
  C20: a number field written through its input stays exact. When the text entered in
  the years or months input has at most 15 characters, the number the handler stores
  is below \<open>2^53\<close> in magnitude, so the double of the program and the integer of the
  model coincide.
\<close>

theorem number_inputs_exact:
  assumes "length v \<le> 15"
  shows "\<bar>yearsAtAddress (currentAddress (ah_formData (fst (ah_step s (CurrentAddressChange CA_yearsAtAddress v)))))\<bar> < 2 ^ 53
         \<and> \<bar>monthsAtAddress (currentAddress (ah_formData (fst (ah_step s (CurrentAddressChange CA_monthsAtAddress v)))))\<bar> < 2 ^ 53"
  using js_parseInt_abs_bound [OF _ assms]
  by (simp add: set_current_field_def int_or_zero_def split: option.splits)

theorem number_inputs_exact_witness:
  "\<bar>yearsAtAddress (currentAddress (ah_formData (fst (ah_step (ah_mount 0 initialFormData)
       (CurrentAddressChange CA_yearsAtAddress ''999999999999999'')))))\<bar> < 2 ^ 53
   \<and> \<bar>monthsAtAddress (currentAddress (ah_formData (fst (ah_step (ah_mount 0 initialFormData)
       (CurrentAddressChange CA_monthsAtAddress ''999999999999999'')))))\<bar> < 2 ^ 53"
  by (rule number_inputs_exact) simp

end
