(* ===== verification/FinancialDetails.thy ===== *)
theory FinancialDetails
  imports FormData
begin

text \<open>
  The financial-details page, \<open>src/app/financial-details/page.tsx\<close>
  (\<open>FinancialDetailsContent\<close>). The file in the repository stops at line 241, inside the
  sponsor effect: the two effects that choose the sub-forms are there, but the update
  handlers (\<open>updateEmploymentDetail\<close> and its siblings), the radio groups for the
  employment status and the sponsor, the rest of the sponsor effect and the submit are
  not. Those parts are modelled from the spec (sections 3 and 4.3): a status or sponsor
  choice writes that key; a detail handler writes its sub-record, creating it blank when
  absent, like \<open>handleSpouseChange\<close> of the personal-details page; the sponsor effect
  depends on \<open>[tripSponsor, sponsorDetails]\<close>. The page keeps the chosen sub-forms in
  local state (\<open>employmentDetails\<close>), written only by the effects; the model records
  which sub-form is held (\<open>subform\<close>) and whether the sponsor form is.
\<close>

subsection \<open>State and events\<close>

datatype subform = EmploymentForm | SelfEmploymentForm | EducationForm

record fin_state =
  fin_formData :: form_data
  employmentForm :: "subform option"
  sponsorForm :: bool

datatype em_update =
    EM_companyName string | EM_jobTitle string | EM_startDate string | EM_salary string
  | EM_employerAddress string | EM_employerPhone string

datatype se_update =
    SE_businessName string | SE_businessType string | SE_annualIncome string | SE_startDate string

datatype ed_update =
    ED_institutionName string | ED_course string | ED_startDate string | ED_endDate string
  | ED_isFullTime bool

datatype sd_update = SD_name string | SD_relationship string | SD_contactInfo string

datatype fin_event =
    EmploymentStatusChange employment_status
  | TripSponsorChange trip_sponsor
  | EmploymentDetail em_update
  | SelfEmploymentDetail se_update
  | EducationDetail ed_update
  | SponsorDetail sd_update

subsection \<open>The effects\<close>

text \<open>The \<open>switch (formData.employmentStatus)\<close> of the first effect.\<close>

primrec employment_form_for :: "employment_status \<Rightarrow> subform option" where
  "employment_form_for ES_Employed = Some EmploymentForm"
| "employment_form_for ES_SelfEmployed = Some SelfEmploymentForm"
| "employment_form_for ES_Student = Some EducationForm"
| "employment_form_for ES_Retired = None"
| "employment_form_for ES_Unemployed = None"
| "employment_form_for ES_Unset = None"

text \<open>\<open>formData.tripSponsor && formData.tripSponsor !== 'Self'\<close>: \<open>''\<close> is falsy.\<close>

definition sponsor_form_for :: "trip_sponsor \<Rightarrow> bool" where
  "sponsor_form_for t \<longleftrightarrow> t \<noteq> TS_Unset \<and> t \<noteq> TS_Self"

text \<open>
  The first effect runs when one of \<open>[employmentStatus, employment, selfEmployment,
  education]\<close> changed; the sponsor effect when \<open>tripSponsor\<close> or \<open>sponsorDetails\<close> did.
\<close>

definition employment_effect :: "fin_state \<Rightarrow> fin_state \<Rightarrow> fin_state" where
  "employment_effect old new =
     (if employmentStatus (fin_formData new) \<noteq> employmentStatus (fin_formData old)
         \<or> employment (fin_formData new) \<noteq> employment (fin_formData old)
         \<or> selfEmployment (fin_formData new) \<noteq> selfEmployment (fin_formData old)
         \<or> education (fin_formData new) \<noteq> education (fin_formData old)
      then new\<lparr>employmentForm := employment_form_for (employmentStatus (fin_formData new))\<rparr>
      else new)"

definition sponsor_effect :: "fin_state \<Rightarrow> fin_state \<Rightarrow> fin_state" where
  "sponsor_effect old new =
     (if tripSponsor (fin_formData new) \<noteq> tripSponsor (fin_formData old)
         \<or> sponsorDetails (fin_formData new) \<noteq> sponsorDetails (fin_formData old)
      then new\<lparr>sponsorForm := sponsor_form_for (tripSponsor (fin_formData new))\<rparr>
      else new)"

definition fin_run_effects :: "fin_state \<Rightarrow> fin_state \<Rightarrow> fin_state" where
  "fin_run_effects old new = sponsor_effect old (employment_effect old new)"

subsection \<open>Handlers\<close>

definition handleEmploymentStatusChange :: "employment_status \<Rightarrow> form_data \<Rightarrow> form_data" where
  "handleEmploymentStatusChange v fd = updateFormData (no_patch\<lparr>p_employmentStatus := Some v\<rparr>) fd"

definition handleTripSponsorChange :: "trip_sponsor \<Rightarrow> form_data \<Rightarrow> form_data" where
  "handleTripSponsorChange v fd = updateFormData (no_patch\<lparr>p_tripSponsor := Some v\<rparr>) fd"

definition blank_employment :: employment_info where
  "blank_employment =
     \<lparr>em_companyName = [], em_jobTitle = [], em_startDate = [], em_salary = [],
      em_employerAddress = [], em_employerPhone = []\<rparr>"

primrec set_em_field :: "em_update \<Rightarrow> employment_info \<Rightarrow> employment_info" where
  "set_em_field (EM_companyName v) e = e\<lparr>em_companyName := v\<rparr>"
| "set_em_field (EM_jobTitle v) e = e\<lparr>em_jobTitle := v\<rparr>"
| "set_em_field (EM_startDate v) e = e\<lparr>em_startDate := v\<rparr>"
| "set_em_field (EM_salary v) e = e\<lparr>em_salary := v\<rparr>"
| "set_em_field (EM_employerAddress v) e = e\<lparr>em_employerAddress := v\<rparr>"
| "set_em_field (EM_employerPhone v) e = e\<lparr>em_employerPhone := v\<rparr>"

definition updateEmploymentDetail :: "em_update \<Rightarrow> form_data \<Rightarrow> form_data" where
  "updateEmploymentDetail u fd =
     updateFormData (no_patch\<lparr>p_employment :=
       Some (Some (set_em_field u (case employment fd of None \<Rightarrow> blank_employment | Some e \<Rightarrow> e)))\<rparr>) fd"

definition blank_self_employment :: self_employment_info where
  "blank_self_employment =
     \<lparr>se_businessName = [], se_businessType = [], se_annualIncome = [], se_startDate = []\<rparr>"

primrec set_se_field :: "se_update \<Rightarrow> self_employment_info \<Rightarrow> self_employment_info" where
  "set_se_field (SE_businessName v) e = e\<lparr>se_businessName := v\<rparr>"
| "set_se_field (SE_businessType v) e = e\<lparr>se_businessType := v\<rparr>"
| "set_se_field (SE_annualIncome v) e = e\<lparr>se_annualIncome := v\<rparr>"
| "set_se_field (SE_startDate v) e = e\<lparr>se_startDate := v\<rparr>"

definition updateSelfEmploymentDetail :: "se_update \<Rightarrow> form_data \<Rightarrow> form_data" where
  "updateSelfEmploymentDetail u fd =
     updateFormData (no_patch\<lparr>p_selfEmployment :=
       Some (Some (set_se_field u (case selfEmployment fd of None \<Rightarrow> blank_self_employment | Some e \<Rightarrow> e)))\<rparr>) fd"

definition blank_education :: education_info where
  "blank_education =
     \<lparr>ed_institutionName = [], ed_course = [], ed_startDate = [], ed_endDate = [],
      ed_isFullTime = False\<rparr>"

primrec set_ed_field :: "ed_update \<Rightarrow> education_info \<Rightarrow> education_info" where
  "set_ed_field (ED_institutionName v) e = e\<lparr>ed_institutionName := v\<rparr>"
| "set_ed_field (ED_course v) e = e\<lparr>ed_course := v\<rparr>"
| "set_ed_field (ED_startDate v) e = e\<lparr>ed_startDate := v\<rparr>"
| "set_ed_field (ED_endDate v) e = e\<lparr>ed_endDate := v\<rparr>"
| "set_ed_field (ED_isFullTime b) e = e\<lparr>ed_isFullTime := b\<rparr>"

definition updateEducationDetail :: "ed_update \<Rightarrow> form_data \<Rightarrow> form_data" where
  "updateEducationDetail u fd =
     updateFormData (no_patch\<lparr>p_education :=
       Some (Some (set_ed_field u (case education fd of None \<Rightarrow> blank_education | Some e \<Rightarrow> e)))\<rparr>) fd"

definition blank_sponsor_details :: sponsor_details_info where
  "blank_sponsor_details = \<lparr>sd_name = [], sd_relationship = [], sd_contactInfo = []\<rparr>"

primrec set_sd_field :: "sd_update \<Rightarrow> sponsor_details_info \<Rightarrow> sponsor_details_info" where
  "set_sd_field (SD_name v) d = d\<lparr>sd_name := v\<rparr>"
| "set_sd_field (SD_relationship v) d = d\<lparr>sd_relationship := v\<rparr>"
| "set_sd_field (SD_contactInfo v) d = d\<lparr>sd_contactInfo := v\<rparr>"

definition updateSponsorDetail :: "sd_update \<Rightarrow> form_data \<Rightarrow> form_data" where
  "updateSponsorDetail u fd =
     updateFormData (no_patch\<lparr>p_sponsorDetails :=
       Some (Some (set_sd_field u (case sponsorDetails fd of None \<Rightarrow> blank_sponsor_details | Some d \<Rightarrow> d)))\<rparr>) fd"

subsection \<open>Mount and step\<close>

text \<open>
  \<open>employmentDetails\<close> starts with both forms \<open>null\<close>; both effects run after the
  first render.
\<close>

definition fin_mount :: "form_data \<Rightarrow> fin_state" where
  "fin_mount fd =
     \<lparr>fin_formData = fd, employmentForm = employment_form_for (employmentStatus fd),
      sponsorForm = sponsor_form_for (tripSponsor fd)\<rparr>"

text \<open>
  The detail inputs exist only inside the sub-form the state holds; the status and
  sponsor radio groups are always rendered.
\<close>

fun fin_step :: "fin_state \<Rightarrow> fin_event \<Rightarrow> fin_state outcome" where
  "fin_step s (EmploymentStatusChange v) =
     (fin_run_effects s (s\<lparr>fin_formData := handleEmploymentStatusChange v (fin_formData s)\<rparr>), None)"
| "fin_step s (TripSponsorChange v) =
     (fin_run_effects s (s\<lparr>fin_formData := handleTripSponsorChange v (fin_formData s)\<rparr>), None)"
| "fin_step s (EmploymentDetail u) =
     (if employmentForm s = Some EmploymentForm
      then fin_run_effects s (s\<lparr>fin_formData := updateEmploymentDetail u (fin_formData s)\<rparr>) else s, None)"
| "fin_step s (SelfEmploymentDetail u) =
     (if employmentForm s = Some SelfEmploymentForm
      then fin_run_effects s (s\<lparr>fin_formData := updateSelfEmploymentDetail u (fin_formData s)\<rparr>) else s, None)"
| "fin_step s (EducationDetail u) =
     (if employmentForm s = Some EducationForm
      then fin_run_effects s (s\<lparr>fin_formData := updateEducationDetail u (fin_formData s)\<rparr>) else s, None)"
| "fin_step s (SponsorDetail u) =
     (if sponsorForm s
      then fin_run_effects s (s\<lparr>fin_formData := updateSponsorDetail u (fin_formData s)\<rparr>) else s, None)"

inductive fin_reachable :: "fin_state \<Rightarrow> bool" where
  mount: "fin_reachable (fin_mount initialFormData)"
| step: "fin_reachable s \<Longrightarrow> fin_reachable (fst (fin_step s e))"

definition fin_inv :: "fin_state \<Rightarrow> bool" where
  "fin_inv s \<longleftrightarrow>
     employmentForm s = employment_form_for (employmentStatus (fin_formData s))
     \<and> sponsorForm s = sponsor_form_for (tripSponsor (fin_formData s))"

subsection \<open>The invariant\<close>

text \<open>
  The effects put the held sub-forms back in line with the record whenever a handler
  changed the keys they depend on; a handler that changed none of them leaves both the
  keys and the held forms as they were.
\<close>

lemma fin_run_effects_inv:
  assumes "fin_inv old"
    and "employmentForm new = employmentForm old" and "sponsorForm new = sponsorForm old"
  shows "fin_inv (fin_run_effects old new)"
  using assms
  by (auto simp: fin_inv_def fin_run_effects_def employment_effect_def sponsor_effect_def)

lemma fin_run_effects_formData [simp]: "fin_formData (fin_run_effects old new) = fin_formData new"
  by (simp add: fin_run_effects_def employment_effect_def sponsor_effect_def)

lemma fin_inv_step: "fin_inv s \<Longrightarrow> fin_inv (fst (fin_step s e))"
  by (cases e) (simp_all add: fin_run_effects_inv)

lemma fin_reachable_inv: "fin_reachable s \<Longrightarrow> fin_inv s"
proof (induction rule: fin_reachable.induct)
  case mount
  show ?case by (simp add: fin_inv_def fin_mount_def)
next
  case (step s e)
  from step.IH show ?case by (rule fin_inv_step)
qed

lemma handler_keys [simp]:
  "employmentStatus (handleEmploymentStatusChange v fd) = v"
  "education (handleEmploymentStatusChange v fd) = education fd"
  "employmentStatus (updateEducationDetail u fd) = employmentStatus fd"
  "education (updateEducationDetail u fd)
     = Some (set_ed_field u (case education fd of None \<Rightarrow> blank_education | Some e \<Rightarrow> e))"
  by (simp_all add: handleEmploymentStatusChange_def updateEducationDetail_def)

subsection \<open>Properties of the page\<close>

text \<open>
  C13. In every reachable state the page holds exactly the sub-form chosen by the
  employment status (employment for Employed, self-employment for Self-employed,
  education for Student, none otherwise), and holds the sponsor form exactly when a
  sponsor other than Self is chosen.
\<close>

theorem subforms_follow_selection:
  assumes "fin_reachable s"
  shows "employmentForm s = employment_form_for (employmentStatus (fin_formData s))
         \<and> (sponsorForm s \<longleftrightarrow>
              tripSponsor (fin_formData s) \<noteq> TS_Unset \<and> tripSponsor (fin_formData s) \<noteq> TS_Self)"
  using fin_reachable_inv [OF assms] by (simp add: fin_inv_def sponsor_form_for_def)

theorem subforms_follow_selection_witness:
  "employmentForm (fst (fin_step (fin_mount initialFormData) (EmploymentStatusChange ES_Student)))
     = employment_form_for (employmentStatus (fin_formData (fst (fin_step (fin_mount initialFormData) (EmploymentStatusChange ES_Student)))))
   \<and> (sponsorForm (fst (fin_step (fin_mount initialFormData) (EmploymentStatusChange ES_Student))) \<longleftrightarrow>
        tripSponsor (fin_formData (fst (fin_step (fin_mount initialFormData) (EmploymentStatusChange ES_Student)))) \<noteq> TS_Unset
        \<and> tripSponsor (fin_formData (fst (fin_step (fin_mount initialFormData) (EmploymentStatusChange ES_Student)))) \<noteq> TS_Self)"
  by (rule subforms_follow_selection [OF fin_reachable.step [OF fin_reachable.mount]])

text \<open>
  C14. Choosing Student shows only the education sub-form; after an education field is
  entered, switching to Employed shows only the employment sub-form, and the education
  values entered stay in the record.
\<close>

theorem student_then_employed_keeps_education:
  assumes "fin_reachable s"
  shows "let t1 = fst (fin_step s (EmploymentStatusChange ES_Student));
             t2 = fst (fin_step t1 (EducationDetail u));
             t3 = fst (fin_step t2 (EmploymentStatusChange ES_Employed))
         in employmentForm t1 = Some EducationForm \<and> employmentForm t2 = Some EducationForm
            \<and> employmentForm t3 = Some EmploymentForm
            \<and> education (fin_formData t2) \<noteq> None
            \<and> education (fin_formData t3) = education (fin_formData t2)"
proof -
  let ?t1 = "fst (fin_step s (EmploymentStatusChange ES_Student))"
  let ?t2 = "fst (fin_step ?t1 (EducationDetail u))"
  let ?t3 = "fst (fin_step ?t2 (EmploymentStatusChange ES_Employed))"
  have r1: "fin_reachable ?t1" using assms by (rule fin_reachable.step)
  then have r2: "fin_reachable ?t2" by (rule fin_reachable.step)
  then have r3: "fin_reachable ?t3" by (rule fin_reachable.step)
  have "employmentStatus (fin_formData ?t1) = ES_Student" by simp
  with fin_reachable_inv [OF r1] have i1: "employmentForm ?t1 = Some EducationForm"
    by (simp add: fin_inv_def del: fin_step.simps)
  then have "fin_formData ?t2 = updateEducationDetail u (fin_formData ?t1)" by simp
  then have e2: "education (fin_formData ?t2) \<noteq> None"
    and st2: "employmentStatus (fin_formData ?t2) = ES_Student" by simp_all
  have i2: "employmentForm ?t2 = Some EducationForm"
    using fin_reachable_inv [OF r2] st2 by (simp add: fin_inv_def del: fin_step.simps)
  have "employmentStatus (fin_formData ?t3) = ES_Employed" by simp
  with fin_reachable_inv [OF r3] have i3: "employmentForm ?t3 = Some EmploymentForm"
    by (simp add: fin_inv_def del: fin_step.simps)
  have "education (fin_formData ?t3) = education (fin_formData ?t2)" by simp
  with i1 i2 i3 e2 show ?thesis by (simp add: Let_def del: fin_step.simps)
qed

theorem student_then_employed_keeps_education_witness:
  "let t1 = fst (fin_step (fin_mount initialFormData) (EmploymentStatusChange ES_Student));
       t2 = fst (fin_step t1 (EducationDetail (ED_course ''Law'')));
       t3 = fst (fin_step t2 (EmploymentStatusChange ES_Employed))
   in employmentForm t1 = Some EducationForm \<and> employmentForm t2 = Some EducationForm
      \<and> employmentForm t3 = Some EmploymentForm
      \<and> education (fin_formData t2) \<noteq> None
      \<and> education (fin_formData t3) = education (fin_formData t2)"
  by (rule student_then_employed_keeps_education [OF fin_reachable.mount])

end
