(* ===== verification/Wizard.thy ===== *)
theory Wizard
  imports HomePage PersonalDetails AddressHistory FinancialDetails
begin

text \<open>
  The navigator: the four routes of the application and the transitions between them.
  Each page's \<open>handleNext\<close> (or the personal-information submit) calls
  \<open>router.push\<close> with the next route; the router unmounts the current page and mounts
  the page of the new route. Every page component renders its own
  \<open>FormDataProvider\<close> (the default export of each route's \<open>page.tsx\<close>, for instance
  \<open>src/app/page.tsx\<close> lines 10-22), so the mounted page
  starts from \<open>initialFormData\<close>. The uuid generator is module state and survives the
  navigation. An event for a page that is not mounted cannot happen and is ignored.
\<close>

datatype route = RHome | RPersonalDetails | RAddressHistory | RFinancialDetails

primrec route_path :: "route \<Rightarrow> string" where
  "route_path RHome = ''/''"
| "route_path RPersonalDetails = ''/personal-details''"
| "route_path RAddressHistory = ''/address-history''"
| "route_path RFinancialDetails = ''/financial-details''"

definition route_of_path :: "string \<Rightarrow> route option" where
  "route_of_path p =
     (if p = ''/'' then Some RHome
      else if p = ''/personal-details'' then Some RPersonalDetails
      else if p = ''/address-history'' then Some RAddressHistory
      else if p = ''/financial-details'' then Some RFinancialDetails
      else None)"

datatype app_page =
    HomeP home_state
  | PersonalP pd_state
  | AddressP ah_state
  | FinancialP fin_state

datatype app_event =
    HomeEv home_event
  | PdEv pd_event
  | AhEv ah_event
  | FinEv fin_event

primrec page_route :: "app_page \<Rightarrow> route" where
  "page_route (HomeP s) = RHome"
| "page_route (PersonalP s) = RPersonalDetails"
| "page_route (AddressP s) = RAddressHistory"
| "page_route (FinancialP s) = RFinancialDetails"

record app_state =
  app_page :: app_page
  app_uuid :: nat

text \<open>Mounting a route: its page with a fresh provider holding \<open>initialFormData\<close>.\<close>

primrec mount_route :: "nat \<Rightarrow> route \<Rightarrow> app_page" where
  "mount_route n RHome = HomeP (home_mount initialFormData)"
| "mount_route n RPersonalDetails = PersonalP (pd_mount n initialFormData)"
| "mount_route n RAddressHistory = AddressP (ah_mount n initialFormData)"
| "mount_route n RFinancialDetails = FinancialP (fin_mount initialFormData)"

definition app_init :: app_state where
  "app_init = \<lparr>app_page = mount_route 0 RHome, app_uuid = 0\<rparr>"

text \<open>
  After a page step, a pushed path of a known route mounts that route; the counter is the
  page's own after the step (home and financial pages draw no identifier).
\<close>

definition after_page_step :: "app_state \<Rightarrow> app_page \<Rightarrow> string option \<Rightarrow> app_state" where
  "after_page_step st p route =
     (let n = (case p of PersonalP s \<Rightarrow> pd_uuid s | AddressP s \<Rightarrow> ah_uuid s | _ \<Rightarrow> app_uuid st)
      in case route of
           None \<Rightarrow> \<lparr>app_page = p, app_uuid = n\<rparr>
         | Some path \<Rightarrow> (case route_of_path path of
                           None \<Rightarrow> \<lparr>app_page = p, app_uuid = n\<rparr>
                         | Some r \<Rightarrow> \<lparr>app_page = mount_route n r, app_uuid = n\<rparr>))"

fun app_step :: "app_state \<Rightarrow> app_event \<Rightarrow> app_state" where
  "app_step st (HomeEv e) =
     (case app_page st of
        HomeP s \<Rightarrow> (let (s', r) = home_step s e in after_page_step st (HomeP s') r)
      | _ \<Rightarrow> st)"
| "app_step st (PdEv e) =
     (case app_page st of
        PersonalP s \<Rightarrow> (let (s', r) = pd_step s e in after_page_step st (PersonalP s') r)
      | _ \<Rightarrow> st)"
| "app_step st (AhEv e) =
     (case app_page st of
        AddressP s \<Rightarrow> (let (s', r) = ah_step s e in after_page_step st (AddressP s') r)
      | _ \<Rightarrow> st)"
| "app_step st (FinEv e) =
     (case app_page st of
        FinancialP s \<Rightarrow> (let (s', r) = fin_step s e in after_page_step st (FinancialP s') r)
      | _ \<Rightarrow> st)"

fun app_run :: "app_state \<Rightarrow> app_event list \<Rightarrow> app_state" where
  "app_run st [] = st"
| "app_run st (e # es) = app_run (app_step st e) es"

primrec next_route :: "route \<Rightarrow> route" where
  "next_route RHome = RPersonalDetails"
| "next_route RPersonalDetails = RAddressHistory"
| "next_route RAddressHistory = RFinancialDetails"
| "next_route RFinancialDetails = RFinancialDetails"

subsection \<open>Routes pushed by the pages\<close>

definition pushes_only :: "string \<Rightarrow> string option \<Rightarrow> bool" where
  "pushes_only p r \<longleftrightarrow> r = None \<or> r = Some p"

lemma home_step_pushes: "pushes_only ''/personal-details'' (snd (home_step s e))"
proof (cases "e = PiSubmit")
  case True
  then show ?thesis by (simp add: pushes_only_def home_submit_eq del: home_step.simps)
next
  case False
  then show ?thesis by (cases e) (simp_all add: pushes_only_def)
qed

lemma pd_step_pushes: "pushes_only ''/address-history'' (snd (pd_step s e))"
  by (cases e) (simp_all add: pushes_only_def pd_handleNext_def)

lemma ah_step_pushes: "pushes_only ''/financial-details'' (snd (ah_step s e))"
  by (cases e) (simp_all add: pushes_only_def handleNext_def)

lemma fin_step_pushes: "snd (fin_step s e) = None"
  by (cases e) simp_all

lemma after_page_step_route:
  "pushes_only (route_path (next_route (page_route p))) r \<Longrightarrow>
   page_route (app_page (after_page_step st p r)) = page_route p
   \<or> page_route (app_page (after_page_step st p r)) = next_route (page_route p)"
  by (cases p) (auto simp: pushes_only_def after_page_step_def route_of_path_def Let_def
                      split: app_page.split)

lemma after_page_step_push:
  "route_of_path path = Some r \<Longrightarrow>
   after_page_step st p (Some path) = \<lparr>app_page = mount_route (case p of PersonalP s \<Rightarrow> pd_uuid s
      | AddressP s \<Rightarrow> ah_uuid s | _ \<Rightarrow> app_uuid st) r,
      app_uuid = (case p of PersonalP s \<Rightarrow> pd_uuid s | AddressP s \<Rightarrow> ah_uuid s | _ \<Rightarrow> app_uuid st)\<rparr>"
  by (simp add: after_page_step_def Let_def)

subsection \<open>Properties of the navigator\<close>

text \<open>
  C15. Navigation is linear and forward-only: one event either leaves the wizard on the
  same route or moves it to the next route of the sequence home, personal details,
  address history, financial details; no event skips a step or goes back.
\<close>

theorem navigation_forward_only:
  "page_route (app_page (app_step st e)) = page_route (app_page st)
   \<or> page_route (app_page (app_step st e)) = next_route (page_route (app_page st))"
proof (cases e)
  case (HomeEv he)
  show ?thesis
  proof (cases "app_page st")
    case (HomeP s)
    obtain s' r where "home_step s he = (s', r)" by fastforce
    moreover have "pushes_only (route_path (next_route (page_route (HomeP s')))) r"
      using home_step_pushes [of s he] calculation by simp
    ultimately show ?thesis using HomeEv HomeP after_page_step_route by fastforce
  qed (simp_all add: HomeEv)
next
  case (PdEv pe)
  show ?thesis
  proof (cases "app_page st")
    case (PersonalP s)
    obtain s' r where "pd_step s pe = (s', r)" by fastforce
    moreover have "pushes_only (route_path (next_route (page_route (PersonalP s')))) r"
      using pd_step_pushes [of s pe] calculation by simp
    ultimately show ?thesis using PdEv PersonalP after_page_step_route by fastforce
  qed (simp_all add: PdEv)
next
  case (AhEv ae)
  show ?thesis
  proof (cases "app_page st")
    case (AddressP s)
    obtain s' r where "ah_step s ae = (s', r)" by fastforce
    moreover have "pushes_only (route_path (next_route (page_route (AddressP s')))) r"
      using ah_step_pushes [of s ae] calculation by simp
    ultimately show ?thesis using AhEv AddressP after_page_step_route by fastforce
  qed (simp_all add: AhEv)
next
  case (FinEv fe)
  show ?thesis
  proof (cases "app_page st")
    case (FinancialP s)
    obtain s' r where "fin_step s fe = (s', r)" by fastforce
    moreover have "pushes_only (route_path (next_route (page_route (FinancialP s')))) r"
      using fin_step_pushes [of s fe] calculation by (simp add: pushes_only_def)
    ultimately show ?thesis using FinEv FinancialP after_page_step_route by fastforce
  qed (simp_all add: FinEv)
qed

text \<open>
  C16. The answers are not carried to the next page: when the personal-information
  submit succeeds, the personal-details page that is mounted holds \<open>initialFormData\<close>,
  so the submitted personal information is not in the record it reads (its
  \<open>personalInfo\<close> is the blank one whenever the submitted email is non-empty, which
  every accepted submit has).
\<close>

theorem submitted_data_not_carried:
  assumes "app_page st = HomeP s"
    and "personalInfoSchema (rhf_values (home_rhf s)) = []"
  shows "app_page (app_step st (HomeEv PiSubmit)) = PersonalP (pd_mount (app_uuid st) initialFormData)
         \<and> personalInfo (pd_formData (pd_mount (app_uuid st) initialFormData)) \<noteq> rhf_values (home_rhf s)"
proof -
  have "zod_email (pi_email (rhf_values (home_rhf s)))"
    using assms(2) by (simp add: personalInfoSchema_Nil_iff)
  then have "pi_email (rhf_values (home_rhf s)) \<noteq> []" by (rule zod_email_nonempty)
  moreover have "pi_email (personalInfo initialFormData) = []" by (simp add: initialFormData_def)
  ultimately have ne: "personalInfo initialFormData \<noteq> rhf_values (home_rhf s)" by auto
  have "home_step s PiSubmit =
          (s\<lparr>home_rhf := (home_rhf s)\<lparr>rhf_errors := [], rhf_submitted := True\<rparr>,
             home_formData := (home_formData s)\<lparr>personalInfo := rhf_values (home_rhf s)\<rparr>\<rparr>,
           Some ''/personal-details'')"
    using assms(2) by (simp add: home_submit_eq del: home_step.simps)
  then have "app_step st (HomeEv PiSubmit) =
               \<lparr>app_page = mount_route (app_uuid st) RPersonalDetails, app_uuid = app_uuid st\<rparr>"
    using assms(1) by (simp add: after_page_step_def route_of_path_def Let_def del: home_step.simps)
  with ne show ?thesis by (simp add: pd_mount_def)
qed

theorem submitted_data_not_carried_witness:
  "let s = home_mount (initialFormData\<lparr>personalInfo :=
             \<lparr>pi_email = ''a@b.com'', pi_phone = ''12345'', pi_firstName = ''Ann'',
              pi_lastName = ''Lee'', pi_gender = Female, pi_placeOfBirth = ''Oslo'',
              pi_hasNameChanged = False\<rparr>\<rparr>);
       st = \<lparr>app_page = HomeP s, app_uuid = 0\<rparr>
   in app_page (app_step st (HomeEv PiSubmit)) = PersonalP (pd_mount (app_uuid st) initialFormData)
      \<and> personalInfo (pd_formData (pd_mount (app_uuid st) initialFormData)) \<noteq> rhf_values (home_rhf s)"
  unfolding Let_def
  by (rule submitted_data_not_carried)
    (simp_all add: home_mount_def rhf_mount_def personalInfoSchema_def check_field_def
       zod_email_examples(1))

lemma app_run_append: "app_run st (xs @ ys) = app_run (app_run st xs) ys"
  by (induction xs arbitrary: st) simp_all

lemma app_step_home_type:
  "app_page st = HomeP s \<Longrightarrow>
   app_step st (HomeEv (PiType f v)) = \<lparr>app_page = HomeP (s\<lparr>home_rhf := rhf_change f v (home_rhf s)\<rparr>), app_uuid = app_uuid st\<rparr>"
  by (simp add: after_page_step_def)

lemma rhf_change_values [simp]: "rhf_values (rhf_change f v r) = set_pi_input f v (rhf_values r)"
  by (simp add: rhf_change_def Let_def)

lemma home_leaves:
  assumes "app_page st = HomeP s"
  shows "\<exists>es. app_page (app_run st es) = PersonalP (pd_mount (app_uuid st) initialFormData)"
proof -
  define ts where "ts = [HomeEv (PiType PI_email ''a@b.com''), HomeEv (PiType PI_phone ''12345''),
    HomeEv (PiType PI_firstName ''Ann''), HomeEv (PiType PI_lastName ''Lee''), HomeEv (PiType PI_placeOfBirth ''Oslo'')]"
  define r5 where "r5 = rhf_change PI_placeOfBirth ''Oslo'' (rhf_change PI_lastName ''Lee''
    (rhf_change PI_firstName ''Ann'' (rhf_change PI_phone ''12345'' (rhf_change PI_email ''a@b.com'' (home_rhf s)))))"
  have st5: "app_run st ts = \<lparr>app_page = HomeP (s\<lparr>home_rhf := r5\<rparr>), app_uuid = app_uuid st\<rparr>"
    using assms by (simp add: ts_def after_page_step_def r5_def)
  have v: "personalInfoSchema (rhf_values r5) = []"
    by (simp add: r5_def personalInfoSchema_Nil_iff zod_email_examples(1))
  have "app_page (app_run st (ts @ [HomeEv PiSubmit])) = PersonalP (pd_mount (app_uuid st) initialFormData)"
    unfolding app_run_append st5
    using v by (simp add: home_submit_eq after_page_step_def route_of_path_def Let_def del: home_step.simps)
  then show ?thesis by blast
qed

lemma pd_leaves:
  "app_page st = PersonalP s \<Longrightarrow>
   app_page (app_step st (PdEv PdClickNext)) = AddressP (ah_mount (pd_uuid s) initialFormData)"
  by (simp add: pd_handleNext_def after_page_step_def route_of_path_def Let_def)

lemma add_enables_next: "\<not> next_disabled (fst (ah_step s AddPreviousAddress))"
  by (auto simp: next_disabled_def ah_run_effects_def visibility_effect_def)

lemma ah_leaves:
  assumes "app_page st = AddressP s"
  shows "page_route (app_page (app_run st [AhEv AddPreviousAddress, AhEv ClickNext])) = RFinancialDetails"
proof -
  obtain s' where s': "ah_step s AddPreviousAddress = (s', None)"
    by (cases "showPreviousAddresses s") simp_all
  then have nd: "\<not> next_disabled s'" using add_enables_next [of s] by simp
  show ?thesis
    using assms s' nd
    by (simp add: after_page_step_def handleNext_def route_of_path_def Let_def del: ah_step.simps
        split: app_page.split) (simp add: handleNext_def after_page_step_def route_of_path_def Let_def)
qed

text \<open>
  C17. The wizard can always be completed: from every state, whatever has been entered
  and whatever page is shown, some sequence of events on rendered controls reaches the
  financial-details page.
\<close>

theorem wizard_completable:
  "\<exists>es. page_route (app_page (app_run st es)) = RFinancialDetails"
proof (cases "app_page st")
  case (AddressP s)
  then show ?thesis using ah_leaves by blast
next
  case (PersonalP s)
  let ?st = "app_step st (PdEv PdClickNext)"
  have "page_route (app_page (app_run ?st [AhEv AddPreviousAddress, AhEv ClickNext])) = RFinancialDetails"
    using ah_leaves pd_leaves [OF PersonalP] by blast
  then have "page_route (app_page (app_run st (PdEv PdClickNext # [AhEv AddPreviousAddress, AhEv ClickNext])))
      = RFinancialDetails" by simp
  then show ?thesis by blast
next
  case (HomeP s)
  obtain es where "app_page (app_run st es) = PersonalP (pd_mount (app_uuid st) initialFormData)"
    using home_leaves [OF HomeP] by blast
  then have "app_page (app_step (app_run st es) (PdEv PdClickNext))
      = AddressP (ah_mount (pd_uuid (pd_mount (app_uuid st) initialFormData)) initialFormData)"
    by (rule pd_leaves)
  then have "page_route (app_page (app_run (app_step (app_run st es) (PdEv PdClickNext))
      [AhEv AddPreviousAddress, AhEv ClickNext])) = RFinancialDetails" using ah_leaves by blast
  then have "page_route (app_page (app_run st (es @ [PdEv PdClickNext, AhEv AddPreviousAddress, AhEv ClickNext])))
      = RFinancialDetails" by (simp add: app_run_append)
  then show ?thesis by blast
qed (rule exI [of _ "[]"], simp)

end
