(* ===== verification/JsHeap.thy ===== *)
theory JsHeap
  imports JsBuiltins "HOL-Library.AList"
begin

text \<open>
  The part of the JavaScript object model that \<open>updateNestedFormData\<close> exercises, modelled
  from the ECMAScript specification (the code under \<open>src/\<close> only calls it): values,
  a heap of ordinary, array and function objects with prototype links, property lookup
  along the prototype chain (internal method \<open>Get\<close>), assignment in strict mode (internal method \<open>Set\<close> and
  \<open>PutValue\<close>, with the \<open>TypeError\<close>s it throws), the \<open>__proto__\<close> accessor of
  \<open>Object.prototype\<close>, the length of arrays, object spread and \<open>ToBoolean\<close>.
  Modules are strict code, so every failed assignment throws.
  The prototype chain is walked with fuel (the number of objects of the heap); the theory
  \<open>HeapWf\<close> shows that this fuel is enough on every heap whose chains end.
\<close>

subsection \<open>Values and objects\<close>

text \<open>
  Primitive values. Numbers are integers: the form data holds no other numbers, and
  \<open>NaN\<close>, fractions and \<open>-0\<close> are not modelled.
\<close>

datatype prim = PUndef | PNull | PBool bool | PNum int | PStr string

datatype jval = Prim prim | Ref nat

text \<open>
  The kinds of object the model distinguishes: ordinary objects, arrays (whose
  \<open>length\<close> follows their index properties), functions, and the immutable-prototype
  object \<open>Object.prototype\<close>, whose prototype cannot be changed.
\<close>

datatype obj_class = OrdinaryObj | ArrayObj | FunctionObj | ImmutableProtoObj

text \<open>
  An object: its class, its prototype (a reference or \<open>null\<close>), its own data properties
  in creation order, the names of those that are not writable and of those that are not
  enumerable.
\<close>

record jobj =
  o_class :: obj_class
  o_proto :: jval
  o_props :: "(string \<times> jval) list"
  o_readonly :: "string list"
  o_hidden :: "string list"

type_synonym heap = "jobj list"

text \<open>The addresses of the intrinsic prototypes.\<close>

record realm =
  object_proto :: nat
  array_proto :: nat
  string_proto :: nat
  number_proto :: nat
  boolean_proto :: nat

text \<open>
  Abrupt completions: the \<open>TypeError\<close> and \<open>RangeError\<close> the specification throws, and
  the failures of the model itself (a dangling address, exhausted fuel, a conversion
  the model leaves out).
\<close>

datatype js_error = TypeError | RangeError | DanglingRef nat | OutOfFuel | NotModelled string

text \<open>\<open>ToBoolean\<close>: \<open>undefined\<close>, \<open>null\<close>, \<open>false\<close>, \<open>0\<close> and \<open>''\<close> are falsy.\<close>

fun truthy :: "jval \<Rightarrow> bool" where
  "truthy (Ref _) = True"
| "truthy (Prim PUndef) = False"
| "truthy (Prim PNull) = False"
| "truthy (Prim (PBool b)) = b"
| "truthy (Prim (PNum n)) = (n \<noteq> 0)"
| "truthy (Prim (PStr s)) = (s \<noteq> [])"

text \<open>
  An array index: a canonical decimal numeral (no leading zero) below \<open>2^32 - 1 = 4294967295\<close>.
\<close>

definition array_index :: "string \<Rightarrow> nat option" where
  "array_index s =
     (let ds = take_digits 10 s in
      if s \<noteq> [] \<and> length ds = length s \<and> (s = ''0'' \<or> hd s \<noteq> CHR ''0'')
         \<and> int (digits_num 10 ds) < 4294967295
      then Some (digits_num 10 ds) else None)"

subsection \<open>Property lookup\<close>

text \<open>
  Where the prototype chain defines a property: an own data property (with its value and
  whether it is writable), the \<open>__proto__\<close> accessor of \<open>Object.prototype\<close>, or
  nowhere. Each object of the chain costs one unit of fuel.
\<close>

datatype prop_find = FoundData jval bool | FoundProtoAccessor | NotFound

fun find_prop :: "nat \<Rightarrow> realm \<Rightarrow> heap \<Rightarrow> nat \<Rightarrow> string \<Rightarrow> js_error + prop_find" where
  "find_prop 0 R h a k = Inl OutOfFuel"
| "find_prop (Suc n) R h a k =
     (if a < length h then
        (case map_of (o_props (h ! a)) k of
           Some v \<Rightarrow> Inr (FoundData v (k \<notin> set (o_readonly (h ! a))))
         | None \<Rightarrow>
             if a = object_proto R \<and> k = ''__proto__'' then Inr FoundProtoAccessor
             else (case o_proto (h ! a) of
                     Ref b \<Rightarrow> find_prop n R h b k
                   | Prim _ \<Rightarrow> Inr NotFound))
      else Inl (DanglingRef a))"

text \<open>The own properties of a string primitive: \<open>length\<close> and one per character.\<close>

definition string_own :: "string \<Rightarrow> string \<Rightarrow> jval option" where
  "string_own s k =
     (if k = ''length'' then Some (Prim (PNum (int (length s))))
      else (case array_index k of
              Some i \<Rightarrow> if i < length s then Some (Prim (PStr [s ! i])) else None
            | None \<Rightarrow> None))"

text \<open>
  Lookup on any base value: an object's own chain, or for a primitive the chain of its
  wrapper's prototype. \<open>undefined\<close> and \<open>null\<close> have no properties.
\<close>

definition find_on :: "realm \<Rightarrow> heap \<Rightarrow> jval \<Rightarrow> string \<Rightarrow> js_error + prop_find" where
  "find_on R h base k =
     (case base of
        Ref a \<Rightarrow> find_prop (length h) R h a k
      | Prim (PStr s) \<Rightarrow>
          (case string_own s k of
             Some v \<Rightarrow> Inr (FoundData v False)
           | None \<Rightarrow> find_prop (length h) R h (string_proto R) k)
      | Prim (PNum _) \<Rightarrow> find_prop (length h) R h (number_proto R) k
      | Prim (PBool _) \<Rightarrow> find_prop (length h) R h (boolean_proto R) k
      | Prim _ \<Rightarrow> Inl TypeError)"

text \<open>The getter of \<open>__proto__\<close>: the prototype of the base (of its wrapper, for a primitive).\<close>

definition proto_value :: "realm \<Rightarrow> heap \<Rightarrow> jval \<Rightarrow> js_error + jval" where
  "proto_value R h base =
     (case base of
        Ref a \<Rightarrow> if a < length h then Inr (o_proto (h ! a)) else Inl (DanglingRef a)
      | Prim (PStr _) \<Rightarrow> Inr (Ref (string_proto R))
      | Prim (PNum _) \<Rightarrow> Inr (Ref (number_proto R))
      | Prim (PBool _) \<Rightarrow> Inr (Ref (boolean_proto R))
      | Prim _ \<Rightarrow> Inl TypeError)"

text \<open>\<open>base[k]\<close> as an rvalue.\<close>

definition get_value :: "realm \<Rightarrow> heap \<Rightarrow> jval \<Rightarrow> string \<Rightarrow> js_error + jval" where
  "get_value R h base k =
     (case find_on R h base k of
        Inl e \<Rightarrow> Inl e
      | Inr (FoundData v _) \<Rightarrow> Inr v
      | Inr FoundProtoAccessor \<Rightarrow> proto_value R h base
      | Inr NotFound \<Rightarrow> Inr (Prim PUndef))"

subsection \<open>Assignment\<close>

text \<open>The \<open>length\<close> an array records (absent or not a number: 0).\<close>

definition array_length :: "(string \<times> jval) list \<Rightarrow> nat" where
  "array_length ps = (case map_of ps ''length'' of Some (Prim (PNum n)) \<Rightarrow> nat n | _ \<Rightarrow> 0)"

text \<open>
  Creating or overwriting the own data property \<open>k\<close> of the object at \<open>a\<close>
  (internal method \<open>DefineOwnProperty\<close> with a value): a new property goes after the existing ones,
  an existing one keeps its place. On an array, an index at or beyond the length extends
  the length, and setting \<open>length\<close> to a valid number deletes the indices beyond it; a
  \<open>length\<close> that is not a number would need \<open>ToNumber\<close>, which is not modelled.
\<close>

definition define_own :: "heap \<Rightarrow> nat \<Rightarrow> string \<Rightarrow> jval \<Rightarrow> js_error + heap" where
  "define_own h a k v =
     (let ob = h ! a; ps = o_props ob in
      if o_class ob = ArrayObj \<and> k = ''length'' then
        (case v of
           Prim (PNum n) \<Rightarrow>
             if 0 \<le> n \<and> n < 4294967296 then
               Inr (h[a := ob\<lparr>o_props := AList.update ''length'' v
                     (filter (\<lambda>(k', _). case array_index k' of Some i \<Rightarrow> int i < n | None \<Rightarrow> True) ps)\<rparr>])
             else Inl RangeError
         | _ \<Rightarrow> Inl (NotModelled ''ToNumber''))
      else if o_class ob = ArrayObj then
        (case array_index k of
           Some i \<Rightarrow>
             (let ps' = AList.update k v ps in
              Inr (h[a := ob\<lparr>o_props :=
                   (if array_length ps \<le> i then AList.update ''length'' (Prim (PNum (int i + 1))) ps'
                    else ps')\<rparr>]))
         | None \<Rightarrow> Inr (h[a := ob\<lparr>o_props := AList.update k v ps\<rparr>]))
      else Inr (h[a := ob\<lparr>o_props := AList.update k v ps\<rparr>]))"

text \<open>
  The cycle check of \<open>OrdinarySetPrototypeOf\<close>: does the chain starting at \<open>p\<close> reach
  the object \<open>a\<close>?
\<close>

fun chain_has :: "nat \<Rightarrow> heap \<Rightarrow> jval \<Rightarrow> nat \<Rightarrow> js_error + bool" where
  "chain_has 0 h p a = Inl OutOfFuel"
| "chain_has (Suc n) h p a =
     (case p of
        Prim _ \<Rightarrow> Inr False
      | Ref b \<Rightarrow>
          if b = a then Inr True
          else if b < length h then chain_has n h (o_proto (h ! b)) a
          else Inl (DanglingRef b))"

text \<open>
  the internal method \<open>SetPrototypeOf\<close> of \<open>O\<close> with \<open>V\<close> followed by the \<open>TypeError\<close> of the \<open>__proto__\<close> setter when
  it returns false: refused on \<open>Object.prototype\<close> and when \<open>O\<close> is on the chain of
  \<open>V\<close>.
\<close>

definition set_prototype :: "heap \<Rightarrow> nat \<Rightarrow> jval \<Rightarrow> js_error + heap" where
  "set_prototype h a v =
     (let ob = h ! a in
      if o_proto ob = v then Inr h
      else if o_class ob = ImmutableProtoObj then Inl TypeError
      else (case chain_has (Suc (length h)) h v a of
              Inl e \<Rightarrow> Inl e
            | Inr True \<Rightarrow> Inl TypeError
            | Inr False \<Rightarrow> Inr (h[a := ob\<lparr>o_proto := v\<rparr>])))"

text \<open>
  The setter of \<open>Object.prototype.__proto__\<close>: a value that is neither an object nor
  \<open>null\<close>, or a primitive receiver, makes it return without effect.
\<close>

definition proto_setter :: "heap \<Rightarrow> jval \<Rightarrow> jval \<Rightarrow> js_error + heap" where
  "proto_setter h base v =
     (case base of
        Ref a \<Rightarrow>
          (case v of
             Ref _ \<Rightarrow> set_prototype h a v
           | Prim PNull \<Rightarrow> set_prototype h a v
           | Prim _ \<Rightarrow> Inr h)
      | Prim PUndef \<Rightarrow> Inl TypeError
      | Prim PNull \<Rightarrow> Inl TypeError
      | Prim _ \<Rightarrow> Inr h)"

text \<open>
  \<open>base[k] = v\<close> in strict code: the accessor runs its setter; a non-writable data
  property (own or inherited) throws; otherwise an object receives an own data property,
  and a primitive receiver throws.
\<close>

definition set_value :: "realm \<Rightarrow> heap \<Rightarrow> jval \<Rightarrow> string \<Rightarrow> jval \<Rightarrow> js_error + heap" where
  "set_value R h base k v =
     (case find_on R h base k of
        Inl e \<Rightarrow> Inl e
      | Inr FoundProtoAccessor \<Rightarrow> proto_setter h base v
      | Inr (FoundData _ False) \<Rightarrow> Inl TypeError
      | Inr _ \<Rightarrow> (case base of Ref a \<Rightarrow> define_own h a k v | Prim _ \<Rightarrow> Inl TypeError))"

subsection \<open>Object creation\<close>

definition alloc :: "heap \<Rightarrow> jobj \<Rightarrow> heap \<times> nat" where
  "alloc h ob = (h @ [ob], length h)"

text \<open>The object literal \<open>{}\<close>.\<close>

definition empty_object :: "realm \<Rightarrow> jobj" where
  "empty_object R =
     \<lparr>o_class = OrdinaryObj, o_proto = Ref (object_proto R), o_props = [], o_readonly = [],
      o_hidden = []\<rparr>"

text \<open>
  \<open>{ ...src }\<close> for an object \<open>src\<close>: a new ordinary object with a copy of the own
  enumerable properties of \<open>src\<close>, in order. The values are copied, so objects held by
  \<open>src\<close> are shared, not cloned.
\<close>

definition spread_object :: "realm \<Rightarrow> heap \<Rightarrow> nat \<Rightarrow> js_error + heap \<times> nat" where
  "spread_object R h a =
     (if a < length h then
        Inr (alloc h ((empty_object R)\<lparr>o_props :=
               filter (\<lambda>(k, _). k \<notin> set (o_hidden (h ! a))) (o_props (h ! a))\<rparr>))
      else Inl (DanglingRef a))"


subsection \<open>The intrinsic objects\<close>

text \<open>
  A built-in function: its \<open>length\<close> and \<open>name\<close> are neither writable nor enumerable.
  \<open>Function.prototype\<close> is at address 12.
\<close>

definition builtin_fn :: "string \<Rightarrow> int \<Rightarrow> jobj" where
  "builtin_fn name arity =
     \<lparr>o_class = FunctionObj, o_proto = Ref 12,
      o_props = [(''length'', Prim (PNum arity)), (''name'', Prim (PStr name))],
      o_readonly = [''length'', ''name''], o_hidden = [''length'', ''name'']\<rparr>"

text \<open>
  The methods of \<open>Object.prototype\<close> besides \<open>constructor\<close> and the \<open>__proto__\<close>
  accessor, with their arities, at addresses 2 to 11.
\<close>

definition object_proto_methods :: "(string \<times> int) list" where
  "object_proto_methods =
     [(''__defineGetter__'', 2), (''__defineSetter__'', 2), (''hasOwnProperty'', 1),
      (''__lookupGetter__'', 1), (''__lookupSetter__'', 1), (''isPrototypeOf'', 1),
      (''propertyIsEnumerable'', 1), (''toString'', 0), (''valueOf'', 0), (''toLocaleString'', 0)]"

text \<open>
  The intrinsics the model holds: \<open>Object.prototype\<close> (0) with all its properties, the
  \<open>Object\<close> constructor (1), the methods of \<open>Object.prototype\<close> (2-11),
  \<open>Function.prototype\<close> (12), \<open>Array.prototype\<close> (13), \<open>String.prototype\<close> (14),
  \<open>Number.prototype\<close> (15) and \<open>Boolean.prototype\<close> (16). The methods of the last five
  and the static methods of \<open>Object\<close> are left out.
\<close>

definition js_intrinsics :: heap where
  "js_intrinsics =
     [\<lparr>o_class = ImmutableProtoObj, o_proto = Prim PNull,
       o_props = (''constructor'', Ref 1) # zip (map fst object_proto_methods) (map Ref [2..<12]),
       o_readonly = [], o_hidden = ''constructor'' # map fst object_proto_methods\<rparr>,
      \<lparr>o_class = FunctionObj, o_proto = Ref 12,
       o_props = [(''length'', Prim (PNum 1)), (''name'', Prim (PStr ''Object'')), (''prototype'', Ref 0)],
       o_readonly = [''length'', ''name'', ''prototype''], o_hidden = [''length'', ''name'', ''prototype'']\<rparr>]
     @ map (\<lambda>(n, k). builtin_fn n k) object_proto_methods
     @ [\<lparr>o_class = FunctionObj, o_proto = Ref 0,
         o_props = [(''length'', Prim (PNum 0)), (''name'', Prim (PStr ''''))],
         o_readonly = [''length'', ''name''], o_hidden = [''length'', ''name'']\<rparr>,
        \<lparr>o_class = ArrayObj, o_proto = Ref 0, o_props = [(''length'', Prim (PNum 0))],
         o_readonly = [], o_hidden = [''length'']\<rparr>,
        \<lparr>o_class = OrdinaryObj, o_proto = Ref 0, o_props = [(''length'', Prim (PNum 0))],
         o_readonly = [''length''], o_hidden = [''length'']\<rparr>,
        \<lparr>o_class = OrdinaryObj, o_proto = Ref 0, o_props = [], o_readonly = [], o_hidden = []\<rparr>,
        \<lparr>o_class = OrdinaryObj, o_proto = Ref 0, o_props = [], o_readonly = [], o_hidden = []\<rparr>]"

definition js_realm :: realm where
  "js_realm = \<lparr>object_proto = 0, array_proto = 13, string_proto = 14, number_proto = 15,
                boolean_proto = 16\<rparr>"

end
