(* ===== verification/NestedUpdate.thy ===== *)
theory NestedUpdate
  imports JsHeap FormData
begin

text \<open>
  \<open>updateNestedFormData(path, value)\<close> of \<open>src/app/providers/FormDataProvider.tsx\<close>
  (lines 150-166) on the heap of \<open>JsHeap\<close>: the provider's state is the address of an
  object of the heap, \<open>{ ...prev }\<close> copies only the top level, and the walk over the
  dotted path reads, creates and assigns properties with the semantics of the language.
  The record \<open>form_data\<close> of \<open>FormData\<close> is laid out in the heap as the object tree
  \<open>fd_tree\<close> the literal \<open>initialFormData\<close> builds; \<open>read_tree\<close> reads a tree back.
  The provider is \<open>js_store\<close>: the heap and the address its \<open>formData\<close> state holds.
\<close>

subsection \<open>The walk\<close>

text \<open>
  The loop \<open>for (i = 0; i < parts.length - 1; i++)\<close>: if \<open>current[part]\<close> is falsy,
  assign it a new \<open>{}\<close>; then step to \<open>current[part]\<close>, read again.
\<close>

fun walk :: "realm \<Rightarrow> heap \<Rightarrow> jval \<Rightarrow> string list \<Rightarrow> js_error + heap \<times> jval" where
  "walk R h cur [] = Inr (h, cur)"
| "walk R h cur (k # ks) =
     (case get_value R h cur k of
        Inl e \<Rightarrow> Inl e
      | Inr v \<Rightarrow>
          if truthy v then walk R h v ks
          else (let (h1, a) = alloc h (empty_object R) in
                case set_value R h1 cur k (Ref a) of
                  Inl e \<Rightarrow> Inl e
                | Inr h2 \<Rightarrow>
                    (case get_value R h2 cur k of
                       Inl e \<Rightarrow> Inl e
                     | Inr v' \<Rightarrow> walk R h2 v' ks)))"

text \<open>
  The updater passed to \<open>setFormData\<close>: spread \<open>prev\<close> into \<open>result\<close>, split the path
  at dots, walk all parts but the last from \<open>result\<close>, assign the value to the last
  part, return \<open>result\<close>.
\<close>

definition updateNestedFormData ::
  "realm \<Rightarrow> heap \<Rightarrow> nat \<Rightarrow> string \<Rightarrow> jval \<Rightarrow> js_error + heap \<times> nat" where
  "updateNestedFormData R h prev path value =
     (case spread_object R h prev of
        Inl e \<Rightarrow> Inl e
      | Inr (h1, result) \<Rightarrow>
          (let parts = js_split CHR ''.'' path in
           case walk R h1 (Ref result) (butlast parts) of
             Inl e \<Rightarrow> Inl e
           | Inr (h2, current) \<Rightarrow>
               (case set_value R h2 current (last parts) value of
                  Inl e \<Rightarrow> Inl e
                | Inr h3 \<Rightarrow> Inr (h3, result))))"

subsection \<open>Object trees\<close>

text \<open>
  The data a value denotes when its objects form a tree: a primitive, or an object of a
  class with its own properties in order.
\<close>

datatype jtree = TPrim prim | TObj obj_class "(string \<times> jtree) list"

text \<open>Reading the tree below a value, to a depth given as fuel.\<close>

fun read_tree :: "nat \<Rightarrow> heap \<Rightarrow> jval \<Rightarrow> jtree option" where
  "read_tree n h (Prim p) = Some (TPrim p)"
| "read_tree 0 h (Ref a) = None"
| "read_tree (Suc n) h (Ref a) =
     (if a < length h then
        map_option (TObj (o_class (h ! a)))
          (those (map (\<lambda>(k, v). map_option (Pair k) (read_tree n h v)) (o_props (h ! a))))
      else None)"

text \<open>The prototype a literal of each class receives.\<close>

definition class_proto :: "realm \<Rightarrow> obj_class \<Rightarrow> jval" where
  "class_proto R c = Ref (if c = ArrayObj then array_proto R else object_proto R)"

text \<open>
  Evaluating a literal that denotes a tree: the nested objects first, then the object
  holding them; the \<open>length\<close> of an array is not enumerable.
\<close>

fun alloc_tree :: "realm \<Rightarrow> heap \<Rightarrow> jtree \<Rightarrow> heap \<times> jval"
  and alloc_props :: "realm \<Rightarrow> heap \<Rightarrow> (string \<times> jtree) list \<Rightarrow> heap \<times> (string \<times> jval) list" where
  "alloc_tree R h (TPrim p) = (h, Prim p)"
| "alloc_tree R h (TObj c kts) =
     (let (h1, kvs) = alloc_props R h kts
      in (h1 @ [\<lparr>o_class = c, o_proto = class_proto R c, o_props = kvs, o_readonly = [],
                 o_hidden = (if c = ArrayObj then [''length''] else [])\<rparr>], Ref (length h1)))"
| "alloc_props R h [] = (h, [])"
| "alloc_props R h ((k, t) # kts) =
     (let (h1, v) = alloc_tree R h t; (h2, kvs) = alloc_props R h1 kts in (h2, (k, v) # kvs))"

subsection \<open>The form data as an object tree\<close>

text \<open>
  The string an identifier stands for (a \<open>uuidv4()\<close> string in the code; any injective
  spelling serves).
\<close>

primrec uuid_str :: "uuid \<Rightarrow> string" where
  "uuid_str (Uuid n) = ''uuid-'' @ nat_str n"

definition jstr :: "string \<Rightarrow> jtree" where
  "jstr s = TPrim (PStr s)"

definition jbool :: "bool \<Rightarrow> jtree" where
  "jbool b = TPrim (PBool b)"

definition jnum :: "int \<Rightarrow> jtree" where
  "jnum n = TPrim (PNum n)"

text \<open>An array literal: \<open>length\<close>, then one property per element.\<close>

definition jarray :: "jtree list \<Rightarrow> jtree" where
  "jarray ts = TObj ArrayObj ((''length'', jnum (int (length ts))) # zip (map nat_str [0..<length ts]) ts)"

primrec gender_str :: "gender \<Rightarrow> string" where
  "gender_str Male = ''Male''"
| "gender_str Female = ''Female''"
| "gender_str Other = ''Other''"

primrec marital_str :: "marital_status \<Rightarrow> string" where
  "marital_str MS_Single = ''Single''"
| "marital_str MS_Married = ''Married''"
| "marital_str MS_Divorced = ''Divorced''"
| "marital_str MS_Widowed = ''Widowed''"
| "marital_str MS_Unset = ''''"

primrec employment_str :: "employment_status \<Rightarrow> string" where
  "employment_str ES_Employed = ''Employed''"
| "employment_str ES_SelfEmployed = ''Self-employed''"
| "employment_str ES_Student = ''Student''"
| "employment_str ES_Retired = ''Retired''"
| "employment_str ES_Unemployed = ''Unemployed''"
| "employment_str ES_Unset = ''''"

primrec sponsor_str :: "trip_sponsor \<Rightarrow> string" where
  "sponsor_str TS_Self = ''Self''"
| "sponsor_str TS_Employer = ''Employer''"
| "sponsor_str TS_Family = ''Family''"
| "sponsor_str TS_Other = ''Other''"
| "sponsor_str TS_Unset = ''''"

definition doc_tree :: "id_document \<Rightarrow> jtree" where
  "doc_tree d = TObj OrdinaryObj
     [(''number'', jstr (doc_number d)), (''issuingAuthority'', jstr (doc_issuingAuthority d)),
      (''dateOfIssue'', jstr (doc_dateOfIssue d)), (''dateOfExpiry'', jstr (doc_dateOfExpiry d))]"

definition personal_tree :: "personal_info \<Rightarrow> jtree" where
  "personal_tree p = TObj OrdinaryObj
     [(''email'', jstr (pi_email p)), (''phone'', jstr (pi_phone p)),
      (''firstName'', jstr (pi_firstName p)), (''lastName'', jstr (pi_lastName p)),
      (''gender'', jstr (gender_str (pi_gender p))), (''placeOfBirth'', jstr (pi_placeOfBirth p)),
      (''hasNameChanged'', jbool (pi_hasNameChanged p))]"

definition spouse_tree :: "spouse_info \<Rightarrow> jtree" where
  "spouse_tree s = TObj OrdinaryObj
     [(''firstName'', jstr (sp_firstName s)), (''lastName'', jstr (sp_lastName s)),
      (''dateOfBirth'', jstr (sp_dateOfBirth s)), (''nationality'', jstr (sp_nationality s)),
      (''travelingWithYou'', jbool (sp_travelingWithYou s))]"

definition child_tree :: "child \<Rightarrow> jtree" where
  "child_tree c = TObj OrdinaryObj
     [(''id'', jstr (uuid_str (ch_id c))), (''firstName'', jstr (ch_firstName c)),
      (''lastName'', jstr (ch_lastName c)), (''dateOfBirth'', jstr (ch_dateOfBirth c)),
      (''relationship'', jstr (ch_relationship c)),
      (''travelingWithYou'', jbool (ch_travelingWithYou c))]"

definition current_tree :: "current_address \<Rightarrow> jtree" where
  "current_tree a = TObj OrdinaryObj
     [(''street'', jstr (ca_street a)), (''city'', jstr (ca_city a)), (''state'', jstr (ca_state a)),
      (''postalCode'', jstr (ca_postalCode a)), (''country'', jstr (ca_country a)),
      (''yearsAtAddress'', jnum (yearsAtAddress a)), (''monthsAtAddress'', jnum (monthsAtAddress a))]"

definition previous_tree :: "previous_address \<Rightarrow> jtree" where
  "previous_tree a = TObj OrdinaryObj
     [(''id'', jstr (uuid_str (pa_id a))), (''street'', jstr (pa_street a)), (''city'', jstr (pa_city a)),
      (''state'', jstr (pa_state a)), (''postalCode'', jstr (pa_postalCode a)),
      (''country'', jstr (pa_country a)), (''fromDate'', jstr (pa_fromDate a)),
      (''toDate'', jstr (pa_toDate a)), (''reasonForLeaving'', jstr (pa_reasonForLeaving a))]"

definition employment_tree :: "employment_info \<Rightarrow> jtree" where
  "employment_tree e = TObj OrdinaryObj
     [(''companyName'', jstr (em_companyName e)), (''jobTitle'', jstr (em_jobTitle e)),
      (''startDate'', jstr (em_startDate e)), (''salary'', jstr (em_salary e)),
      (''employerAddress'', jstr (em_employerAddress e)), (''employerPhone'', jstr (em_employerPhone e))]"

definition self_employment_tree :: "self_employment_info \<Rightarrow> jtree" where
  "self_employment_tree e = TObj OrdinaryObj
     [(''businessName'', jstr (se_businessName e)), (''businessType'', jstr (se_businessType e)),
      (''annualIncome'', jstr (se_annualIncome e)), (''startDate'', jstr (se_startDate e))]"

definition education_tree :: "education_info \<Rightarrow> jtree" where
  "education_tree e = TObj OrdinaryObj
     [(''institutionName'', jstr (ed_institutionName e)), (''course'', jstr (ed_course e)),
      (''startDate'', jstr (ed_startDate e)), (''endDate'', jstr (ed_endDate e)),
      (''isFullTime'', jbool (ed_isFullTime e))]"

definition sponsor_tree :: "sponsor_details_info \<Rightarrow> jtree" where
  "sponsor_tree s = TObj OrdinaryObj
     [(''name'', jstr (sd_name s)), (''relationship'', jstr (sd_relationship s)),
      (''contactInfo'', jstr (sd_contactInfo s))]"

text \<open>An optional key (\<open>spouse?\<close>): absent when the record holds no value.\<close>

definition opt_key :: "string \<Rightarrow> ('a \<Rightarrow> jtree) \<Rightarrow> 'a option \<Rightarrow> (string \<times> jtree) list" where
  "opt_key k f x = (case x of None \<Rightarrow> [] | Some y \<Rightarrow> [(k, f y)])"

text \<open>
  The record as an object: the keys of the literal \<open>initialFormData\<close> in its order, then
  the optional keys that are present. Key order is not observable by the program (it
  never enumerates the record but through spread, which keeps it).
\<close>

definition fd_tree :: "form_data \<Rightarrow> jtree" where
  "fd_tree fd = TObj OrdinaryObj
     ([(''passport'', doc_tree (passport fd)), (''nationalId'', doc_tree (nationalId fd)),
       (''personalInfo'', personal_tree (personalInfo fd)),
       (''maritalStatus'', jstr (marital_str (maritalStatus fd))),
       (''children'', jarray (map child_tree (children fd))),
       (''currentAddress'', current_tree (currentAddress fd)),
       (''previousAddresses'', jarray (map previous_tree (previousAddresses fd))),
       (''employmentStatus'', jstr (employment_str (employmentStatus fd))),
       (''tripSponsor'', jstr (sponsor_str (tripSponsor fd)))]
      @ opt_key ''spouse'' spouse_tree (spouse fd)
      @ opt_key ''employment'' employment_tree (employment fd)
      @ opt_key ''selfEmployment'' self_employment_tree (selfEmployment fd)
      @ opt_key ''education'' education_tree (education fd)
      @ opt_key ''sponsorDetails'' sponsor_tree (sponsorDetails fd))"


subsection \<open>The provider\<close>

text \<open>
  The provider's state: the heap and the address that \<open>formData\<close> holds. The module
  evaluates the literal \<open>initialFormData\<close> once, after the intrinsics;
  \<open>useState(initialFormData)\<close> makes that very object the state of every provider
  that mounts.
\<close>

record js_store =
  js_heap :: heap
  js_formData :: nat

definition module_init :: "heap \<times> jval" where
  "module_init = alloc_tree js_realm js_intrinsics (fd_tree initialFormData)"

definition module_heap :: heap where
  "module_heap = fst module_init"

definition initialFormData_addr :: nat where
  "initialFormData_addr = (case snd module_init of Ref a \<Rightarrow> a | Prim _ \<Rightarrow> 0)"

definition provider_mount :: "heap \<Rightarrow> js_store" where
  "provider_mount h = \<lparr>js_heap = h, js_formData = initialFormData_addr\<rparr>"

text \<open>
  \<open>updateNestedFormData(path, value)\<close>: \<open>setFormData\<close> with the updater, whose result
  becomes the state; an exception of the updater propagates.
\<close>

definition provider_nested :: "realm \<Rightarrow> js_store \<Rightarrow> string \<Rightarrow> jval \<Rightarrow> js_error + js_store" where
  "provider_nested R st path value =
     (case updateNestedFormData R (js_heap st) (js_formData st) path value of
        Inl e \<Rightarrow> Inl e
      | Inr (h, r) \<Rightarrow> Inr \<lparr>js_heap = h, js_formData = r\<rparr>)"

text \<open>What the components see as \<open>formData\<close>.\<close>

definition store_tree :: "js_store \<Rightarrow> jtree option" where
  "store_tree st = read_tree (length (js_heap st)) (js_heap st) (Ref (js_formData st))"


subsection \<open>The contract of a path update\<close>

text \<open>
  The specification's \<open>updateAtPath(path, value)\<close> on trees: walk the keys, creating an
  empty mapping level where none exists, and set the leaf. A level that holds a primitive
  is not a mapping level; the contract does not say what happens there, and
  \<open>updateAtPath\<close> replaces it like a missing one.
\<close>

fun tree_child :: "jtree \<Rightarrow> string \<Rightarrow> jtree option" where
  "tree_child (TObj c kts) k = map_of kts k"
| "tree_child (TPrim p) k = None"

fun tree_put :: "string \<Rightarrow> jtree \<Rightarrow> jtree \<Rightarrow> jtree" where
  "tree_put k v (TObj c kts) = TObj c (AList.update k v kts)"
| "tree_put k v (TPrim p) = TPrim p"

fun updateAtPath :: "string list \<Rightarrow> jtree \<Rightarrow> jtree \<Rightarrow> jtree" where
  "updateAtPath [] v t = v"
| "updateAtPath (k # ks) v t =
     tree_put k
       (updateAtPath ks v (case tree_child t k of Some (TObj c kts) \<Rightarrow> TObj c kts | _ \<Rightarrow> TObj OrdinaryObj []))
       t"


subsection \<open>Behaviour on the application's record\<close>

text \<open>
  The updates below start from a provider freshly mounted on the module's heap, the state
  every page begins in.
\<close>

lemma fd_tree_partial_spouse:
  "tree_put ''spouse'' (TObj OrdinaryObj [(''firstName'', jstr s)]) (fd_tree initialFormData) \<noteq> fd_tree fd"
  by (cases "spouse fd"; cases "employment fd"; cases "selfEmployment fd"; cases "education fd";
      cases "sponsorDetails fd")
     (simp_all add: fd_tree_def initialFormData_def opt_key_def spouse_tree_def)

lemma nested_update_string_intermediate_cons:
  "case provider_nested js_realm (provider_mount module_heap) ''passport.number'' (Prim (PStr (c # cs))) of
     Inr st \<Rightarrow> provider_nested js_realm st ''passport.number.x'' v = Inl TypeError
   | Inl _ \<Rightarrow> False"
  by code_simp

text \<open>
  A missing intermediate level is created, as the specification asks, but as an
  object holding only the leaf: after \<open>"spouse.firstName"\<close> the record has a spouse
  with a first name and nothing else, which is the layout of no \<open>FormData\<close> value.
\<close>

lemma nested_update_partial_intermediate:
  "case provider_nested js_realm (provider_mount module_heap) ''spouse.firstName'' (Prim (PStr s)) of
     Inr st \<Rightarrow>
       store_tree st = Some (tree_put ''spouse'' (TObj OrdinaryObj [(''firstName'', jstr s)]) (fd_tree initialFormData))
       \<and> (\<forall>fd. store_tree st \<noteq> Some (fd_tree fd))
   | Inl _ \<Rightarrow> False"
proof -
  have "case provider_nested js_realm (provider_mount module_heap) ''spouse.firstName'' (Prim (PStr s)) of
          Inr st \<Rightarrow> store_tree st = Some (tree_put ''spouse'' (TObj OrdinaryObj [(''firstName'', jstr s)]) (fd_tree initialFormData))
        | Inl _ \<Rightarrow> False"
    by code_simp
  then show ?thesis
    by (auto split: sum.splits simp: fd_tree_partial_spouse)
qed

text \<open>
  An intermediate level that holds a non-empty string is not replaced: the
  assignment to a property of the string throws a \<open>TypeError\<close> (module code is strict),
  although the specification says the update must not fail.
\<close>

lemma nested_update_string_intermediate_throws:
  assumes "s \<noteq> []"
  shows "case provider_nested js_realm (provider_mount module_heap) ''passport.number'' (Prim (PStr s)) of
           Inr st \<Rightarrow> provider_nested js_realm st ''passport.number.x'' v = Inl TypeError
         | Inl _ \<Rightarrow> False"
proof -
  obtain c cs where "s = c # cs" using assms by (cases s) auto
  then show ?thesis using nested_update_string_intermediate_cons by simp
qed

lemma nested_update_string_intermediate_throws_example:
  "case provider_nested js_realm (provider_mount module_heap) ''passport.number'' (Prim (PStr ''abc'')) of
     Inr st \<Rightarrow> provider_nested js_realm st ''passport.number.x'' (Prim (PStr ''v'')) = Inl TypeError
   | Inl _ \<Rightarrow> False"
  by (rule nested_update_string_intermediate_throws) simp

text \<open>
  The walk follows inherited properties. The path \<open>"__proto__.polluted"\<close> (and
  \<open>"constructor.prototype.polluted"\<close>) writes to \<open>Object.prototype\<close>: the record is
  unchanged, and every object created afterwards with \<open>{}\<close> has the property.
\<close>

lemma nested_update_prototype_pollution:
  "(case provider_nested js_realm (provider_mount module_heap) ''__proto__.polluted'' v of
      Inr st \<Rightarrow>
        store_tree st = Some (fd_tree initialFormData)
        \<and> (let (h, a) = alloc (js_heap st) (empty_object js_realm) in get_value js_realm h (Ref a) ''polluted'' = Inr v)
    | Inl _ \<Rightarrow> False)
   \<and> (case provider_nested js_realm (provider_mount module_heap) ''constructor.prototype.polluted'' v of
      Inr st \<Rightarrow>
        store_tree st = Some (fd_tree initialFormData)
        \<and> (let (h, a) = alloc (js_heap st) (empty_object js_realm) in get_value js_realm h (Ref a) ''polluted'' = Inr v)
    | Inl _ \<Rightarrow> False)"
  by code_simp

end
