(* ===== verification/HeapWf.thy ===== *)
theory HeapWf
  imports NestedUpdate
begin

text \<open>
  Well-formed heaps and the fuel of \<open>JsHeap\<close>. A heap is well formed when the realm's
  prototypes are objects of the heap, every prototype chain ends, and every stored
  reference points into the heap. On such heaps the chain walks never run out of the fuel
  they are given (the number of objects), no reference dangles, and every operation that
  \<open>updateNestedFormData\<close> performs keeps the heap well formed. So the fuel chosen in
  \<open>JsHeap\<close> suffices: the update fails only with an exception of the language or on a
  construct the model leaves out (\<open>NotModelled\<close>), never by exhausting its fuel or
  following a dangling reference, and every store reachable through updates and remounts
  has a well-formed heap (\<open>store_reachable_wf\<close>).
\<close>

subsection \<open>Definitions\<close>

text \<open>The chain starting at \<open>a\<close> ends (reaches a \<open>null\<close> prototype) within \<open>n\<close> objects.\<close>

fun chain_ends :: "nat \<Rightarrow> heap \<Rightarrow> nat \<Rightarrow> bool" where
  "chain_ends 0 h a = False"
| "chain_ends (Suc n) h a =
     (a < length h \<and> (case o_proto (h ! a) of Ref b \<Rightarrow> chain_ends n h b | Prim _ \<Rightarrow> True))"

text \<open>The addresses of the chain starting at \<open>a\<close>, at most \<open>n\<close> of them.\<close>

fun chain_list :: "nat \<Rightarrow> heap \<Rightarrow> nat \<Rightarrow> nat list" where
  "chain_list 0 h a = []"
| "chain_list (Suc n) h a =
     (if a < length h then a # (case o_proto (h ! a) of Ref b \<Rightarrow> chain_list n h b | Prim _ \<Rightarrow> [])
      else [])"

fun jval_ok :: "heap \<Rightarrow> jval \<Rightarrow> bool" where
  "jval_ok h (Ref a) = (a < length h)"
| "jval_ok h (Prim p) = True"

definition realm_ok :: "realm \<Rightarrow> heap \<Rightarrow> bool" where
  "realm_ok R h \<longleftrightarrow>
     object_proto R < length h \<and> array_proto R < length h \<and> string_proto R < length h
     \<and> number_proto R < length h \<and> boolean_proto R < length h"

definition chains_ok :: "heap \<Rightarrow> bool" where
  "chains_ok h \<longleftrightarrow> (\<forall>a < length h. chain_ends (length h) h a)"

definition props_ok :: "heap \<Rightarrow> bool" where
  "props_ok h \<longleftrightarrow> (\<forall>a < length h. list_all (jval_ok h \<circ> snd) (o_props (h ! a)))"

definition heap_wf :: "realm \<Rightarrow> heap \<Rightarrow> bool" where
  "heap_wf R h \<longleftrightarrow> realm_ok R h \<and> chains_ok h \<and> props_ok h"

text \<open>
  The errors that are not failures of the model's bookkeeping: the exceptions of the
  language, and a construct outside the model (\<open>NotModelled\<close>, such as a non-number
  array length), as opposed to a dangling reference or exhausted fuel.
\<close>

fun not_stuck :: "js_error \<Rightarrow> bool" where
  "not_stuck TypeError = True"
| "not_stuck RangeError = True"
| "not_stuck (NotModelled _) = True"
| "not_stuck (DanglingRef _) = False"
| "not_stuck OutOfFuel = False"

text \<open>What a lookup finds on a well-formed heap is a value of the heap.\<close>

fun found_ok :: "heap \<Rightarrow> prop_find \<Rightarrow> bool" where
  "found_ok h (FoundData v w) = jval_ok h v"
| "found_ok h FoundProtoAccessor = True"
| "found_ok h NotFound = True"

text \<open>The result of an assignment: an error that is not a failure of the model, or a well-formed heap of the same size.\<close>

fun heap_result_ok :: "realm \<Rightarrow> nat \<Rightarrow> js_error + heap \<Rightarrow> bool" where
  "heap_result_ok R n (Inl e) = not_stuck e"
| "heap_result_ok R n (Inr h') = (heap_wf R h' \<and> length h' = n)"

subsection \<open>The provider's stores\<close>

text \<open>
  The stores the application can reach: the fresh provider on the module's heap, any
  nested update with a value of the heap, and the remount of a provider (the next page)
  on the current heap.
\<close>

inductive store_reachable :: "js_store \<Rightarrow> bool" where
  mount: "store_reachable (provider_mount module_heap)"
| nested: "store_reachable st \<Longrightarrow> jval_ok (js_heap st) v \<Longrightarrow>
           provider_nested js_realm st path v = Inr st' \<Longrightarrow> store_reachable st'"
| remount: "store_reachable st \<Longrightarrow> store_reachable (provider_mount (js_heap st))"

subsection \<open>Chains\<close>

lemma chain_ends_mono: "chain_ends n h a \<Longrightarrow> n \<le> m \<Longrightarrow> chain_ends m h a"
proof (induction n h a arbitrary: m rule: chain_ends.induct)
  case (2 n h a)
  then obtain m' where "m = Suc m'" and "n \<le> m'" by (cases m) auto
  with 2 show ?case by (auto split: jval.splits)
qed simp

lemma chain_ends_fuel: "chain_ends n h a \<Longrightarrow> chain_ends (length (chain_list n h a)) h a"
  by (induction n h a rule: chain_ends.induct) (auto split: jval.splits)

lemma chain_list_bound: "set (chain_list n h a) \<subseteq> {..<length h}"
proof (induction n h a rule: chain_list.induct)
  case (2 n h a)
  then show ?case by (cases "o_proto (h ! a)") auto
qed simp

lemma chain_list_tail: "x \<in> set (chain_list n h b) \<Longrightarrow> chain_ends m h b \<Longrightarrow> chain_ends m h x"
proof (induction n h b arbitrary: m rule: chain_list.induct)
  case (2 n h b)
  show ?case
  proof (cases "x = b")
    case False
    from "2.prems" obtain m' where m: "m = Suc m'" by (cases m) auto
    from "2.prems" False obtain c where b: "b < length h" "o_proto (h ! b) = Ref c"
      and x: "x \<in> set (chain_list n h c)"
      by (cases "o_proto (h ! b)") (auto split: if_splits)
    with "2.prems" m have "chain_ends m' h c" by simp
    with b x "2.IH" have "chain_ends m' h x" by blast
    with m show ?thesis using chain_ends_mono [of m' h x m] by simp
  qed (use "2.prems" in simp)
qed simp

lemma chain_list_distinct: "chain_ends n h a \<Longrightarrow> distinct (chain_list n h a)"
proof (induction n h a rule: chain_ends.induct)
  case (2 n h a)
  show ?case
  proof (cases "o_proto (h ! a)")
    case (Ref b)
    with "2.prems" have ends: "chain_ends n h b" and a: "a < length h" by auto
    have "a \<notin> set (chain_list n h b)"
    proof
      assume on: "a \<in> set (chain_list n h b)"
      obtain \<mu> where mu: "chain_ends \<mu> h a" "\<forall>k < \<mu>. \<not> chain_ends k h a"
        using exists_least_iff [of "\<lambda>k. chain_ends k h a"] "2.prems" by blast
      then obtain k where "\<mu> = Suc k" by (cases \<mu>) auto
      with mu Ref have "chain_ends k h b" by simp
      with on have "chain_ends k h a" by (rule chain_list_tail)
      with mu \<open>\<mu> = Suc k\<close> show False by simp
    qed
    with "2.IH" Ref ends a show ?thesis by simp
  qed (use "2.prems" in simp)
qed simp

lemma chain_ends_bound: "chain_ends n h a \<Longrightarrow> chain_ends (length h) h a"
proof -
  assume e: "chain_ends n h a"
  have "length (chain_list n h a) = card (set (chain_list n h a))"
    using chain_list_distinct [OF e] by (simp add: distinct_card)
  also have "\<dots> \<le> card {..<length h}"
    by (rule card_mono) (simp_all add: chain_list_bound)
  finally have "length (chain_list n h a) \<le> length h" by simp
  with chain_ends_fuel [OF e] show ?thesis by (rule chain_ends_mono)
qed


lemma chain_ends_append: "chain_ends n h a \<Longrightarrow> chain_ends n (h @ hs) a"
  by (induction n h a rule: chain_ends.induct) (auto simp: nth_append split: jval.splits)

lemma chain_ends_same_protos:
  assumes "length h' = length h" and "\<And>x. x < length h \<Longrightarrow> o_proto (h' ! x) = o_proto (h ! x)"
  shows "chain_ends n h' a = chain_ends n h a"
  using assms by (induction n h a rule: chain_ends.induct) (auto split: jval.splits)

lemma chain_ends_update_off_chain:
  "chain_ends n h w \<Longrightarrow> a \<notin> set (chain_list n h w) \<Longrightarrow> chain_ends n (h[a := ob]) w"
  by (induction n h w rule: chain_ends.induct) (auto split: jval.splits)

lemma chain_has_False:
  "chain_has (Suc n) h (Ref w) a = Inr False \<Longrightarrow> chain_ends n h w \<and> a \<notin> set (chain_list n h w)"
proof (induction n arbitrary: w)
  case 0
  then show ?case by (auto split: if_splits)
next
  case (Suc n)
  then show ?case by (auto split: if_splits jval.splits)
qed

lemma chain_has_ends: "chain_ends n h w \<Longrightarrow> \<exists>b. chain_has (Suc n) h (Ref w) a = Inr b"
  by (induction n h w rule: chain_ends.induct) (auto split: jval.splits)

lemma chain_ends_null_proto:
  "chain_ends n h x \<Longrightarrow> chain_ends n (h[a := (h ! a)\<lparr>o_proto := Prim p\<rparr>]) x"
  by (induction n h x rule: chain_ends.induct) (auto simp: nth_list_update_any split: jval.splits)

lemma chain_ends_ref_proto:
  assumes "chain_ends n h x" and "a < length h"
    and "chain_ends k (h[a := (h ! a)\<lparr>o_proto := Ref w\<rparr>]) w"
  shows "\<exists>m. chain_ends m (h[a := (h ! a)\<lparr>o_proto := Ref w\<rparr>]) x"
  using assms
proof (induction n h x rule: chain_ends.induct)
  case (2 n h x)
  show ?case
  proof (cases "x = a")
    case True
    with "2.prems" have "chain_ends (Suc k) (h[a := (h ! a)\<lparr>o_proto := Ref w\<rparr>]) x" by simp
    then show ?thesis ..
  next
    case False
    show ?thesis
    proof (cases "o_proto (h ! x)")
      case (Prim p)
      with False "2.prems" have "chain_ends 1 (h[a := (h ! a)\<lparr>o_proto := Ref w\<rparr>]) x" by simp
      then show ?thesis ..
    next
      case (Ref b)
      with "2.prems" "2.IH" obtain m where "chain_ends m (h[a := (h ! a)\<lparr>o_proto := Ref w\<rparr>]) b"
        by auto
      with False Ref "2.prems" have "chain_ends (Suc m) (h[a := (h ! a)\<lparr>o_proto := Ref w\<rparr>]) x" by simp
      then show ?thesis ..
    qed
  qed
qed simp


subsection \<open>Lookup\<close>

lemma jval_ok_append [simp]: "jval_ok h v \<Longrightarrow> jval_ok (h @ hs) v"
  by (cases v) auto

lemma list_all_update_alist:
  "list_all P ps \<Longrightarrow> P (k, v) \<Longrightarrow> list_all P (AList.update k v ps)"
  by (induction ps) auto

lemma props_ok_value:
  "props_ok h \<Longrightarrow> a < length h \<Longrightarrow> map_of (o_props (h ! a)) k = Some v \<Longrightarrow> jval_ok h v"
  unfolding props_ok_def list_all_iff by (fastforce dest: map_of_SomeD)

lemma chain_ends_valid: "chain_ends n h a \<Longrightarrow> a < length h"
  by (cases n) auto

lemma chains_ok_proto:
  assumes "chains_ok h" and "a < length h"
  shows "jval_ok h (o_proto (h ! a))"
proof (cases "o_proto (h ! a)")
  case (Ref b)
  from assms have "chain_ends (length h) h a" by (simp add: chains_ok_def)
  with Ref have "chain_ends (length h - 1) h b" by (cases "length h") auto
  with Ref show ?thesis by (simp add: chain_ends_valid)
qed simp

lemma find_prop_ok:
  assumes "chain_ends n h a" and "props_ok h"
  shows "\<exists>f. find_prop n R h a k = Inr f \<and> found_ok h f"
  using assms
proof (induction n h a rule: chain_ends.induct)
  case (2 n h a)
  then show ?case
    by (auto split: option.splits jval.splits dest: props_ok_value)
qed simp

lemma find_on_ok:
  assumes "heap_wf R h" and "jval_ok h base"
  shows "case find_on R h base k of Inl e \<Rightarrow> e = TypeError | Inr f \<Rightarrow> found_ok h f"
proof -
  have chain: "chain_ends (length h) h a" if "a < length h" for a
    using assms(1) that by (simp add: heap_wf_def chains_ok_def)
  have fp: "\<exists>f. find_prop (length h) R h a k = Inr f \<and> found_ok h f" if "a < length h" for a
    using find_prop_ok [OF chain [OF that]] assms(1) by (simp add: heap_wf_def)
  have r: "string_proto R < length h" "number_proto R < length h" "boolean_proto R < length h"
    using assms(1) by (simp_all add: heap_wf_def realm_ok_def)
  show ?thesis
  proof (cases base)
    case (Prim p)
    with fp [OF r(1)] fp [OF r(2)] fp [OF r(3)] show ?thesis
      by (cases p) (auto simp: find_on_def string_own_def split: option.splits if_splits)
  next
    case (Ref a)
    with assms(2) have "a < length h" by simp
    with Ref fp [OF this] show ?thesis by (auto simp: find_on_def)
  qed
qed

lemma get_value_ok:
  assumes "heap_wf R h" and "jval_ok h base"
  shows "case get_value R h base k of Inl e \<Rightarrow> e = TypeError | Inr v \<Rightarrow> jval_ok h v"
  using find_on_ok [OF assms, of k] assms chains_ok_proto [of h]
  by (cases base) (auto simp: get_value_def proto_value_def heap_wf_def realm_ok_def
                        split: sum.splits prop_find.splits prim.splits)


subsection \<open>Assignment and allocation\<close>

lemma jval_ok_mono: "jval_ok h v \<Longrightarrow> length h \<le> length h' \<Longrightarrow> jval_ok h' v"
  by (cases v) auto

lemma jval_ok_update [simp]: "jval_ok (h[a := x]) = jval_ok h"
proof
  fix v show "jval_ok (h[a := x]) v = jval_ok h v" by (cases v) simp_all
qed

lemma heap_wf_same_props:
  assumes "heap_wf R h" and "length h' = length h" and "chains_ok h'"
    and "\<And>x. x < length h \<Longrightarrow> o_props (h' ! x) = o_props (h ! x)"
  shows "heap_wf R h'"
proof -
  have "jval_ok h' v = jval_ok h v" for v
    using assms(2) by (cases v) simp_all
  then have "jval_ok h' = jval_ok h" by blast
  with assms show ?thesis by (simp add: heap_wf_def realm_ok_def props_ok_def)
qed

lemma heap_wf_props_update:
  assumes "heap_wf R h" and "a < length h" and "list_all (jval_ok h \<circ> snd) ps"
  shows "heap_wf R (h[a := (h ! a)\<lparr>o_props := ps\<rparr>])"
proof -
  let ?h = "h[a := (h ! a)\<lparr>o_props := ps\<rparr>]"
  have "chain_ends n ?h x = chain_ends n h x" for n x
    by (rule chain_ends_same_protos) (simp_all add: nth_list_update_any)
  then have "chains_ok ?h" using assms(1) by (simp add: heap_wf_def chains_ok_def)
  moreover have "props_ok ?h"
    using assms by (simp add: heap_wf_def props_ok_def nth_list_update_any)
  ultimately show ?thesis using assms(1) by (simp add: heap_wf_def realm_ok_def)
qed

lemma define_own_ok:
  assumes "heap_wf R h" and "a < length h" and "jval_ok h v"
  shows "heap_result_ok R (length h) (define_own h a k v)"
proof -
  have ps: "list_all (jval_ok h \<circ> snd) (o_props (h ! a))"
    using assms(1,2) by (simp add: heap_wf_def props_ok_def)
  then have "list_all (jval_ok h \<circ> snd) (filter P (o_props (h ! a)))" for P
    by (simp add: list_all_iff)
  note ok = heap_wf_props_update [OF assms(1,2)] list_all_update_alist this ps assms(3)
  show ?thesis
    by (auto simp: define_own_def Let_def ok split: jval.splits prim.splits option.splits)
qed

lemma set_prototype_ok:
  assumes "heap_wf R h" and "a < length h" and "jval_ok h v"
  shows "heap_result_ok R (length h) (set_prototype h a v)"
proof -
  let ?h = "h[a := (h ! a)\<lparr>o_proto := v\<rparr>]"
  have chains: "chain_ends (length h) h x" if "x < length h" for x
    using assms(1) that by (simp add: heap_wf_def chains_ok_def)
  have upd: "heap_wf R ?h" if "\<And>x. x < length h \<Longrightarrow> \<exists>m. chain_ends m ?h x"
  proof (rule heap_wf_same_props [OF assms(1)])
    show "chains_ok ?h"
      using that chain_ends_bound by (fastforce simp: chains_ok_def)
  qed (simp_all add: nth_list_update_any)
  show ?thesis
  proof (cases v)
    case (Prim p)
    have "heap_wf R ?h"
      using Prim chains by (intro upd) (blast intro: chain_ends_null_proto)
    with Prim assms(1) show ?thesis by (simp add: set_prototype_def Let_def)
  next
    case (Ref w)
    with assms(3) have "w < length h" by simp
    then obtain b where b: "chain_has (Suc (length h)) h (Ref w) a = Inr b"
      using chain_has_ends [OF chains] by blast
    have "heap_wf R ?h" if "b = False"
    proof (rule upd)
      fix x assume "x < length h"
      from b that have "chain_ends (length h) h w \<and> a \<notin> set (chain_list (length h) h w)"
        by (simp add: chain_has_False)
      then have "chain_ends (length h) ?h w" using Ref by (simp add: chain_ends_update_off_chain)
      with chains [OF \<open>x < length h\<close>] assms(2) Ref show "\<exists>m. chain_ends m ?h x"
        by (simp add: chain_ends_ref_proto)
    qed
    with Ref b assms(1) show ?thesis
      by (cases b) (auto simp: set_prototype_def Let_def b simp del: chain_has.simps)
  qed
qed

lemma proto_setter_ok:
  assumes "heap_wf R h" and "jval_ok h base" and "jval_ok h v"
  shows "heap_result_ok R (length h) (proto_setter h base v)"
  using assms set_prototype_ok [OF assms(1) _ assms(3)]
  by (auto simp: proto_setter_def split: jval.splits prim.splits)

lemma set_value_ok:
  assumes "heap_wf R h" and "jval_ok h base" and "jval_ok h v"
  shows "heap_result_ok R (length h) (set_value R h base k v)"
  using find_on_ok [OF assms(1,2), of k] assms proto_setter_ok [OF assms]
    define_own_ok [OF assms(1) _ assms(3)]
  by (auto simp: set_value_def split: sum.splits prop_find.splits jval.splits bool.splits)


lemma alloc_ok:
  assumes "heap_wf R h" and "jval_ok h (o_proto ob)" and "list_all (jval_ok h \<circ> snd) (o_props ob)"
  shows "heap_wf R (h @ [ob])"
proof -
  have old: "chain_ends (Suc (length h)) (h @ [ob]) x" if "x < length h" for x
  proof -
    from assms(1) that have "chain_ends (length h) h x" by (simp add: heap_wf_def chains_ok_def)
    then have "chain_ends (length h) (h @ [ob]) x" by (rule chain_ends_append)
    then show ?thesis by (rule chain_ends_mono) simp
  qed
  have "chain_ends (Suc (length h)) (h @ [ob]) (length h)"
  proof (cases "o_proto ob")
    case (Ref p)
    with assms(2) have "p < length h" by simp
    with assms(1) have "chain_ends (length h) (h @ [ob]) p"
      by (simp add: heap_wf_def chains_ok_def chain_ends_append)
    with Ref show ?thesis by simp
  qed simp
  with old have "chains_ok (h @ [ob])" by (auto simp: chains_ok_def less_Suc_eq)
  moreover have "props_ok (h @ [ob])"
    using assms(1,3) jval_ok_mono [of h _ "h @ [ob]"]
    by (auto simp: heap_wf_def props_ok_def list_all_iff nth_append less_Suc_eq)
  ultimately show ?thesis using assms(1) by (simp add: heap_wf_def realm_ok_def)
qed

lemma alloc_empty_ok:
  assumes "heap_wf R h" and "alloc h (empty_object R) = (h', a)"
  shows "heap_wf R h' \<and> a < length h' \<and> length h \<le> length h'"
proof -
  have "object_proto R < length h" using assms(1) by (simp add: heap_wf_def realm_ok_def)
  then have "heap_wf R (h @ [empty_object R])"
    by (intro alloc_ok [OF assms(1)]) (simp_all add: empty_object_def)
  with assms(2) show ?thesis by (auto simp: alloc_def)
qed

lemma spread_object_ok:
  assumes "heap_wf R h" and "a < length h"
  shows "\<exists>h' r. spread_object R h a = Inr (h', r) \<and> heap_wf R h' \<and> r < length h' \<and> length h \<le> length h'"
proof -
  have op: "object_proto R < length h" using assms(1) by (simp add: heap_wf_def realm_ok_def)
  have "list_all (jval_ok h \<circ> snd) (o_props (h ! a))"
    using assms by (simp add: heap_wf_def props_ok_def)
  then have "heap_wf R (h @ [(empty_object R)\<lparr>o_props := filter P (o_props (h ! a))\<rparr>])" for P
    using op by (intro alloc_ok [OF assms(1)]) (simp_all add: empty_object_def list_all_iff)
  with assms(2) show ?thesis by (simp add: spread_object_def alloc_def)
qed

text \<open>The walk over the dotted path: no failure of the model, or a well-formed heap.\<close>

lemma walk_ok:
  assumes "heap_wf R h" and "jval_ok h cur"
  shows "case walk R h cur ks of
           Inl e \<Rightarrow> not_stuck e
         | Inr (h', v) \<Rightarrow> heap_wf R h' \<and> jval_ok h' v \<and> length h \<le> length h'"
  using assms
proof (induction ks arbitrary: h cur)
  case Nil
  then show ?case by simp
next
  case (Cons k ks)
  note get = get_value_ok [OF Cons.prems, of k]
  show ?case
  proof (cases "get_value R h cur k")
    case (Inl e)
    with get show ?thesis by simp
  next
    case (Inr v)
    with get have v: "jval_ok h v" by simp
    show ?thesis
    proof (cases "truthy v")
      case True
      with Inr Cons.IH [OF Cons.prems(1) v] show ?thesis
        by (auto split: sum.splits)
    next
      case False
      obtain h1 a where al: "alloc h (empty_object R) = (h1, a)" by (cases "alloc h (empty_object R)")
      from alloc_empty_ok [OF Cons.prems(1) al] have h1: "heap_wf R h1" "a < length h1" "length h \<le> length h1"
        by auto
      have cur1: "jval_ok h1 cur" using Cons.prems(2) h1(3) by (rule jval_ok_mono)
      have set: "heap_result_ok R (length h1) (set_value R h1 cur k (Ref a))"
        by (rule set_value_ok [OF h1(1) cur1]) (simp add: h1(2))
      show ?thesis
      proof (cases "set_value R h1 cur k (Ref a)")
        case (Inl e)
        with Inr False al set show ?thesis by simp
      next
        case (Inr h2)
        with set have h2: "heap_wf R h2" "length h2 = length h1" by simp_all
        have cur2: "jval_ok h2 cur" using cur1 h2(2) by (simp add: jval_ok_mono)
        note get2 = get_value_ok [OF h2(1) cur2, of k]
        show ?thesis
        proof (cases "get_value R h2 cur k")
          case (Inl e)
          with get2 \<open>get_value R h cur k = Inr v\<close> False al Inr show ?thesis by simp
        next
          case (Inr v')
          with get2 have "jval_ok h2 v'" by simp
          from Cons.IH [OF h2(1) this] h1(3) h2(2) Inr \<open>get_value R h cur k = Inr v\<close> False al
            \<open>set_value R h1 cur k (Ref a) = Inr h2\<close>
          show ?thesis by (auto split: sum.splits)
        qed
      qed
    qed
  qed
qed


subsection \<open>Safety of nested updates\<close>

lemma module_heap_wf: "heap_wf js_realm module_heap"
  by code_simp

lemma initialFormData_addr_valid: "initialFormData_addr < length module_heap"
  by code_simp

text \<open>
  On a well-formed heap, \<open>updateNestedFormData\<close> never exhausts its fuel and never
  follows a dangling reference: it throws an exception of the language, stops at a
  construct outside the model, or returns a well-formed heap and the address of the new
  record.
\<close>

lemma updateNestedFormData_ok:
  assumes "heap_wf R h" and "prev < length h" and "jval_ok h value"
  shows "case updateNestedFormData R h prev path value of
           Inl e \<Rightarrow> not_stuck e
         | Inr (h', r) \<Rightarrow> heap_wf R h' \<and> r < length h' \<and> length h \<le> length h'"
proof -
  obtain h1 r where sp: "spread_object R h prev = Inr (h1, r)" and h1: "heap_wf R h1" "r < length h1"
    "length h \<le> length h1"
    using spread_object_ok [OF assms(1,2)] by blast
  let ?ks = "butlast (js_split CHR ''.'' path)"
  have w: "case walk R h1 (Ref r) ?ks of
             Inl e \<Rightarrow> not_stuck e
           | Inr (h', v) \<Rightarrow> heap_wf R h' \<and> jval_ok h' v \<and> length h1 \<le> length h'"
    using walk_ok [OF h1(1)] h1(2) by simp
  show ?thesis
  proof (cases "walk R h1 (Ref r) ?ks")
    case (Inl e)
    with w sp show ?thesis by (simp add: updateNestedFormData_def)
  next
    case (Inr hv)
    then obtain h2 cur where hv: "walk R h1 (Ref r) ?ks = Inr (h2, cur)" by (cases hv) auto
    with w have h2: "heap_wf R h2" "jval_ok h2 cur" "length h1 \<le> length h2" by simp_all
    have "jval_ok h2 value" using assms(3) h1(3) h2(3) by (auto intro: jval_ok_mono)
    with h2 have "heap_result_ok R (length h2) (set_value R h2 cur (last (js_split CHR ''.'' path)) value)"
      by (intro set_value_ok)
    with sp hv h1(2,3) h2(3) show ?thesis
      by (auto simp: updateNestedFormData_def split: sum.splits)
  qed
qed

lemma provider_nested_ok:
  assumes "heap_wf R (js_heap st)" and "js_formData st < length (js_heap st)" and "jval_ok (js_heap st) v"
  shows "case provider_nested R st path v of
           Inl e \<Rightarrow> not_stuck e
         | Inr st' \<Rightarrow> heap_wf R (js_heap st') \<and> js_formData st' < length (js_heap st')
                     \<and> length (js_heap st) \<le> length (js_heap st')"
  using updateNestedFormData_ok [OF assms, of path]
  by (auto simp: provider_nested_def split: sum.splits)

text \<open>
  Every reachable store has a well-formed heap that extends the module's heap, and its
  \<open>formData\<close> is an object of that heap.
\<close>

lemma store_reachable_wf:
  "store_reachable st \<Longrightarrow>
     heap_wf js_realm (js_heap st) \<and> js_formData st < length (js_heap st)
     \<and> length module_heap \<le> length (js_heap st)"
proof (induction rule: store_reachable.induct)
  case mount
  show ?case by (simp add: provider_mount_def module_heap_wf initialFormData_addr_valid)
next
  case (nested st v path st')
  with provider_nested_ok [of js_realm st v path] show ?case by auto
next
  case (remount st)
  with initialFormData_addr_valid show ?case by (simp add: provider_mount_def)
qed

end
