(* ===== verification/NestedRefine.thy ===== *)
theory NestedRefine
  imports NestedUpdate
begin

text \<open>
  The refinement of the contract \<open>updateAtPath\<close> by \<open>updateNestedFormData\<close> of
  \<open>src/app/providers/FormDataProvider.tsx\<close>. A separation-style relation \<open>stores\<close>
  says which tree an address holds and which objects it occupies; \<open>in_context\<close> says
  how the root's tree depends on an inner object (a one-hole context with its frame).
  On a stored record, along plain keys whose existing levels are ordinary objects or
  falsy primitives, the walk of the updater is simulated step by step by
  \<open>ensure_levels\<close>, and the update returns a stored tree equal to \<open>updateAtPath\<close> of
  the old one; a sequence of updates on the mounted provider equals the sequence of
  abstract updates.
\<close>

subsection \<open>Stored trees and paths\<close>

text \<open>
  \<open>stores R h v t fp\<close>: the value \<open>v\<close> of heap \<open>h\<close> holds the tree \<open>t\<close>, laid out as
  a literal lays it out (each object with the prototype and attributes of its class),
  without sharing: \<open>fp\<close> lists the objects of the tree, each once.
\<close>

inductive stores :: "realm \<Rightarrow> heap \<Rightarrow> jval \<Rightarrow> jtree \<Rightarrow> nat list \<Rightarrow> bool"
  and stores_props :: "realm \<Rightarrow> heap \<Rightarrow> (string \<times> jval) list \<Rightarrow> (string \<times> jtree) list \<Rightarrow> nat list \<Rightarrow> bool"
  where
  prim: "stores R h (Prim p) (TPrim p) []"
| obj: "a < length h \<Longrightarrow> o_proto (h ! a) = class_proto R (o_class (h ! a)) \<Longrightarrow> o_readonly (h ! a) = []
        \<Longrightarrow> o_hidden (h ! a) = (if o_class (h ! a) = ArrayObj then [''length''] else [])
        \<Longrightarrow> stores_props R h (o_props (h ! a)) kts fp \<Longrightarrow> a \<notin> set fp
        \<Longrightarrow> stores R h (Ref a) (TObj (o_class (h ! a)) kts) (a # fp)"
| nil: "stores_props R h [] [] []"
| cons: "stores R h v t fp1 \<Longrightarrow> stores_props R h kvs kts fp2 \<Longrightarrow> set fp1 \<inter> set fp2 = {}
         \<Longrightarrow> stores_props R h ((k, v) # kvs) ((k, t) # kts) (fp1 @ fp2)"

inductive_cases stores_RefE: "stores R h (Ref a) t fp"
inductive_cases stores_props_ConsE: "stores_props R h (p # kvs) kts fp"
inductive_cases stores_props_NilE: "stores_props R h [] kts fp"

text \<open>The subtree at a path, and the tree with the subtree at a path transformed.\<close>

fun tree_at :: "jtree \<Rightarrow> string list \<Rightarrow> jtree option" where
  "tree_at t [] = Some t"
| "tree_at t (k # ks) = (case tree_child t k of Some t' \<Rightarrow> tree_at t' ks | None \<Rightarrow> None)"

fun tree_modify :: "string list \<Rightarrow> (jtree \<Rightarrow> jtree) \<Rightarrow> jtree \<Rightarrow> jtree" where
  "tree_modify [] f t = f t"
| "tree_modify (k # ks) f t =
     (case tree_child t k of Some t' \<Rightarrow> tree_put k (tree_modify ks f t') t | None \<Rightarrow> t)"

text \<open>
  The levels the walk creates: a key whose value is not an object gets a new empty
  object, an object is entered as it is.
\<close>

fun ensure_levels :: "string list \<Rightarrow> jtree \<Rightarrow> jtree" where
  "ensure_levels [] t = t"
| "ensure_levels (k # ks) t =
     tree_put k (ensure_levels ks (case tree_child t k of Some (TObj c kts) \<Rightarrow> TObj c kts | _ \<Rightarrow> TObj OrdinaryObj [])) t"

text \<open>
  The paths on which the walk agrees with \<open>updateAtPath\<close>: every existing level is an
  ordinary object or a falsy primitive.
\<close>

fun walk_dom :: "jtree \<Rightarrow> string list \<Rightarrow> bool" where
  "walk_dom t [] = True"
| "walk_dom t (k # ks) =
     (case tree_child t k of
        Some (TObj c kts) \<Rightarrow> c = OrdinaryObj \<and> walk_dom (TObj c kts) ks
      | Some (TPrim p) \<Rightarrow> \<not> truthy (Prim p) \<and> walk_dom (TObj OrdinaryObj []) ks
      | None \<Rightarrow> walk_dom (TObj OrdinaryObj []) ks)"

text \<open>A key the prototype chain of a plain object does not define.\<close>

definition plain_key :: "realm \<Rightarrow> heap \<Rightarrow> string \<Rightarrow> bool" where
  "plain_key R h k \<longleftrightarrow> k \<noteq> ''__proto__'' \<and> map_of (o_props (h ! object_proto R)) k = None"

text \<open>
  \<open>props_hole R h kvs kts k fr\<close>: the property list \<open>kvs\<close> stores \<open>kts\<close> with the value
  under \<open>k\<close> taken out, the rest occupying \<open>fr\<close>: whatever tree is put under \<open>k\<close>, in a
  heap that leaves \<open>fr\<close> alone, the updated list stores the updated \<open>kts\<close>.
\<close>

definition props_hole :: "realm \<Rightarrow> heap \<Rightarrow> (string \<times> jval) list \<Rightarrow> (string \<times> jtree) list \<Rightarrow> string \<Rightarrow> nat list \<Rightarrow> bool" where
  "props_hole R h kvs kts k fr \<longleftrightarrow>
     (\<forall>h' w tw fpw. (\<forall>x \<in> set fr. x < length h' \<and> h' ! x = h ! x) \<longrightarrow> stores R h' w tw fpw
        \<longrightarrow> set fpw \<inter> set fr = {}
        \<longrightarrow> (\<exists>fp'. stores_props R h' (AList.update k w kvs) (AList.update k tw kts) fp' \<and> set fp' = set fpw \<union> set fr))"

subsection \<open>Contexts\<close>

text \<open>
  \<open>in_context R h a fr \<Phi> r\<close>: the object \<open>a\<close> sits in the tree stored at \<open>r\<close>, whose other
  objects are \<open>fr\<close>: whatever tree \<open>t\<close> the object holds in a heap that leaves \<open>fr\<close>
  alone, \<open>r\<close> holds \<open>\<Phi> t\<close>.
\<close>

definition in_context :: "realm \<Rightarrow> heap \<Rightarrow> nat \<Rightarrow> nat list \<Rightarrow> (jtree \<Rightarrow> jtree) \<Rightarrow> nat \<Rightarrow> bool" where
  "in_context R h a fr \<Phi> r \<longleftrightarrow>
     (\<forall>h' t fa. (\<forall>x \<in> set fr. x < length h' \<and> h' ! x = h ! x) \<longrightarrow> stores R h' (Ref a) t fa
        \<longrightarrow> set fa \<inter> set fr = {} \<longrightarrow> (\<exists>fp. stores R h' (Ref r) (\<Phi> t) fp))"

subsection \<open>A sequence of updates\<close>

text \<open>
  A page calls \<open>updateNestedFormData\<close> once per edited field; the provider applies the
  updaters in order. \<open>provider_updates\<close> runs a list of (path, primitive value) updates
  and stops at the first exception; \<open>apply_updates\<close> is its abstract counterpart on
  trees, and \<open>updates_ok\<close> the condition on the paths under which they agree.
\<close>

fun provider_updates :: "realm \<Rightarrow> js_store \<Rightarrow> (string \<times> prim) list \<Rightarrow> js_error + js_store" where
  "provider_updates R st [] = Inr st"
| "provider_updates R st ((path, p) # us) =
     (case provider_nested R st path (Prim p) of
        Inl e \<Rightarrow> Inl e
      | Inr st' \<Rightarrow> provider_updates R st' us)"

fun apply_updates :: "jtree \<Rightarrow> (string \<times> prim) list \<Rightarrow> jtree" where
  "apply_updates t [] = t"
| "apply_updates t ((path, p) # us) = apply_updates (updateAtPath (js_split CHR ''.'' path) (TPrim p) t) us"

fun updates_ok :: "realm \<Rightarrow> heap \<Rightarrow> jtree \<Rightarrow> (string \<times> prim) list \<Rightarrow> bool" where
  "updates_ok R h t [] = True"
| "updates_ok R h t ((path, p) # us) =
     (list_all (plain_key R h) (js_split CHR ''.'' path) \<and> walk_dom t (butlast (js_split CHR ''.'' path))
      \<and> updates_ok R h (updateAtPath (js_split CHR ''.'' path) (TPrim p) t) us)"


text \<open>Whether the key \<open>k\<close> of a tree holds an object.\<close>

definition obj_child :: "jtree \<Rightarrow> string \<Rightarrow> bool" where
  "obj_child t k = (case tree_child t k of Some (TObj _ _) \<Rightarrow> True | _ \<Rightarrow> False)"

subsection \<open>The updater called twice\<close>

text \<open>
  In development, React's Strict Mode calls an updater twice with the same \<open>prev\<close> and
  keeps the second result. \<open>provider_nested_strict\<close> runs the nested updater twice, the
  second time on the heap the first call left.
\<close>

definition provider_nested_strict :: "realm \<Rightarrow> js_store \<Rightarrow> string \<Rightarrow> jval \<Rightarrow> js_error + js_store" where
  "provider_nested_strict R st path value =
     (case updateNestedFormData R (js_heap st) (js_formData st) path value of
        Inl e \<Rightarrow> Inl e
      | Inr (h1, r1) \<Rightarrow>
          (case updateNestedFormData R h1 (js_formData st) path value of
             Inl e \<Rightarrow> Inl e
           | Inr (h2, r2) \<Rightarrow> Inr \<lparr>js_heap = h2, js_formData = r2\<rparr>))"

subsection \<open>Facts on stored trees\<close>

lemma stores_distinct:
  "stores R h v t fp \<Longrightarrow> distinct fp \<and> set fp \<subseteq> {..<length h}"
  "stores_props R h kvs kts fp \<Longrightarrow> distinct fp \<and> set fp \<subseteq> {..<length h}"
  by (induction rule: stores_stores_props.inducts) auto

lemma stores_append:
  "stores R h v t fp \<Longrightarrow> stores R (h @ hs) v t fp"
  "stores_props R h kvs kts fp \<Longrightarrow> stores_props R (h @ hs) kvs kts fp"
proof (induction rule: stores_stores_props.inducts)
  case (obj a h R kts fp)
  then show ?case using stores_stores_props.obj [of a "h @ hs" R kts fp] by (simp add: nth_append)
qed (auto intro: stores_stores_props.intros)


lemma stores_update_other:
  "stores R h v t fp \<Longrightarrow> b \<notin> set fp \<Longrightarrow> stores R (h[b := ob]) v t fp"
  "stores_props R h kvs kts fp \<Longrightarrow> b \<notin> set fp \<Longrightarrow> stores_props R (h[b := ob]) kvs kts fp"
proof (induction rule: stores_stores_props.inducts)
  case (obj a h R kts fp)
  then show ?case using stores_stores_props.obj [of a "h[b := ob]" R kts fp] by (simp add: nth_list_update_any)
qed (auto intro: stores_stores_props.intros)

lemma those_map_Some:
  "those (map f xs) = Some ys \<Longrightarrow> (\<And>x y. x \<in> set xs \<Longrightarrow> f x = Some y \<Longrightarrow> g x = Some y)
   \<Longrightarrow> those (map g xs) = Some ys"
  by (induction xs arbitrary: ys) (auto split: option.splits)

lemma read_tree_mono: "read_tree n h v = Some t \<Longrightarrow> n \<le> m \<Longrightarrow> read_tree m h v = Some t"
proof (induction n arbitrary: m v t)
  case 0
  then show ?case by (cases v) auto
next
  case (Suc n)
  show ?case
  proof (cases v)
    case (Ref a)
    from Suc.prems obtain m' where m: "m = Suc m'" and "n \<le> m'" by (cases m) auto
    from Suc.prems Ref obtain xs where a: "a < length h"
      and xs: "those (map (\<lambda>(k, v). map_option (Pair k) (read_tree n h v)) (o_props (h ! a))) = Some xs"
      and t: "t = TObj (o_class (h ! a)) xs"
      by (auto split: if_splits)
    have "those (map (\<lambda>(k, v). map_option (Pair k) (read_tree m' h v)) (o_props (h ! a))) = Some xs"
      using xs by (rule those_map_Some) (auto intro: Suc.IH [OF _ \<open>n \<le> m'\<close>])
    with a t m Ref show ?thesis by simp
  qed (use Suc.prems in simp)
qed


lemma stores_read:
  "stores R h v t fp \<Longrightarrow> read_tree (length fp) h v = Some t"
  "stores_props R h kvs kts fp \<Longrightarrow>
     \<forall>n \<ge> length fp. those (map (\<lambda>(k, v). map_option (Pair k) (read_tree n h v)) kvs) = Some kts"
proof (induction rule: stores_stores_props.inducts)
  case (cons R h v t fp1 kvs kts fp2 k)
  show ?case
  proof (intro allI impI)
    fix n assume n: "length (fp1 @ fp2) \<le> n"
    then have "read_tree n h v = Some t" using cons.IH(1) by (auto intro: read_tree_mono)
    with cons.IH(2) n show "those (map (\<lambda>(k, v). map_option (Pair k) (read_tree n h v)) ((k, v) # kvs))
                            = Some ((k, t) # kts)" by simp
  qed
qed simp_all

lemma stores_read_heap:
  "stores R h v t fp \<Longrightarrow> read_tree (length h) h v = Some t"
proof -
  assume st: "stores R h v t fp"
  from stores_distinct(1) [OF st] have "card (set fp) \<le> card {..<length h}" and "distinct fp"
    by (blast intro: card_mono)+
  then have "length fp \<le> length h" by (simp add: distinct_card)
  with stores_read(1) [OF st] show ?thesis by (rule read_tree_mono)
qed


lemma alloc_stores:
  "alloc_tree R h t = (h', v) \<Longrightarrow>
     (\<exists>fp. stores R h' v t fp \<and> set fp \<subseteq> {length h..<length h'}) \<and> (\<exists>hs. h' = h @ hs)"
  "alloc_props R h kts = (h', kvs) \<Longrightarrow>
     (\<exists>fp. stores_props R h' kvs kts fp \<and> set fp \<subseteq> {length h..<length h'}) \<and> (\<exists>hs. h' = h @ hs)"
proof (induction R h t and R h kts arbitrary: h' v and h' kvs rule: alloc_tree_alloc_props.induct)
  case (1 R h p)
  then show ?case by (auto intro: stores_stores_props.prim)
next
  case (2 R h c kts)
  obtain h1 kvs where al: "alloc_props R h kts = (h1, kvs)" by (cases "alloc_props R h kts")
  let ?ob = "\<lparr>o_class = c, o_proto = class_proto R c, o_props = kvs, o_readonly = [],
              o_hidden = (if c = ArrayObj then [''length''] else [])\<rparr>"
  from "2.prems" al have h': "h' = h1 @ [?ob]" and v: "v = Ref (length h1)" by simp_all
  from "2.IH" [OF al] obtain fp hs where st: "stores_props R h1 kvs kts fp"
    and fp: "set fp \<subseteq> {length h..<length h1}" and h1: "h1 = h @ hs" by blast
  have "length h1 \<notin> set fp" using fp by auto
  then have "stores R h' v (TObj c kts) (length h1 # fp)"
    using stores_stores_props.obj [of "length h1" h' R kts fp] stores_append(2) [OF st, of "[?ob]"] h' v
    by auto
  moreover have "set (length h1 # fp) \<subseteq> {length h..<length h'}" using fp h' h1 by auto
  ultimately have "\<exists>fp. stores R h' v (TObj c kts) fp \<and> set fp \<subseteq> {length h..<length h'}" by blast
  with h' h1 show ?case by auto
next
  case (3 R h)
  then show ?case by (auto intro: stores_stores_props.nil)
next
  case (4 R h k t kts)
  obtain h1 v1 where a1: "alloc_tree R h t = (h1, v1)" by (cases "alloc_tree R h t")
  obtain h2 kvs2 where a2: "alloc_props R h1 kts = (h2, kvs2)" by (cases "alloc_props R h1 kts")
  from "4.prems" a1 a2 have h': "h' = h2" and kvs: "kvs = (k, v1) # kvs2" by simp_all
  from "4.IH"(1) [OF a1] obtain fp1 hs1 where s1: "stores R h1 v1 t fp1"
    and f1: "set fp1 \<subseteq> {length h..<length h1}" and e1: "h1 = h @ hs1" by blast
  from "4.IH"(2) [OF a1 [symmetric] refl a2] obtain fp2 hs2 where s2: "stores_props R h2 kvs2 kts fp2"
    and f2: "set fp2 \<subseteq> {length h1..<length h2}" and e2: "h2 = h1 @ hs2" by blast
  have s1': "stores R h2 v1 t fp1" using stores_append(1) [OF s1] e2 by simp
  have "set fp1 \<inter> set fp2 = {}" using f1 f2 by fastforce
  with s1' s2 have "stores_props R h2 ((k, v1) # kvs2) ((k, t) # kts) (fp1 @ fp2)"
    by (rule stores_stores_props.cons)
  moreover have "set (fp1 @ fp2) \<subseteq> {length h..<length h2}" using f1 f2 e1 e2 by auto
  ultimately have "\<exists>fp. stores_props R h2 ((k, v1) # kvs2) ((k, t) # kts) fp \<and> set fp \<subseteq> {length h..<length h2}"
    by blast
  with h' kvs e1 e2 show ?case by auto
qed


text \<open>A tree stays where it is when the objects of its footprint are left alone.\<close>

lemma stores_frame:
  "stores R h v t fp \<Longrightarrow> (\<forall>x \<in> set fp. x < length h' \<and> h' ! x = h ! x) \<Longrightarrow> stores R h' v t fp"
  "stores_props R h kvs kts fp \<Longrightarrow> (\<forall>x \<in> set fp. x < length h' \<and> h' ! x = h ! x)
   \<Longrightarrow> stores_props R h' kvs kts fp"
proof (induction rule: stores_stores_props.inducts)
  case (obj a h R kts fp)
  then show ?case using stores_stores_props.obj [of a h' R kts fp] by simp
qed (auto intro: stores_stores_props.intros)

lemma stores_props_keys: "stores_props R h kvs kts fp \<Longrightarrow> map fst kvs = map fst kts"
proof (induction kvs arbitrary: kts fp)
  case Nil
  then show ?case by (auto elim: stores_props.cases)
next
  case (Cons p kvs)
  then show ?case by (auto elim: stores_props.cases)
qed

text \<open>
  Replacing the entry of key \<open>k\<close> of a stored property list: the other entries keep
  their footprint \<open>fr\<close>, the new value brings its own.
\<close>

lemma props_hole_use:
  "props_hole R h kvs kts k fr \<Longrightarrow> (\<And>x. x \<in> set fr \<Longrightarrow> x < length h' \<and> h' ! x = h ! x)
   \<Longrightarrow> stores R h' w tw fpw \<Longrightarrow> set fpw \<inter> set fr = {}
   \<Longrightarrow> \<exists>fp'. stores_props R h' (AList.update k w kvs) (AList.update k tw kts) fp' \<and> set fp' = set fpw \<union> set fr"
  unfolding props_hole_def by blast

lemma props_hole_head:
  assumes "stores_props R h kvs kts fp"
  shows "props_hole R h ((k, v) # kvs) ((k, t) # kts) k fp"
  unfolding props_hole_def
proof (intro allI impI)
  fix h' w tw fpw
  assume fr: "\<forall>x \<in> set fp. x < length h' \<and> h' ! x = h ! x" and sw: "stores R h' w tw fpw"
    and dw: "set fpw \<inter> set fp = {}"
  have "stores_props R h' kvs kts fp" by (rule stores_frame(2) [OF assms fr])
  with sw have "stores_props R h' ((k, w) # kvs) ((k, tw) # kts) (fpw @ fp)"
    using dw by (rule stores_stores_props.cons)
  then show "\<exists>fp'. stores_props R h' (AList.update k w ((k, v) # kvs)) (AList.update k tw ((k, t) # kts)) fp'
              \<and> set fp' = set fpw \<union> set fp" by (intro exI [of _ "fpw @ fp"]) simp
qed

lemma props_hole_cons:
  assumes hole: "props_hole R h kvs kts k fr" and s1: "stores R h v1 t1 fp1" and k1: "k1 \<noteq> k"
    and d: "set fp1 \<inter> set fr = {}"
  shows "props_hole R h ((k1, v1) # kvs) ((k1, t1) # kts) k (fp1 @ fr)"
  unfolding props_hole_def
proof (intro allI impI)
  fix h' w tw fpw
  assume fr: "\<forall>x \<in> set (fp1 @ fr). x < length h' \<and> h' ! x = h ! x" and sw: "stores R h' w tw fpw"
    and dw: "set fpw \<inter> set (fp1 @ fr) = {}"
  from props_hole_use [OF hole _ sw] fr dw obtain fp' where
    s': "stores_props R h' (AList.update k w kvs) (AList.update k tw kts) fp'" and e: "set fp' = set fpw \<union> set fr"
    by auto
  have s1': "stores R h' v1 t1 fp1" using s1 fr by (auto intro: stores_frame(1))
  have "set fp1 \<inter> set fp' = {}" using e d dw by auto
  with s1' s' have "stores_props R h' ((k1, v1) # AList.update k w kvs) ((k1, t1) # AList.update k tw kts) (fp1 @ fp')"
    by (rule stores_stores_props.cons)
  with k1 e show "\<exists>fp''. stores_props R h' (AList.update k w ((k1, v1) # kvs)) (AList.update k tw ((k1, t1) # kts)) fp''
               \<and> set fp'' = set fpw \<union> set (fp1 @ fr)" by auto
qed

text \<open>The property under \<open>k\<close> of a stored property list splits off, leaving a hole.\<close>

lemma stores_props_replace:
  assumes "stores_props R h kvs kts fp" and "map_of kvs k = Some v0"
  shows "\<exists>t0 fq fr. map_of kts k = Some t0 \<and> stores R h v0 t0 fq \<and> set fp = set fq \<union> set fr
           \<and> set fq \<inter> set fr = {} \<and> props_hole R h kvs kts k fr"
  using assms
proof (induction kvs arbitrary: kts fp)
  case (Cons p kvs)
  from Cons.prems(1) obtain k1 v1 t1 fp1 kts' fp2 where p: "p = (k1, v1)" and kts: "kts = (k1, t1) # kts'"
    and fp: "fp = fp1 @ fp2" and s1: "stores R h v1 t1 fp1" and s2: "stores_props R h kvs kts' fp2"
    and d: "set fp1 \<inter> set fp2 = {}"
    by (auto elim: stores_props.cases)
  show ?case
  proof (cases "k1 = k")
    case True
    with Cons.prems(2) p have "v1 = v0" by simp
    with True s1 kts fp d props_hole_head [OF s2, of k v1 t1] p show ?thesis
      by (intro exI [of _ t1] exI [of _ fp1] exI [of _ fp2]) auto
  next
    case False
    with Cons.prems(2) p have "map_of kvs k = Some v0" by simp
    from Cons.IH [OF s2 this] obtain t0 fq fr where "map_of kts' k = Some t0" "stores R h v0 t0 fq"
      and fp2: "set fp2 = set fq \<union> set fr" and "set fq \<inter> set fr = {}" and hole: "props_hole R h kvs kts' k fr"
      by blast
    moreover have "set fp1 \<inter> set fr = {}" using d fp2 by auto
    ultimately show ?thesis
      using props_hole_cons [OF hole s1 False] False kts p fp d fp2
      by (intro exI [of _ t0] exI [of _ fq] exI [of _ "fp1 @ fr"]) auto
  qed
qed simp


lemma stores_props_add:
  assumes "stores_props R h kvs kts fp" and "map_of kvs k = None"
    and "\<forall>x \<in> set fp. x < length h' \<and> h' ! x = h ! x" and "stores R h' w tw fpw"
    and "set fpw \<inter> set fp = {}"
  shows "\<exists>fp'. stores_props R h' (AList.update k w kvs) (AList.update k tw kts) fp'
           \<and> set fp' = set fp \<union> set fpw"
  using assms
proof (induction kvs arbitrary: kts fp)
  case Nil
  then have "kts = []" and "fp = []" by (auto elim: stores_props.cases)
  moreover have "stores_props R h' [(k, w)] [(k, tw)] (fpw @ [])"
    using Nil.prems(4) stores_stores_props.nil by (rule stores_stores_props.cons) simp
  ultimately show ?case by auto
next
  case (Cons p kvs)
  from Cons.prems(1) obtain k1 v1 t1 fp1 kts' fp2 where p: "p = (k1, v1)" and kts: "kts = (k1, t1) # kts'"
    and fp: "fp = fp1 @ fp2" and s1: "stores R h v1 t1 fp1" and s2: "stores_props R h kvs kts' fp2"
    and d: "set fp1 \<inter> set fp2 = {}"
    by (auto elim: stores_props.cases)
  from Cons.prems(2) p have k1: "k1 \<noteq> k" and none: "map_of kvs k = None" by (auto split: if_splits)
  from Cons.IH [OF s2 none _ Cons.prems(4)] Cons.prems(3,5) fp obtain fp' where
    s': "stores_props R h' (AList.update k w kvs) (AList.update k tw kts') fp'" and e: "set fp' = set fp2 \<union> set fpw"
    by auto
  have s1': "stores R h' v1 t1 fp1" using s1 Cons.prems(3) fp by (auto intro: stores_frame(1))
  have "set fp1 \<inter> set fp' = {}" using e d Cons.prems(5) fp by auto
  with s1' s' have "stores_props R h' ((k1, v1) # AList.update k w kvs) ((k1, t1) # AList.update k tw kts') (fp1 @ fp')"
    by (rule stores_stores_props.cons)
  with k1 p kts e fp show ?case by auto
qed

text \<open>Writing the property \<open>k\<close> of a stored object puts the new value's tree under \<open>k\<close>.\<close>

lemma stores_write:
  assumes st: "stores R h (Ref a) (TObj c kts) fa"
    and agree: "\<forall>x \<in> set fa. x < length h' \<and> (x \<noteq> a \<longrightarrow> h' ! x = h ! x)"
    and new: "h' ! a = (h ! a)\<lparr>o_props := AList.update k w (o_props (h ! a))\<rparr>"
    and sw: "stores R h' w tw fpw" and dw: "set fpw \<inter> set fa = {}"
  shows "\<exists>fa'. stores R h' (Ref a) (tree_put k tw (TObj c kts)) fa' \<and> set fa' \<subseteq> set fa \<union> set fpw"
proof -
  from st obtain fc where a: "a < length h" and pr: "o_proto (h ! a) = class_proto R (o_class (h ! a))"
    and ro: "o_readonly (h ! a) = []"
    and hid: "o_hidden (h ! a) = (if o_class (h ! a) = ArrayObj then [''length''] else [])"
    and sp: "stores_props R h (o_props (h ! a)) kts fc" and nf: "a \<notin> set fc"
    and fa: "fa = a # fc" and c: "c = o_class (h ! a)"
    by (rule stores_RefE) blast
  have fr: "\<forall>x \<in> set fc. x < length h' \<and> h' ! x = h ! x" using agree fa nf by auto
  obtain fp' where sp': "stores_props R h' (AList.update k w (o_props (h ! a))) (AList.update k tw kts) fp'"
    and fp': "set fp' \<subseteq> set fc \<union> set fpw"
  proof (cases "map_of (o_props (h ! a)) k")
    case None
    from stores_props_add [OF sp None fr sw] dw fa that show ?thesis by auto
  next
    case (Some v0)
    from stores_props_replace [OF sp Some] obtain t0 fq fr' where
      e: "set fc = set fq \<union> set fr'" and rep: "props_hole R h (o_props (h ! a)) kts k fr'"
      by blast
    have A: "\<And>x. x \<in> set fr' \<Longrightarrow> x < length h' \<and> h' ! x = h ! x" using fr e by auto
    have B: "set fpw \<inter> set fr' = {}" using dw fa e by auto
    obtain fp'' where s'': "stores_props R h' (AList.update k w (o_props (h ! a))) (AList.update k tw kts) fp''"
      and e'': "set fp'' = set fpw \<union> set fr'"
      using props_hole_use [OF rep A sw B] by blast
    from e'' e have "set fp'' \<subseteq> set fc \<union> set fpw" by auto
    with s'' show ?thesis by (rule that)
  qed
  have a': "a < length h'" using agree fa by simp
  have "a \<notin> set fp'" using fp' nf dw fa by auto
  with a' new pr ro hid sp' have "stores R h' (Ref a) (TObj (o_class (h' ! a)) (AList.update k tw kts)) (a # fp')"
    using stores_stores_props.obj [of a h' R "AList.update k tw kts" fp'] by simp
  moreover have "tree_put k tw (TObj c kts) = TObj (o_class (h ! a)) (AList.update k tw kts)"
    using c by simp
  moreover have "set (a # fp') \<subseteq> set fa \<union> set fpw" using fp' fa by auto
  ultimately show ?thesis using new by (intro exI [of _ "a # fp'"]) simp
qed


lemma stores_props_child:
  assumes "stores_props R h kvs kts fp" and "map_of kvs k = Some v"
  shows "\<exists>t fq. map_of kts k = Some t \<and> stores R h v t fq \<and> set fq \<subseteq> set fp"
  using assms
proof (induction kvs arbitrary: kts fp)
  case (Cons q kvs)
  from Cons.prems(1) obtain k1 v1 t1 fp1 kts' fp2 where q: "q = (k1, v1)" and kts: "kts = (k1, t1) # kts'"
    and fp: "fp = fp1 @ fp2" and s1: "stores R h v1 t1 fp1" and s2: "stores_props R h kvs kts' fp2"
    by (rule stores_props_ConsE) blast
  show ?case
  proof (cases "k1 = k")
    case True
    with Cons.prems(2) q s1 kts fp show ?thesis by auto
  next
    case False
    with Cons.prems(2) q have "map_of kvs k = Some v" by simp
    from Cons.IH [OF s2 this] False kts fp show ?thesis by auto
  qed
qed simp


lemma tree_put_put [simp]: "tree_put k x (tree_put k y t) = tree_put k x t"
  by (cases t) simp_all

lemma tree_child_put [simp]: "tree_child (tree_put k x (TObj c kts)) k = Some x"
  by (simp add: AList.update_conv')

lemma ensure_levels_TObj: "\<exists>c' kts'. ensure_levels ks (TObj c kts) = TObj c' kts'"
  by (cases ks) simp_all

lemma tree_modify_ensure:
  "tree_modify ks (tree_put kl v) (ensure_levels ks (TObj c kts)) = updateAtPath (ks @ [kl]) v (TObj c kts)"
proof (induction ks arbitrary: c kts)
  case Nil
  then show ?case by simp
next
  case (Cons k ks)
  define ch where "ch = (case map_of kts k of Some (TObj c kts) \<Rightarrow> TObj c kts | _ \<Rightarrow> TObj OrdinaryObj [])"
  obtain c1 kts1 where ch1: "ch = TObj c1 kts1"
  proof (cases "map_of kts k")
    case (Some t)
    with that show ?thesis by (cases t) (auto simp: ch_def)
  qed (use that in \<open>simp add: ch_def\<close>)
  obtain c2 kts2 where e2: "ensure_levels ks ch = TObj c2 kts2"
    using ensure_levels_TObj ch1 by blast
  have "tree_modify (k # ks) (tree_put kl v) (ensure_levels (k # ks) (TObj c kts))
        = tree_put k (tree_modify ks (tree_put kl v) (ensure_levels ks ch)) (TObj c kts)"
    using e2 by (simp add: ch_def [symmetric] AList.update_conv')
  also have "\<dots> = updateAtPath ((k # ks) @ [kl]) v (TObj c kts)"
    using Cons.IH [of c1 kts1] ch1 by (simp add: ch_def)
  finally show ?case .
qed


subsection \<open>Reading and writing a stored object\<close>

text \<open>
  On an ordinary object of a stored tree, a plain key is found among the object's own
  properties or nowhere: the chain goes on to \<open>Object.prototype\<close>, which ends it.
\<close>

lemma find_on_node:
  assumes st: "stores R h (Ref a) (TObj OrdinaryObj kts) fa"
    and op: "object_proto R < length h" "o_proto (h ! object_proto R) = Prim PNull" "a \<noteq> object_proto R"
    and pk: "plain_key R h k"
  shows "find_on R h (Ref a) k = Inr (case map_of (o_props (h ! a)) k of Some v \<Rightarrow> FoundData v True | None \<Rightarrow> NotFound)"
proof -
  from st have a: "a < length h" and pr: "o_proto (h ! a) = Ref (object_proto R)" and ro: "o_readonly (h ! a) = []"
    by (auto elim!: stores_RefE simp: class_proto_def)
  from a op obtain n where n: "length h = Suc (Suc n)"
    by (cases "length h"; cases "length h - 1") auto
  show ?thesis
    using a pr ro op pk n by (simp add: find_on_def plain_key_def split: option.splits)
qed

lemma stores_ordinary: "stores R h (Ref a) (TObj OrdinaryObj kts) fa \<Longrightarrow> o_class (h ! a) = OrdinaryObj"
  by (auto elim: stores_RefE)

lemma get_value_node:
  assumes "stores R h (Ref a) (TObj OrdinaryObj kts) fa"
    and "object_proto R < length h" "o_proto (h ! object_proto R) = Prim PNull" "a \<noteq> object_proto R"
    and "plain_key R h k"
  shows "get_value R h (Ref a) k = Inr (case map_of (o_props (h ! a)) k of Some v \<Rightarrow> v | None \<Rightarrow> Prim PUndef)"
  using find_on_node [OF assms] by (simp add: get_value_def split: option.splits)

lemma set_value_node:
  assumes "stores R h (Ref a) (TObj OrdinaryObj kts) fa"
    and "object_proto R < length h" "o_proto (h ! object_proto R) = Prim PNull" "a \<noteq> object_proto R"
    and "plain_key R h k"
  shows "set_value R h (Ref a) k v = Inr (h[a := (h ! a)\<lparr>o_props := AList.update k v (o_props (h ! a))\<rparr>])"
  using find_on_node [OF assms] stores_ordinary [OF assms(1)]
  by (simp add: set_value_def define_own_def Let_def split: option.splits)


lemma in_context_root: "in_context R h r [] (\<lambda>t. t) r"
  by (auto simp: in_context_def)

lemma in_context_agree:
  "in_context R h a fr \<Phi> r \<Longrightarrow> (\<forall>x \<in> set fr. x < length h2 \<and> h2 ! x = h ! x) \<Longrightarrow> in_context R h2 a fr \<Phi> r"
  unfolding in_context_def by simp

lemma in_context_use:
  "in_context R h a fr \<Phi> r \<Longrightarrow> (\<forall>x \<in> set fr. x < length h' \<and> h' ! x = h ! x) \<Longrightarrow> stores R h' (Ref a) t fa
   \<Longrightarrow> set fa \<inter> set fr = {} \<Longrightarrow> \<exists>fp. stores R h' (Ref r) (\<Phi> t) fp"
  unfolding in_context_def by blast

lemma stores_TObj_Ref: "stores R h v (TObj c kts) fp \<Longrightarrow> \<exists>b. v = Ref b"
  by (cases v) (auto elim: stores.cases)

text \<open>Entering the object under key \<open>k\<close> keeps it in context.\<close>

lemma in_context_descend:
  assumes st: "stores R h (Ref a) (TObj c kts) fa" and d: "set fa \<inter> set fr = {}"
    and ctx: "in_context R h a fr \<Phi> r" and kb: "map_of (o_props (h ! a)) k = Some (Ref b)"
  shows "\<exists>tb fb fr'. map_of kts k = Some tb \<and> stores R h (Ref b) tb fb \<and> set fb \<inter> set fr' = {}
           \<and> set fb \<union> set fr' = set fa \<union> set fr
           \<and> in_context R h b fr' (\<lambda>t. \<Phi> (tree_put k t (TObj c kts))) r"
proof -
  from st obtain fc where fa: "fa = a # fc" and c: "c = o_class (h ! a)"
    and sp: "stores_props R h (o_props (h ! a)) kts fc" and nf: "a \<notin> set fc"
    and attrs: "a < length h" "o_proto (h ! a) = class_proto R (o_class (h ! a))" "o_readonly (h ! a) = []"
      "o_hidden (h ! a) = (if o_class (h ! a) = ArrayObj then [''length''] else [])"
    by (rule stores_RefE) blast
  from stores_props_replace [OF sp kb] obtain tb fq fr0 where tb: "map_of kts k = Some tb"
    and sb: "stores R h (Ref b) tb fq" and efc: "set fc = set fq \<union> set fr0" and dq: "set fq \<inter> set fr0 = {}"
    and rep: "props_hole R h (o_props (h ! a)) kts k fr0"
    by blast
  have upd: "AList.update k (Ref b) (o_props (h ! a)) = o_props (h ! a)"
    using kb by (rule AList.update_triv)
  show ?thesis
  proof (rule exI [of _ tb], rule exI [of _ fq], rule exI [of _ "a # fr0 @ fr"], intro conjI)
    show "map_of kts k = Some tb" by (rule tb)
    show "stores R h (Ref b) tb fq" by (rule sb)
    show "set fq \<inter> set (a # fr0 @ fr) = {}" using dq d fa efc nf by auto
    show "set fq \<union> set (a # fr0 @ fr) = set fa \<union> set fr" using fa efc by auto
    show "in_context R h b (a # fr0 @ fr) (\<lambda>t. \<Phi> (tree_put k t (TObj c kts))) r"
      unfolding in_context_def
    proof (intro allI impI)
      fix h' t fb'
      assume agree: "\<forall>x \<in> set (a # fr0 @ fr). x < length h' \<and> h' ! x = h ! x"
        and sb': "stores R h' (Ref b) t fb'" and db: "set fb' \<inter> set (a # fr0 @ fr) = {}"
      have A0: "\<And>x. x \<in> set fr0 \<Longrightarrow> x < length h' \<and> h' ! x = h ! x" using agree by auto
      have B0: "set fb' \<inter> set fr0 = {}" using db by auto
      obtain fc' where sp': "stores_props R h' (o_props (h ! a)) (AList.update k t kts) fc'"
        and efc': "set fc' = set fb' \<union> set fr0"
        using props_hole_use [OF rep A0 sb' B0] upd by auto
      have ha: "h' ! a = h ! a" and a': "a < length h'" using agree by auto
      have "a \<notin> set fc'" using efc' db nf efc by auto
      then have sa': "stores R h' (Ref a) (TObj c (AList.update k t kts)) (a # fc')"
        using stores_stores_props.obj [of a h' R "AList.update k t kts" fc'] a' ha attrs sp' c by simp
      have A: "\<forall>x \<in> set fr. x < length h' \<and> h' ! x = h ! x" using agree by auto
      have B: "set (a # fc') \<inter> set fr = {}" using efc' db d fa efc by auto
      from in_context_use [OF ctx A sa' B]
      show "\<exists>fp. stores R h' (Ref r) (\<Phi> (tree_put k t (TObj c kts))) fp" by simp
    qed
  qed
qed


subsection \<open>The walk on a stored tree\<close>

lemma map_of_keys_None: "map fst xs = map fst ys \<Longrightarrow> (map_of xs k = None) = (map_of ys k = None)"
  by (simp add: map_of_eq_None_iff flip: set_map)

lemma node_child:
  assumes "stores R h (Ref a) (TObj c kts) fa"
  shows "(map_of (o_props (h ! a)) k = None) = (map_of kts k = None)"
    and "map_of (o_props (h ! a)) k = Some v \<Longrightarrow> \<exists>t fq. map_of kts k = Some t \<and> stores R h v t fq"
proof -
  from assms obtain fc where sp: "stores_props R h (o_props (h ! a)) kts fc"
    by (auto elim: stores_RefE)
  show "(map_of (o_props (h ! a)) k = None) = (map_of kts k = None)"
    using stores_props_keys [OF sp] by (rule map_of_keys_None)
  show "map_of (o_props (h ! a)) k = Some v \<Longrightarrow> \<exists>t fq. map_of kts k = Some t \<and> stores R h v t fq"
    using stores_props_child [OF sp] by blast
qed

lemma tree_modify_at:
  "tree_at t ks = Some s \<Longrightarrow> tree_modify ks (\<lambda>_. f s) t = tree_modify ks f t"
  by (induction ks arbitrary: t) (auto split: option.splits)


text \<open>The objects of a stored tree have a prototype: none of them is \<open>Object.prototype\<close>.\<close>

lemma stores_null_proto:
  "stores R h v t fp \<Longrightarrow> x \<in> set fp \<Longrightarrow> o_proto (h ! x) \<noteq> Prim PNull"
  "stores_props R h kvs kts fp \<Longrightarrow> x \<in> set fp \<Longrightarrow> o_proto (h ! x) \<noteq> Prim PNull"
  by (induction rule: stores_stores_props.inducts) (auto simp: class_proto_def)

lemma stores_TPrim: "stores R h v (TPrim p) fp \<Longrightarrow> v = Prim p"
  by (auto elim: stores.cases)

lemma stores_empty_object:
  assumes "e < length h" and "h ! e = empty_object R"
  shows "stores R h (Ref e) (TObj OrdinaryObj []) [e]"
  using stores_stores_props.obj [of e h R "[]" "[]"] stores_stores_props.nil [of R h] assms
  by (simp add: empty_object_def class_proto_def)

text \<open>
  One step of the walk from an ordinary object of a stored tree, over a plain key: the
  walk goes on from an ordinary object in context, the child the step entered or
  created, whose tree is the level \<open>ensure_levels\<close> puts under the key.
\<close>

lemma walk_step_enter:
  assumes st: "stores R h (Ref a) (TObj OrdinaryObj kts) fa"
    and ctx: "in_context R h a fr \<Phi> r" and d: "set fa \<inter> set fr = {}" and frb: "set fr \<subseteq> {..<length h}"
    and op: "object_proto R < length h" "o_proto (h ! object_proto R) = Prim PNull"
    and opn: "object_proto R \<notin> set fa \<union> set fr" and pkk: "plain_key R h k"
    and ch: "map_of kts k = Some (TObj c1 kts1)" and dom: "walk_dom (TObj OrdinaryObj kts) (k # ks)"
  shows "\<exists>b fb fr'. walk R h (Ref a) (k # ks) = walk R h (Ref b) ks
           \<and> stores R h (Ref b) (TObj OrdinaryObj kts1) fb
           \<and> ensure_levels (k # ks) (TObj OrdinaryObj kts) = tree_put k (ensure_levels ks (TObj OrdinaryObj kts1)) (TObj OrdinaryObj kts)
           \<and> walk_dom (TObj OrdinaryObj kts1) ks
           \<and> in_context R h b fr' (\<lambda>t. \<Phi> (tree_put k t (TObj OrdinaryObj kts))) r
           \<and> set fb \<inter> set fr' = {} \<and> set fr' \<subseteq> {..<length h} \<and> object_proto R \<notin> set fb \<union> set fr'"
proof -
  have a_ne: "a \<noteq> object_proto R" using st opn by (auto elim: stores_RefE)
  from ch dom have c1: "c1 = OrdinaryObj" and dom1: "walk_dom (TObj OrdinaryObj kts1) ks" by auto
  from ch node_child(1) [OF st, of k] obtain v where hv: "map_of (o_props (h ! a)) k = Some v" by auto
  from node_child(2) [OF st hv] ch obtain fq where "stores R h v (TObj c1 kts1) fq" by auto
  then obtain b where vb: "v = Ref b" using stores_TObj_Ref by blast
  from in_context_descend [OF st d ctx hv [unfolded vb]] ch c1 obtain fb fr' where
    sb: "stores R h (Ref b) (TObj OrdinaryObj kts1) fb" and db: "set fb \<inter> set fr' = {}"
    and un: "set fb \<union> set fr' = set fa \<union> set fr"
    and ctx1: "in_context R h b fr' (\<lambda>t. \<Phi> (tree_put k t (TObj OrdinaryObj kts))) r"
    by auto
  have "walk R h (Ref a) (k # ks) = walk R h (Ref b) ks"
    using get_value_node [OF st op a_ne pkk] hv vb by simp
  moreover have "set fr' \<subseteq> {..<length h}" using un stores_distinct(1) [OF st] frb by auto
  moreover have "object_proto R \<notin> set fb \<union> set fr'" using un opn by auto
  ultimately show ?thesis using sb dom1 ctx1 db ch c1 by (auto simp: AList.update_conv')
qed

text \<open>Attaching a new empty object under a plain key of an ordinary object in context.\<close>

lemma attach_empty:
  assumes st: "stores R h (Ref a) (TObj OrdinaryObj kts) fa"
    and ctx: "in_context R h a fr \<Phi> r" and d: "set fa \<inter> set fr = {}" and frb: "set fr \<subseteq> {..<length h}"
    and op: "object_proto R < length h" "o_proto (h ! object_proto R) = Prim PNull"
    and a_ne: "a \<noteq> object_proto R" and pkk: "plain_key R h k"
    and h1: "h1 = h @ [empty_object R]"
  shows "\<exists>h2 fa2. set_value R h1 (Ref a) k (Ref (length h)) = Inr h2
           \<and> stores R h2 (Ref a) (TObj OrdinaryObj (AList.update k (TObj OrdinaryObj []) kts)) fa2
           \<and> set fa2 \<subseteq> set fa \<union> {length h} \<and> in_context R h2 a fr \<Phi> r
           \<and> h2 ! a = (h1 ! a)\<lparr>o_props := AList.update k (Ref (length h)) (o_props (h1 ! a))\<rparr>
           \<and> length h2 = Suc (length h) \<and> h2 ! object_proto R = h ! object_proto R"
proof -
  define e where "e = length h"
  define h2 where "h2 = h1[a := (h1 ! a)\<lparr>o_props := AList.update k (Ref e) (o_props (h1 ! a))\<rparr>]"
  have fab: "set fa \<subseteq> {..<length h}" using stores_distinct(1) [OF st] by simp
  have a_fa: "a \<in> set fa" using st by (auto elim: stores_RefE)
  have a_len: "a < length h" using a_fa fab by auto
  have st1: "stores R h1 (Ref a) (TObj OrdinaryObj kts) fa" unfolding h1 by (rule stores_append(1) [OF st])
  have op1: "object_proto R < length h1" "o_proto (h1 ! object_proto R) = Prim PNull"
    "h1 ! object_proto R = h ! object_proto R"
    using op by (simp_all add: h1 nth_append)
  have pk1: "plain_key R h1 k" using pkk op1(3) by (simp add: plain_key_def)
  have set1: "set_value R h1 (Ref a) k (Ref e) = Inr h2"
    unfolding h2_def by (rule set_value_node [OF st1 op1(1,2) a_ne pk1])
  have se: "stores R h2 (Ref e) (TObj OrdinaryObj []) [e]"
    using a_len by (intro stores_empty_object) (simp_all add: h2_def h1 e_def nth_append)
  have agree2: "\<forall>x \<in> set fa. x < length h2 \<and> (x \<noteq> a \<longrightarrow> h2 ! x = h1 ! x)"
    using fab by (auto simp: h2_def h1)
  have new2: "h2 ! a = (h1 ! a)\<lparr>o_props := AList.update k (Ref e) (o_props (h1 ! a))\<rparr>"
    using a_len by (simp add: h2_def h1)
  have "set [e] \<inter> set fa = {}" using fab by (auto simp: e_def)
  from stores_write [OF st1 agree2 new2 se this] obtain fa2 where
    sa2: "stores R h2 (Ref a) (tree_put k (TObj OrdinaryObj []) (TObj OrdinaryObj kts)) fa2"
    and fa2: "set fa2 \<subseteq> set fa \<union> {e}" by auto
  have "\<forall>x \<in> set fr. x < length h2 \<and> h2 ! x = h ! x"
    using frb d a_fa by (auto simp: h2_def h1 nth_append nth_list_update_any)
  then have "in_context R h2 a fr \<Phi> r" by (rule in_context_agree [OF ctx])
  moreover have "length h2 = Suc (length h)" "h2 ! object_proto R = h ! object_proto R"
    using op1 a_ne by (simp_all add: h2_def h1)
  ultimately show ?thesis using set1 sa2 fa2 new2 by (auto simp: e_def)
qed

lemma walk_step_create:
  assumes st: "stores R h (Ref a) (TObj OrdinaryObj kts) fa"
    and ctx: "in_context R h a fr \<Phi> r" and d: "set fa \<inter> set fr = {}" and frb: "set fr \<subseteq> {..<length h}"
    and op: "object_proto R < length h" "o_proto (h ! object_proto R) = Prim PNull"
    and opn: "object_proto R \<notin> set fa \<union> set fr" and pkk: "plain_key R h k"
    and ch: "\<not> (\<exists>c1 kts1. map_of kts k = Some (TObj c1 kts1))" and dom: "walk_dom (TObj OrdinaryObj kts) (k # ks)"
  shows "\<exists>h2 b fb fr'. walk R h (Ref a) (k # ks) = walk R h2 (Ref b) ks
           \<and> stores R h2 (Ref b) (TObj OrdinaryObj []) fb
           \<and> ensure_levels (k # ks) (TObj OrdinaryObj kts) = tree_put k (ensure_levels ks (TObj OrdinaryObj [])) (TObj OrdinaryObj kts)
           \<and> walk_dom (TObj OrdinaryObj []) ks
           \<and> in_context R h2 b fr' (\<lambda>t. \<Phi> (tree_put k t (TObj OrdinaryObj kts))) r
           \<and> set fb \<inter> set fr' = {} \<and> set fr' \<subseteq> {..<length h2}
           \<and> h2 ! object_proto R = h ! object_proto R \<and> object_proto R < length h2 \<and> object_proto R \<notin> set fb \<union> set fr'"
proof -
  let ?tc = "TObj OrdinaryObj kts"
  have a_ne: "a \<noteq> object_proto R" using st opn by (auto elim: stores_RefE)
  have fab: "set fa \<subseteq> {..<length h}" using stores_distinct(1) [OF st] by simp
  have falsy: "\<not> truthy (case map_of (o_props (h ! a)) k of Some v \<Rightarrow> v | None \<Rightarrow> Prim PUndef)"
  proof (cases "map_of (o_props (h ! a)) k")
    case (Some v)
    from node_child(2) [OF st Some] obtain t fq where t: "map_of kts k = Some t" and sv: "stores R h v t fq"
      by blast
    with ch obtain p where "t = TPrim p" by (cases t) auto
    with sv t dom Some show ?thesis by (auto dest: stores_TPrim)
  qed simp
  define h1 where "h1 = h @ [empty_object R]"
  from attach_empty [OF st ctx d frb op a_ne pkk h1_def] obtain h2 fa2 where
    set1: "set_value R h1 (Ref a) k (Ref (length h)) = Inr h2"
    and sa2: "stores R h2 (Ref a) (TObj OrdinaryObj (AList.update k (TObj OrdinaryObj []) kts)) fa2"
    and fa2: "set fa2 \<subseteq> set fa \<union> {length h}" and ctx2: "in_context R h2 a fr \<Phi> r"
    and new2: "h2 ! a = (h1 ! a)\<lparr>o_props := AList.update k (Ref (length h)) (o_props (h1 ! a))\<rparr>"
    and len2: "length h2 = Suc (length h)" and op2: "h2 ! object_proto R = h ! object_proto R"
    by blast
  have pk2: "plain_key R h2 k" using pkk op2 by (simp add: plain_key_def)
  have get2: "get_value R h2 (Ref a) k = Inr (Ref (length h))"
    using get_value_node [OF sa2 _ _ a_ne pk2] op2 op len2 new2 by (simp add: AList.update_conv')
  have d2: "set fa2 \<inter> set fr = {}" using fa2 d frb by auto
  from in_context_descend [OF sa2 d2 ctx2, of k "length h"] new2 obtain fb fr' where
    sb: "stores R h2 (Ref (length h)) (TObj OrdinaryObj []) fb" and db: "set fb \<inter> set fr' = {}"
    and un: "set fb \<union> set fr' = set fa2 \<union> set fr"
    and ctx1: "in_context R h2 (length h) fr' (\<lambda>t. \<Phi> (tree_put k t ?tc)) r"
    by (auto simp: AList.update_conv')
  have "set fr' \<subseteq> insert (length h) {..<length h}" using un fa2 fab frb by auto
  then have bnd: "set fr' \<subseteq> {..<length h2}" by (simp add: len2 lessThan_Suc)
  have opn2: "object_proto R \<notin> set fb \<union> set fr'" using un fa2 opn op by auto
  have opl: "object_proto R < length h2" using len2 op by simp
  have w: "walk R h (Ref a) (k # ks) = walk R h2 (Ref (length h)) ks"
    using get_value_node [OF st op a_ne pkk] falsy set1 get2 by (simp add: alloc_def h1_def)
  have ens: "ensure_levels (k # ks) ?tc = tree_put k (ensure_levels ks (TObj OrdinaryObj [])) ?tc"
    using ch by (auto split: option.splits jtree.splits)
  have dom1: "walk_dom (TObj OrdinaryObj []) ks"
    using dom ch by (auto split: option.splits jtree.splits)
  show ?thesis using w sb ens dom1 ctx1 db bnd op2 opl opn2 by blast
qed

text \<open>
  The walk from an ordinary object of a stored tree, over plain keys of its domain,
  returns an ordinary object in context: the tree with the levels the walk created, the
  subtree of the last level in the place of the object.
\<close>

lemma walk_stores:
  assumes "stores R h (Ref a) (TObj OrdinaryObj kts) fa"
    and "in_context R h a fr \<Phi> r" and "set fa \<inter> set fr = {}" and "set fr \<subseteq> {..<length h}"
    and "object_proto R < length h" and "o_proto (h ! object_proto R) = Prim PNull"
    and "object_proto R \<notin> set fa \<union> set fr"
    and "list_all (plain_key R h) ks" and "walk_dom (TObj OrdinaryObj kts) ks"
  shows "\<exists>h' a' kts' fa' fr'. walk R h (Ref a) ks = Inr (h', Ref a')
           \<and> stores R h' (Ref a') (TObj OrdinaryObj kts') fa'
           \<and> tree_at (ensure_levels ks (TObj OrdinaryObj kts)) ks = Some (TObj OrdinaryObj kts')
           \<and> in_context R h' a' fr' (\<lambda>t. \<Phi> (tree_modify ks (\<lambda>_. t) (ensure_levels ks (TObj OrdinaryObj kts)))) r
           \<and> set fa' \<inter> set fr' = {} \<and> set fr' \<subseteq> {..<length h'}
           \<and> h' ! object_proto R = h ! object_proto R \<and> object_proto R < length h'
           \<and> object_proto R \<notin> set fa' \<union> set fr'"
  using assms
proof (induction ks arbitrary: h a kts fa fr \<Phi>)
  case Nil
  then show ?case by auto
next
  case (Cons k ks)
  let ?tc = "TObj OrdinaryObj kts"
  have pkk: "plain_key R h k" using Cons.prems(8) by simp
  obtain h2 b kts1 fb fr' where w: "walk R h (Ref a) (k # ks) = walk R h2 (Ref b) ks"
    and sb: "stores R h2 (Ref b) (TObj OrdinaryObj kts1) fb"
    and ens: "ensure_levels (k # ks) ?tc = tree_put k (ensure_levels ks (TObj OrdinaryObj kts1)) ?tc"
    and dom1: "walk_dom (TObj OrdinaryObj kts1) ks"
    and ctx1: "in_context R h2 b fr' (\<lambda>t. \<Phi> (tree_put k t ?tc)) r"
    and inv: "set fb \<inter> set fr' = {}" "set fr' \<subseteq> {..<length h2}" "h2 ! object_proto R = h ! object_proto R"
      "object_proto R < length h2" "object_proto R \<notin> set fb \<union> set fr'"
  proof (cases "\<exists>c1 kts1. map_of kts k = Some (TObj c1 kts1)")
    case True
    then obtain c1 kts1 where "map_of kts k = Some (TObj c1 kts1)" by blast
    from walk_step_enter [OF Cons.prems(1-7) pkk this Cons.prems(9)] Cons.prems(5) that show ?thesis by blast
  next
    case False
    from walk_step_create [OF Cons.prems(1-7) pkk False Cons.prems(9)] that show ?thesis by blast
  qed
  have pks: "list_all (plain_key R h2) ks" using Cons.prems(8) inv(3) by (simp add: plain_key_def list_all_iff)
  have "o_proto (h2 ! object_proto R) = Prim PNull" using inv(3) Cons.prems(6) by simp
  from Cons.IH [OF sb ctx1 inv(1,2,4) this inv(5) pks dom1] inv(3) w show ?case
    by (simp add: ens AList.update_conv' del: ensure_levels.simps)
qed


subsection \<open>The update on a stored tree\<close>

text \<open>Spreading an ordinary object of a stored tree gives a fresh root over the same children.\<close>

lemma spread_stores:
  assumes st: "stores R h (Ref a) (TObj OrdinaryObj kts) fa"
  shows "\<exists>h1. spread_object R h a = Inr (h1, length h) \<and> h1 = h @ [(empty_object R)\<lparr>o_props := o_props (h ! a)\<rparr>]
           \<and> stores R h1 (Ref (length h)) (TObj OrdinaryObj kts) (length h # tl fa)"
proof -
  from st obtain fc where a: "a < length h" and hid: "o_hidden (h ! a) = []"
    and sp: "stores_props R h (o_props (h ! a)) kts fc" and fa: "fa = a # fc"
    by (rule stores_RefE) auto
  define h1 where "h1 = h @ [(empty_object R)\<lparr>o_props := o_props (h ! a)\<rparr>]"
  have fcb: "set fc \<subseteq> {..<length h}" using stores_distinct(1) [OF st] fa by simp
  have sp1: "stores_props R h1 (o_props (h1 ! length h)) kts fc"
    using stores_append(2) [OF sp] by (simp add: h1_def)
  have "stores R h1 (Ref (length h)) (TObj (o_class (h1 ! length h)) kts) (length h # fc)"
    using fcb by (intro stores_stores_props.obj [OF _ _ _ _ sp1])
      (auto simp: h1_def empty_object_def class_proto_def)
  then show ?thesis
    using a hid fa by (simp add: spread_object_def alloc_def h1_def empty_object_def)
qed

text \<open>
  \<open>updateNestedFormData\<close> on a stored tree, along a path of plain keys whose inner levels
  are objects, missing, or falsy: the result is a stored tree, the abstract
  \<open>updateAtPath\<close> of the old one.
\<close>

text \<open>
  The walk over the inner keys from an ordinary object of a stored tree, then the
  assignment of a primitive to the last key: the object holds \<open>updateAtPath\<close> of its tree.
\<close>

lemma walk_assign_stores:
  assumes st: "stores R h (Ref r) (TObj OrdinaryObj kts) fa"
    and op: "object_proto R < length h" "o_proto (h ! object_proto R) = Prim PNull"
    and pk: "list_all (plain_key R h) ks" "plain_key R h kl"
    and dom: "walk_dom (TObj OrdinaryObj kts) ks"
  shows "\<exists>h2 a' h3 fp. walk R h (Ref r) ks = Inr (h2, Ref a') \<and> set_value R h2 (Ref a') kl (Prim p) = Inr h3
           \<and> stores R h3 (Ref r) (updateAtPath (ks @ [kl]) (TPrim p) (TObj OrdinaryObj kts)) fp
           \<and> h3 ! object_proto R = h ! object_proto R \<and> object_proto R < length h3"
proof -
  let ?OP = "object_proto R"
  have opn: "?OP \<notin> set fa \<union> set []" using stores_null_proto(1) [OF st] op(2) by auto
  from walk_stores [OF st in_context_root _ _ op(1) op(2) opn pk(1) dom]
  obtain h2 a' kts' fa' fr' where w: "walk R h (Ref r) ks = Inr (h2, Ref a')"
    and s2: "stores R h2 (Ref a') (TObj OrdinaryObj kts') fa'"
    and tat: "tree_at (ensure_levels ks (TObj OrdinaryObj kts)) ks = Some (TObj OrdinaryObj kts')"
    and ctx: "in_context R h2 a' fr' (\<lambda>t. tree_modify ks (\<lambda>_. t) (ensure_levels ks (TObj OrdinaryObj kts))) r"
    and d: "set fa' \<inter> set fr' = {}" and frb: "set fr' \<subseteq> {..<length h2}"
    and op2: "h2 ! ?OP = h ! ?OP" "?OP < length h2" and opn2: "?OP \<notin> set fa' \<union> set fr'"
    by auto
  have a'fa: "a' \<in> set fa'" using s2 by (auto elim: stores_RefE)
  have a'ne: "a' \<noteq> ?OP" using a'fa opn2 by auto
  have a'len: "a' < length h2" using stores_distinct(1) [OF s2] a'fa by auto
  have pk2: "plain_key R h2 kl" using pk(2) op2(1) by (simp add: plain_key_def)
  define h3 where "h3 = h2[a' := (h2 ! a')\<lparr>o_props := AList.update kl (Prim p) (o_props (h2 ! a'))\<rparr>]"
  have set3: "set_value R h2 (Ref a') kl (Prim p) = Inr h3"
    unfolding h3_def using op2 op by (intro set_value_node [OF s2 _ _ a'ne pk2]) simp_all
  have fa'b: "set fa' \<subseteq> {..<length h2}" using stores_distinct(1) [OF s2] by simp
  have agree3: "\<forall>x \<in> set fa'. x < length h3 \<and> (x \<noteq> a' \<longrightarrow> h3 ! x = h2 ! x)"
    using fa'b by (auto simp: h3_def)
  have new3: "h3 ! a' = (h2 ! a')\<lparr>o_props := AList.update kl (Prim p) (o_props (h2 ! a'))\<rparr>"
    using a'len by (simp add: h3_def)
  from stores_write [OF s2 agree3 new3 stores_stores_props.prim] obtain fa3 where
    s3: "stores R h3 (Ref a') (tree_put kl (TPrim p) (TObj OrdinaryObj kts')) fa3" and fa3: "set fa3 \<subseteq> set fa'"
    by auto
  have fr_agree: "\<forall>x \<in> set fr'. x < length h3 \<and> h3 ! x = h2 ! x"
    using frb d a'fa by (auto simp: h3_def nth_list_update_any)
  have "set fa3 \<inter> set fr' = {}" using fa3 d by auto
  from in_context_use [OF ctx fr_agree s3 this] obtain fp where
    "stores R h3 (Ref r) (tree_modify ks (\<lambda>_. tree_put kl (TPrim p) (TObj OrdinaryObj kts'))
                           (ensure_levels ks (TObj OrdinaryObj kts))) fp" by blast
  then have "stores R h3 (Ref r) (updateAtPath (ks @ [kl]) (TPrim p) (TObj OrdinaryObj kts)) fp"
    using tree_modify_at [OF tat, of "tree_put kl (TPrim p)"] by (simp add: tree_modify_ensure)
  moreover have "h3 ! ?OP = h ! ?OP" "?OP < length h3" using op2 a'ne by (simp_all add: h3_def)
  ultimately show ?thesis using w set3 by blast
qed

text \<open>
  Spreading a stored ordinary object: the copy holds the same tree, the original still
  holds its own, and the heap keeps \<open>Object.prototype\<close> and the plain keys.
\<close>

lemma spread_setup:
  assumes st: "stores R h (Ref prev) (TObj OrdinaryObj kts) fa"
    and op: "object_proto R < length h" "o_proto (h ! object_proto R) = Prim PNull"
    and pk: "list_all (plain_key R h) ks"
  shows "\<exists>h1. spread_object R h prev = Inr (h1, length h)
           \<and> h1 = h @ [(empty_object R)\<lparr>o_props := o_props (h ! prev)\<rparr>]
           \<and> stores R h1 (Ref (length h)) (TObj OrdinaryObj kts) (length h # tl fa)
           \<and> stores R h1 (Ref prev) (TObj OrdinaryObj kts) fa
           \<and> object_proto R < length h1 \<and> h1 ! object_proto R = h ! object_proto R
           \<and> list_all (plain_key R h1) ks"
proof -
  from spread_stores [OF st] obtain h1 where sp: "spread_object R h prev = Inr (h1, length h)"
    and h1: "h1 = h @ [(empty_object R)\<lparr>o_props := o_props (h ! prev)\<rparr>]"
    and s1: "stores R h1 (Ref (length h)) (TObj OrdinaryObj kts) (length h # tl fa)" by blast
  have "stores R h1 (Ref prev) (TObj OrdinaryObj kts) fa" unfolding h1 by (rule stores_append(1) [OF st])
  moreover have "object_proto R < length h1" "h1 ! object_proto R = h ! object_proto R"
    using op by (simp_all add: h1 nth_append)
  moreover from this(2) have "list_all (plain_key R h1) ks" using pk by (simp add: plain_key_def list_all_iff)
  ultimately show ?thesis using sp h1 s1 by blast
qed

theorem updateNestedFormData_stores:
  assumes st: "stores R h (Ref prev) (TObj OrdinaryObj kts) fa"
    and op: "object_proto R < length h" "o_proto (h ! object_proto R) = Prim PNull"
    and pk: "list_all (plain_key R h) (js_split CHR ''.'' path)"
    and dom: "walk_dom (TObj OrdinaryObj kts) (butlast (js_split CHR ''.'' path))"
  shows "\<exists>h' r fp. updateNestedFormData R h prev path (Prim p) = Inr (h', r)
           \<and> stores R h' (Ref r) (updateAtPath (js_split CHR ''.'' path) (TPrim p) (TObj OrdinaryObj kts)) fp
           \<and> h' ! object_proto R = h ! object_proto R \<and> object_proto R < length h'"
proof -
  define ks where "ks = butlast (js_split CHR ''.'' path)"
  define kl where "kl = last (js_split CHR ''.'' path)"
  have parts: "js_split CHR ''.'' path = ks @ [kl]" by (simp add: ks_def kl_def)
  from spread_setup [OF st op pk] obtain h1 where sp: "spread_object R h prev = Inr (h1, length h)"
    and s1: "stores R h1 (Ref (length h)) (TObj OrdinaryObj kts) (length h # tl fa)"
    and op1: "object_proto R < length h1" "h1 ! object_proto R = h ! object_proto R"
    and pk1: "list_all (plain_key R h1) (ks @ [kl])" by (auto simp: parts)
  from walk_assign_stores [OF s1 op1(1) _ _ _ dom [folded ks_def], of kl p] pk1 op1 op
  obtain h2 a' h3 fp where w: "walk R h1 (Ref (length h)) ks = Inr (h2, Ref a')"
    and set3: "set_value R h2 (Ref a') kl (Prim p) = Inr h3"
    and s3: "stores R h3 (Ref (length h)) (updateAtPath (ks @ [kl]) (TPrim p) (TObj OrdinaryObj kts)) fp"
    and op3: "h3 ! object_proto R = h ! object_proto R" "object_proto R < length h3" by auto
  have "updateNestedFormData R h prev path (Prim p) = Inr (h3, length h)"
    using sp w set3 by (simp add: updateNestedFormData_def ks_def kl_def)
  with s3 op3 parts show ?thesis by auto
qed


lemma updateAtPath_TObj: "ks \<noteq> [] \<Longrightarrow> \<exists>kts'. updateAtPath ks v (TObj c kts) = TObj c kts'"
  by (cases ks) simp_all

lemma updates_ok_cong:
  "h' ! object_proto R = h ! object_proto R \<Longrightarrow> updates_ok R h' t us = updates_ok R h t us"
  by (induction us arbitrary: t) (auto simp: plain_key_def list_all_iff)

lemma provider_updates_stores:
  assumes "stores R (js_heap st) (Ref (js_formData st)) (TObj OrdinaryObj kts) fa"
    and "object_proto R < length (js_heap st)" and "o_proto (js_heap st ! object_proto R) = Prim PNull"
    and "updates_ok R (js_heap st) (TObj OrdinaryObj kts) us"
  shows "\<exists>st' fp. provider_updates R st us = Inr st'
           \<and> stores R (js_heap st') (Ref (js_formData st')) (apply_updates (TObj OrdinaryObj kts) us) fp"
  using assms
proof (induction us arbitrary: st kts fa)
  case Nil
  then show ?case by auto
next
  case (Cons u us)
  obtain path p where u: "u = (path, p)" by (cases u)
  let ?t = "updateAtPath (js_split CHR ''.'' path) (TPrim p) (TObj OrdinaryObj kts)"
  from Cons.prems(4) u have pk: "list_all (plain_key R (js_heap st)) (js_split CHR ''.'' path)"
    and dom: "walk_dom (TObj OrdinaryObj kts) (butlast (js_split CHR ''.'' path))"
    and rest: "updates_ok R (js_heap st) ?t us" by simp_all
  from updateNestedFormData_stores [OF Cons.prems(1-3) pk dom, of p] obtain h' r fp where
    upd: "updateNestedFormData R (js_heap st) (js_formData st) path (Prim p) = Inr (h', r)"
    and st': "stores R h' (Ref r) ?t fp"
    and op': "h' ! object_proto R = js_heap st ! object_proto R" "object_proto R < length h'" by blast
  obtain kts' where t: "?t = TObj OrdinaryObj kts'" using updateAtPath_TObj [OF js_split_not_Nil] by blast
  let ?st = "\<lparr>js_heap = h', js_formData = r\<rparr>"
  have "stores R (js_heap ?st) (Ref (js_formData ?st)) (TObj OrdinaryObj kts') fp" using st' t by simp
  moreover have "o_proto (js_heap ?st ! object_proto R) = Prim PNull" using op' Cons.prems(3) by simp
  moreover have "updates_ok R (js_heap ?st) (TObj OrdinaryObj kts') us"
    using rest t op'(1) updates_ok_cong [of h' R "js_heap st"] by simp
  ultimately obtain st'' fp'' where "provider_updates R ?st us = Inr st''"
    and "stores R (js_heap st'') (Ref (js_formData st'')) (apply_updates (TObj OrdinaryObj kts') us) fp''"
    using Cons.IH op'(2) by fastforce
  then show ?case using upd u t by (auto simp: provider_nested_def)
qed

lemma module_stores:
  "\<exists>fp. stores js_realm module_heap (Ref initialFormData_addr) (fd_tree initialFormData) fp"
proof -
  have "alloc_tree js_realm js_intrinsics (fd_tree initialFormData) = (module_heap, snd module_init)"
    by (simp add: module_heap_def module_init_def)
  from alloc_stores(1) [OF this] obtain fp where
    st: "stores js_realm module_heap (snd module_init) (fd_tree initialFormData) fp" by blast
  from st have "\<exists>b. snd module_init = Ref b" unfolding fd_tree_def by (rule stores_TObj_Ref)
  with st show ?thesis by (auto simp: initialFormData_addr_def)
qed

lemma module_heap_object_proto:
  "object_proto js_realm < length module_heap \<and> o_proto (module_heap ! object_proto js_realm) = Prim PNull"
  by code_simp

text \<open>The mounted provider holds \<open>initialFormData\<close> as a stored tree.\<close>

lemma mount_stores:
  obtains kts fp where "fd_tree initialFormData = TObj OrdinaryObj kts"
    and "stores js_realm (js_heap (provider_mount module_heap)) (Ref (js_formData (provider_mount module_heap)))
           (TObj OrdinaryObj kts) fp"
    and "object_proto js_realm < length (js_heap (provider_mount module_heap))"
    and "o_proto (js_heap (provider_mount module_heap) ! object_proto js_realm) = Prim PNull"
    and "js_heap (provider_mount module_heap) = module_heap"
proof -
  obtain kts where t: "fd_tree initialFormData = TObj OrdinaryObj kts" by (simp add: fd_tree_def)
  with module_stores module_heap_object_proto that show ?thesis by (auto simp: provider_mount_def)
qed

lemma stores_store_tree: "stores R (js_heap st) (Ref (js_formData st)) t fp \<Longrightarrow> store_tree st = Some t"
  by (simp add: store_tree_def stores_read_heap)

text \<open>
  On the mounted provider, a sequence of updates within \<open>updates_ok\<close> succeeds and leaves a
  stored tree: the record of the abstract updates, unshared.
\<close>

lemma mount_updates_stores:
  assumes "updates_ok js_realm module_heap (fd_tree initialFormData) us"
  shows "\<exists>st fp. provider_updates js_realm (provider_mount module_heap) us = Inr st
           \<and> stores js_realm (js_heap st) (Ref (js_formData st)) (apply_updates (fd_tree initialFormData) us) fp"
proof -
  obtain kts fp where t: "fd_tree initialFormData = TObj OrdinaryObj kts"
    and s0: "stores js_realm (js_heap (provider_mount module_heap)) (Ref (js_formData (provider_mount module_heap)))
               (TObj OrdinaryObj kts) fp"
    and op: "object_proto js_realm < length (js_heap (provider_mount module_heap))"
      "o_proto (js_heap (provider_mount module_heap) ! object_proto js_realm) = Prim PNull"
    and h: "js_heap (provider_mount module_heap) = module_heap"
    by (rule mount_stores)
  from provider_updates_stores [OF s0 op] assms t h show ?thesis by auto
qed

text \<open>
  C18: refinement of the contract. On the freshly mounted provider, a sequence of
  \<open>updateNestedFormData(path, value)\<close> calls with primitive values, whose paths use keys
  that \<open>Object.prototype\<close> does not define and whose existing inner levels are ordinary
  objects or falsy primitives, never throws, and the record the components then read is
  the specification's \<open>updateAtPath\<close> applied to \<open>initialFormData\<close> update by update.
\<close>

theorem provider_updates_refine:
  assumes "updates_ok js_realm module_heap (fd_tree initialFormData) us"
  shows "\<exists>st. provider_updates js_realm (provider_mount module_heap) us = Inr st
           \<and> store_tree st = Some (apply_updates (fd_tree initialFormData) us)"
  using mount_updates_stores [OF assms] by (auto dest: stores_store_tree)

theorem provider_updates_refine_witness:
  "updates_ok js_realm module_heap (fd_tree initialFormData)
     [(''nationalId.number'', PStr ''AB123''), (''spouse.firstName'', PStr ''Ann'')]
   \<and> (\<exists>st. provider_updates js_realm (provider_mount module_heap)
            [(''nationalId.number'', PStr ''AB123''), (''spouse.firstName'', PStr ''Ann'')] = Inr st
         \<and> store_tree st = Some (apply_updates (fd_tree initialFormData)
            [(''nationalId.number'', PStr ''AB123''), (''spouse.firstName'', PStr ''Ann'')]))"
proof -
  have ok: "updates_ok js_realm module_heap (fd_tree initialFormData)
     [(''nationalId.number'', PStr ''AB123''), (''spouse.firstName'', PStr ''Ann'')]" by code_simp
  show ?thesis using ok provider_updates_refine [OF ok] by blast
qed


subsection \<open>The update writes through the shallow copy\<close>

text \<open>
  The copy and the original have the same own properties; when the first key holds an
  object, the walk from either enters that same object, and from there on it is the
  same walk.
\<close>

lemma walk_spread_enter:
  assumes s1: "stores R h1 (Ref r) (TObj OrdinaryObj kts) fr1" and sp: "stores R h1 (Ref prev) (TObj OrdinaryObj kts) fp1"
    and props: "o_props (h1 ! r) = o_props (h1 ! prev)"
    and op: "object_proto R < length h1" "o_proto (h1 ! object_proto R) = Prim PNull"
    and pk: "plain_key R h1 k" and ch: "map_of kts k = Some (TObj c kts1)"
  shows "walk R h1 (Ref r) (k # ks) = walk R h1 (Ref prev) (k # ks)"
proof -
  have ne: "r \<noteq> object_proto R" "prev \<noteq> object_proto R"
    using stores_null_proto(1) [OF s1, of r] stores_null_proto(1) [OF sp, of prev] op(2) s1 sp
    by (auto elim!: stores_RefE)
  from ch node_child(1) [OF s1, of k] obtain v where v: "map_of (o_props (h1 ! r)) k = Some v" by auto
  from node_child(2) [OF s1 v] ch obtain fq where "stores R h1 v (TObj c kts1) fq" by auto
  then obtain b where "v = Ref b" using stores_TObj_Ref by blast
  with get_value_node [OF s1 op ne(1) pk] get_value_node [OF sp op ne(2) pk] v props
  show ?thesis by simp
qed

text \<open>
  When the first key of the path holds an object, the update writes into the objects
  the result shares with \<open>prev\<close>: afterwards \<open>prev\<close> holds the updated tree as well.
\<close>

lemma updateNestedFormData_writes_through:
  assumes st: "stores R h (Ref prev) (TObj OrdinaryObj kts) fa"
    and op: "object_proto R < length h" "o_proto (h ! object_proto R) = Prim PNull"
    and pk: "list_all (plain_key R h) (js_split CHR ''.'' path)"
    and dom: "walk_dom (TObj OrdinaryObj kts) (butlast (js_split CHR ''.'' path))"
    and two: "butlast (js_split CHR ''.'' path) \<noteq> []"
    and ch: "map_of kts (hd (js_split CHR ''.'' path)) = Some (TObj c kts1)"
  shows "\<exists>h' r fp fp'. updateNestedFormData R h prev path (Prim p) = Inr (h', r)
           \<and> stores R h' (Ref r) (updateAtPath (js_split CHR ''.'' path) (TPrim p) (TObj OrdinaryObj kts)) fp
           \<and> stores R h' (Ref prev) (updateAtPath (js_split CHR ''.'' path) (TPrim p) (TObj OrdinaryObj kts)) fp'
           \<and> h' ! object_proto R = h ! object_proto R \<and> object_proto R < length h'"
proof -
  define ks where "ks = butlast (js_split CHR ''.'' path)"
  define kl where "kl = last (js_split CHR ''.'' path)"
  have parts: "js_split CHR ''.'' path = ks @ [kl]" by (simp add: ks_def kl_def)
  from two obtain k1 ks' where ks: "ks = k1 # ks'" by (cases ks) (auto simp: ks_def)
  have k1: "hd (js_split CHR ''.'' path) = k1" by (simp add: parts ks)
  from spread_setup [OF st op pk] obtain h1 where sp: "spread_object R h prev = Inr (h1, length h)"
    and h1: "h1 = h @ [(empty_object R)\<lparr>o_props := o_props (h ! prev)\<rparr>]"
    and s1: "stores R h1 (Ref (length h)) (TObj OrdinaryObj kts) (length h # tl fa)"
    and sprev: "stores R h1 (Ref prev) (TObj OrdinaryObj kts) fa"
    and op1: "object_proto R < length h1" "h1 ! object_proto R = h ! object_proto R"
    and pk1: "list_all (plain_key R h1) (ks @ [kl])" by (auto simp: parts)
  have prev_len: "prev < length h" using st by (auto elim: stores_RefE)
  have "walk R h1 (Ref (length h)) ks = walk R h1 (Ref prev) ks"
    unfolding ks using pk1 op1 op ch k1 prev_len
    by (intro walk_spread_enter [OF s1 sprev]) (simp_all add: h1 nth_append ks)
  moreover from walk_assign_stores [OF s1 op1(1) _ _ _ dom [folded ks_def], of kl p] pk1 op1 op
  obtain h2 a' h3 fp where w: "walk R h1 (Ref (length h)) ks = Inr (h2, Ref a')"
    and set3: "set_value R h2 (Ref a') kl (Prim p) = Inr h3"
    and s3: "stores R h3 (Ref (length h)) (updateAtPath (ks @ [kl]) (TPrim p) (TObj OrdinaryObj kts)) fp"
    and op3: "h3 ! object_proto R = h ! object_proto R" "object_proto R < length h3" by auto
  moreover from walk_assign_stores [OF sprev op1(1) _ _ _ dom [folded ks_def], of kl p] pk1 op1 op
  obtain h2' a'' h3' fp' where "walk R h1 (Ref prev) ks = Inr (h2', Ref a'')"
    and "set_value R h2' (Ref a'') kl (Prim p) = Inr h3'"
    and "stores R h3' (Ref prev) (updateAtPath (ks @ [kl]) (TPrim p) (TObj OrdinaryObj kts)) fp'" by auto
  ultimately have s3': "stores R h3 (Ref prev) (updateAtPath (ks @ [kl]) (TPrim p) (TObj OrdinaryObj kts)) fp'"
    using set3 by simp
  have "updateNestedFormData R h prev path (Prim p) = Inr (h3, length h)"
    using sp w set3 by (simp add: updateNestedFormData_def ks_def kl_def)
  with s3 s3' op3 parts show ?thesis by auto
qed


text \<open>
  C23: the write-through in general. On the freshly mounted provider, every update
  within the contract whose path has an inner level and whose first key holds an object
  returns the updated record, and mutates the module constant \<open>initialFormData\<close> into the
  same record: the next page's provider starts from it.
\<close>

theorem nested_update_writes_into_initial:
  assumes ok: "updates_ok js_realm module_heap (fd_tree initialFormData) [(path, p)]"
    and two: "butlast (js_split CHR ''.'' path) \<noteq> []"
    and ch: "obj_child (fd_tree initialFormData) (hd (js_split CHR ''.'' path))"
  shows "\<exists>st. provider_nested js_realm (provider_mount module_heap) path (Prim p) = Inr st
           \<and> store_tree st = Some (updateAtPath (js_split CHR ''.'' path) (TPrim p) (fd_tree initialFormData))
           \<and> store_tree (provider_mount (js_heap st))
               = Some (updateAtPath (js_split CHR ''.'' path) (TPrim p) (fd_tree initialFormData))"
proof -
  obtain kts fp where t: "fd_tree initialFormData = TObj OrdinaryObj kts"
    and s0: "stores js_realm (js_heap (provider_mount module_heap)) (Ref (js_formData (provider_mount module_heap)))
               (TObj OrdinaryObj kts) fp"
    and op: "object_proto js_realm < length (js_heap (provider_mount module_heap))"
      "o_proto (js_heap (provider_mount module_heap) ! object_proto js_realm) = Prim PNull"
    and h: "js_heap (provider_mount module_heap) = module_heap"
    by (rule mount_stores)
  from ch t obtain c kts1 where "map_of kts (hd (js_split CHR ''.'' path)) = Some (TObj c kts1)"
    by (auto simp: obj_child_def split: option.splits jtree.splits)
  with updateNestedFormData_writes_through [OF s0 op _ _ two, of c kts1 p] ok t h
  obtain h' r fp1 fp2 where u: "updateNestedFormData js_realm module_heap initialFormData_addr path (Prim p) = Inr (h', r)"
    and s1: "stores js_realm h' (Ref r) (updateAtPath (js_split CHR ''.'' path) (TPrim p) (fd_tree initialFormData)) fp1"
    and s2: "stores js_realm h' (Ref initialFormData_addr) (updateAtPath (js_split CHR ''.'' path) (TPrim p) (fd_tree initialFormData)) fp2"
    by (auto simp: provider_mount_def)
  from stores_read_heap [OF s1] stores_read_heap [OF s2] u show ?thesis
    by (simp add: provider_nested_def provider_mount_def store_tree_def)
qed

theorem nested_update_writes_into_initial_witness:
  "updates_ok js_realm module_heap (fd_tree initialFormData) [(''personalInfo.firstName'', PStr ''Ann'')]
   \<and> butlast (js_split CHR ''.'' ''personalInfo.firstName'') \<noteq> []
   \<and> obj_child (fd_tree initialFormData) (hd (js_split CHR ''.'' ''personalInfo.firstName''))
   \<and> (\<exists>st. provider_nested js_realm (provider_mount module_heap) ''personalInfo.firstName'' (Prim (PStr ''Ann'')) = Inr st
       \<and> store_tree st = Some (updateAtPath (js_split CHR ''.'' ''personalInfo.firstName'') (TPrim (PStr ''Ann'')) (fd_tree initialFormData))
       \<and> store_tree (provider_mount (js_heap st))
           = Some (updateAtPath (js_split CHR ''.'' ''personalInfo.firstName'') (TPrim (PStr ''Ann'')) (fd_tree initialFormData)))"
proof -
  have ok: "updates_ok js_realm module_heap (fd_tree initialFormData) [(''personalInfo.firstName'', PStr ''Ann'')]"
    and two: "butlast (js_split CHR ''.'' ''personalInfo.firstName'') \<noteq> []"
    and ch: "obj_child (fd_tree initialFormData) (hd (js_split CHR ''.'' ''personalInfo.firstName''))"
    by code_simp+
  show ?thesis using ok two ch nested_update_writes_into_initial [OF ok two ch] by blast
qed


lemma walk_dom_updateAtPath: "walk_dom t ks \<Longrightarrow> walk_dom (updateAtPath (ks @ [k]) v t) ks"
proof (induction ks arbitrary: t)
  case (Cons k1 ks)
  show ?case
  proof (cases t)
    case (TObj c kts)
    define ch where "ch = (case map_of kts k1 of Some (TObj c kts) \<Rightarrow> TObj c kts | _ \<Rightarrow> TObj OrdinaryObj [])"
    have dch: "walk_dom ch ks" and "\<exists>kts. ch = TObj OrdinaryObj kts"
      using Cons.prems TObj by (auto simp: ch_def split: option.splits jtree.splits)
    then obtain kts' where x: "updateAtPath (ks @ [k]) v ch = TObj OrdinaryObj kts'"
      using updateAtPath_TObj [of "ks @ [k]" v] by blast
    from Cons.IH [OF dch] x have "walk_dom (TObj OrdinaryObj kts') ks" by simp
    with x TObj show ?thesis by (simp add: ch_def [symmetric] AList.update_conv')
  qed (use Cons.prems in simp)
qed simp

lemma updateAtPath_idem: "updateAtPath ks v (updateAtPath ks v t) = updateAtPath ks v t"
proof (induction ks arbitrary: t)
  case (Cons k ks)
  show ?case
  proof (cases t)
    case (TObj c kts)
    define ch where "ch = (case map_of kts k of Some (TObj c kts) \<Rightarrow> TObj c kts | _ \<Rightarrow> TObj OrdinaryObj [])"
    have "\<exists>c1 kts1. ch = TObj c1 kts1" by (simp add: ch_def split: option.split jtree.split)
    then obtain c1 kts1 where ch1: "ch = TObj c1 kts1" by blast
    have "(case Some (updateAtPath ks v ch) of Some (TObj c kts) \<Rightarrow> TObj c kts | _ \<Rightarrow> TObj OrdinaryObj [])
          = updateAtPath ks v ch \<or> ks = []"
      using updateAtPath_TObj [of ks v c1 kts1] ch1 by (cases ks) auto
    then show ?thesis using Cons.IH [of ch] TObj
      by (auto simp: ch_def [symmetric] AList.update_conv')
  qed simp
qed simp


text \<open>
  C24: the double call of Strict Mode is harmless for these updates. On the freshly
  mounted provider, for an update within the contract whose path has an inner level
  starting at an object, the second call starts from a \<open>prev\<close> the first call already
  rewrote, and still yields the record of a single update.
\<close>

theorem strict_double_call_same_record:
  assumes ok: "updates_ok js_realm module_heap (fd_tree initialFormData) [(path, p)]"
    and two: "butlast (js_split CHR ''.'' path) \<noteq> []"
    and ch: "obj_child (fd_tree initialFormData) (hd (js_split CHR ''.'' path))"
  shows "\<exists>st. provider_nested_strict js_realm (provider_mount module_heap) path (Prim p) = Inr st
           \<and> store_tree st = Some (updateAtPath (js_split CHR ''.'' path) (TPrim p) (fd_tree initialFormData))"
proof -
  let ?ks = "js_split CHR ''.'' path"
  let ?U = "updateAtPath ?ks (TPrim p) (fd_tree initialFormData)"
  obtain kts fp where t: "fd_tree initialFormData = TObj OrdinaryObj kts"
    and s0: "stores js_realm (js_heap (provider_mount module_heap)) (Ref (js_formData (provider_mount module_heap)))
               (TObj OrdinaryObj kts) fp"
    and op: "object_proto js_realm < length (js_heap (provider_mount module_heap))"
      "o_proto (js_heap (provider_mount module_heap) ! object_proto js_realm) = Prim PNull"
    and h: "js_heap (provider_mount module_heap) = module_heap"
    by (rule mount_stores)
  have pk: "list_all (plain_key js_realm module_heap) ?ks" and dom: "walk_dom (fd_tree initialFormData) (butlast ?ks)"
    using ok by simp_all
  from ch t obtain c kts1 where "map_of kts (hd ?ks) = Some (TObj c kts1)"
    by (auto simp: obj_child_def split: option.splits jtree.splits)
  with updateNestedFormData_writes_through [OF s0 op _ _ two, of c kts1 p] pk dom t h
  obtain h' r fp1 fp2 where u1: "updateNestedFormData js_realm module_heap initialFormData_addr path (Prim p) = Inr (h', r)"
    and s2: "stores js_realm h' (Ref initialFormData_addr) ?U fp2"
    and op': "h' ! object_proto js_realm = module_heap ! object_proto js_realm" "object_proto js_realm < length h'"
    by (auto simp: provider_mount_def)
  obtain kts' where u: "?U = TObj OrdinaryObj kts'" using updateAtPath_TObj [OF js_split_not_Nil] t by metis
  have op2: "o_proto (h' ! object_proto js_realm) = Prim PNull" using op(2) op'(1) h by simp
  have pk2: "list_all (plain_key js_realm h') ?ks" using pk op'(1) by (simp add: plain_key_def list_all_iff)
  have "walk_dom (updateAtPath (butlast ?ks @ [last ?ks]) (TPrim p) (fd_tree initialFormData)) (butlast ?ks)"
    using dom by (rule walk_dom_updateAtPath)
  then have dom2: "walk_dom (TObj OrdinaryObj kts') (butlast ?ks)" using u by simp
  from updateNestedFormData_stores [OF s2 [unfolded u] op'(2) op2 pk2 dom2, of p]
  obtain h'' r'' fp'' where u2: "updateNestedFormData js_realm h' initialFormData_addr path (Prim p) = Inr (h'', r'')"
    and s3: "stores js_realm h'' (Ref r'') (updateAtPath ?ks (TPrim p) ?U) fp''"
    by (auto simp: u)
  from stores_read_heap [OF s3] u1 u2 show ?thesis
    by (simp add: provider_nested_strict_def provider_mount_def store_tree_def updateAtPath_idem)
qed

theorem strict_double_call_same_record_witness:
  "updates_ok js_realm module_heap (fd_tree initialFormData) [(''currentAddress.city'', PStr ''Leeds'')]
   \<and> butlast (js_split CHR ''.'' ''currentAddress.city'') \<noteq> []
   \<and> obj_child (fd_tree initialFormData) (hd (js_split CHR ''.'' ''currentAddress.city''))
   \<and> (\<exists>st. provider_nested_strict js_realm (provider_mount module_heap) ''currentAddress.city'' (Prim (PStr ''Leeds'')) = Inr st
       \<and> store_tree st = Some (updateAtPath (js_split CHR ''.'' ''currentAddress.city'') (TPrim (PStr ''Leeds'')) (fd_tree initialFormData)))"
proof -
  have ok: "updates_ok js_realm module_heap (fd_tree initialFormData) [(''currentAddress.city'', PStr ''Leeds'')]"
    and two: "butlast (js_split CHR ''.'' ''currentAddress.city'') \<noteq> []"
    and ch: "obj_child (fd_tree initialFormData) (hd (js_split CHR ''.'' ''currentAddress.city''))"
    by code_simp+
  show ?thesis using ok two ch strict_double_call_same_record [OF ok two ch] by blast
qed

end
