(* ===== verification/RecordType.thy ===== *)
theory RecordType
  imports NestedRefine
begin

text \<open>
  The TypeScript type \<open>FormData\<close> of \<open>src/app/providers/FormDataProvider.tsx\<close> as a type
  of object trees, and the runtime typing of a tree against it: \<open>ty_ok ty t\<close> holds when
  the object tree \<open>t\<close> has the shape \<open>ty\<close> asks for. The record of every \<open>FormData\<close>
  value is well typed; an update of \<open>updateNestedFormData\<close> along a path that exists in
  the record and ends at a field, with a value of the field's type, keeps it well typed.
\<close>

subsection \<open>Types of object trees\<close>

text \<open>
  \<open>string\<close>, a union of string literals, \<open>boolean\<close>, \<open>number\<close>, an object type with its
  fields (the flag marks an optional field \<open>k?\<close>), \<open>Array<T>\<close>.
\<close>

datatype jty =
    TyString
  | TyLit "string list"
  | TyBool
  | TyNumber
  | TyObject "(string \<times> bool \<times> jty) list"
  | TyArray jty

fun ty_ok :: "jty \<Rightarrow> jtree \<Rightarrow> bool"
  and kts_ok :: "(string \<times> bool \<times> jty) list \<Rightarrow> (string \<times> jtree) list \<Rightarrow> bool"
  and elems_ok :: "jty \<Rightarrow> (string \<times> jtree) list \<Rightarrow> bool" where
  "ty_ok TyString t = (case t of TPrim (PStr s) \<Rightarrow> True | _ \<Rightarrow> False)"
| "ty_ok (TyLit ls) t = (case t of TPrim (PStr s) \<Rightarrow> s \<in> set ls | _ \<Rightarrow> False)"
| "ty_ok TyBool t = (case t of TPrim (PBool b) \<Rightarrow> True | _ \<Rightarrow> False)"
| "ty_ok TyNumber t = (case t of TPrim (PNum n) \<Rightarrow> True | _ \<Rightarrow> False)"
| "ty_ok (TyObject fs) (TObj c kts) =
     (c = OrdinaryObj \<and> distinct (map fst kts)
      \<and> list_all (\<lambda>(k, opt, _). opt \<or> k \<in> set (map fst kts)) fs \<and> kts_ok fs kts)"
| "ty_ok (TyArray e) (TObj c kts) =
     (c = ArrayObj \<and> map fst kts = ''length'' # map nat_str [0..<length kts - 1]
      \<and> map_of kts ''length'' = Some (TPrim (PNum (int (length kts - 1)))) \<and> elems_ok e kts)"
| "ty_ok (TyObject fs) (TPrim p) = False"
| "ty_ok (TyArray e) (TPrim p) = False"
| "kts_ok fs [] = True"
| "kts_ok fs ((k, t) # kts) = ((case map_of fs k of Some (_, ty) \<Rightarrow> ty_ok ty t | None \<Rightarrow> False) \<and> kts_ok fs kts)"
| "elems_ok e [] = True"
| "elems_ok e ((k, t) # kts) = ((k = ''length'' \<or> ty_ok e t) \<and> elems_ok e kts)"

text \<open>The type \<open>FormData\<close>, field by field as declared.\<close>

definition doc_ty :: jty where
  "doc_ty = TyObject [(''number'', False, TyString), (''issuingAuthority'', False, TyString),
     (''dateOfIssue'', False, TyString), (''dateOfExpiry'', False, TyString)]"

definition form_data_ty :: jty where
  "form_data_ty = TyObject
     [(''passport'', False, doc_ty), (''nationalId'', False, doc_ty),
      (''personalInfo'', False, TyObject
         [(''email'', False, TyString), (''phone'', False, TyString), (''firstName'', False, TyString),
          (''lastName'', False, TyString), (''gender'', False, TyLit [''Male'', ''Female'', ''Other'']),
          (''placeOfBirth'', False, TyString), (''hasNameChanged'', False, TyBool)]),
      (''maritalStatus'', False, TyLit [''Single'', ''Married'', ''Divorced'', ''Widowed'', '''']),
      (''spouse'', True, TyObject
         [(''firstName'', False, TyString), (''lastName'', False, TyString), (''dateOfBirth'', False, TyString),
          (''nationality'', False, TyString), (''travelingWithYou'', False, TyBool)]),
      (''children'', False, TyArray (TyObject
         [(''id'', False, TyString), (''firstName'', False, TyString), (''lastName'', False, TyString),
          (''dateOfBirth'', False, TyString), (''relationship'', False, TyString),
          (''travelingWithYou'', False, TyBool)])),
      (''currentAddress'', False, TyObject
         [(''street'', False, TyString), (''city'', False, TyString), (''state'', False, TyString),
          (''postalCode'', False, TyString), (''country'', False, TyString),
          (''yearsAtAddress'', False, TyNumber), (''monthsAtAddress'', False, TyNumber)]),
      (''previousAddresses'', False, TyArray (TyObject
         [(''id'', False, TyString), (''street'', False, TyString), (''city'', False, TyString),
          (''state'', False, TyString), (''postalCode'', False, TyString), (''country'', False, TyString),
          (''fromDate'', False, TyString), (''toDate'', False, TyString), (''reasonForLeaving'', False, TyString)])),
      (''employmentStatus'', False,
         TyLit [''Employed'', ''Self-employed'', ''Student'', ''Retired'', ''Unemployed'', '''']),
      (''employment'', True, TyObject
         [(''companyName'', False, TyString), (''jobTitle'', False, TyString), (''startDate'', False, TyString),
          (''salary'', False, TyString), (''employerAddress'', False, TyString),
          (''employerPhone'', False, TyString)]),
      (''selfEmployment'', True, TyObject
         [(''businessName'', False, TyString), (''businessType'', False, TyString),
          (''annualIncome'', False, TyString), (''startDate'', False, TyString)]),
      (''education'', True, TyObject
         [(''institutionName'', False, TyString), (''course'', False, TyString), (''startDate'', False, TyString),
          (''endDate'', False, TyString), (''isFullTime'', False, TyBool)]),
      (''tripSponsor'', False, TyLit [''Self'', ''Employer'', ''Family'', ''Other'', '''']),
      (''sponsorDetails'', True, TyObject
         [(''name'', False, TyString), (''relationship'', False, TyString), (''contactInfo'', False, TyString)])]"

subsection \<open>Paths into a type\<close>

text \<open>The type at the end of a path of field names, and the field names of a type.\<close>

fun leaf_ty :: "jty \<Rightarrow> string list \<Rightarrow> jty option" where
  "leaf_ty ty [] = Some ty"
| "leaf_ty (TyObject fs) (k # ks) = (case map_of fs k of Some (_, ty) \<Rightarrow> leaf_ty ty ks | None \<Rightarrow> None)"
| "leaf_ty _ (k # ks) = None"

fun ty_keys :: "jty \<Rightarrow> string list" where
  "ty_keys (TyObject fs) = concat (map (\<lambda>(k, _, ty). k # ty_keys ty) fs)"
| "ty_keys (TyArray e) = ty_keys e"
| "ty_keys _ = []"

subsection \<open>Updates that keep the record well typed\<close>

text \<open>
  A sequence of nested updates is typed when each path ends at a field of \<open>FormData\<close>,
  the value has the field's type, and the levels above the field exist in the record
  the earlier updates left.
\<close>

fun typed_updates :: "jtree \<Rightarrow> (string \<times> prim) list \<Rightarrow> bool" where
  "typed_updates t [] = True"
| "typed_updates t ((path, p) # us) =
     ((case leaf_ty form_data_ty (js_split CHR ''.'' path) of Some lt \<Rightarrow> ty_ok lt (TPrim p) | None \<Rightarrow> False)
      \<and> tree_at t (butlast (js_split CHR ''.'' path)) \<noteq> None
      \<and> typed_updates (updateAtPath (js_split CHR ''.'' path) (TPrim p) t) us)"


subsection \<open>Every record is well typed\<close>

lemma elems_ok_zip: "list_all (ty_ok e) ts \<Longrightarrow> elems_ok e (zip ks ts)"
proof (induction ts arbitrary: ks)
  case (Cons t ts)
  then show ?case by (cases ks) auto
qed simp

lemma jarray_ok: "list_all (ty_ok e) ts \<Longrightarrow> ty_ok (TyArray e) (jarray ts)"
  by (simp add: jarray_def jnum_def elems_ok_zip)

lemma gender_lit: "gender_str g \<in> set [''Male'', ''Female'', ''Other'']"
  by (cases g) simp_all

lemma marital_lit: "marital_str m \<in> set [''Single'', ''Married'', ''Divorced'', ''Widowed'', '''']"
  by (cases m) simp_all

lemma employment_lit:
  "employment_str es \<in> set [''Employed'', ''Self-employed'', ''Student'', ''Retired'', ''Unemployed'', '''']"
  by (cases es) simp_all

lemma sponsor_lit: "sponsor_str ts \<in> set [''Self'', ''Employer'', ''Family'', ''Other'', '''']"
  by (cases ts) simp_all

lemmas lit_strs = gender_lit marital_lit employment_lit sponsor_lit

lemma form_data_typed: "ty_ok form_data_ty (fd_tree fd)"
proof -
  have ch: "list_all (ty_ok (TyObject
         [(''id'', False, TyString), (''firstName'', False, TyString), (''lastName'', False, TyString),
          (''dateOfBirth'', False, TyString), (''relationship'', False, TyString),
          (''travelingWithYou'', False, TyBool)])) (map child_tree (children fd))"
    by (simp add: list_all_iff child_tree_def jstr_def jbool_def)
  have pa: "list_all (ty_ok (TyObject
         [(''id'', False, TyString), (''street'', False, TyString), (''city'', False, TyString),
          (''state'', False, TyString), (''postalCode'', False, TyString), (''country'', False, TyString),
          (''fromDate'', False, TyString), (''toDate'', False, TyString), (''reasonForLeaving'', False, TyString)]))
       (map previous_tree (previousAddresses fd))"
    by (simp add: list_all_iff previous_tree_def jstr_def)
  show ?thesis
    using jarray_ok [OF ch] jarray_ok [OF pa] lit_strs
    by (cases "spouse fd"; cases "employment fd"; cases "selfEmployment fd"; cases "education fd";
        cases "sponsorDetails fd")
       (simp_all add: form_data_ty_def doc_ty_def fd_tree_def opt_key_def doc_tree_def personal_tree_def
         spouse_tree_def current_tree_def employment_tree_def self_employment_tree_def education_tree_def
         sponsor_tree_def jstr_def jbool_def jnum_def)
qed


subsection \<open>Typing along paths\<close>

lemma kts_ok_lookup:
  "kts_ok fs kts \<Longrightarrow> map_of kts k = Some t \<Longrightarrow> \<exists>opt ty. map_of fs k = Some (opt, ty) \<and> ty_ok ty t"
  by (induction kts) (auto split: option.splits if_splits)

lemma kts_ok_update:
  "kts_ok fs kts \<Longrightarrow> map_of fs k = Some (opt, ty) \<Longrightarrow> ty_ok ty v \<Longrightarrow> kts_ok fs (AList.update k v kts)"
  by (induction kts) (auto split: option.splits)

lemma required_mono:
  "list_all (\<lambda>(k, opt, _). opt \<or> k \<in> A) fs \<Longrightarrow> A \<subseteq> B \<Longrightarrow> list_all (\<lambda>(k, opt, _). opt \<or> k \<in> B) fs"
  by (induction fs) auto

lemma ty_ok_put:
  assumes "ty_ok (TyObject fs) (TObj c kts)" and "map_of fs k = Some (opt, ty)" and "ty_ok ty v"
  shows "ty_ok (TyObject fs) (tree_put k v (TObj c kts))"
proof -
  from assms(1) have c: "c = OrdinaryObj" and d: "distinct (map fst kts)"
    and r: "list_all (\<lambda>(k, opt, _). opt \<or> k \<in> set (map fst kts)) fs" and ok: "kts_ok fs kts"
    by simp_all
  have "set (map fst kts) \<subseteq> set (map fst (AList.update k v kts))"
    by (auto simp: AList.dom_update)
  with r have "list_all (\<lambda>(k', opt', _). opt' \<or> k' \<in> set (map fst (AList.update k v kts))) fs"
    by (rule required_mono)
  moreover have "distinct (map fst (AList.update k v kts))" using d by (rule AList.distinct_update)
  moreover have "kts_ok fs (AList.update k v kts)" using ok assms(2,3) by (rule kts_ok_update)
  ultimately show ?thesis using c by simp
qed


lemma leaf_ty_Cons:
  "leaf_ty ty (k # ks) = Some lt \<Longrightarrow> \<exists>fs opt ty'. ty = TyObject fs \<and> map_of fs k = Some (opt, ty') \<and> leaf_ty ty' ks = Some lt"
  by (cases ty) (auto split: option.splits)

lemma ty_ok_TyObject: "ty_ok (TyObject fs) t \<Longrightarrow> \<exists>kts. t = TObj OrdinaryObj kts"
  by (cases t) auto

lemma leaf_ty_keys: "leaf_ty ty ks = Some lt \<Longrightarrow> set ks \<subseteq> set (ty_keys ty)"
proof (induction ks arbitrary: ty)
  case (Cons k ks)
  from leaf_ty_Cons [OF Cons.prems] obtain fs opt ty' where ty: "ty = TyObject fs"
    and f: "map_of fs k = Some (opt, ty')" and l: "leaf_ty ty' ks = Some lt" by blast
  from f have "(k, opt, ty') \<in> set fs" by (rule map_of_SomeD)
  with Cons.IH [OF l] ty show ?case by force
qed simp

text \<open>
  Along a path that exists in a well-typed tree and ends at a field, every level is an
  ordinary object, so the walk enters it; and putting a value of the field's type there
  keeps the tree well typed.
\<close>

lemma ty_ok_updateAtPath:
  "ty_ok ty t \<Longrightarrow> leaf_ty ty (p @ [k]) = Some lt \<Longrightarrow> ty_ok lt v \<Longrightarrow> tree_at t p \<noteq> None
   \<Longrightarrow> walk_dom t p \<and> ty_ok ty (updateAtPath (p @ [k]) v t)"
proof (induction p arbitrary: ty t)
  case Nil
  from leaf_ty_Cons [of ty k "[]"] Nil.prems(2) obtain fs opt where ty: "ty = TyObject fs"
    and f: "map_of fs k = Some (opt, lt)" by auto
  with Nil.prems(1) obtain kts where t: "t = TObj OrdinaryObj kts" using ty_ok_TyObject by blast
  from ty_ok_put [OF Nil.prems(1) [unfolded ty t] f Nil.prems(3)] ty t show ?case by simp
next
  case (Cons k1 p)
  from leaf_ty_Cons [of ty k1 "p @ [k]"] Cons.prems(2) obtain fs opt1 ty1 where ty: "ty = TyObject fs"
    and f1: "map_of fs k1 = Some (opt1, ty1)" and l1: "leaf_ty ty1 (p @ [k]) = Some lt" by auto
  from Cons.prems(1) ty obtain kts where t: "t = TObj OrdinaryObj kts" using ty_ok_TyObject by blast
  from Cons.prems(4) t obtain t1 where c1: "map_of kts k1 = Some t1" and e1: "tree_at t1 p \<noteq> None"
    by (auto split: option.splits)
  from kts_ok_lookup [of fs kts k1 t1] Cons.prems(1) ty t c1 f1 have ok1: "ty_ok ty1 t1" by auto
  have "leaf_ty ty1 (hd (p @ [k]) # tl (p @ [k])) = Some lt" using l1 by (cases p) simp_all
  from leaf_ty_Cons [OF this] obtain fs1 where "ty1 = TyObject fs1" by blast
  with ok1 obtain kts1 where t1: "t1 = TObj OrdinaryObj kts1" using ty_ok_TyObject by blast
  from Cons.IH [OF ok1 l1 Cons.prems(3) e1] have ih: "walk_dom t1 p" "ty_ok ty1 (updateAtPath (p @ [k]) v t1)"
    by simp_all
  have "ty_ok ty (tree_put k1 (updateAtPath (p @ [k]) v t1) t)"
    using ty_ok_put [OF Cons.prems(1) [unfolded ty t] f1 ih(2)] ty t by simp
  with ih(1) t c1 t1 show ?case by simp
qed


subsection \<open>The provider keeps the record well typed\<close>

lemma form_keys_plain: "list_all (plain_key js_realm module_heap) (ty_keys form_data_ty)"
  by code_simp

lemma typed_updates_ok:
  "ty_ok form_data_ty t \<Longrightarrow> typed_updates t us
   \<Longrightarrow> updates_ok js_realm module_heap t us \<and> ty_ok form_data_ty (apply_updates t us)"
proof (induction us arbitrary: t)
  case (Cons u us)
  obtain path p where u: "u = (path, p)" by (cases u)
  define ks where "ks = js_split CHR ''.'' path"
  have ks: "butlast ks @ [last ks] = ks" by (simp add: ks_def)
  from Cons.prems(2) u obtain lt where lt: "leaf_ty form_data_ty ks = Some lt" and v: "ty_ok lt (TPrim p)"
    and ex: "tree_at t (butlast ks) \<noteq> None" and rest: "typed_updates (updateAtPath ks (TPrim p) t) us"
    by (auto simp: ks_def split: option.splits)
  from lt have "leaf_ty form_data_ty (butlast ks @ [last ks]) = Some lt" by (simp only: ks)
  from ty_ok_updateAtPath [OF Cons.prems(1) this v ex]
  have dom: "walk_dom t (butlast ks)" and ok: "ty_ok form_data_ty (updateAtPath ks (TPrim p) t)" by (simp_all only: ks)
  have "list_all (plain_key js_realm module_heap) ks"
    using leaf_ty_keys [OF lt] form_keys_plain by (auto simp: list_all_iff)
  with Cons.IH [OF ok rest] dom u show ?case by (simp add: ks_def)
qed simp

text \<open>
  C22: type preservation. On the freshly mounted provider, every typed sequence of
  \<open>updateNestedFormData\<close> calls succeeds, and the record the components read afterwards
  has the type \<open>FormData\<close>.
\<close>

theorem typed_updates_keep_type:
  assumes "typed_updates (fd_tree initialFormData) us"
  shows "\<exists>st t. provider_updates js_realm (provider_mount module_heap) us = Inr st
           \<and> store_tree st = Some t \<and> ty_ok form_data_ty t"
proof -
  from typed_updates_ok [OF form_data_typed assms]
  have ok: "updates_ok js_realm module_heap (fd_tree initialFormData) us"
    and ty: "ty_ok form_data_ty (apply_updates (fd_tree initialFormData) us)" by simp_all
  from mount_updates_stores [OF ok] ty show ?thesis by (auto dest: stores_store_tree)
qed

theorem typed_updates_keep_type_witness:
  "typed_updates (fd_tree initialFormData)
     [(''nationalId.number'', PStr ''AB123''), (''maritalStatus'', PStr ''Married''),
      (''currentAddress.yearsAtAddress'', PNum 3)]
   \<and> (\<exists>st t. provider_updates js_realm (provider_mount module_heap)
        [(''nationalId.number'', PStr ''AB123''), (''maritalStatus'', PStr ''Married''),
         (''currentAddress.yearsAtAddress'', PNum 3)] = Inr st
      \<and> store_tree st = Some t \<and> ty_ok form_data_ty t)"
proof -
  have ok: "typed_updates (fd_tree initialFormData)
     [(''nationalId.number'', PStr ''AB123''), (''maritalStatus'', PStr ''Married''),
      (''currentAddress.yearsAtAddress'', PNum 3)]" by code_simp
  show ?thesis using ok typed_updates_keep_type [OF ok] by blast
qed

end
