(* ===== verification/View.thy ===== *)
theory View
  imports AddressHistory PersonalDetails NestedUpdate
begin

text \<open>
  What the pages render. A rendered element is a tag, its props in the order the JSX
  writes them, and its children; text children are \<open>Txt\<close>. Event props hold the event
  the handler dispatches: \<open>onClick={f}\<close> an event, \<open>onChange={(e) => f(e.target.value)}\<close>
  a function of the typed value, \<open>onValueChange\<close> of a radio group a function of the
  chosen item's value (the cast \<open>value as any\<close> is partial: only the values of the type
  have an event), \<open>onCheckedChange\<close> of a checkbox a function of the new state.
  \<open>FormLayout\<close> (\<open>src/app/components/FormLayout.tsx\<close>) is translated as written. The
  \<open>ui/*\<close> components (\<open>Button\<close>, \<open>Input\<close>, \<open>Card\<close>, \<open>RadioGroup\<close>, \<open>Checkbox\<close>, ...) are
  not in the repository; they stay elements named by their component, with the props
  they are given, and their behaviour is that of the Radix primitives they wrap: a
  disabled element fires nothing, a radio group calls \<open>onValueChange\<close> with an item's
  value only when it differs from the group's \<open>value\<close>, a checkbox calls
  \<open>onCheckedChange\<close> with the negation of \<open>checked\<close>. \<open>controls\<close> lists the live
  handlers of a tree in document order, a radio group contributing one click per
  selectable item, and \<open>ui_events\<close> is the set of events a user can cause on it.
\<close>

subsection \<open>Rendered elements\<close>

datatype 'e aval =
    AStr string
  | ANum int
  | ABool bool
  | ACn "string option list"
  | OnClick 'e
  | OnChange "string \<Rightarrow> 'e"
  | OnValue "string \<Rightarrow> 'e option"
  | OnCheck "bool \<Rightarrow> 'e"
  | OnFiles "string list \<Rightarrow> 'e"

datatype 'e node =
    Elem string "(string \<times> 'e aval) list" "'e node list"
  | Txt string

definition cls :: "string \<Rightarrow> string \<times> 'e aval" where
  "cls c = (''className'', AStr c)"

definition FormLayout :: "string \<Rightarrow> string option \<Rightarrow> 'e node list \<Rightarrow> 'e node" where
  "FormLayout title className kids =
     Elem ''div'' [cls ''w-full max-w-2xl mx-auto p-4 bg-white rounded-lg shadow-sm'']
       [Elem ''div'' [cls ''flex justify-center mb-6'']
          [Elem ''div'' [cls ''flex items-center text-blue-700 font-semibold'']
             [Elem ''div'' [cls ''bg-blue-700 h-8 w-8 flex items-center justify-center rounded-md text-white mr-2'']
                [Txt ''UK''],
              Txt ''UK VISA APP'']],
        Elem ''h1'' [cls ''text-2xl font-semibold text-blue-700 text-center mb-6''] [Txt title],
        Elem ''div'' [(''className'', ACn [Some ''border-t pt-6'', className])] kids]"

definition str_attr :: "string \<Rightarrow> (string \<times> 'e aval) list \<Rightarrow> string option" where
  "str_attr k attrs = (case map_of attrs k of Some (AStr v) \<Rightarrow> Some v | _ \<Rightarrow> None)"

definition bool_attr :: "string \<Rightarrow> (string \<times> 'e aval) list \<Rightarrow> bool" where
  "bool_attr k attrs = (case map_of attrs k of Some (ABool b) \<Rightarrow> b | _ \<Rightarrow> False)"

text \<open>
  The selection of a radio group: its \<open>value\<close> when controlled; when uncontrolled
  (\<open>defaultValue\<close>), the state Radix keeps inside the mounted group, recorded on the
  element as \<open>selected\<close>.
\<close>

definition radio_value :: "(string \<times> 'e aval) list \<Rightarrow> string option" where
  "radio_value attrs = (case str_attr ''value'' attrs of Some v \<Rightarrow> Some v | None \<Rightarrow> str_attr ''selected'' attrs)"

fun item_values :: "'e node \<Rightarrow> string list" where
  "item_values (Txt s) = []"
| "item_values (Elem tag attrs ch) =
     (if tag = ''RadioGroupItem'' then (case str_attr ''value'' attrs of Some v \<Rightarrow> [v] | None \<Rightarrow> []) else [])
     @ concat (map item_values ch)"

fun attr_controls :: "(string \<times> 'e aval) list \<Rightarrow> 'e node list \<Rightarrow> 'e aval \<Rightarrow> 'e aval list" where
  "attr_controls attrs ch (OnClick e) = [OnClick e]"
| "attr_controls attrs ch (OnChange f) = [OnChange f]"
| "attr_controls attrs ch (OnValue f) =
     map OnClick (List.map_filter (\<lambda>v. if Some v = radio_value attrs then None else f v)
       (concat (map item_values ch)))"
| "attr_controls attrs ch (OnCheck f) = [OnClick (f (\<not> bool_attr ''checked'' attrs))]"
| "attr_controls attrs ch (OnFiles f) = [OnFiles f]"
| "attr_controls attrs ch _ = []"

definition disabled :: "(string \<times> 'e aval) list \<Rightarrow> bool" where
  "disabled attrs \<longleftrightarrow> bool_attr ''disabled'' attrs"

fun controls :: "'e node \<Rightarrow> 'e aval list" where
  "controls (Txt s) = []"
| "controls (Elem tag attrs ch) =
     (if disabled attrs then [] else concat (map (attr_controls attrs ch \<circ> snd) attrs))
     @ concat (map controls ch)"

fun fired :: "'e aval \<Rightarrow> 'e set" where
  "fired (OnClick e) = {e}"
| "fired (OnChange f) = range f"
| "fired (OnFiles f) = range f"
| "fired _ = {}"

fun fired_all :: "'e aval list \<Rightarrow> 'e set" where
  "fired_all [] = {}"
| "fired_all (h # hs) = fired h \<union> fired_all hs"

definition ui_events :: "'e node \<Rightarrow> 'e set" where
  "ui_events n = fired_all (controls n)"

subsection \<open>The address-history page\<close>

definition current_input ::
  "string \<Rightarrow> string \<Rightarrow> (string \<times> ah_event aval) list \<Rightarrow> ah_event aval \<Rightarrow> ca_field \<Rightarrow> ah_event node" where
  "current_input i label extra v f =
     Elem ''div'' []
       [Elem ''Label'' [(''htmlFor'', AStr i)] [Txt label],
        Elem ''Input'' ([(''id'', AStr i)] @ extra @
          [(''value'', v), (''onChange'', OnChange (CurrentAddressChange f)), cls ''mt-1'']) []]"

definition grid2 :: "'e node list \<Rightarrow> 'e node" where
  "grid2 ch = Elem ''div'' [cls ''grid grid-cols-1 md:grid-cols-2 gap-4''] ch"

definition current_card :: "current_address \<Rightarrow> ah_event node" where
  "current_card ca =
     Elem ''Card'' []
       [Elem ''CardContent'' [cls ''pt-6'']
          [Elem ''h3'' [cls ''text-lg font-medium mb-4''] [Txt ''Current Address''],
           Elem ''div'' [cls ''grid gap-4'']
             [current_input ''street'' ''Street Address'' [] (AStr (ca_street ca)) CA_street,
              grid2 [current_input ''city'' ''City'' [] (AStr (ca_city ca)) CA_city,
                     current_input ''state'' ''State/Province'' [] (AStr (ca_state ca)) CA_state],
              grid2 [current_input ''postalCode'' ''Postal Code'' [] (AStr (ca_postalCode ca)) CA_postalCode,
                     current_input ''country'' ''Country'' [] (AStr (ca_country ca)) CA_country],
              Elem ''div'' [cls ''pt-4'']
                [Elem ''h4'' [cls ''font-medium mb-2''] [Txt ''How long have you lived at this address?''],
                 Elem ''div'' [cls ''grid grid-cols-2 gap-4'']
                   [current_input ''yearsAtAddress'' ''Years'' [(''type'', AStr ''number''), (''min'', AStr ''0'')]
                      (ANum (yearsAtAddress ca)) CA_yearsAtAddress,
                    current_input ''monthsAtAddress'' ''Months''
                      [(''type'', AStr ''number''), (''min'', AStr ''0''), (''max'', AStr ''11'')]
                      (ANum (monthsAtAddress ca)) CA_monthsAtAddress]]]]]"

definition prev_id :: "uuid \<Rightarrow> string \<Rightarrow> string" where
  "prev_id i suffix = ''prev-'' @ uuid_str i @ ''-'' @ suffix"

definition prev_input ::
  "string \<Rightarrow> uuid \<Rightarrow> string \<Rightarrow> string \<Rightarrow> (string \<times> ah_event aval) list \<Rightarrow> (string \<times> ah_event aval) list
   \<Rightarrow> string \<Rightarrow> pa_field \<Rightarrow> ah_event node" where
  "prev_input tag i suffix label pre post v f =
     Elem ''div'' []
       [Elem ''Label'' [(''htmlFor'', AStr (prev_id i suffix))] [Txt label],
        Elem tag ([(''id'', AStr (prev_id i suffix))] @ pre @
          [(''value'', AStr v), (''onChange'', OnChange (UpdatePreviousAddress i f)), cls ''mt-1''] @ post) []]"

definition prev_card :: "nat \<Rightarrow> previous_address \<Rightarrow> ah_event node" where
  "prev_card index a =
     (let i = pa_id a in
      Elem ''Card'' [(''key'', AStr (uuid_str i)), cls ''border-blue-100'']
        [Elem ''CardContent'' [cls ''pt-6'']
           [Elem ''div'' [cls ''flex justify-between items-center mb-4'']
              [Elem ''h4'' [cls ''font-medium''] [Txt ''Previous Address '', Txt (nat_str (index + 1))],
               Elem ''Button'' [(''onClick'', OnClick (RemovePreviousAddress i)), (''variant'', AStr ''ghost''),
                   cls ''h-8 px-2 text-red-600 hover:text-red-700 hover:bg-red-50''] [Txt ''Remove'']],
            Elem ''div'' [cls ''grid gap-4'']
              [prev_input ''Input'' i ''street'' ''Street Address'' [] [] (pa_street a) PA_street,
               grid2 [prev_input ''Input'' i ''city'' ''City'' [] [] (pa_city a) PA_city,
                      prev_input ''Input'' i ''state'' ''State/Province'' [] [] (pa_state a) PA_state],
               grid2 [prev_input ''Input'' i ''postalCode'' ''Postal Code'' [] [] (pa_postalCode a) PA_postalCode,
                      prev_input ''Input'' i ''country'' ''Country'' [] [] (pa_country a) PA_country],
               grid2 [prev_input ''Input'' i ''fromDate'' ''From Date'' [(''type'', AStr ''date'')] [] (pa_fromDate a) PA_fromDate,
                      prev_input ''Input'' i ''toDate'' ''To Date'' [(''type'', AStr ''date'')] [] (pa_toDate a) PA_toDate],
               prev_input ''Textarea'' i ''reason'' ''Reason for Leaving'' [] [(''rows'', ANum 3)]
                 (pa_reasonForLeaving a) PA_reasonForLeaving]]])"

definition prev_section :: "previous_address list \<Rightarrow> ah_event node" where
  "prev_section xs =
     Elem ''div'' [cls ''pt-4'']
       [Elem ''div'' [cls ''flex items-center justify-between mb-4'']
          [Elem ''h3'' [cls ''text-lg font-medium''] [Txt ''Previous Addresses''],
           Elem ''Button'' [(''onClick'', OnClick AddPreviousAddress), (''variant'', AStr ''outline''),
               cls ''border-blue-600 text-blue-600''] [Txt ''Add Previous Address'']],
        (if length xs = 0 then
           Elem ''p'' [cls ''text-red-500'']
             [Txt ''You must add your previous address history to cover at least the last 12 months.'']
         else Elem ''div'' [cls ''space-y-4''] (map (\<lambda>(index, a). prev_card index a) (enumerate 0 xs)))]"

definition prev_fields :: "pa_field list" where
  "prev_fields = [PA_street, PA_city, PA_state, PA_postalCode, PA_country, PA_fromDate, PA_toDate,
     PA_reasonForLeaving]"

definition ah_view :: "ah_state \<Rightarrow> ah_event node" where
  "ah_view s =
     Elem ''main'' [cls ''min-h-screen bg-gray-50 py-8'']
       [FormLayout ''Address History'' None
          [Elem ''div'' [cls ''space-y-6'']
             ([current_card (currentAddress (ah_formData s))]
              @ (if showPreviousAddresses s then [prev_section (ah_previousAddresses s)] else [])
              @ [Elem ''div'' [cls ''pt-6'']
                   [Elem ''Button'' [(''onClick'', OnClick ClickNext), cls ''w-full bg-blue-600 hover:bg-blue-700'',
                       (''disabled'', ABool (showPreviousAddresses s \<and> length (ah_previousAddresses s) = 0))]
                      [Txt ''Next'']]])]]"

text \<open>
  What the rendered controls call: the handlers of \<open>AddressHistoryContent\<close> with no guard,
  followed by the effects whose dependencies changed.
\<close>

fun ah_dispatch :: "ah_state \<Rightarrow> ah_event \<Rightarrow> ah_state outcome" where
  "ah_dispatch s (CurrentAddressChange f v) = (ah_run_effects s (handleCurrentAddressChange f v s), None)"
| "ah_dispatch s AddPreviousAddress = (ah_run_effects s (addPreviousAddress s), None)"
| "ah_dispatch s (RemovePreviousAddress i) = (ah_run_effects s (removePreviousAddress i s), None)"
| "ah_dispatch s (UpdatePreviousAddress i f v) = (ah_run_effects s (updatePreviousAddress i f v s), None)"
| "ah_dispatch s ClickNext = handleNext s"

subsection \<open>The personal-details page\<close>

text \<open>\<open>value as any\<close>: the item values that are marital statuses.\<close>

definition marital_cast :: "string \<Rightarrow> marital_status option" where
  "marital_cast v =
     map_of (map (\<lambda>m. (marital_str m, m)) [MS_Single, MS_Married, MS_Divorced, MS_Widowed, MS_Unset]) v"

definition radio_item :: "string \<Rightarrow> string \<Rightarrow> 'e node" where
  "radio_item v i =
     Elem ''div'' [cls ''flex items-center space-x-2'']
       [Elem ''RadioGroupItem'' [(''value'', AStr v), (''id'', AStr i)] [],
        Elem ''Label'' [(''htmlFor'', AStr i)] [Txt v]]"

definition marital_group :: "form_data \<Rightarrow> pd_event node" where
  "marital_group fd =
     Elem ''div'' []
       [Elem ''Label'' [cls ''text-lg font-medium''] [Txt ''Marital Status''],
        Elem ''RadioGroup'' [(''value'', AStr (marital_str (maritalStatus fd))),
            (''onValueChange'', OnValue (\<lambda>v. map_option MaritalStatusChange (marital_cast v))),
            cls ''mt-3 space-y-2'']
          [radio_item ''Single'' ''marital-single'', radio_item ''Married'' ''marital-married'',
           radio_item ''Divorced'' ''marital-divorced'', radio_item ''Widowed'' ''marital-widowed'']]"

text \<open>\<open>formData.spouse?.field || ''\<close>: an absent spouse reads as the empty string.\<close>

definition spouse_text :: "(spouse_info \<Rightarrow> string) \<Rightarrow> form_data \<Rightarrow> string" where
  "spouse_text sel fd = (case spouse fd of None \<Rightarrow> [] | Some sp \<Rightarrow> sel sp)"

text \<open>\<open>formData.spouse?.travelingWithYou || false\<close>.\<close>

definition spouse_checked :: "form_data \<Rightarrow> bool" where
  "spouse_checked fd = (case spouse fd of None \<Rightarrow> False | Some sp \<Rightarrow> sp_travelingWithYou sp)"

definition spouse_input ::
  "string \<Rightarrow> string \<Rightarrow> (string \<times> pd_event aval) list \<Rightarrow> string \<Rightarrow> (string \<Rightarrow> sp_update) \<Rightarrow> pd_event node" where
  "spouse_input i label extra v u =
     Elem ''div'' []
       [Elem ''Label'' [(''htmlFor'', AStr i)] [Txt label],
        Elem ''Input'' ([(''id'', AStr i)] @ extra @
          [(''value'', AStr v), (''onChange'', OnChange (\<lambda>x. SpouseChange (u x))), cls ''mt-1'']) []]"

definition spouse_card :: "form_data \<Rightarrow> pd_event node" where
  "spouse_card fd =
     Elem ''Card'' [cls ''border-blue-200'']
       [Elem ''CardContent'' [cls ''pt-6'']
          [Elem ''h3'' [cls ''text-lg font-medium mb-4''] [Txt ''Spouse Information''],
           Elem ''div'' [cls ''grid gap-4'']
             [spouse_input ''spouse-firstName'' ''First Name'' [] (spouse_text sp_firstName fd) SP_firstName,
              spouse_input ''spouse-lastName'' ''Last Name'' [] (spouse_text sp_lastName fd) SP_lastName,
              spouse_input ''spouse-dateOfBirth'' ''Date of Birth'' [(''type'', AStr ''date'')]
                (spouse_text sp_dateOfBirth fd) SP_dateOfBirth,
              spouse_input ''spouse-nationality'' ''Nationality'' [] (spouse_text sp_nationality fd) SP_nationality,
              Elem ''div'' [cls ''flex items-center space-x-2'']
                [Elem ''Checkbox'' [(''id'', AStr ''spouse-traveling''),
                    (''checked'', ABool (spouse_checked fd)),
                    (''onCheckedChange'', OnCheck (\<lambda>b. SpouseChange (SP_travelingWithYou b)))] [],
                 Elem ''Label'' [(''htmlFor'', AStr ''spouse-traveling'')] [Txt ''Traveling with you to UK?'']]]]]"

definition child_id :: "uuid \<Rightarrow> string \<Rightarrow> string" where
  "child_id i suffix = ''child-'' @ uuid_str i @ ''-'' @ suffix"

definition child_input ::
  "uuid \<Rightarrow> string \<Rightarrow> string \<Rightarrow> (string \<times> pd_event aval) list \<Rightarrow> (string \<times> pd_event aval) list
   \<Rightarrow> string \<Rightarrow> (string \<Rightarrow> ch_update) \<Rightarrow> pd_event node" where
  "child_input i suffix label pre mid v u =
     Elem ''div'' []
       [Elem ''Label'' [(''htmlFor'', AStr (child_id i suffix))] [Txt label],
        Elem ''Input'' ([(''id'', AStr (child_id i suffix))] @ pre @ [(''value'', AStr v)] @ mid @
          [(''onChange'', OnChange (\<lambda>x. UpdateChild i (u x))), cls ''mt-1'']) []]"

definition child_card :: "nat \<Rightarrow> child \<Rightarrow> pd_event node" where
  "child_card index c =
     (let i = ch_id c in
      Elem ''Card'' [(''key'', AStr (uuid_str i)), cls ''border-blue-100'']
        [Elem ''CardContent'' [cls ''pt-6'']
           [Elem ''div'' [cls ''flex justify-between items-center mb-4'']
              [Elem ''h4'' [cls ''font-medium''] [Txt ''Child '', Txt (nat_str (index + 1))],
               Elem ''Button'' [(''onClick'', OnClick (RemoveChild i)), (''variant'', AStr ''ghost''),
                   cls ''h-8 px-2 text-red-600 hover:text-red-700 hover:bg-red-50''] [Txt ''Remove'']],
            Elem ''div'' [cls ''grid gap-4'']
              [child_input i ''firstName'' ''First Name'' [] [] (ch_firstName c) CH_firstName,
               child_input i ''lastName'' ''Last Name'' [] [] (ch_lastName c) CH_lastName,
               child_input i ''dateOfBirth'' ''Date of Birth'' [(''type'', AStr ''date'')] [] (ch_dateOfBirth c) CH_dateOfBirth,
               child_input i ''relationship'' ''Relationship'' [] [(''placeholder'', AStr ''e.g., Son, Daughter, Step-Child'')]
                 (ch_relationship c) CH_relationship,
               Elem ''div'' [cls ''flex items-center space-x-2'']
                 [Elem ''Checkbox'' [(''id'', AStr (child_id i ''traveling'')), (''checked'', ABool (ch_travelingWithYou c)),
                     (''onCheckedChange'', OnCheck (\<lambda>b. UpdateChild i (CH_travelingWithYou b)))] [],
                  Elem ''Label'' [(''htmlFor'', AStr (child_id i ''traveling''))] [Txt ''Traveling with you to UK?'']]]]])"

definition children_section :: "child list \<Rightarrow> pd_event node" where
  "children_section xs =
     Elem ''div'' [cls ''pt-4'']
       [Elem ''div'' [cls ''flex items-center justify-between mb-4'']
          [Elem ''h3'' [cls ''text-lg font-medium''] [Txt ''Children Information''],
           Elem ''Button'' [(''onClick'', OnClick AddChild), (''variant'', AStr ''outline''),
               cls ''border-blue-600 text-blue-600''] [Txt ''Add Child'']],
        (if length xs = 0 then Elem ''p'' [cls ''text-gray-500 italic''] [Txt ''No children added.'']
         else Elem ''div'' [cls ''space-y-4''] (map (\<lambda>(index, c). child_card index c) (enumerate 0 xs)))]"

definition sp_text_fields :: "(string \<Rightarrow> sp_update) list" where
  "sp_text_fields = [SP_firstName, SP_lastName, SP_dateOfBirth, SP_nationality]"

definition ch_text_fields :: "(string \<Rightarrow> ch_update) list" where
  "ch_text_fields = [CH_firstName, CH_lastName, CH_dateOfBirth, CH_relationship]"

definition pd_view :: "pd_state \<Rightarrow> pd_event node" where
  "pd_view s =
     Elem ''main'' [cls ''min-h-screen bg-gray-50 py-8'']
       [FormLayout ''Family Information'' None
          [Elem ''div'' [cls ''space-y-6'']
             ([marital_group (pd_formData s)]
              @ (if showSpouseForm s then [spouse_card (pd_formData s)] else [])
              @ [children_section (pd_children s),
                 Elem ''div'' [cls ''pt-6'']
                   [Elem ''Button'' [(''onClick'', OnClick PdClickNext), cls ''w-full bg-blue-600 hover:bg-blue-700'']
                      [Txt ''Next'']]])]]"

text \<open>What the rendered controls of \<open>PersonalDetailsContent\<close> call, with no guard.\<close>

fun pd_dispatch :: "pd_state \<Rightarrow> pd_event \<Rightarrow> pd_state outcome" where
  "pd_dispatch s (MaritalStatusChange v) = (handleMaritalStatusChange v s, None)"
| "pd_dispatch s (SpouseChange u) = (handleSpouseChange u s, None)"
| "pd_dispatch s AddChild = (addChild s, None)"
| "pd_dispatch s (RemoveChild i) = (removeChild i s, None)"
| "pd_dispatch s (UpdateChild i u) = (updateChild i u s, None)"
| "pd_dispatch s PdClickNext = pd_handleNext s"

subsection \<open>Events of a rendered tree\<close>

lemma fired_all_append [simp]: "fired_all (xs @ ys) = fired_all xs \<union> fired_all ys"
  by (induction xs) auto

lemma fired_all_concat [simp]: "fired_all (concat (map g xs)) = (\<Union>x \<in> set xs. fired_all (g x))"
  by (induction xs) auto

lemma fired_all_map [simp]: "fired_all (map g xs) = (\<Union>x \<in> set xs. fired (g x))"
  by (induction xs) auto

lemma fired_all_iff: "e \<in> fired_all hs \<longleftrightarrow> (\<exists>h \<in> set hs. e \<in> fired h)"
  by (induction hs) auto

lemma ui_eventsI: "h \<in> set (controls n) \<Longrightarrow> e \<in> fired h \<Longrightarrow> e \<in> ui_events n"
  unfolding ui_events_def fired_all_iff by blast

subsection \<open>Controls of the address page\<close>

lemma controls_FormLayout [simp]: "controls (FormLayout t c ch) = concat (map controls ch)"
  by (simp add: FormLayout_def cls_def disabled_def bool_attr_def)

lemma controls_current_card:
  "controls (current_card ca) =
     map (\<lambda>f. OnChange (CurrentAddressChange f))
       [CA_street, CA_city, CA_state, CA_postalCode, CA_country, CA_yearsAtAddress, CA_monthsAtAddress]"
  by (simp add: current_card_def current_input_def grid2_def cls_def disabled_def bool_attr_def)

lemma controls_prev_card:
  "controls (prev_card n a) =
     OnClick (RemovePreviousAddress (pa_id a)) # map (\<lambda>f. OnChange (UpdatePreviousAddress (pa_id a) f)) prev_fields"
  by (simp add: prev_card_def Let_def prev_input_def grid2_def cls_def disabled_def bool_attr_def prev_fields_def)

lemma controls_prev_section:
  "controls (prev_section xs) =
     OnClick AddPreviousAddress #
     concat (map (\<lambda>a. OnClick (RemovePreviousAddress (pa_id a)) # map (\<lambda>f. OnChange (UpdatePreviousAddress (pa_id a) f)) prev_fields) xs)"
proof -
  have "concat (map controls (map (\<lambda>(index, a). prev_card index a) (enumerate n xs)))
      = concat (map (\<lambda>a. OnClick (RemovePreviousAddress (pa_id a)) # map (\<lambda>f. OnChange (UpdatePreviousAddress (pa_id a) f)) prev_fields) xs)"
    for n by (induction xs arbitrary: n) (simp_all add: controls_prev_card)
  then show ?thesis by (simp add: prev_section_def cls_def disabled_def bool_attr_def)
qed

lemma controls_ah_view:
  "controls (ah_view s) =
     controls (current_card (currentAddress (ah_formData s)))
     @ (if showPreviousAddresses s then controls (prev_section (ah_previousAddresses s)) else [])
     @ (if next_disabled s then [] else [OnClick ClickNext])"
  by (simp add: ah_view_def cls_def disabled_def bool_attr_def next_disabled_def)

lemma prev_fields_all [simp]: "f \<in> set prev_fields"
  by (cases f) (simp_all add: prev_fields_def)

lemma ah_view_controls_prev:
  "showPreviousAddresses s \<Longrightarrow> a \<in> set (ah_previousAddresses s) \<Longrightarrow>
     OnClick (RemovePreviousAddress (pa_id a)) \<in> set (controls (ah_view s))
     \<and> OnChange (UpdatePreviousAddress (pa_id a) g) \<in> set (controls (ah_view s))"
proof -
  assume "showPreviousAddresses s" "a \<in> set (ah_previousAddresses s)"
  moreover have "OnChange (UpdatePreviousAddress (pa_id a) g)
      \<in> (\<lambda>f. OnChange (UpdatePreviousAddress (pa_id a) f)) ` set prev_fields"
    by (rule image_eqI [OF refl prev_fields_all])
  ultimately show ?thesis by (force simp: controls_ah_view controls_prev_section)
qed

lemma ah_view_events:
  "CurrentAddressChange f v \<in> ui_events (ah_view s)"
  "AddPreviousAddress \<in> ui_events (ah_view s) \<longleftrightarrow> showPreviousAddresses s"
  "RemovePreviousAddress i \<in> ui_events (ah_view s) \<longleftrightarrow>
     showPreviousAddresses s \<and> i \<in> pa_id ` set (ah_previousAddresses s)"
  "UpdatePreviousAddress i g w \<in> ui_events (ah_view s) \<longleftrightarrow>
     showPreviousAddresses s \<and> i \<in> pa_id ` set (ah_previousAddresses s)"
  "ClickNext \<in> ui_events (ah_view s) \<longleftrightarrow> \<not> next_disabled s"
proof -
  show "CurrentAddressChange f v \<in> ui_events (ah_view s)"
    by (rule ui_eventsI [of "OnChange (CurrentAddressChange f)"])
       (cases f; simp add: controls_ah_view controls_current_card)+
  show "AddPreviousAddress \<in> ui_events (ah_view s) \<longleftrightarrow> showPreviousAddresses s"
    by (auto simp: ui_events_def controls_ah_view controls_current_card controls_prev_section image_iff split: if_splits)
  show "RemovePreviousAddress i \<in> ui_events (ah_view s) \<longleftrightarrow>
     showPreviousAddresses s \<and> i \<in> pa_id ` set (ah_previousAddresses s)"
    by (auto simp: ui_events_def controls_ah_view controls_current_card controls_prev_section image_iff split: if_splits)
  show "UpdatePreviousAddress i g w \<in> ui_events (ah_view s) \<longleftrightarrow>
     showPreviousAddresses s \<and> i \<in> pa_id ` set (ah_previousAddresses s)"
  proof
    assume "UpdatePreviousAddress i g w \<in> ui_events (ah_view s)"
    then show "showPreviousAddresses s \<and> i \<in> pa_id ` set (ah_previousAddresses s)"
      by (auto simp: ui_events_def controls_ah_view controls_current_card controls_prev_section image_iff split: if_splits)
  next
    assume "showPreviousAddresses s \<and> i \<in> pa_id ` set (ah_previousAddresses s)"
    then obtain a where "showPreviousAddresses s" "a \<in> set (ah_previousAddresses s)" "i = pa_id a" by blast
    then show "UpdatePreviousAddress i g w \<in> ui_events (ah_view s)"
      using ah_view_controls_prev [of s a g] by (auto intro: ui_eventsI)
  qed
  show "ClickNext \<in> ui_events (ah_view s) \<longleftrightarrow> \<not> next_disabled s"
    by (auto simp: ui_events_def controls_ah_view controls_current_card controls_prev_section image_iff split: if_splits)
qed

subsection \<open>Events on controls that are not rendered\<close>

lemma set_previous_addresses_same:
  "ah_inv s \<Longrightarrow> set_previous_addresses (ah_previousAddresses s) s = s"
  by (simp add: ah_inv_def set_previous_addresses_def updateFormData_def no_patch_def)

lemma ah_run_effects_same [simp]: "ah_run_effects s s = s"
  by (simp add: ah_run_effects_def)

lemma remove_absent:
  "ah_inv s \<Longrightarrow> i \<notin> pa_id ` set (ah_previousAddresses s) \<Longrightarrow> removePreviousAddress i s = s"
  unfolding removePreviousAddress_def
  by (subst filter_True) (auto simp: set_previous_addresses_same)

lemma update_absent:
  "ah_inv s \<Longrightarrow> i \<notin> pa_id ` set (ah_previousAddresses s) \<Longrightarrow> updatePreviousAddress i f v s = s"
proof -
  assume inv: "ah_inv s" and i: "i \<notin> pa_id ` set (ah_previousAddresses s)"
  then have "map (\<lambda>a. if pa_id a = i then set_previous_field f v a else a) (ah_previousAddresses s)
      = ah_previousAddresses s"
    by (intro map_idI) auto
  with inv show ?thesis by (simp add: updatePreviousAddress_def set_previous_addresses_same)
qed

subsection \<open>The step model is the rendered page\<close>

text \<open>
  C25: the guards of the address page's step model are exactly the rendered controls. In
  every reachable state an event runs the handler its control is wired to when the
  rendered page (\<open>FormLayout\<close> around the JSX of \<open>AddressHistoryContent\<close>) has a live control
  that fires it, and does nothing otherwise: the sections hidden by
  \<open>showPreviousAddresses\<close>, the entries not in the list and the disabled Next button.
\<close>

theorem ah_step_rendered_dispatch:
  assumes "ah_reachable s"
  shows "ah_step s e = (if e \<in> ui_events (ah_view s) then ah_dispatch s e else (s, None))"
proof -
  have inv: "ah_inv s" using assms by (rule ah_reachable_inv)
  show ?thesis
    by (cases e) (auto simp: ah_view_events remove_absent [OF inv] update_absent [OF inv])
qed

theorem ah_step_rendered_dispatch_witness:
  "ah_reachable (ah_mount 0 initialFormData)
   \<and> ClickNext \<notin> ui_events (ah_view (ah_mount 0 initialFormData))
   \<and> AddPreviousAddress \<in> ui_events (ah_view (ah_mount 0 initialFormData))
   \<and> ah_step (ah_mount 0 initialFormData) ClickNext = (ah_mount 0 initialFormData, None)
   \<and> ah_step (ah_mount 0 initialFormData) AddPreviousAddress
       = ah_dispatch (ah_mount 0 initialFormData) AddPreviousAddress"
proof -
  have r: "ah_reachable (ah_mount 0 initialFormData)" by (rule ah_reachable.mount)
  have sh: "showPreviousAddresses (ah_mount 0 initialFormData)"
    and nd: "next_disabled (ah_mount 0 initialFormData)"
    by (simp_all add: ah_mount_def visibility_effect_def calculateTotalMonths_def next_disabled_def
        initialFormData_def)
  show ?thesis
    using r sh nd ah_step_rendered_dispatch [OF r, of ClickNext] ah_step_rendered_dispatch [OF r, of AddPreviousAddress]
    by (simp add: ah_view_events)
qed

subsection \<open>Controls of the personal-details page\<close>

lemma controls_marital_group:
  "controls (marital_group fd) =
     map (\<lambda>m. OnClick (MaritalStatusChange m))
       (filter (\<lambda>m. m \<noteq> maritalStatus fd) [MS_Single, MS_Married, MS_Divorced, MS_Widowed])"
  by (cases "maritalStatus fd")
     (simp_all add: marital_group_def radio_item_def cls_def disabled_def bool_attr_def str_attr_def radio_value_def
        marital_cast_def List.map_filter_def)

lemma controls_spouse_card:
  "controls (spouse_card fd) =
     map (\<lambda>u. OnChange (\<lambda>x. SpouseChange (u x))) sp_text_fields
     @ [OnClick (SpouseChange (SP_travelingWithYou (\<not> spouse_checked fd)))]"
  by (simp add: spouse_card_def spouse_input_def cls_def disabled_def bool_attr_def sp_text_fields_def)

lemma controls_child_card:
  "controls (child_card n c) =
     OnClick (RemoveChild (ch_id c)) # map (\<lambda>u. OnChange (\<lambda>x. UpdateChild (ch_id c) (u x))) ch_text_fields
     @ [OnClick (UpdateChild (ch_id c) (CH_travelingWithYou (\<not> ch_travelingWithYou c)))]"
  by (simp add: child_card_def Let_def child_input_def cls_def disabled_def bool_attr_def ch_text_fields_def)

lemma controls_children_section:
  "controls (children_section xs) =
     OnClick AddChild # concat (map (\<lambda>c. controls (child_card 0 c)) xs)"
proof -
  have "concat (map controls (map (\<lambda>(index, c). child_card index c) (enumerate n xs)))
      = concat (map (\<lambda>c. controls (child_card 0 c)) xs)" for n
    by (induction xs arbitrary: n) (simp_all add: controls_child_card)
  then show ?thesis by (simp add: children_section_def cls_def disabled_def bool_attr_def)
qed

lemma controls_pd_view:
  "controls (pd_view s) =
     controls (marital_group (pd_formData s))
     @ (if showSpouseForm s then controls (spouse_card (pd_formData s)) else [])
     @ controls (children_section (pd_children s)) @ [OnClick PdClickNext]"
  by (simp add: pd_view_def cls_def disabled_def bool_attr_def)

lemmas pd_view_controls = ui_events_def controls_pd_view controls_marital_group controls_spouse_card
  sp_text_fields_def controls_children_section controls_child_card ch_text_fields_def image_iff

lemma pd_view_events:
  "MaritalStatusChange m \<in> ui_events (pd_view s) \<longleftrightarrow> m \<noteq> MS_Unset \<and> m \<noteq> maritalStatus (pd_formData s)"
  "SpouseChange u \<in> ui_events (pd_view s) \<longleftrightarrow>
     showSpouseForm s \<and> (case u of SP_travelingWithYou b \<Rightarrow> b = (\<not> spouse_checked (pd_formData s)) | _ \<Rightarrow> True)"
  "AddChild \<in> ui_events (pd_view s)"
  "RemoveChild i \<in> ui_events (pd_view s) \<longleftrightarrow> i \<in> ch_id ` set (pd_children s)"
  "UpdateChild i w \<in> ui_events (pd_view s) \<longleftrightarrow>
     (\<exists>c \<in> set (pd_children s). ch_id c = i
        \<and> (case w of CH_travelingWithYou b \<Rightarrow> b = (\<not> ch_travelingWithYou c) | _ \<Rightarrow> True))"
  "PdClickNext \<in> ui_events (pd_view s)"
proof -
  show "MaritalStatusChange m \<in> ui_events (pd_view s) \<longleftrightarrow> m \<noteq> MS_Unset \<and> m \<noteq> maritalStatus (pd_formData s)"
    by (cases m) (auto simp: pd_view_controls)
  show "SpouseChange u \<in> ui_events (pd_view s) \<longleftrightarrow>
     showSpouseForm s \<and> (case u of SP_travelingWithYou b \<Rightarrow> b = (\<not> spouse_checked (pd_formData s)) | _ \<Rightarrow> True)"
    by (cases u) (simp_all add: pd_view_controls)
  show "AddChild \<in> ui_events (pd_view s)" by (simp add: pd_view_controls)
  show "RemoveChild i \<in> ui_events (pd_view s) \<longleftrightarrow> i \<in> ch_id ` set (pd_children s)"
    by (auto simp: pd_view_controls)
  show "UpdateChild i w \<in> ui_events (pd_view s) \<longleftrightarrow>
     (\<exists>c \<in> set (pd_children s). ch_id c = i
        \<and> (case w of CH_travelingWithYou b \<Rightarrow> b = (\<not> ch_travelingWithYou c) | _ \<Rightarrow> True))"
    by (cases w; simp add: pd_view_controls; blast)
  show "PdClickNext \<in> ui_events (pd_view s)" by (simp add: pd_view_controls)
qed

subsection \<open>Events on controls of the personal page that change nothing\<close>

lemma marital_same:
  "pd_inv s \<Longrightarrow> handleMaritalStatusChange (maritalStatus (pd_formData s)) s = s"
  by (simp add: pd_inv_def handleMaritalStatusChange_def updateFormData_def no_patch_def upd_opt_def)

lemma spouse_field_same:
  "spouse (pd_formData s) = Some sp \<Longrightarrow> set_spouse_field u sp = sp \<Longrightarrow> handleSpouseChange u s = s"
  by (simp add: handleSpouseChange_def updateFormData_def no_patch_def upd_opt_def)

lemma set_children_same: "pd_inv s \<Longrightarrow> set_children (pd_children s) s = s"
  by (simp add: pd_inv_def set_children_def updateFormData_def no_patch_def upd_opt_def)

lemma remove_child_absent:
  "pd_inv s \<Longrightarrow> i \<notin> ch_id ` set (pd_children s) \<Longrightarrow> removeChild i s = s"
  unfolding removeChild_def by (subst filter_True) (auto simp: set_children_same)

lemma update_child_noop:
  assumes "pd_inv s" and "\<forall>c \<in> set (pd_children s). ch_id c = i \<longrightarrow> set_child_field u c = c"
  shows "updateChild i u s = s"
proof -
  have "map (\<lambda>c. if ch_id c = i then set_child_field u c else c) (pd_children s) = pd_children s"
    using assms(2) by (intro map_idI) auto
  with assms(1) show ?thesis by (simp add: updateChild_def set_children_same)
qed

subsection \<open>The personal page's step model is the rendered page\<close>

text \<open>
  C26: the guard of the personal-details step model is exactly the rendered controls,
  but for two events the model admits and the page cannot fire. In every reachable
  state an event runs the handler of its control when the rendered page
  (\<open>FormLayout\<close> around the JSX of \<open>PersonalDetailsContent\<close>) has a live control firing it,
  and does nothing otherwise: the spouse inputs hidden by \<open>showSpouseForm\<close>, the
  selected radio item, a checkbox set to its current state, children not in the list.
  The exceptions: the radio group has no item for the empty status, and the spouse
  checkbox reads unchecked without a spouse, so unchecking it (which would create a
  blank spouse) is never fired.
\<close>

theorem pd_step_rendered_dispatch:
  assumes "pd_reachable s"
    and "e \<noteq> MaritalStatusChange MS_Unset"
    and "e = SpouseChange (SP_travelingWithYou False) \<longrightarrow> spouse (pd_formData s) \<noteq> None"
  shows "pd_step s e = (if e \<in> ui_events (pd_view s) then pd_dispatch s e else (s, None))"
proof -
  have inv: "pd_inv s" using assms(1) by (rule pd_reachable_inv)
  show ?thesis
  proof (cases e)
    case (MaritalStatusChange m)
    then show ?thesis using assms(2) marital_same [OF inv] by (auto simp: pd_view_events)
  next
    case (SpouseChange u)
    show ?thesis
    proof (cases u)
      case (SP_travelingWithYou b)
      show ?thesis
      proof (cases "spouse (pd_formData s)")
        case None
        then show ?thesis using assms(3) SpouseChange SP_travelingWithYou
          by (simp add: pd_view_events spouse_checked_def)
      next
        case (Some sp)
        then show ?thesis using SpouseChange SP_travelingWithYou spouse_field_same [OF Some, of u]
          by (auto simp: pd_view_events spouse_checked_def)
      qed
    qed (simp_all add: SpouseChange pd_view_events)
  next
    case (RemoveChild i)
    then show ?thesis using remove_child_absent [OF inv] by (simp add: pd_view_events)
  next
    case (UpdateChild i w)
    show ?thesis
    proof (cases "UpdateChild i w \<in> ui_events (pd_view s)")
      case False
      have "\<forall>c \<in> set (pd_children s). ch_id c = i \<longrightarrow> set_child_field w c = c"
        using False by (cases w) (auto simp: pd_view_events)
      then show ?thesis using False UpdateChild update_child_noop [OF inv] by simp
    qed (simp add: UpdateChild)
  qed (simp_all add: pd_view_events)
qed

theorem pd_step_rendered_dispatch_witness:
  "pd_reachable (pd_mount 0 initialFormData)
   \<and> SpouseChange (SP_firstName ''Ann'') \<noteq> MaritalStatusChange MS_Unset
   \<and> SpouseChange (SP_firstName ''Ann'') \<noteq> SpouseChange (SP_travelingWithYou False)
   \<and> SpouseChange (SP_firstName ''Ann'') \<notin> ui_events (pd_view (pd_mount 0 initialFormData))
   \<and> pd_step (pd_mount 0 initialFormData) (SpouseChange (SP_firstName ''Ann''))
       = (pd_mount 0 initialFormData, None)"
proof -
  have r: "pd_reachable (pd_mount 0 initialFormData)" by (rule pd_reachable.mount)
  have h: "\<not> showSpouseForm (pd_mount 0 initialFormData)"
    by (simp add: pd_mount_def initialFormData_def)
  show ?thesis
    using r h pd_step_rendered_dispatch [OF r, of "SpouseChange (SP_firstName ''Ann'')"]
    by (simp add: pd_view_events)
qed

end
