(* ===== verification/FinancialView.thy ===== *)
theory FinancialView
  imports View FinancialDetails
begin

text \<open>
  The financial page as it is written: its first effect does not record which sub-form to
  show but stores the JSX element itself in \<open>employmentDetails.employmentForm\<close>, built from
  the record of the render in which the effect ran, with its input values and handlers.
  \<open>subform_jsx\<close> is that JSX (\<open>src/app/financial-details/page.tsx\<close>, lines 43-219), and
  \<open>fin_vstate\<close> the page state holding the element. The page after line 241 (radio groups,
  the sponsor form's other inputs, the handlers' bodies) is not in the repository; as in
  \<open>FinancialDetails\<close>, the radio groups are always rendered and the sponsor inputs are
  live exactly when the sponsor form is held. \<open>fv_rel\<close> relates a page state to a state
  of the step model \<open>fin_step\<close>: the same record and sponsor flag, and the held element is
  the JSX of the sub-form the model holds.
\<close>

subsection \<open>The sub-forms\<close>

text \<open>\<open>formData.x?.field || ''\<close>.\<close>

definition opt_text :: "('a \<Rightarrow> string) \<Rightarrow> 'a option \<Rightarrow> string" where
  "opt_text sel r = (case r of None \<Rightarrow> [] | Some x \<Rightarrow> sel x)"

definition fin_input ::
  "string \<Rightarrow> string \<Rightarrow> (string \<times> fin_event aval) list \<Rightarrow> string \<Rightarrow> (string \<Rightarrow> fin_event) \<Rightarrow> fin_event node" where
  "fin_input i label extra v f =
     Elem ''div'' []
       [Elem ''Label'' [(''htmlFor'', AStr i)] [Txt label],
        Elem ''Input'' ([(''id'', AStr i)] @ extra @
          [(''value'', AStr v), (''onChange'', OnChange f), cls ''mt-1'']) []]"

definition date :: "(string \<times> fin_event aval) list" where
  "date = [(''type'', AStr ''date'')]"

primrec subform_jsx :: "subform \<Rightarrow> form_data \<Rightarrow> fin_event node" where
  "subform_jsx EmploymentForm fd =
     Elem ''div'' [cls ''grid gap-4'']
       [fin_input ''companyName'' ''Company Name'' [] (opt_text em_companyName (employment fd))
          (\<lambda>v. EmploymentDetail (EM_companyName v)),
        fin_input ''jobTitle'' ''Job Title'' [] (opt_text em_jobTitle (employment fd))
          (\<lambda>v. EmploymentDetail (EM_jobTitle v)),
        fin_input ''startDate'' ''Start Date'' date (opt_text em_startDate (employment fd))
          (\<lambda>v. EmploymentDetail (EM_startDate v)),
        fin_input ''salary'' ''Annual Salary'' [] (opt_text em_salary (employment fd))
          (\<lambda>v. EmploymentDetail (EM_salary v)),
        fin_input ''employerAddress'' ''Employer Address'' [] (opt_text em_employerAddress (employment fd))
          (\<lambda>v. EmploymentDetail (EM_employerAddress v)),
        fin_input ''employerPhone'' ''Employer Phone'' [] (opt_text em_employerPhone (employment fd))
          (\<lambda>v. EmploymentDetail (EM_employerPhone v))]"
| "subform_jsx SelfEmploymentForm fd =
     Elem ''div'' [cls ''grid gap-4'']
       [fin_input ''businessName'' ''Business Name'' [] (opt_text se_businessName (selfEmployment fd))
          (\<lambda>v. SelfEmploymentDetail (SE_businessName v)),
        fin_input ''businessType'' ''Business Type'' [] (opt_text se_businessType (selfEmployment fd))
          (\<lambda>v. SelfEmploymentDetail (SE_businessType v)),
        fin_input ''annualIncome'' ''Annual Income'' [] (opt_text se_annualIncome (selfEmployment fd))
          (\<lambda>v. SelfEmploymentDetail (SE_annualIncome v)),
        fin_input ''selfStartDate'' ''Business Start Date'' date (opt_text se_startDate (selfEmployment fd))
          (\<lambda>v. SelfEmploymentDetail (SE_startDate v))]"
| "subform_jsx EducationForm fd =
     Elem ''div'' [cls ''grid gap-4'']
       [fin_input ''institutionName'' ''Institution Name'' [] (opt_text ed_institutionName (education fd))
          (\<lambda>v. EducationDetail (ED_institutionName v)),
        fin_input ''course'' ''Course/Degree'' [] (opt_text ed_course (education fd))
          (\<lambda>v. EducationDetail (ED_course v)),
        fin_input ''eduStartDate'' ''Start Date'' date (opt_text ed_startDate (education fd))
          (\<lambda>v. EducationDetail (ED_startDate v)),
        fin_input ''eduEndDate'' ''Expected End Date'' date (opt_text ed_endDate (education fd))
          (\<lambda>v. EducationDetail (ED_endDate v)),
        Elem ''div'' [cls ''flex items-center space-x-2'']
          [Elem ''Checkbox'' [(''id'', AStr ''fullTime''),
              (''checked'', ABool (case education fd of None \<Rightarrow> False | Some e \<Rightarrow> ed_isFullTime e)),
              (''onCheckedChange'', OnCheck (\<lambda>b. EducationDetail (ED_isFullTime b)))] [],
           Elem ''Label'' [(''htmlFor'', AStr ''fullTime'')] [Txt ''This is a full-time course'']]]"

text \<open>The \<open>switch (formData.employmentStatus)\<close>: the element stored, or \<open>null\<close>.\<close>

definition employment_jsx :: "form_data \<Rightarrow> fin_event node option" where
  "employment_jsx fd = map_option (\<lambda>k. subform_jsx k fd) (employment_form_for (employmentStatus fd))"

subsection \<open>The page holding the element\<close>

record fin_vstate =
  fv_formData :: form_data
  fv_employmentForm :: "fin_event node option"
  fv_sponsorForm :: bool

text \<open>The first effect, with its dependency array (line 222) and \<open>setEmploymentDetails\<close>.\<close>

definition fv_employment_effect :: "fin_vstate \<Rightarrow> fin_vstate \<Rightarrow> fin_vstate" where
  "fv_employment_effect old new =
     (if employmentStatus (fv_formData new) \<noteq> employmentStatus (fv_formData old)
         \<or> employment (fv_formData new) \<noteq> employment (fv_formData old)
         \<or> selfEmployment (fv_formData new) \<noteq> selfEmployment (fv_formData old)
         \<or> education (fv_formData new) \<noteq> education (fv_formData old)
      then new\<lparr>fv_employmentForm := employment_jsx (fv_formData new)\<rparr>
      else new)"

definition fv_sponsor_effect :: "fin_vstate \<Rightarrow> fin_vstate \<Rightarrow> fin_vstate" where
  "fv_sponsor_effect old new =
     (if tripSponsor (fv_formData new) \<noteq> tripSponsor (fv_formData old)
         \<or> sponsorDetails (fv_formData new) \<noteq> sponsorDetails (fv_formData old)
      then new\<lparr>fv_sponsorForm := sponsor_form_for (tripSponsor (fv_formData new))\<rparr>
      else new)"

definition fv_mount :: "form_data \<Rightarrow> fin_vstate" where
  "fv_mount fd =
     \<lparr>fv_formData = fd, fv_employmentForm = employment_jsx fd,
      fv_sponsorForm = sponsor_form_for (tripSponsor fd)\<rparr>"

text \<open>The handler each event calls.\<close>

fun fin_handler :: "fin_event \<Rightarrow> form_data \<Rightarrow> form_data" where
  "fin_handler (EmploymentStatusChange v) = handleEmploymentStatusChange v"
| "fin_handler (TripSponsorChange v) = handleTripSponsorChange v"
| "fin_handler (EmploymentDetail u) = updateEmploymentDetail u"
| "fin_handler (SelfEmploymentDetail u) = updateSelfEmploymentDetail u"
| "fin_handler (EducationDetail u) = updateEducationDetail u"
| "fin_handler (SponsorDetail u) = updateSponsorDetail u"

text \<open>
  The events of the page: the two radio groups, the controls of the held element, and the
  sponsor inputs while the sponsor form is held.
\<close>

definition fv_events :: "fin_vstate \<Rightarrow> fin_event set" where
  "fv_events vs =
     range EmploymentStatusChange \<union> range TripSponsorChange
     \<union> (case fv_employmentForm vs of None \<Rightarrow> {} | Some n \<Rightarrow> ui_events n)
     \<union> (if fv_sponsorForm vs then range SponsorDetail else {})"

definition fv_step :: "fin_vstate \<Rightarrow> fin_event \<Rightarrow> fin_vstate" where
  "fv_step vs e =
     (if e \<in> fv_events vs
      then (let new = vs\<lparr>fv_formData := fin_handler e (fv_formData vs)\<rparr>
            in fv_sponsor_effect vs (fv_employment_effect vs new))
      else vs)"

inductive fv_reachable :: "fin_vstate \<Rightarrow> bool" where
  mount: "fv_reachable (fv_mount initialFormData)"
| step: "fv_reachable vs \<Longrightarrow> fv_reachable (fv_step vs e)"

text \<open>The sub-form whose inputs fire an event.\<close>

fun detail_form :: "fin_event \<Rightarrow> subform option" where
  "detail_form (EmploymentDetail u) = Some EmploymentForm"
| "detail_form (SelfEmploymentDetail u) = Some SelfEmploymentForm"
| "detail_form (EducationDetail u) = Some EducationForm"
| "detail_form _ = None"

definition fv_rel :: "fin_vstate \<Rightarrow> fin_state \<Rightarrow> bool" where
  "fv_rel vs s \<longleftrightarrow>
     fv_formData vs = fin_formData s \<and> fv_sponsorForm vs = sponsorForm s
     \<and> fv_employmentForm vs = map_option (\<lambda>k. subform_jsx k (fin_formData s)) (employmentForm s)"

subsection \<open>The held element and the step model\<close>

lemma subform_jsx_frame:
  "employment fd' = employment fd \<Longrightarrow> selfEmployment fd' = selfEmployment fd \<Longrightarrow>
   education fd' = education fd \<Longrightarrow> subform_jsx k fd' = subform_jsx k fd"
  by (cases k) simp_all

lemma employment_jsx_frame:
  "employmentStatus fd' = employmentStatus fd \<Longrightarrow> employment fd' = employment fd \<Longrightarrow>
   selfEmployment fd' = selfEmployment fd \<Longrightarrow> education fd' = education fd \<Longrightarrow>
   employment_jsx fd' = employment_jsx fd"
  unfolding employment_jsx_def by (simp add: subform_jsx_frame [of fd' fd])

lemma fv_effects_fresh:
  assumes "fv_employmentForm vs = employment_jsx (fv_formData vs)"
    and "fv_sponsorForm vs = sponsor_form_for (tripSponsor (fv_formData vs))"
  shows "fv_employmentForm (fv_sponsor_effect vs (fv_employment_effect vs (vs\<lparr>fv_formData := fd'\<rparr>)))
           = employment_jsx fd'
       \<and> fv_sponsorForm (fv_sponsor_effect vs (fv_employment_effect vs (vs\<lparr>fv_formData := fd'\<rparr>)))
           = sponsor_form_for (tripSponsor fd')"
  using assms employment_jsx_frame [of fd' "fv_formData vs"]
  by (simp add: fv_sponsor_effect_def fv_employment_effect_def)

lemma fv_effects_rel:
  assumes "fv_rel vs s"
  shows "fv_rel (fv_sponsor_effect vs (fv_employment_effect vs (vs\<lparr>fv_formData := fd'\<rparr>)))
                (fin_run_effects s (s\<lparr>fin_formData := fd'\<rparr>))"
proof -
  have "map_option (\<lambda>k. subform_jsx k (fin_formData s)) m = map_option (\<lambda>k. subform_jsx k fd') m"
    if "employment fd' = employment (fin_formData s)" "selfEmployment fd' = selfEmployment (fin_formData s)"
       "education fd' = education (fin_formData s)" for m
    using subform_jsx_frame [OF that] by (cases m) simp_all
  then show ?thesis using assms
    by (simp add: fv_rel_def fv_sponsor_effect_def fv_employment_effect_def fin_run_effects_def
        employment_effect_def sponsor_effect_def employment_jsx_def)
qed

lemmas subform_controls = ui_events_def fin_input_def cls_def disabled_def bool_attr_def date_def image_iff

lemma subform_events:
  "e \<in> ui_events (subform_jsx EmploymentForm fd) \<Longrightarrow> \<exists>u. e = EmploymentDetail u"
  "e \<in> ui_events (subform_jsx SelfEmploymentForm fd) \<Longrightarrow> \<exists>u. e = SelfEmploymentDetail u"
  "e \<in> ui_events (subform_jsx EducationForm fd) \<Longrightarrow> \<exists>u. e = EducationDetail u"
  by (simp add: subform_controls, (elim disjE exE; simp))+

lemma fv_effects_formData [simp]:
  "fv_formData (fv_employment_effect old new) = fv_formData new"
  "fv_formData (fv_sponsor_effect old new) = fv_formData new"
  by (simp_all add: fv_employment_effect_def fv_sponsor_effect_def)

lemma fv_step_fires:
  "e \<in> fv_events vs \<Longrightarrow>
   fv_step vs e = fv_sponsor_effect vs (fv_employment_effect vs (vs\<lparr>fv_formData := fin_handler e (fv_formData vs)\<rparr>))"
  by (simp add: fv_step_def)

lemma subform_event_form:
  assumes "e \<in> ui_events (subform_jsx k fd)"
  shows "detail_form e = Some k"
proof (cases k)
  case EmploymentForm
  then obtain u where "e = EmploymentDetail u" using assms subform_events(1) by blast
  with EmploymentForm show ?thesis by simp
next
  case SelfEmploymentForm
  then obtain u where "e = SelfEmploymentDetail u" using assms subform_events(2) by blast
  with SelfEmploymentForm show ?thesis by simp
next
  case EducationForm
  then obtain u where "e = EducationDetail u" using assms subform_events(3) by blast
  with EducationForm show ?thesis by simp
qed

text \<open>
  C27: the sub-form element the page holds in state is never stale. In every reachable
  state of the financial page it is exactly the JSX the first effect builds from the
  current record (its inputs show the current values and call the current handlers), and
  the sponsor flag follows the current sponsor; the dependency array of the effect lists
  every part of the record the element reads.
\<close>

theorem held_subform_fresh:
  assumes "fv_reachable vs"
  shows "fv_employmentForm vs = employment_jsx (fv_formData vs)
       \<and> fv_sponsorForm vs = sponsor_form_for (tripSponsor (fv_formData vs))"
  using assms
proof (induction rule: fv_reachable.induct)
  case mount
  show ?case by (simp add: fv_mount_def)
next
  case (step vs e)
  show ?case
  proof (cases "e \<in> fv_events vs")
    case True
    with step.IH show ?thesis by (simp add: fv_step_fires fv_effects_fresh)
  next
    case False
    with step.IH show ?thesis by (simp add: fv_step_def)
  qed
qed

lemma fv_events_cases:
  assumes "fv_rel vs s" and "e \<in> fv_events vs"
  shows "(\<exists>v. e = EmploymentStatusChange v) \<or> (\<exists>v. e = TripSponsorChange v)
    \<or> detail_form e \<noteq> None \<and> employmentForm s = detail_form e
    \<or> (\<exists>u. e = SponsorDetail u) \<and> sponsorForm s"
proof -
  have "e \<in> range EmploymentStatusChange \<or> e \<in> range TripSponsorChange
      \<or> (\<exists>k. employmentForm s = Some k \<and> e \<in> ui_events (subform_jsx k (fin_formData s)))
      \<or> e \<in> range SponsorDetail \<and> sponsorForm s"
    using assms by (auto simp: fv_events_def fv_rel_def split: if_splits option.splits)
  then show ?thesis using subform_event_form by fastforce
qed

lemma fv_events_detail:
  assumes "fv_rel vs s" and "e \<in> fv_events vs"
  shows "fst (fin_step s e) = fin_run_effects s (s\<lparr>fin_formData := fin_handler e (fin_formData s)\<rparr>)"
  using fv_events_cases [OF assms] by (cases e) auto

text \<open>
  C28: every step of the page that holds JSX is a step of the model \<open>fin_step\<close>. From
  related states, an event the page can fire (a radio choice, a control of the held
  element, a sponsor input while the sponsor form is held) leads to related states: the
  controls of the held element fire only the detail events of the sub-form the model
  holds, so the model's guards never refuse them.
\<close>

theorem page_step_simulated:
  assumes "fv_rel vs s" and "e \<in> fv_events vs"
  shows "fv_rel (fv_step vs e) (fst (fin_step s e))"
proof -
  have "fv_formData vs = fin_formData s" using assms(1) by (simp add: fv_rel_def)
  then show ?thesis
    using fv_effects_rel [OF assms(1)] fv_events_detail [OF assms] fv_step_fires [OF assms(2)] by simp
qed
theorem held_subform_fresh_witness:
  "fv_reachable (fv_step (fv_step (fv_mount initialFormData) (EmploymentStatusChange ES_Employed))
                  (EmploymentDetail (EM_companyName ''Acme'')))
   \<and> fv_employmentForm (fv_step (fv_step (fv_mount initialFormData) (EmploymentStatusChange ES_Employed))
                  (EmploymentDetail (EM_companyName ''Acme'')))
     = employment_jsx (fv_formData (fv_step (fv_step (fv_mount initialFormData) (EmploymentStatusChange ES_Employed))
                  (EmploymentDetail (EM_companyName ''Acme''))))
   \<and> fv_sponsorForm (fv_step (fv_step (fv_mount initialFormData) (EmploymentStatusChange ES_Employed))
                  (EmploymentDetail (EM_companyName ''Acme'')))
     = sponsor_form_for (tripSponsor (fv_formData (fv_step (fv_step (fv_mount initialFormData)
                  (EmploymentStatusChange ES_Employed)) (EmploymentDetail (EM_companyName ''Acme'')))))"
proof -
  have r: "fv_reachable (fv_step (fv_step (fv_mount initialFormData) (EmploymentStatusChange ES_Employed))
                  (EmploymentDetail (EM_companyName ''Acme'')))"
    by (intro fv_reachable.step fv_reachable.mount)
  show ?thesis using r held_subform_fresh [OF r] by blast
qed

theorem page_step_simulated_witness:
  "fv_rel (fv_mount initialFormData) (fin_mount initialFormData)
   \<and> EmploymentStatusChange ES_Student \<in> fv_events (fv_mount initialFormData)
   \<and> fv_rel (fv_step (fv_mount initialFormData) (EmploymentStatusChange ES_Student))
            (fst (fin_step (fin_mount initialFormData) (EmploymentStatusChange ES_Student)))"
proof -
  have r: "fv_rel (fv_mount initialFormData) (fin_mount initialFormData)"
    by (simp add: fv_rel_def fv_mount_def fin_mount_def employment_jsx_def)
  have e: "EmploymentStatusChange ES_Student \<in> fv_events (fv_mount initialFormData)"
    by (simp add: fv_events_def)
  show ?thesis using r e page_step_simulated [OF r e] by blast
qed

end
