(* ===== verification/HomeView.thy ===== *)
theory HomeView
  imports View HomePage
begin

text \<open>
  What the home route renders (\<open>src/app/page.tsx\<close>): \<open>FormLayout\<close> around
  \<open>PassportAnalysis\<close> (not in the repository: an element without controls, as the page
  model has no event for it), the national-id stub and the personal-information form.
  The inputs spread with \<open>register(name)\<close> carry its \<open>name\<close> and \<open>onChange\<close> (its
  \<open>onBlur\<close> does nothing under the default validation mode and is left out); the form's
  \<open>onSubmit\<close> is \<open>handleSubmit(onSubmit)\<close>, fired by the Next button or Enter. The two radio
  groups are uncontrolled (\<open>defaultValue\<close>): Radix keeps their selection in its own
  state, initialised from \<open>defaultValue\<close> at mount and set to the item clicked;
  \<open>hv_state\<close> holds it beside the page state, and the view records it as \<open>selected\<close>.
\<close>

subsection \<open>The national-id stub\<close>

definition nid_view :: "nid_state \<Rightarrow> home_event node" where
  "nid_view s =
     Elem ''div'' [cls ''border border-dashed rounded-lg p-6 mb-6'']
       ([Elem ''h2'' [cls ''text-xl text-blue-700 mb-4''] [Txt ''National ID Analysis (Optional)''],
         Elem ''div'' [cls ''mb-4'']
           [Elem ''Label'' [(''htmlFor'', AStr ''national-id-pdf'')] [Txt ''Upload National ID PDF:''],
            Elem ''Input'' [(''id'', AStr ''national-id-pdf''), (''type'', AStr ''file''), (''accept'', AStr ''.pdf''),
                (''onChange'', OnFiles NidFileChange), cls ''mt-1''] []],
         Elem ''Button'' [(''onClick'', OnClick NidAnalyze), cls ''bg-blue-600 hover:bg-blue-700'']
           [Txt ''Analyze & Fill Fields'']]
        @ (case nid_error_shown s of None \<Rightarrow> [] | Some m \<Rightarrow> [Elem ''p'' [cls ''text-red-600 mt-4''] [Txt m]])
        @ [Elem ''p'' [cls ''text-gray-600 mt-2 text-sm''] [Txt ''Upload national ID to auto-fill fields below.'']])"

subsection \<open>The personal-information form\<close>

definition error_p :: "string option \<Rightarrow> home_event node list" where
  "error_p m = (case m of None \<Rightarrow> [] | Some msg \<Rightarrow> [Elem ''p'' [cls ''text-red-500 text-sm mt-1''] [Txt msg]])"

definition reg_input :: "string \<Rightarrow> pi_input \<Rightarrow> rhf_state \<Rightarrow> home_event node" where
  "reg_input label f r =
     Elem ''div'' []
       ([Elem ''Label'' [(''htmlFor'', AStr (pi_input_name f))] [Txt label],
         Elem ''Input'' [(''id'', AStr (pi_input_name f)), (''name'', AStr (pi_input_name f)),
             (''onChange'', OnChange (PiType f)), cls ''mt-1''] []]
        @ error_p (pi_error_shown r f))"

definition choice_item :: "string \<Rightarrow> string \<Rightarrow> string \<Rightarrow> 'e node" where
  "choice_item v i label =
     Elem ''div'' [cls ''flex items-center space-x-2'']
       [Elem ''RadioGroupItem'' [(''value'', AStr v), (''id'', AStr i)] [],
        Elem ''Label'' [(''htmlFor'', AStr i)] [Txt label]]"

text \<open>\<open>value as 'Male' | 'Female' | 'Other'\<close>.\<close>

definition gender_cast :: "string \<Rightarrow> gender option" where
  "gender_cast v = map_of (map (\<lambda>g. (gender_str g, g)) [Male, Female, Other]) v"

definition gender_default :: "form_data \<Rightarrow> string" where
  "gender_default fd = gender_str (pi_gender (personalInfo fd))"

definition name_changed_default :: "form_data \<Rightarrow> string" where
  "name_changed_default fd = (if pi_hasNameChanged (personalInfo fd) then ''yes'' else ''no'')"

definition doc_input ::
  "string \<Rightarrow> string \<Rightarrow> (string \<times> home_event aval) list \<Rightarrow> string \<Rightarrow> (string \<Rightarrow> home_event) \<Rightarrow> home_event node" where
  "doc_input i label extra v f =
     Elem ''div'' []
       [Elem ''Label'' [(''htmlFor'', AStr i)] [Txt label],
        Elem ''Input'' ([(''id'', AStr i)] @ extra @ [(''value'', AStr v), (''onChange'', OnChange f), cls ''mt-1'']) []]"

definition pi_view :: "form_data \<Rightarrow> rhf_state \<Rightarrow> string \<Rightarrow> string \<Rightarrow> home_event node" where
  "pi_view fd r gsel nsel =
     Elem ''form'' [(''onSubmit'', OnClick PiSubmit), cls ''space-y-6'']
       [Elem ''h2'' [cls ''text-xl text-blue-700 mb-4''] [Txt ''Personal Information''],
        Elem ''div'' [cls ''grid gap-4'']
          [reg_input ''Your Email Address?'' PI_email r,
           reg_input ''Your Phone Number?'' PI_phone r,
           reg_input ''Your First Name (Latin characters)?'' PI_firstName r,
           reg_input ''Your Last Name (Latin characters)?'' PI_lastName r,
           Elem ''div'' []
             ([Elem ''Label'' [] [Txt ''Your Gender?''],
               Elem ''RadioGroup'' [(''defaultValue'', AStr (gender_default fd)), cls ''mt-2'',
                   (''onValueChange'', OnValue (\<lambda>v. map_option PiGender (gender_cast v))), (''selected'', AStr gsel)]
                 [choice_item ''Male'' ''male'' ''Male'', choice_item ''Female'' ''female'' ''Female'',
                  choice_item ''Other'' ''other'' ''Other'']]
              @ error_p (map_of (rhf_errors r) ''gender'')),
           reg_input ''Your Place of Birth (City, Country)?'' PI_placeOfBirth r,
           Elem ''div'' []
             [Elem ''Label'' [] [Txt ''Have your names/surnames changed?''],
              Elem ''RadioGroup'' [(''defaultValue'', AStr (name_changed_default fd)), cls ''mt-2'',
                  (''onValueChange'', OnValue (\<lambda>v. Some (PiNameChanged v))), (''selected'', AStr nsel)]
                [choice_item ''yes'' ''name-changed-yes'' ''Yes'', choice_item ''no'' ''name-changed-no'' ''No'']]],
        Elem ''h2'' [cls ''text-xl text-blue-700 mb-4 pt-4''] [Txt ''Passport Information''],
        Elem ''div'' [cls ''grid gap-4'']
          [doc_input ''passportNumber'' ''Passport Number?'' [] (doc_number (passport fd)) (PassportChange DOC_number),
           doc_input ''issuingAuthority'' ''Issuing Authority?'' [] (doc_issuingAuthority (passport fd))
             (PassportChange DOC_issuingAuthority),
           doc_input ''dateOfIssue'' ''Date of Issue?'' [(''type'', AStr ''date'')] (doc_dateOfIssue (passport fd))
             (PassportChange DOC_dateOfIssue),
           doc_input ''dateOfExpiry'' ''Date of Expiry?'' [(''type'', AStr ''date'')] (doc_dateOfExpiry (passport fd))
             (PassportChange DOC_dateOfExpiry)],
        Elem ''h2'' [cls ''text-xl text-blue-700 mb-4 pt-4''] [Txt ''National Identity Document (ID Card) - If applicable''],
        Elem ''div'' [cls ''grid gap-4'']
          [doc_input ''nationalIdNumber'' ''National ID Number?'' [] (doc_number (nationalId fd)) (NationalIdChange DOC_number),
           doc_input ''nationalIdAuthority'' ''Issuing Authority?'' [] (doc_issuingAuthority (nationalId fd))
             (NationalIdChange DOC_issuingAuthority),
           doc_input ''nationalIdIssue'' ''Date of Issue?'' [(''type'', AStr ''date'')] (doc_dateOfIssue (nationalId fd))
             (NationalIdChange DOC_dateOfIssue),
           doc_input ''nationalIdExpiry'' ''Date of Expiry?'' [(''type'', AStr ''date'')] (doc_dateOfExpiry (nationalId fd))
             (NationalIdChange DOC_dateOfExpiry)],
        Elem ''div'' [cls ''pt-6'']
          [Elem ''Button'' [(''type'', AStr ''submit''), cls ''w-full bg-blue-600 hover:bg-blue-700''] [Txt ''Next'']],
        Elem ''div'' [cls ''bg-green-100 text-green-800 p-3 rounded-md mt-4'']
          [Txt ''Application data received successfully by server!'']]"

subsection \<open>The home route\<close>

record hv_state =
  hv_page :: home_state
  hv_gender :: string
  hv_named :: string

definition home_view :: "hv_state \<Rightarrow> home_event node" where
  "home_view hv =
     Elem ''FormDataProvider'' []
       [Elem ''main'' [cls ''min-h-screen bg-gray-50 py-8'']
          [FormLayout ''UK Visa Application'' None
             [Elem ''PassportAnalysis'' [] [],
              nid_view (home_nid (hv_page hv)),
              pi_view (home_formData (hv_page hv)) (home_rhf (hv_page hv)) (hv_gender hv) (hv_named hv)]]]"

definition hv_mount :: "form_data \<Rightarrow> hv_state" where
  "hv_mount fd = \<lparr>hv_page = home_mount fd, hv_gender = gender_default fd, hv_named = name_changed_default fd\<rparr>"

text \<open>
  An event on a rendered control runs the page step; a click on a radio item also moves
  Radix's selection to the item's value.
\<close>

fun radio_select :: "home_event \<Rightarrow> hv_state \<Rightarrow> hv_state" where
  "radio_select (PiGender g) hv = hv\<lparr>hv_gender := gender_str g\<rparr>"
| "radio_select (PiNameChanged v) hv = hv\<lparr>hv_named := v\<rparr>"
| "radio_select _ hv = hv"

definition hv_step :: "hv_state \<Rightarrow> home_event \<Rightarrow> hv_state outcome" where
  "hv_step hv e =
     (if e \<in> ui_events (home_view hv)
      then (let (p, route) = home_step (hv_page hv) e in (radio_select e (hv\<lparr>hv_page := p\<rparr>), route))
      else (hv, None))"

inductive hv_reachable :: "hv_state \<Rightarrow> bool" where
  mount: "hv_reachable (hv_mount initialFormData)"
| step: "hv_reachable hv \<Longrightarrow> hv_reachable (fst (hv_step hv e))"

text \<open>The name-change values the radio items carry.\<close>

fun name_value_ok :: "home_event \<Rightarrow> bool" where
  "name_value_ok (PiNameChanged w) = (w = ''yes'' \<or> w = ''no'')"
| "name_value_ok _ = True"

subsection \<open>Controls of the home route\<close>

lemma controls_error_p [simp]: "concat (map controls (error_p m)) = []"
  by (cases m) (simp_all add: error_p_def cls_def disabled_def bool_attr_def)

lemmas home_view_defs = ui_events_def home_view_def nid_view_def pi_view_def reg_input_def choice_item_def
  doc_input_def cls_def disabled_def bool_attr_def str_attr_def radio_value_def List.map_filter_def
  gender_cast_def image_iff

lemma home_view_events:
  "NidFileChange fs \<in> ui_events (home_view hv)"
  "NidAnalyze \<in> ui_events (home_view hv)"
  "PiType f v \<in> ui_events (home_view hv)"
  "PiGender g \<in> ui_events (home_view hv) \<longleftrightarrow> gender_str g \<noteq> hv_gender hv"
  "PiNameChanged w \<in> ui_events (home_view hv) \<longleftrightarrow> (w = ''yes'' \<or> w = ''no'') \<and> w \<noteq> hv_named hv"
  "PassportChange d x \<in> ui_events (home_view hv)"
  "NationalIdChange d x \<in> ui_events (home_view hv)"
  "PiSubmit \<in> ui_events (home_view hv)"
proof -
  show "NidFileChange fs \<in> ui_events (home_view hv)" by (simp add: home_view_defs)
  show "NidAnalyze \<in> ui_events (home_view hv)" by (simp add: home_view_defs)
  show "PiType f v \<in> ui_events (home_view hv)" by (cases f) (simp_all add: home_view_defs)
  show "PiGender g \<in> ui_events (home_view hv) \<longleftrightarrow> gender_str g \<noteq> hv_gender hv"
    by (cases g) (auto simp: home_view_defs)
  show "PiNameChanged w \<in> ui_events (home_view hv) \<longleftrightarrow> (w = ''yes'' \<or> w = ''no'') \<and> w \<noteq> hv_named hv"
    by (auto simp: home_view_defs)
  show "PassportChange d x \<in> ui_events (home_view hv)" by (cases d) (simp_all add: home_view_defs)
  show "NationalIdChange d x \<in> ui_events (home_view hv)" by (cases d) (simp_all add: home_view_defs)
  show "PiSubmit \<in> ui_events (home_view hv)" by (simp add: home_view_defs)
qed

lemma radio_select_page [simp]: "hv_page (radio_select e hv) = hv_page hv"
  by (cases e) simp_all

lemma hv_step_fires:
  "e \<in> ui_events (home_view hv) \<Longrightarrow>
   hv_step hv e = (radio_select e (hv\<lparr>hv_page := fst (home_step (hv_page hv) e)\<rparr>), snd (home_step (hv_page hv) e))"
  by (simp add: hv_step_def split: prod.split)

lemma home_step_keeps_choices:
  assumes "\<forall>g. e \<noteq> PiGender g" and "\<forall>w. e \<noteq> PiNameChanged w"
  shows "pi_gender (rhf_values (home_rhf (fst (home_step s e)))) = pi_gender (rhf_values (home_rhf s))
       \<and> pi_hasNameChanged (rhf_values (home_rhf (fst (home_step s e)))) = pi_hasNameChanged (rhf_values (home_rhf s))"
proof (cases e)
  case (PiType f v)
  then show ?thesis by (cases f) (simp_all add: rhf_change_def Let_def)
next
  case PiSubmit
  then show ?thesis
    by (cases "personalInfoSchema (rhf_values (home_rhf s)) = []")
       (simp_all add: pi_handleSubmit_accept pi_handleSubmit_reject)
qed (use assms in simp_all)

text \<open>
  C29: the uncontrolled radio groups never disagree with the form. In every reachable
  state of the home route, the gender and name-change selections Radix holds are the
  values react-hook-form will submit: both start from \<open>formData.personalInfo\<close>, which the
  mount effect also copies into the form, and each click sets both.
\<close>

theorem radio_selection_agrees:
  assumes "hv_reachable hv"
  shows "hv_gender hv = gender_str (pi_gender (rhf_values (home_rhf (hv_page hv))))
       \<and> hv_named hv = (if pi_hasNameChanged (rhf_values (home_rhf (hv_page hv))) then ''yes'' else ''no'')"
  using assms
proof (induction rule: hv_reachable.induct)
  case mount
  show ?case by (simp add: hv_mount_def home_mount_def rhf_mount_def gender_default_def name_changed_default_def)
next
  case (step hv e)
  show ?case
  proof (cases "e \<in> ui_events (home_view hv)")
    case False
    with step.IH show ?thesis by (simp add: hv_step_def)
  next
    case True
    show ?thesis
    proof (cases e)
      case (PiGender g)
      with True show ?thesis using step.IH by (simp add: hv_step_fires rhf_set_gender_def)
    next
      case (PiNameChanged w)
      with True show ?thesis using step.IH
        by (auto simp: hv_step_fires rhf_set_name_changed_def home_view_events)
    qed (use True step.IH home_step_keeps_choices [of e "hv_page hv"] in \<open>simp_all add: hv_step_fires\<close>)
  qed
qed

lemma gender_str_inj: "gender_str g = gender_str g' \<Longrightarrow> g = g'"
  by (cases g; cases g') simp_all

text \<open>
  C30: the step model of the home route is the rendered page. In every reachable state,
  every event the model has gives the same page state and route on the rendered page,
  save a name-change value other than the radio items' \<open>yes\<close> and \<open>no\<close>: the events the
  page cannot fire (the selected radio item again) change nothing in the model either.
\<close>

theorem home_step_rendered:
  assumes "hv_reachable hv" and "name_value_ok e"
  shows "(hv_page (fst (hv_step hv e)), snd (hv_step hv e)) = home_step (hv_page hv) e"
proof (cases "e \<in> ui_events (home_view hv)")
  case True
  then show ?thesis by (simp add: hv_step_fires)
next
  case False
  have agree: "hv_gender hv = gender_str (pi_gender (rhf_values (home_rhf (hv_page hv))))"
    "hv_named hv = (if pi_hasNameChanged (rhf_values (home_rhf (hv_page hv))) then ''yes'' else ''no'')"
    using radio_selection_agrees [OF assms(1)] by simp_all
  show ?thesis
  proof (cases e)
    case (PiGender g)
    with False agree have "g = pi_gender (rhf_values (home_rhf (hv_page hv)))"
      by (auto simp: home_view_events intro: gender_str_inj)
    with PiGender False show ?thesis by (simp add: hv_step_def rhf_set_gender_def)
  next
    case (PiNameChanged w)
    with False agree assms(2)
    have "(w = ''yes'') = pi_hasNameChanged (rhf_values (home_rhf (hv_page hv)))"
      by (auto simp: home_view_events split: if_splits)
    with PiNameChanged False show ?thesis by (simp add: hv_step_def rhf_set_name_changed_def)
  qed (use False in \<open>simp_all add: home_view_events\<close>)
qed

theorem radio_selection_agrees_witness:
  "hv_reachable (fst (hv_step (hv_mount initialFormData) (PiNameChanged ''yes'')))
   \<and> hv_named (fst (hv_step (hv_mount initialFormData) (PiNameChanged ''yes'')))
     = (if pi_hasNameChanged (rhf_values (home_rhf (hv_page (fst (hv_step (hv_mount initialFormData)
          (PiNameChanged ''yes'')))))) then ''yes'' else ''no'')"
proof -
  have r: "hv_reachable (fst (hv_step (hv_mount initialFormData) (PiNameChanged ''yes'')))"
    by (intro hv_reachable.step hv_reachable.mount)
  show ?thesis using r radio_selection_agrees [OF r] by blast
qed

theorem home_step_rendered_witness:
  "hv_reachable (hv_mount initialFormData) \<and> name_value_ok (PiGender Male)
   \<and> PiGender Male \<notin> ui_events (home_view (hv_mount initialFormData))
   \<and> (hv_page (fst (hv_step (hv_mount initialFormData) (PiGender Male))),
       snd (hv_step (hv_mount initialFormData) (PiGender Male)))
     = home_step (hv_page (hv_mount initialFormData)) (PiGender Male)"
proof -
  have r: "hv_reachable (hv_mount initialFormData)" by (rule hv_reachable.mount)
  have n: "name_value_ok (PiGender Male)" by simp
  have u: "PiGender Male \<notin> ui_events (home_view (hv_mount initialFormData))"
    by (simp add: home_view_events hv_mount_def gender_default_def initialFormData_def)
  show ?thesis using r n u home_step_rendered [OF r n] by blast
qed
end
