(* ===== verification/Spec2Isabelle.thy ===== *)
theory Spec2Isabelle
  imports Wizard HeapWf RecordType View FinancialView HomeView
begin

text \<open>
  \<^bold>\<open>A verification library for the visa-application wizard (Next.js, TypeScript).\<close>

  \<^bold>\<open>The program.\<close> Four client pages collect an applicant's answers:
  \<open>src/app/page.tsx\<close> (passport and national-id analysis stubs and the personal
  information form of \<open>components/PersonalInfo.tsx\<close>), \<open>personal-details/page.tsx\<close>
  (marital status, spouse, children), \<open>address-history/page.tsx\<close> (current address,
  previous addresses) and \<open>financial-details/page.tsx\<close> (employment sub-forms, trip
  sponsor). Each page reads and writes the application record held by
  \<open>providers/FormDataProvider.tsx\<close> through \<open>updateFormData\<close> (a spread merge of a
  partial record) and \<open>updateNestedFormData\<close> (a dotted-path walker); validation rules
  are the zod schemas of \<open>lib/schemas.ts\<close>; navigation is \<open>router.push\<close> to the next
  route. Every page wraps its own \<open>FormDataProvider\<close>, so each page starts from
  \<open>initialFormData\<close>.

  \<^bold>\<open>Theories.\<close>
  \<^item> \<open>Prelude\<close>: identifiers (\<open>uuid\<close>), the result of a page step (new state and the
    route pushed), keyed lists (\<open>keyed_ok\<close>: distinct identifiers drawn from a counter)
    and their lemmas, optional fields of partial updates.
  \<^item> \<open>JsBuiltins\<close>: \<open>parseInt\<close> (white space, sign, \<open>0x\<close>, longest digit prefix,
    \<open>NaN\<close> as \<open>None\<close>), \<open>String(i)\<close> of an integer (\<open>js_int_str\<close>: the plain
    numeral below \<open>10^21\<close>, the exponent form \<open>1.5e+21\<close> from there on) and the
    proofs that \<open>parseInt\<close> reads it back below \<open>10^21\<close> and reads only its first
    digit from there on, \<open>split\<close> with a one-character separator,
    \<open>uuidv4\<close> as a counter.
  \<^item> \<open>FormData\<close>: \<open>FormData\<close> as the record \<open>form_data\<close> (one record per nested
    object, one datatype per string-literal union), \<open>initialFormData\<close>,
    \<open>Partial<FormData>\<close> as \<open>form_patch\<close>, \<open>updateFormData\<close>, \<open>useFormData\<close> (its throw
    as \<open>Inl OutsideProvider\<close>).
  \<^item> \<open>AddressHistory\<close>, \<open>PersonalDetails\<close>, \<open>FinancialDetails\<close>: each page as a step
    function (\<open>ah_step\<close>, \<open>pd_step\<close>, \<open>fin_step\<close>) over a record of its state (the
    provider's record, its \<open>useState\<close> variables, the uuid counter). One event per handler
    of the source, guarded by whether its control is rendered or disabled, followed by the
    effects whose dependency arrays changed. \<open>X_reachable\<close> is the set of states reachable
    from the mount on a fresh provider, and \<open>X_inv\<close> holds in all of them (rule induction,
    one preservation lemma per handler). Claims C1-C6 (address page: section visibility,
    Next button, identifiers, parse of the years), C19 (entering what an input displays
    leaves the state unchanged exactly when its number is below \<open>10^21\<close>), C20 (a
    number entry of at most 15 characters stays below \<open>2^53\<close>), C7-C9 (spouse form,
    children), C13-C14 (sub-form selection).
  \<^item> \<open>Schemas\<close>: every zod schema as a validator returning its issues; zod's email
    pattern as the executable \<open>zod_email\<close>.
  \<^item> \<open>PersonalInfo\<close>, \<open>NationalIdAnalysis\<close>, \<open>HomePage\<close>: react-hook-form's state
    (values, errors, submitted flag; modelled from its documentation), the submit through
    \<open>personalInfoSchema\<close>, the analysis stub. Claims C10-C12.
  \<^item> \<open>Wizard\<close>: the navigator: routes, \<open>router.push\<close>, remount of each page with a fresh
    provider. Claims C15-C17 (forward-only navigation, data not carried, and from every state some
    sequence of events reaches the financial-details page).
  \<^item> \<open>JsHeap\<close>: the JavaScript object model \<open>updateNestedFormData\<close> runs on, from the
    ECMAScript specification: a heap of objects with prototypes, lookup along the chain,
    strict-mode assignment with its \<open>TypeError\<close>s, the \<open>__proto__\<close> accessor, array
    length, object spread, and the intrinsic objects (\<open>js_intrinsics\<close>, \<open>js_realm\<close>).
  \<^item> \<open>NestedUpdate\<close>: \<open>updateNestedFormData\<close> (spread, split, \<open>walk\<close>, last assignment),
    the provider as a heap and the address of its record (\<open>js_store\<close>), the module
    constant \<open>initialFormData\<close> evaluated once (\<open>module_heap\<close>), the record's layout
    (\<open>fd_tree\<close>), and the specification's \<open>updateAtPath\<close> on trees. Lemmas on the
    mounted provider back three findings: a created level holds only the leaf, a level
    holding a non-empty string makes the update throw a \<open>TypeError\<close>, and the paths
    through \<open>__proto__\<close> and \<open>constructor.prototype\<close> pollute \<open>Object.prototype\<close>.
  \<^item> \<open>HeapWf\<close>: well-formed heaps (chains end, references valid), the bound on chain
    lengths, and that every operation of the update keeps heaps well formed
    (\<open>store_reachable_wf\<close>: every store reachable through updates and remounts has a
    well-formed heap). It justifies the fuel of \<open>JsHeap\<close>.
  \<^item> \<open>NestedRefine\<close>: the refinement of \<open>updateAtPath\<close> by the heap code. \<open>stores\<close>
    (an inductive footprint relation in the style of separation logic) says which tree an
    address holds without sharing; \<open>in_context\<close> is a one-hole context with its frame;
    \<open>walk_stores\<close> simulates the walk step by step by \<open>ensure_levels\<close> (entering an
    object, or attaching a new one); \<open>updateNestedFormData_stores\<close> is the one-update
    refinement. Claim C18: a sequence of updates on the mounted provider
    (\<open>provider_updates\<close>) equals the abstract sequence (\<open>apply_updates\<close>) under
    \<open>updates_ok\<close>: plain keys, existing inner levels ordinary objects or falsy primitives.
    Paths through arrays are outside it: the walk bumps \<open>length\<close> there.
    \<open>walk_assign_stores\<close> runs the walk and the last assignment from any stored root;
    applied at the copy and at \<open>prev\<close> it shows the write-through in general. Claim
    C23: every update whose first key holds an object also rewrites \<open>initialFormData\<close>.
    \<open>provider_nested_strict\<close> is React's development-mode double call of the updater
    (both calls get the same \<open>prev\<close>; the second runs on the heap the first left, whose
    \<open>prev\<close> the first already rewrote through the shallow copy). Claim C24: the second
    call still yields the record of one update, because \<open>updateAtPath\<close> is idempotent
    (\<open>updateAtPath_idem\<close>) and the rewritten \<open>prev\<close> keeps the walked levels.
  \<^item> \<open>RecordType\<close>: the TypeScript type \<open>FormData\<close> as a type of object trees
    (\<open>jty\<close>, \<open>form_data_ty\<close>) and a runtime typing \<open>ty_ok\<close> in the style of a typed
    language's value typing: required and optional fields, string-literal unions, arrays
    with their \<open>length\<close>. Every record \<open>fd_tree fd\<close> is well typed; putting a value of a
    field's type at the end of a path that exists keeps a tree well typed. Claim C22:
    typed sequences of \<open>updateNestedFormData\<close> calls on the mounted provider keep the
    record of type \<open>FormData\<close> (\<open>NestedUpdate.nested_update_partial_intermediate\<close>
    shows an update through an absent optional field that does not).
  \<^item> \<open>View\<close>: what the pages render. An element is a tag, its props in JSX order and
    its children (\<open>node\<close>); event props hold the event the handler dispatches.
    \<open>FormLayout\<close> is translated as written; the \<open>ui/*\<close> components stay elements named
    by their component, with the behaviour of the Radix primitives they wrap (a disabled
    button fires nothing, a radio group fires only for an item other than the selected
    one, a checkbox fires the negation of \<open>checked\<close>). \<open>ah_view\<close> and \<open>pd_view\<close> are the JSX
    of \<open>AddressHistoryContent\<close> and \<open>PersonalDetailsContent\<close>; \<open>controls\<close> lists the live
    handlers, \<open>ui_events\<close> the events a user can cause, \<open>ah_dispatch\<close> and \<open>pd_dispatch\<close>
    the unguarded handlers. Claims C25-C26: in every reachable state the step functions
    act exactly on the events of the rendered page (C26 names the two events the
    personal page's model admits and the page cannot fire). So the guards of
    \<open>ah_step\<close> and \<open>pd_step\<close>, on which C1-C9 rest, are those of the JSX.
  \<^item> \<open>FinancialView\<close>: the financial page as written, whose first effect stores the
    sub-form's JSX element in state (\<open>subform_jsx\<close>, \<open>employment_jsx\<close>; page state
    \<open>fin_vstate\<close>, step \<open>fv_step\<close> over the events of the rendered controls
    \<open>fv_events\<close>). \<open>fv_rel\<close> relates it to the model \<open>fin_step\<close>. Claims C27 (the held
    element is never stale: it is the JSX of the current record) and C28 (every page step
    is a model step on the same event: a forward simulation).
  \<^item> \<open>HomeView\<close>: the home route as rendered: \<open>nid_view\<close>, \<open>pi_view\<close> (inputs spread with
    \<open>register\<close>, the two uncontrolled radio groups, the document inputs, the form's
    \<open>onSubmit\<close>) inside \<open>FormLayout\<close>. The page state \<open>hv_state\<close> adds the selection Radix
    keeps in each uncontrolled group (from \<open>defaultValue\<close> at mount, then the item
    clicked). Claims C29 (those selections are always the form's values) and C30 (every
    model event gives the same state and route on the rendered page, save name-change
    values other than the items' \<open>yes\<close> and \<open>no\<close>).
  \<^item> This theory: properties that span components. C21 (document edits through \<open>updateNestedFormData\<close> on the
    heap and through the home page's \<open>updateFormData\<close> handlers give the same record;
    \<open>doc_edit\<close>, \<open>edit_path\<close>, \<open>edit_apply\<close> name the two forms of an edit).

  \<^bold>\<open>Bounds and fuel.\<close> Numbers are unbounded integers; the source's doubles agree with
  them for the values \<open>parseInt\<close> produces below \<open>2^53\<close>, which C20 shows is every
  value read from an entry of at most 15 characters. The page models need no fuel.
  The prototype-chain walks of \<open>JsHeap\<close> take the number of objects of the heap as fuel
  (\<open>chain_has\<close> one more); \<open>HeapWf.chain_ends_bound\<close> shows that a chain that ends at all
  ends within that many objects, so the fuel suffices on every heap whose chains end, and
  \<open>HeapWf.store_reachable_wf\<close> shows that all reachable heaps are such. \<open>read_tree\<close> reads to the depth given.

  \<^bold>\<open>Not modelled.\<close> Styling (class names are kept as strings, \<open>cn\<close> as its
  argument list); not in the repository, the financial page past line 241 and the
  sources of the \<open>ui/*\<close> components (their behaviour is that of the Radix primitives
  they wrap, from Radix's documentation) and of \<open>PassportAnalysis\<close> (rendered as an
  element without controls); the \<open>onBlur\<close> of registered inputs, which does nothing
  under the default validation mode; React's scheduling beyond "each event, then the
  effects whose dependencies changed", and the
  double invocation of updaters other than the nested one (C24). In the object model:
  the methods of the prototypes other than \<open>Object.prototype\<close>, accessors other than
  \<open>__proto__\<close>, \<open>ToNumber\<close> of a non-number array length, numbers other than
  integers, the enumeration order of integer keys.
\<close>


section \<open>Properties across components\<close>

text \<open>
  The provider offers two ways to edit a field of the passport or the national id: the
  home page's handlers (\<open>passport_change\<close>, \<open>national_id_change\<close>) spread a new
  document into the record through \<open>updateFormData\<close>; \<open>updateNestedFormData\<close> takes
  the dotted path \<open>passport.number\<close> and the value. \<open>doc_edit\<close> names such an edit,
  \<open>doc_key\<close> the property of a document field, \<open>edit_path\<close> the path and value given
  to \<open>updateNestedFormData\<close>, \<open>edit_apply\<close> the handler's update of the record.
\<close>

datatype doc_edit = PassportEdit doc_field string | NationalIdEdit doc_field string

primrec doc_key :: "doc_field \<Rightarrow> string" where
  "doc_key DOC_number = ''number''"
| "doc_key DOC_issuingAuthority = ''issuingAuthority''"
| "doc_key DOC_dateOfIssue = ''dateOfIssue''"
| "doc_key DOC_dateOfExpiry = ''dateOfExpiry''"

primrec edit_path :: "doc_edit \<Rightarrow> string \<times> prim" where
  "edit_path (PassportEdit f v) = (''passport.'' @ doc_key f, PStr v)"
| "edit_path (NationalIdEdit f v) = (''nationalId.'' @ doc_key f, PStr v)"

primrec edit_apply :: "doc_edit \<Rightarrow> form_data \<Rightarrow> form_data" where
  "edit_apply (PassportEdit f v) fd = passport_change f v fd"
| "edit_apply (NationalIdEdit f v) fd = national_id_change f v fd"

subsection \<open>Document edits through both update functions\<close>

lemma edit_path_split:
  "js_split CHR ''.'' (fst (edit_path e)) = [case e of PassportEdit _ _ \<Rightarrow> ''passport'' | NationalIdEdit _ _ \<Rightarrow> ''nationalId'', doc_key (case e of PassportEdit f _ \<Rightarrow> f | NationalIdEdit f _ \<Rightarrow> f)]"
  by (cases e; rename_tac f v; case_tac f) simp_all

lemma doc_keys_plain:
  "list_all (plain_key js_realm module_heap)
     [''passport'', ''nationalId'', ''number'', ''issuingAuthority'', ''dateOfIssue'', ''dateOfExpiry'']"
  by code_simp

lemma edit_plain:
  "list_all (plain_key js_realm module_heap) (js_split CHR ''.'' (fst (edit_path e)))"
  unfolding edit_path_split using doc_keys_plain by (cases e; rename_tac f v; case_tac f) simp_all

lemma edit_update:
  "updateAtPath (js_split CHR ''.'' (fst (edit_path e))) (TPrim (snd (edit_path e))) (fd_tree fd)
     = fd_tree (edit_apply e fd)"
  by (cases e; rename_tac f v; case_tac f)
     (simp_all add: fd_tree_def doc_tree_def passport_change_def national_id_change_def updateFormData_def upd_opt_def jstr_def)

lemma edits_ok:
  "updates_ok js_realm module_heap (fd_tree fd) (map edit_path es)
   \<and> apply_updates (fd_tree fd) (map edit_path es) = fd_tree (fold edit_apply es fd)"
proof (induction es arbitrary: fd)
  case Nil
  then show ?case by simp
next
  case (Cons e es)
  obtain p v where pv: "edit_path e = (p, v)" by (cases "edit_path e")
  have "walk_dom (fd_tree fd) (butlast (js_split CHR ''.'' (fst (edit_path e))))"
    unfolding edit_path_split by (cases e) (simp_all add: fd_tree_def doc_tree_def)
  then show ?case
    using Cons.IH [of "edit_apply e fd"] edit_plain [of e] edit_update [of e fd] pv by simp
qed


text \<open>
  C21: the two update functions of the provider agree on the documents. On the freshly
  mounted provider, any sequence of passport and national-id field edits made through
  \<open>updateNestedFormData\<close> with their dotted paths succeeds, and the record the
  components read is the record the home page's handlers compute through
  \<open>updateFormData\<close>: in particular it stays the layout of a \<open>FormData\<close>.
\<close>

theorem document_edits_agree:
  "\<exists>st. provider_updates js_realm (provider_mount module_heap) (map edit_path es) = Inr st
        \<and> store_tree st = Some (fd_tree (fold edit_apply es initialFormData))"
  using mount_updates_stores [OF conjunct1 [OF edits_ok [of initialFormData es]]]
    conjunct2 [OF edits_ok [of initialFormData es]]
  by (auto dest: stores_store_tree)

end
